(* ===== verification/Prelude.thy ===== *)
theory Prelude
  imports Main "HOL-Library.Word" "HOL-Library.State_Monad"
begin

text \<open>
  What every component shares: the machine integers of the driver, little-endian bytes,
  checked reads of a byte buffer, and a weakest-precondition calculus for the state monad
  in which the stateful code is written.  \<open>wp m Q s\<close> holds when running \<open>m\<close> from \<open>s\<close> ends
  with a result and a state that satisfy \<open>Q\<close>; the collection \<open>wp_simps\<close> pushes it through
  a do-block, so a proof about a routine is one simplification per call it makes.
\<close>

unbundle bit_operations_syntax

type_synonym u8 = "8 word"
type_synonym u16 = "16 word"
type_synonym u32 = "32 word"
type_synonym u64 = "64 word"

named_theorems wp_simps \<open>weakest preconditions of the operations\<close>
named_theorems byte_simps \<open>little-endian encodings and their inverses\<close>

section \<open>The state monad\<close>

abbreviation ret :: "'a \<Rightarrow> ('s, 'a) state" where
  "ret \<equiv> State_Monad.return"

definition gets :: "('s \<Rightarrow> 'a) \<Rightarrow> ('s, 'a) state" where
  "gets f = State (\<lambda>s. (f s, s))"

definition modify :: "('s \<Rightarrow> 's) \<Rightarrow> ('s, unit) state" where
  "modify f = State (\<lambda>s. ((), f s))"

definition wp :: "('s, 'a) state \<Rightarrow> ('a \<Rightarrow> 's \<Rightarrow> bool) \<Rightarrow> 's \<Rightarrow> bool" where
  "wp m Q s = (case run_state m s of (a, t) \<Rightarrow> Q a t)"

lemma wp_bind [simp, wp_simps]: "wp (State_Monad.bind m f) Q s = wp m (\<lambda>a. wp (f a) Q) s"
  by (simp add: wp_def split: prod.split)

lemma wp_ret [simp, wp_simps]: "wp (ret a) Q s = Q a s"
  by (simp add: wp_def)

lemma wp_gets [simp, wp_simps]: "wp (gets f) Q s = Q (f s) s"
  by (simp add: wp_def gets_def)

lemma wp_modify [simp, wp_simps]: "wp (modify f) Q s = Q () (f s)"
  by (simp add: wp_def modify_def)

lemma wp_if [simp, wp_simps]:
  "wp (if b then m else n) Q s = (if b then wp m Q s else wp n Q s)"
  by simp

lemma wp_prod [simp, wp_simps]:
  "wp (case x of (a, b) \<Rightarrow> f a b) Q s = (case x of (a, b) \<Rightarrow> wp (f a b) Q s)"
  by (cases x) simp

lemma wp_option [simp, wp_simps]:
  "wp (case x of None \<Rightarrow> m | Some a \<Rightarrow> f a) Q s =
     (case x of None \<Rightarrow> wp m Q s | Some a \<Rightarrow> wp (f a) Q s)"
  by (cases x) simp_all

lemma wp_Let [simp, wp_simps]: "wp (let x = a in f x) Q s = (let x = a in wp (f x) Q s)"
  by (simp add: Let_def)

lemma wp_mono:
  assumes "wp m P s" and "\<And>a t. P a t \<Longrightarrow> Q a t"
  shows "wp m Q s"
  using assms by (auto simp: wp_def)

lemma wp_conj: "wp m (\<lambda>a t. P a t \<and> Q a t) s \<longleftrightarrow> wp m P s \<and> wp m Q s"
  by (auto simp: wp_def)

lemma wp_True [simp]: "wp m (\<lambda>a t. True) s"
  by (simp add: wp_def)

lemma wp_runD:
  assumes "wp m Q s" and "run_state m s = (a, t)"
  shows "Q a t"
  using assms by (simp add: wp_def)

lemma wp_runI:
  assumes "\<And>a t. run_state m s = (a, t) \<Longrightarrow> Q a t"
  shows "wp m Q s"
  using assms by (auto simp: wp_def)

lemma run_gets [simp]: "run_state (gets f) s = (f s, s)"
  by (simp add: gets_def)

lemma run_modify [simp]: "run_state (modify f) s = ((), f s)"
  by (simp add: modify_def)

section \<open>Little-endian bytes\<close>

definition le16 :: "u16 \<Rightarrow> u8 list" where
  "le16 v = [ucast v, ucast (drop_bit 8 v)]"

definition le32 :: "u32 \<Rightarrow> u8 list" where
  "le32 v = [ucast v, ucast (drop_bit 8 v), ucast (drop_bit 16 v), ucast (drop_bit 24 v)]"

definition get16 :: "u8 \<Rightarrow> u8 \<Rightarrow> u16" where
  "get16 a b = ucast a OR push_bit 8 (ucast b)"

definition get32 :: "u8 \<Rightarrow> u8 \<Rightarrow> u8 \<Rightarrow> u8 \<Rightarrow> u32" where
  "get32 a b c d =
     ucast a OR push_bit 8 (ucast b) OR push_bit 16 (ucast c) OR push_bit 24 (ucast d)"

lemma length_le16 [simp, byte_simps]: "length (le16 v) = 2"
  by (simp add: le16_def)

lemma length_le32 [simp, byte_simps]: "length (le32 v) = 4"
  by (simp add: le32_def)

lemma get16_le16 [simp, byte_simps]: "get16 (ucast v) (ucast (drop_bit 8 v)) = v"
  unfolding get16_def by (rule bit_word_eqI) (auto simp: bit_simps)

lemma get32_le32 [simp, byte_simps]:
  "get32 (ucast v) (ucast (drop_bit 8 v)) (ucast (drop_bit 16 v)) (ucast (drop_bit 24 v)) = v"
proof (rule bit_word_eqI)
  fix n :: nat
  assume "n < LENGTH(32)"
  then consider "n < 8" | "8 \<le> n \<and> n < 16" | "16 \<le> n \<and> n < 24" | "24 \<le> n \<and> n < 32"
    by fastforce
  then show "bit (get32 (ucast v) (ucast (drop_bit 8 v)) (ucast (drop_bit 16 v))
      (ucast (drop_bit 24 v))) n = bit v n"
    by cases (auto simp: get32_def bit_simps)
qed

lemma le16_get16 [simp]: "le16 (get16 a b) = [a, b]"
proof -
  have "ucast (get16 a b) = a" "ucast (drop_bit 8 (get16 a b)) = b"
    unfolding get16_def by (rule bit_word_eqI, auto simp: bit_simps dest: bit_imp_le_length)+
  then show ?thesis by (simp add: le16_def)
qed

lemma le32_get32 [simp]: "le32 (get32 a b c d) = [a, b, c, d]"
proof -
  have "ucast (get32 a b c d) = a" "ucast (drop_bit 8 (get32 a b c d)) = b"
    "ucast (drop_bit 16 (get32 a b c d)) = c" "ucast (drop_bit 24 (get32 a b c d)) = d"
    unfolding get32_def by (rule bit_word_eqI, auto simp: bit_simps dest: bit_imp_le_length)+
  then show ?thesis by (simp add: le32_def)
qed

text \<open>Reading an integer out of a byte list, at an offset; \<open>None\<close> is a read past its end.\<close>

definition byteAt :: "u8 list \<Rightarrow> nat \<Rightarrow> u8 option" where
  "byteAt p i = (if i < length p then Some (p ! i) else None)"

definition u16At :: "u8 list \<Rightarrow> nat \<Rightarrow> u16 option" where
  "u16At p i = do { a \<leftarrow> byteAt p i; b \<leftarrow> byteAt p (i + 1); Some (get16 a b) }"

definition u32At :: "u8 list \<Rightarrow> nat \<Rightarrow> u32 option" where
  "u32At p i = do {
     a \<leftarrow> byteAt p i; b \<leftarrow> byteAt p (i + 1);
     c \<leftarrow> byteAt p (i + 2); d \<leftarrow> byteAt p (i + 3);
     Some (get32 a b c d) }"

lemma byteAt_Some [simp]: "i < length p \<Longrightarrow> byteAt p i = Some (p ! i)"
  by (simp add: byteAt_def)

lemma u16At_Some: "i + 2 \<le> length p \<Longrightarrow> u16At p i = Some (get16 (p ! i) (p ! (i + 1)))"
  by (simp add: u16At_def)

lemma u32At_Some:
  "i + 4 \<le> length p \<Longrightarrow>
     u32At p i = Some (get32 (p ! i) (p ! (i + 1)) (p ! (i + 2)) (p ! (i + 3)))"
  by (simp add: u32At_def)

lemma nth_at_prefix: "(xs @ v # ys) ! length xs = v"
  by simp

lemma u16At_append: "u16At (xs @ le16 v @ ys) (length xs) = Some v"
  by (simp add: u16At_def byteAt_def le16_def nth_append)

lemma u32At_append: "u32At (xs @ le32 v @ ys) (length xs) = Some v"
  by (simp add: u32At_def byteAt_def le32_def nth_append)

lemma u32At_0_append [simp]: "u32At (le32 v @ ys) 0 = Some v"
  using u32At_append [of "[]"] by simp

lemma u32At_4_append [simp]: "u32At (le32 w @ le32 v @ ys) 4 = Some v"
  using u32At_append [of "le32 w"] by simp

section \<open>Widths\<close>

lemma unat_less_u16: "unat (x :: u16) < 65536"
  by (rule less_le_trans [OF unsigned_less]) simp

lemma unat_ucast_16_32: "unat (ucast (x :: u16) :: u32) = unat x"
  using unat_less_u16 [of x] by (simp add: unsigned_ucast_eq take_bit_nat_eq_self_iff)

lemma unat_ucast_32_16: "unat (n :: u32) < 65536 \<Longrightarrow> unat (ucast n :: u16) = unat n"
  by (simp add: unsigned_ucast_eq take_bit_nat_eq_self_iff)

lemma ucast_of_nat_u16: "n < 65536 \<Longrightarrow> (ucast (of_nat n :: u32) :: u16) = of_nat n"
  by (simp add: word_unat_eq_iff unat_ucast_32_16 unat_of_nat)

lemma of_nat_unat_u16: "unat n < 65536 \<Longrightarrow> of_nat (unat n) = (ucast (n :: u32) :: u16)"
  by (simp add: word_unat_eq_iff unat_ucast_32_16 unat_of_nat)

section \<open>Rounding up to a multiple of four\<close>

text \<open>\<open>(n + 3) & ~3u\<close>\<close>

definition pad4 :: "u32 \<Rightarrow> u32" where
  "pad4 n = (n + 3) AND NOT 3"

lemma and_3_eq_mod: "x AND 3 = (x mod 4 :: u32)"
  using take_bit_eq_mask [of 2 x] by (simp add: take_bit_eq_mod mask_eq_exp_minus_1)

lemma unat_and_not_3: "unat (x AND NOT 3 :: u32) = unat x div 4 * 4"
proof -
  have "(x AND 3) + (x AND NOT 3) = (x AND 3) OR (x AND NOT 3)"
    by (rule disjunctive_add_eq_or) (rule bit_word_eqI, simp add: bit_simps)
  also have "\<dots> = x"
    by (rule bit_word_eqI) (auto simp: bit_simps)
  finally have "x AND NOT 3 = x - (x AND 3)"
    by (simp add: algebra_simps)
  then have "unat (x AND NOT 3) = unat x - unat (x AND 3)"
    by (simp add: unat_sub word_and_le2)
  also have "\<dots> = unat x div 4 * 4"
    by (simp add: and_3_eq_mod unat_mod minus_mod_eq_div_mult)
  finally show ?thesis .
qed

lemma unat_pad4:
  assumes "unat n + 3 < 2 ^ 32"
  shows "unat (pad4 n) = (unat n + 3) div 4 * 4"
proof -
  have "unat (n + 3) = unat n + 3"
    using assms by (simp add: unat_word_ariths)
  then show ?thesis by (simp only: pad4_def unat_and_not_3)
qed

lemma pad_len: "(n + 3) div 4 * 4 = n + (4 - n mod 4) mod 4" for n :: nat
proof -
  have "n = 4 * (n div 4) + n mod 4" "n mod 4 < 4" by simp_all
  then obtain q r where n: "n = 4 * q + r" and "r < 4" by blast
  then consider "r = 0" | "r = 1" | "r = 2" | "r = 3" by linarith
  moreover have "n mod 4 = r" using n \<open>r < 4\<close> by simp
  moreover have "(n + 3) div 4 = q + (r + 3) div 4" using n by simp
  ultimately show ?thesis using n by cases simp_all
qed


end
