(* ===== verification/World.thy ===== *)
theory World
  imports Prelude
begin

text \<open>
  What lies on the other side of the driver.  The Wi-Fi chip and IOKit are not part of the
  repository, so their behaviour is the parameter \<open>hw\<close> of every definition that touches them:
  a state of an arbitrary type \<open>'d\<close> and one function per kind of access.  The chip is a bus
  master, so each register access and each delay may also change the memory the driver shares
  with it.  The \<open>world\<close> holds that state, the memory, and the log of everything the driver did
  or observed outside its own objects: register reads with their values, register writes,
  loads and stores in DMA memory, delays, fences, IOKit acquisitions, PCI configuration
  accesses, published properties and log lines, and \<open>Fault\<close> for an access that the C++ code
  leaves undefined.

  \<open>does m P\<close> is the judgement the component theories prove: whatever the hardware does, a
  run of \<open>m\<close> appends to the log events \<open>es\<close> and returns \<open>r\<close> with \<open>P r es\<close>.  Its rules are in
  the collection \<open>does_intros\<close>; an assumption about the hardware is a predicate on \<open>es\<close>.
\<close>

type_synonym mem = "nat \<Rightarrow> u8"

record 'd hw =
  hwRead :: "u32 \<Rightarrow> 'd \<Rightarrow> mem \<Rightarrow> u32 \<times> 'd \<times> mem"
  hwWrite :: "u32 \<Rightarrow> u32 \<Rightarrow> 'd \<Rightarrow> mem \<Rightarrow> 'd \<times> mem"
  hwDelay :: "nat \<Rightarrow> 'd \<Rightarrow> mem \<Rightarrow> 'd \<times> mem"
  ioNew :: "'d \<Rightarrow> bool \<times> 'd"
  ioStack :: "'d \<Rightarrow> u8 list \<times> 'd"
  ioBmd :: "u32 \<Rightarrow> 'd \<Rightarrow> bool \<times> 'd"
  ioPrepare :: "'d \<Rightarrow> bool \<times> 'd"
  ioBytes :: "'d \<Rightarrow> nat option \<times> 'd"
  ioDma :: "'d \<Rightarrow> bool \<times> 'd"
  ioSetMd :: "'d \<Rightarrow> bool \<times> 'd"
  ioGen64 :: "'d \<Rightarrow> (bool \<times> u32 \<times> u64 \<times> u64) \<times> 'd"

datatype event =
    RdReg u32 u32 | WrReg u32 u32 | Delay nat | Sync
  | St nat "u8 list" | Ld nat "u8 list" | Fault
  | BmdNew | BmdPrepare | BmdComplete | BmdRelease
  | DmaNew | DmaSetMd | DmaClearMd | DmaRelease
  | CfgRd8 nat u8 | CfgRd16 nat u16 | CfgWr16 nat u16 | BusMaster bool | MemEnable bool
  | Log string | Prop string string | Num string u32 | Nv string string | NvRelease
  | Register | Super string

record 'd world =
  dev :: 'd
  ram :: mem
  bus :: "event list"

type_synonym ('d, 'a) io = "('d world, 'a) state"

named_theorems does_intros \<open>what the operations do on the bus\<close>

section \<open>Register accesses, delays and fences\<close>

text \<open>\<open>OSReadLittleInt32(fBar0, off)\<close> and \<open>OSWriteLittleInt32(fBar0, off, v)\<close>.\<close>

definition read32 ::
  "('d, 'h) hw_scheme \<Rightarrow> u32 \<Rightarrow> ('d, u32) io" where
  "read32 H off = State (\<lambda>s. case hwRead H off (dev s) (ram s) of (v, d, m) \<Rightarrow>
     (v, s\<lparr>dev := d, ram := m, bus := bus s @ [RdReg off v]\<rparr>))"

definition write32 ::
  "('d, 'h) hw_scheme \<Rightarrow> u32 \<Rightarrow> u32 \<Rightarrow> ('d, unit) io" where
  "write32 H off v = State (\<lambda>s. case hwWrite H off v (dev s) (ram s) of (d, m) \<Rightarrow>
     ((), s\<lparr>dev := d, ram := m, bus := bus s @ [WrReg off v]\<rparr>))"

text \<open>\<open>IODelay\<close> and \<open>IOSleep\<close>, in microseconds.\<close>

definition delay ::
  "('d, 'h) hw_scheme \<Rightarrow> nat \<Rightarrow> ('d, unit) io" where
  "delay H us = State (\<lambda>s. case hwDelay H us (dev s) (ram s) of (d, m) \<Rightarrow>
     ((), s\<lparr>dev := d, ram := m, bus := bus s @ [Delay us]\<rparr>))"

definition emit :: "event \<Rightarrow> ('d, unit) io" where
  "emit e = modify (\<lambda>s. s\<lparr>bus := bus s @ [e]\<rparr>)"

text \<open>Undefined behaviour of the source: the log is marked and the run continues.\<close>

definition ub :: "('d, unit) io" where
  "ub = emit Fault"

section \<open>Memory shared with the chip\<close>

definition stBytes :: "nat \<Rightarrow> u8 list \<Rightarrow> mem \<Rightarrow> mem" where
  "stBytes a xs m = (\<lambda>i. if a \<le> i \<and> i < a + length xs then xs ! (i - a) else m i)"

definition ldBytes :: "mem \<Rightarrow> nat \<Rightarrow> nat \<Rightarrow> u8 list" where
  "ldBytes m a n = map m [a ..< a + n]"

definition store :: "nat \<Rightarrow> u8 list \<Rightarrow> ('d, unit) io" where
  "store a xs = modify (\<lambda>s. s\<lparr>ram := stBytes a xs (ram s), bus := bus s @ [St a xs]\<rparr>)"

definition load :: "nat \<Rightarrow> nat \<Rightarrow> ('d, u8 list) io" where
  "load a n = State (\<lambda>s. let xs = ldBytes (ram s) a n in (xs, s\<lparr>bus := bus s @ [Ld a xs]\<rparr>))"

lemma length_ldBytes [simp]: "length (ldBytes m a n) = n"
  by (simp add: ldBytes_def)

lemma nth_ldBytes [simp]: "i < n \<Longrightarrow> ldBytes m a n ! i = m (a + i)"
  by (simp add: ldBytes_def)

lemma ldBytes_stBytes [simp]: "ldBytes (stBytes a xs m) a (length xs) = xs"
  by (rule nth_equalityI) (simp_all add: stBytes_def)

lemma ldBytes_stBytes_other:
  "a + length xs \<le> b \<or> b + n \<le> a \<Longrightarrow> ldBytes (stBytes a xs m) b n = ldBytes m b n"
  by (rule nth_equalityI) (auto simp: stBytes_def)

lemma stBytes_append: "stBytes (a + length xs) ys (stBytes a xs m) = stBytes a (xs @ ys) m"
  by (auto simp: stBytes_def fun_eq_iff nth_append)

section \<open>IOKit calls, each with its outcome\<close>

definition ioStep ::
  "('d \<Rightarrow> 'a \<times> 'd) \<Rightarrow> ('d, 'a) io" where
  "ioStep f = State (\<lambda>s. case f (dev s) of (r, d) \<Rightarrow> (r, s\<lparr>dev := d\<rparr>))"

text \<open>The content of an uninitialised local array of \<open>n\<close> bytes.\<close>

definition stackBytes :: "('d, 'h) hw_scheme \<Rightarrow> nat \<Rightarrow> ('d, u8 list) io" where
  "stackBytes H n = do { xs \<leftarrow> ioStep (ioStack H); ret (take n (xs @ replicate n 0)) }"

section \<open>What a routine does on the bus\<close>

definition does :: "('d, 'a) io \<Rightarrow> ('a \<Rightarrow> event list \<Rightarrow> bool) \<Rightarrow> bool" where
  "does m P \<longleftrightarrow> (\<forall>s. wp m (\<lambda>r t. \<exists>es. bus t = bus s @ es \<and> P r es) s)"

lemma doesD:
  assumes "does m P" and "run_state m s = (r, t)"
  shows "\<exists>es. bus t = bus s @ es \<and> P r es"
  using assms(1) [unfolded does_def wp_def, rule_format, of s] assms(2) by simp

lemma does_mono:
  assumes "does m P" and "\<And>r es. P r es \<Longrightarrow> Q r es"
  shows "does m Q"
  using assms unfolding does_def wp_def by (fastforce split: prod.splits)

lemma does_conj:
  assumes "does m P" and "does m Q"
  shows "does m (\<lambda>r es. P r es \<and> Q r es)"
  using assms unfolding does_def wp_def by (fastforce split: prod.splits)

lemma does_bind [does_intros]:
  assumes "does m (\<lambda>r es. does (f r) (\<lambda>r' fs. Q r' (es @ fs)))"
  shows "does (State_Monad.bind m f) Q"
proof -
  have "wp m (\<lambda>a t. wp (f a) (\<lambda>r u. \<exists>es. bus u = bus s @ es \<and> Q r es) t) s" for s :: "'a world"
  proof (rule wp_mono [where P = "\<lambda>r t. \<exists>es. bus t = bus s @ es \<and>
      does (f r) (\<lambda>r' fs. Q r' (es @ fs))"])
    show "wp m (\<lambda>r t. \<exists>es. bus t = bus s @ es \<and> does (f r) (\<lambda>r' fs. Q r' (es @ fs))) s"
      using assms by (simp add: does_def)
  next
    fix r and t :: "'a world"
    assume "\<exists>es. bus t = bus s @ es \<and> does (f r) (\<lambda>r' fs. Q r' (es @ fs))"
    then obtain es where es: "bus t = bus s @ es" and
      d: "does (f r) (\<lambda>r' fs. Q r' (es @ fs))"
      by blast
    from d have "wp (f r) (\<lambda>r' u. \<exists>fs. bus u = bus t @ fs \<and> Q r' (es @ fs)) t"
      by (simp add: does_def)
    then show "wp (f r) (\<lambda>r u. \<exists>es. bus u = bus s @ es \<and> Q r es) t"
      by (rule wp_mono) (auto simp: es)
  qed
  then show ?thesis by (simp add: does_def)
qed

lemma does_bindP:
  assumes "does m P" and "\<And>r es. P r es \<Longrightarrow> does (f r) (\<lambda>r' fs. Q r' (es @ fs))"
  shows "does (State_Monad.bind m f) Q"
  by (rule does_bind) (rule does_mono [OF assms])

lemma does_ret [does_intros]: "P x [] \<Longrightarrow> does (ret x) P"
  by (simp add: does_def)

lemma does_if [does_intros]:
  "(b \<Longrightarrow> does m P) \<Longrightarrow> (\<not> b \<Longrightarrow> does n P) \<Longrightarrow> does (if b then m else n) P"
  by simp

lemma does_prod [does_intros]:
  "(\<And>a b. x = (a, b) \<Longrightarrow> does (f a b) P) \<Longrightarrow> does (case x of (a, b) \<Rightarrow> f a b) P"
  by (cases x) simp

lemma does_option [does_intros]:
  "(x = None \<Longrightarrow> does m P) \<Longrightarrow> (\<And>a. x = Some a \<Longrightarrow> does (f a) P) \<Longrightarrow>
     does (case x of None \<Rightarrow> m | Some a \<Rightarrow> f a) P"
  by (cases x) simp_all

lemma does_Let [does_intros]: "does (f a) P \<Longrightarrow> does (let x = a in f x) P"
  by simp

lemma does_read32 [does_intros]:
  "(\<And>v. P v [RdReg off v]) \<Longrightarrow> does (read32 H off) P"
  by (auto simp: does_def wp_def read32_def split: prod.split)

lemma does_write32 [does_intros]: "P () [WrReg off v] \<Longrightarrow> does (write32 H off v) P"
  by (auto simp: does_def wp_def write32_def split: prod.split)

lemma does_delay [does_intros]: "P () [Delay us] \<Longrightarrow> does (delay H us) P"
  by (auto simp: does_def wp_def delay_def split: prod.split)

lemma does_ioStep [does_intros]: "(\<And>r. P r []) \<Longrightarrow> does (ioStep f) P"
  by (auto simp: does_def wp_def ioStep_def split: prod.split)

lemma does_emit [does_intros]: "P () [e] \<Longrightarrow> does (emit e) P"
  by (auto simp: does_def wp_def emit_def modify_def)

lemma does_ub [does_intros]: "P () [Fault] \<Longrightarrow> does ub P"
  unfolding ub_def by (rule does_emit)

lemma does_store [does_intros]: "P () [St a xs] \<Longrightarrow> does (store a xs) P"
  by (auto simp: does_def wp_def store_def modify_def)

lemma does_load [does_intros]:
  "(\<And>xs. length xs = n \<Longrightarrow> P xs [Ld a xs]) \<Longrightarrow> does (load a n) P"
  by (auto simp: does_def wp_def load_def Let_def)

lemma does_stackBytes [does_intros]:
  "(\<And>xs. length xs = n \<Longrightarrow> P xs []) \<Longrightarrow> does (stackBytes H n) P"
  unfolding stackBytes_def by (intro does_intros) simp

end
