(* ===== verification/CopyEngine.thy ===== *)
theory CopyEngine
  imports World
begin

text \<open>
  The copy-engine ring pair of \<open>skeleton/CE.hpp\<close> and \<open>skeleton/CE.cpp\<close> (class
  \<open>CECopyPair\<close>): its DMA region, the two descriptor rings in it, and the polled send and
  receive paths.  A method takes the object as an argument and returns it updated; a pointer
  into the DMA region is the address of the byte it points to, and a nullable pointer is an
  option.  The buffer a method receives is the list of its bytes, so \<open>len\<close> is its length.
\<close>

section \<open>Constants and the descriptor\<close>

definition kCESRBaseLo :: u32 where [simp]: "kCESRBaseLo = 0x00"
definition kCESRSize :: u32 where [simp]: "kCESRSize = 0x04"
definition kCEDRBaseLo :: u32 where [simp]: "kCEDRBaseLo = 0x08"
definition kCEDRSize :: u32 where [simp]: "kCEDRSize = 0x0c"
definition kCESRWrIndex :: u32 where [simp]: "kCESRWrIndex = 0x3c"
definition kCEDSTWrIndex :: u32 where [simp]: "kCEDSTWrIndex = 0x40"
definition kCECurrentSRRI :: u32 where [simp]: "kCECurrentSRRI = 0x44"
definition kCECurrentDRRI :: u32 where [simp]: "kCECurrentDRRI = 0x48"

definition kCE0Base :: u32 where [simp]: "kCE0Base = 0x00034400"
definition kCEStride :: u32 where [simp]: "kCEStride = 0x400"

definition kQCAPollStep_us :: nat where [simp]: "kQCAPollStep_us = 50"
definition kQCAExchangeTimeout_ms :: u32 where [simp]: "kQCAExchangeTimeout_ms = 10000"

definition kRingN :: u32 where [simp]: "kRingN = 16"
definition kRingMask :: u32 where [simp]: "kRingMask = 15"
definition kTxBufSz :: u32 where [simp]: "kTxBufSz = 2048"
definition kRxBufSz :: u32 where [simp]: "kRxBufSz = 2048"
definition kAlign :: u32 where [simp]: "kAlign = 4096"

definition ceBase :: "u32 \<Rightarrow> u32" where
  "ceBase ce = kCE0Base + kCEStride * ce"

record CEDescriptor =
  addr :: u32
  nbytes :: u16
  flags :: u16

definition descBytes :: "CEDescriptor \<Rightarrow> u8 list" where
  "descBytes d = le32 (addr d) @ le16 (nbytes d) @ le16 (flags d)"

definition descOf :: "u8 list \<Rightarrow> CEDescriptor" where
  "descOf b = \<lparr>addr = get32 (b ! 0) (b ! 1) (b ! 2) (b ! 3),
               nbytes = get16 (b ! 4) (b ! 5), flags = get16 (b ! 6) (b ! 7)\<rparr>"

section \<open>The DMA region\<close>

text \<open>\<open>(n + kAlign - 1) & ~(kAlign - 1)\<close>\<close>

definition alignUp :: "u32 \<Rightarrow> u32" where
  "alignUp n = (n + kAlign - 1) AND NOT (kAlign - 1)"

definition ringAligned :: u32 where "ringAligned = alignUp (kRingN * 8)"
definition txAligned :: u32 where "txAligned = alignUp kTxBufSz"
definition rxAligned :: u32 where "rxAligned = alignUp kRxBufSz"

text \<open>The IOKit objects both classes hold, and the region they describe.\<close>

record DmaRegion =
  fBmd :: bool
  fDma :: bool
  fBmdPrepared :: bool
  fDmaPrepared :: bool
  fRegionCpu :: "nat option"
  fRegionPhys :: u64
  fRegionSize :: u32

definition noRegion :: DmaRegion where
  "noRegion = \<lparr>fBmd = False, fDma = False, fBmdPrepared = False, fDmaPrepared = False,
     fRegionCpu = None, fRegionPhys = 0, fRegionSize = 0\<rparr>"

text \<open>The common body of the two \<open>allocRegion\<close> methods, up to \<open>goto fail\<close>.\<close>

definition acquire ::
  "('d, 'h) hw_scheme \<Rightarrow> DmaRegion \<Rightarrow> ('d, bool \<times> DmaRegion) io" where
  "acquire H rg = do {
     ok \<leftarrow> ioStep (ioBmd H (fRegionSize rg));
     let rg = rg\<lparr>fBmd := ok\<rparr>;
     if \<not> ok then ret (False, rg) else do {
       emit BmdNew;
       ok \<leftarrow> ioStep (ioPrepare H);
       if \<not> ok then ret (False, rg) else do {
         emit BmdPrepare;
         let rg = rg\<lparr>fBmdPrepared := True\<rparr>;
         cpu \<leftarrow> ioStep (ioBytes H);
         let rg = rg\<lparr>fRegionCpu := cpu\<rparr>;
         case cpu of None \<Rightarrow> ret (False, rg) | Some base \<Rightarrow> do {
           store base (replicate (unat (fRegionSize rg)) 0);
           ok \<leftarrow> ioStep (ioDma H);
           let rg = rg\<lparr>fDma := ok\<rparr>;
           if \<not> ok then ret (False, rg) else do {
             emit DmaNew;
             ok \<leftarrow> ioStep (ioSetMd H);
             if \<not> ok then ret (False, rg) else do {
               emit DmaSetMd;
               let rg = rg\<lparr>fDmaPrepared := True\<rparr>;
               seg \<leftarrow> ioStep (ioGen64 H);
               case seg of (ok, nseg, iova, flen) \<Rightarrow>
                 if \<not> ok \<or> nseg = 0 \<or> flen < ucast (fRegionSize rg) then ret (False, rg)
                 else ret (True, rg\<lparr>fRegionPhys := iova\<rparr>) } } } } } }"

text \<open>The common body of the two \<open>freeRegion\<close> methods.\<close>

definition release :: "DmaRegion \<Rightarrow> ('d, DmaRegion) io" where
  "release rg = do {
     (if fDma rg then do {
        (if fDmaPrepared rg then emit DmaClearMd else ret ());
        emit DmaRelease } else ret ());
     (if fBmd rg then do {
        (if fBmdPrepared rg then emit BmdComplete else ret ());
        emit BmdRelease } else ret ());
     ret (rg\<lparr>fDma := False, fBmd := False, fBmdPrepared := False, fDmaPrepared := False,
             fRegionCpu := None, fRegionPhys := 0\<rparr>) }"

section \<open>The ring pair\<close>

record CECopyPair =
  fBar0 :: bool
  fSrcCe :: u32
  fDstCe :: u32
  region :: DmaRegion
  fSrcDesc :: nat
  fDstDesc :: nat
  fTxCpu :: nat
  fRxCpu :: nat
  fTxPhys :: u64
  fRxPhys :: u64
  fSrcWrite :: u32
  fDstWrite :: u32
  fSrcSw :: u32
  fDstSw :: u32
  fRxNbytes :: u32

definition newCopyPair :: "bool \<Rightarrow> u32 \<Rightarrow> u32 \<Rightarrow> CECopyPair" where
  "newCopyPair bar0 srcCe dstCe =
     \<lparr>fBar0 = bar0, fSrcCe = srcCe, fDstCe = dstCe, region = noRegion,
      fSrcDesc = 0, fDstDesc = 0, fTxCpu = 0, fRxCpu = 0, fTxPhys = 0, fRxPhys = 0,
      fSrcWrite = 0, fDstWrite = 0, fSrcSw = 0, fDstSw = 0, fRxNbytes = 0\<rparr>"

definition freeRegion :: "CECopyPair \<Rightarrow> ('d, CECopyPair) io" where
  "freeRegion p = do { rg \<leftarrow> release (region p); ret (p\<lparr>region := rg\<rparr>) }"

definition allocRegion ::
  "('d, 'h) hw_scheme \<Rightarrow> CECopyPair \<Rightarrow> ('d, bool \<times> CECopyPair) io" where
  "allocRegion H p = do {
     let size = 2 * ringAligned + txAligned + rxAligned;
     (ok, rg) \<leftarrow> acquire H ((region p)\<lparr>fRegionSize := size\<rparr>);
     let p = p\<lparr>region := rg\<rparr>;
     if ok then do {
       let cpu = (case fRegionCpu rg of None \<Rightarrow> 0 | Some base \<Rightarrow> base);
       let tx = cpu + 2 * unat ringAligned;
       let txPhys = fRegionPhys rg + 2 * ucast ringAligned;
       ret (True, p\<lparr>fSrcDesc := cpu, fDstDesc := cpu + unat ringAligned,
                    fTxCpu := tx, fRxCpu := tx + unat txAligned,
                    fTxPhys := txPhys, fRxPhys := txPhys + ucast txAligned\<rparr>) }
     else do { p \<leftarrow> freeRegion p; ret (False, p) } }"

text \<open>\<open>teardown\<close>: park the rings, poison the descriptors, release the memory.\<close>

definition zeroDesc :: CEDescriptor where
  "zeroDesc = \<lparr>addr = 0, nbytes = 0, flags = 0\<rparr>"

definition descAt :: "nat \<Rightarrow> u32 \<Rightarrow> nat" where
  "descAt ring i = ring + 8 * unat i"

fun poison :: "nat \<Rightarrow> nat \<Rightarrow> u32 \<Rightarrow> nat \<Rightarrow> ('d, unit) io" where
  "poison src dst i 0 = ret ()"
| "poison src dst i (Suc n) = do {
     store (descAt src i) (descBytes zeroDesc);
     store (descAt dst i) (descBytes zeroDesc);
     poison src dst (i + 1) n }"

definition teardown ::
  "('d, 'h) hw_scheme \<Rightarrow> CECopyPair \<Rightarrow> ('d, CECopyPair) io" where
  "teardown H p = do {
     (if fBar0 p then do {
        write32 H (ceBase (fSrcCe p) + kCESRBaseLo) 0;
        write32 H (ceBase (fSrcCe p) + kCESRSize) 0;
        write32 H (ceBase (fSrcCe p) + kCESRWrIndex) 0;
        write32 H (ceBase (fDstCe p) + kCEDRBaseLo) 0;
        write32 H (ceBase (fDstCe p) + kCEDRSize) 0;
        write32 H (ceBase (fDstCe p) + kCEDSTWrIndex) 0;
        emit Sync } else ret ());
     (if fRegionCpu (region p) \<noteq> None \<and> fRegionSize (region p) \<noteq> 0 then do {
        poison (fSrcDesc p) (fDstDesc p) 0 (unat kRingN);
        emit Sync } else ret ());
     freeRegion p }"

definition init ::
  "('d, 'h) hw_scheme \<Rightarrow> CECopyPair \<Rightarrow> ('d, bool \<times> CECopyPair) io" where
  "init H p =
     (if \<not> fBar0 p then ret (False, p) else do {
        (ok, p) \<leftarrow> allocRegion H p;
        if \<not> ok then ret (False, p) else do {
          let srcBus = fRegionPhys (region p);
          let dstBus = fRegionPhys (region p) + ucast ringAligned;
          let p = p\<lparr>fSrcSw := 0, fSrcWrite := 0, fDstSw := 0, fDstWrite := 0\<rparr>;
          srri \<leftarrow> read32 H (ceBase (fSrcCe p) + kCECurrentSRRI);
          drri \<leftarrow> read32 H (ceBase (fDstCe p) + kCECurrentDRRI);
          if srri = 0xffffffff \<or> drri = 0xffffffff then ret (False, p) else do {
            write32 H (ceBase (fSrcCe p) + kCESRBaseLo) (ucast srcBus);
            write32 H (ceBase (fSrcCe p) + kCESRSize) kRingN;
            write32 H (ceBase (fDstCe p) + kCEDRBaseLo) (ucast dstBus);
            write32 H (ceBase (fDstCe p) + kCEDRSize) kRingN;
            emit Sync;
            ret (True, p) } } })"

section \<open>Sending\<close>

text \<open>
  The two identical waits of \<open>send\<close>: poll SRRI until it reaches our write index or the
  deadline of 10 s in steps of 50 us runs out; the result is the last value read.
\<close>

fun waitSrri ::
  "('d, 'h) hw_scheme \<Rightarrow> CECopyPair \<Rightarrow> nat \<Rightarrow> u32 \<Rightarrow> ('d, u32) io" where
  "waitSrri H p 0 srri = ret srri"
| "waitSrri H p (Suc n) srri =
     (if srri = fSrcWrite p then ret srri else do {
        delay H kQCAPollStep_us;
        v \<leftarrow> read32 H (ceBase (fSrcCe p) + kCECurrentSRRI);
        waitSrri H p n (v AND kRingMask) })"

definition sendDeadline :: nat where
  "sendDeadline = unat (kQCAExchangeTimeout_ms * 1000) div kQCAPollStep_us"

definition send ::
  "('d, 'h) hw_scheme \<Rightarrow> CECopyPair \<Rightarrow> u8 list \<Rightarrow>
     ('d, bool \<times> CECopyPair) io" where
  "send H p buf =
     (if length buf = 0 \<or> length buf > unat kTxBufSz \<or> length buf > 0xFFFF
      then ret (False, p)
      else do {
        v \<leftarrow> read32 H (ceBase (fSrcCe p) + kCECurrentSRRI);
        srri \<leftarrow> waitSrri H p sendDeadline (v AND kRingMask);
        if srri \<noteq> fSrcWrite p then ret (False, p) else do {
          store (fTxCpu p) buf;
          emit Sync;
          store (descAt (fSrcDesc p) (fSrcWrite p))
            (descBytes \<lparr>addr = ucast (fTxPhys p), nbytes = of_nat (length buf), flags = 0\<rparr>);
          emit Sync;
          let p = p\<lparr>fSrcWrite := (fSrcWrite p + 1) AND kRingMask\<rparr>;
          write32 H (ceBase (fSrcCe p) + kCESRWrIndex) (fSrcWrite p);
          emit Sync;
          v \<leftarrow> read32 H (ceBase (fSrcCe p) + kCECurrentSRRI);
          srri \<leftarrow> waitSrri H p sendDeadline (v AND kRingMask);
          ret (srri = fSrcWrite p, p) } })"

section \<open>Receiving\<close>

definition postRecv ::
  "('d, 'h) hw_scheme \<Rightarrow> CECopyPair \<Rightarrow> ('d, bool \<times> CECopyPair) io" where
  "postRecv H p = do {
     store (descAt (fDstDesc p) (fDstWrite p))
       (descBytes \<lparr>addr = ucast (fRxPhys p), nbytes = 0, flags = 0\<rparr>);
     emit Sync;
     let p = p\<lparr>fDstWrite := (fDstWrite p + 1) AND kRingMask\<rparr>;
     write32 H (ceBase (fDstCe p) + kCEDSTWrIndex) (fDstWrite p);
     emit Sync;
     ret (True, p) }"

definition rxArmed :: "CECopyPair \<Rightarrow> u32" where
  "rxArmed p = (fDstWrite p - fDstSw p) AND kRingMask"

fun recvLoop ::
  "('d, 'h) hw_scheme \<Rightarrow> CECopyPair \<Rightarrow> nat \<Rightarrow>
     ('d, bool \<times> CECopyPair) io" where
  "recvLoop H p 0 = do {
     _ \<leftarrow> read32 H (ceBase (fDstCe p) + kCECurrentDRRI);   \<comment> \<open>the timeout message\<close>
     ret (False, p) }"
| "recvLoop H p (Suc n) = do {
     v \<leftarrow> read32 H (ceBase (fDstCe p) + kCECurrentDRRI);
     if v AND kRingMask \<noteq> fDstSw p then do {
       b \<leftarrow> load (descAt (fDstDesc p) (fDstSw p)) 8;
       let d = descOf b;
       if nbytes d = 0 then do { delay H kQCAPollStep_us; recvLoop H p n }
       else do {
         let p = p\<lparr>fRxNbytes := ucast (nbytes d), fDstSw := (fDstSw p + 1) AND kRingMask\<rparr>;
         emit Sync;
         ret (True, p) } }
     else do { delay H kQCAPollStep_us; recvLoop H p n } }"

text \<open>\<open>timeoutMs * 1000\<close> is computed in 32 bits.\<close>

definition recvDeadline :: "u32 \<Rightarrow> nat" where
  "recvDeadline timeoutMs = unat (timeoutMs * 1000) div kQCAPollStep_us"

definition recvWait ::
  "('d, 'h) hw_scheme \<Rightarrow> CECopyPair \<Rightarrow> u32 \<Rightarrow>
     ('d, bool \<times> CECopyPair) io" where
  "recvWait H p timeoutMs = recvLoop H p (recvDeadline timeoutMs)"

section \<open>Descriptors, alignment and ring indices\<close>

lemma length_descBytes [simp]: "length (descBytes d) = 8"
  by (simp add: descBytes_def)

lemma descOf_descBytes [simp]: "descOf (descBytes d) = d"
  by (simp add: descOf_def descBytes_def le32_def le16_def)

lemma aligned_sizes [simp]:
  "ringAligned = 4096" "txAligned = 4096" "rxAligned = 4096"
  by (simp_all add: ringAligned_def txAligned_def rxAligned_def alignUp_def)

lemma sendDeadline_value: "sendDeadline = 200000"
  by (simp add: sendDeadline_def)

lemma unat_and_15: "unat (x AND 15 :: u32) = unat x mod 16"
proof -
  have "x AND 15 = take_bit 4 x"
    by (simp add: take_bit_eq_mask mask_eq_exp_minus_1)
  then show ?thesis
    by (simp add: unat_mod take_bit_eq_mod)
qed

lemma unat_next_index: "unat ((w + 1) AND 15 :: u32) = Suc (unat w) mod 16"
proof -
  have "unat (w + 1) mod 16 = Suc (unat w) mod 16"
    by (simp add: unat_word_ariths mod_mod_cancel)
  then show ?thesis by (simp add: unat_and_15)
qed

lemma and_15_less [simp]: "unat (x AND 15 :: u32) < 16"
  by (simp add: unat_and_15)

section \<open>Accounting of the IOKit objects\<close>

text \<open>
  What a log acquired and not yet released: memory descriptors, their preparations, DMA
  commands and their attached descriptors; and what a region still holds.
\<close>

definition held :: "event list \<Rightarrow> int list" where
  "held evs =
     [int (count_list evs BmdNew) - int (count_list evs BmdRelease),
      int (count_list evs BmdPrepare) - int (count_list evs BmdComplete),
      int (count_list evs DmaNew) - int (count_list evs DmaRelease),
      int (count_list evs DmaSetMd) - int (count_list evs DmaClearMd)]"

definition holds :: "DmaRegion \<Rightarrow> int list" where
  "holds rg = [of_bool (fBmd rg), of_bool (fBmdPrepared rg), of_bool (fDma rg),
     of_bool (fDmaPrepared rg)]"

definition unheld :: "DmaRegion \<Rightarrow> bool" where
  "unheld rg \<longleftrightarrow> \<not> fBmd rg \<and> \<not> fBmdPrepared rg \<and> \<not> fDma rg \<and> \<not> fDmaPrepared rg
     \<and> fRegionCpu rg = None"

definition fullRegion :: "DmaRegion \<Rightarrow> bool" where
  "fullRegion rg \<longleftrightarrow> fBmd rg \<and> fBmdPrepared rg \<and> fDma rg \<and> fDmaPrepared rg
     \<and> fRegionCpu rg \<noteq> None"

definition regionOk :: "DmaRegion \<Rightarrow> bool" where
  "regionOk rg \<longleftrightarrow> (fBmdPrepared rg \<longrightarrow> fBmd rg) \<and> (fDmaPrepared rg \<longrightarrow> fDma rg)"

definition releaseEvs :: "DmaRegion \<Rightarrow> event list" where
  "releaseEvs rg =
     (if fDma rg then (if fDmaPrepared rg then [DmaClearMd] else []) @ [DmaRelease] else []) @
     (if fBmd rg then (if fBmdPrepared rg then [BmdComplete] else []) @ [BmdRelease] else [])"

lemma held_append: "held (xs @ ys) = map2 (+) (held xs) (held ys)"
  by (simp add: held_def)

lemma held_releaseEvs:
  "regionOk rg \<Longrightarrow> held (releaseEvs rg) = map uminus (holds rg)"
  by (auto simp: regionOk_def held_def holds_def releaseEvs_def)

lemma does_acquire:
  assumes "unheld rg"
  shows "does (acquire H rg) (\<lambda>(ok, rg') es. held es = holds rg' \<and> regionOk rg' \<and>
     fRegionSize rg' = fRegionSize rg \<and> (ok \<longrightarrow> fullRegion rg'))"
  using assms unfolding acquire_def
  by (intro does_intros)
     (auto simp: unheld_def regionOk_def held_def holds_def fullRegion_def)

lemma does_release:
  "does (release rg) (\<lambda>rg' es. es = releaseEvs rg \<and> unheld rg' \<and>
     fRegionSize rg' = fRegionSize rg)"
  unfolding release_def by (intro does_intros) (auto simp: unheld_def releaseEvs_def)

lemma does_freeRegion:
  "does (freeRegion p) (\<lambda>p' es. es = releaseEvs (region p) \<and> 
     (\<exists>rg. unheld rg \<and> fRegionSize rg = fRegionSize (region p) \<and> p' = p\<lparr>region := rg\<rparr>))"
  unfolding freeRegion_def
  by (intro does_intros does_mono [OF does_release]) auto

lemma does_allocRegion:
  assumes "unheld (region p)"
  shows "does (allocRegion H p) (\<lambda>(ok, p') es.
     held es = holds (region p') \<and> (if ok then fullRegion (region p') else unheld (region p')) \<and>
     fBar0 p' = fBar0 p \<and> fSrcCe p' = fSrcCe p \<and> fDstCe p' = fDstCe p \<and>
     (ok \<longrightarrow> fRegionSize (region p') = 16384 \<and> (\<exists>base. fRegionCpu (region p') = Some base \<and>
        fSrcDesc p' = base \<and> fDstDesc p' = base + 4096 \<and>
        fTxCpu p' = base + 8192 \<and> fRxCpu p' = base + 12288) \<and>
        fTxPhys p' = fRegionPhys (region p') + 8192 \<and>
        fRxPhys p' = fRegionPhys (region p') + 12288))"
  using assms unfolding allocRegion_def
  by (intro does_intros does_mono [OF does_acquire] does_mono [OF does_freeRegion])
     (auto simp: unheld_def fullRegion_def held_append held_releaseEvs holds_def)

section \<open>What each operation does on the bus\<close>

definition parkEvs :: "CECopyPair \<Rightarrow> event list" where
  "parkEvs p =
     [WrReg (ceBase (fSrcCe p) + kCESRBaseLo) 0, WrReg (ceBase (fSrcCe p) + kCESRSize) 0,
      WrReg (ceBase (fSrcCe p) + kCESRWrIndex) 0, WrReg (ceBase (fDstCe p) + kCEDRBaseLo) 0,
      WrReg (ceBase (fDstCe p) + kCEDRSize) 0, WrReg (ceBase (fDstCe p) + kCEDSTWrIndex) 0, Sync]"

fun poisonEvs :: "nat \<Rightarrow> nat \<Rightarrow> u32 \<Rightarrow> nat \<Rightarrow> event list" where
  "poisonEvs src dst i 0 = []"
| "poisonEvs src dst i (Suc n) =
     St (descAt src i) (replicate 8 0) # St (descAt dst i) (replicate 8 0) #
     poisonEvs src dst (i + 1) n"

lemma zeroDesc_bytes [simp]: "descBytes zeroDesc = replicate 8 0"
  by (simp add: descBytes_def zeroDesc_def le32_def le16_def eval_nat_numeral)

lemma does_poison: "does (poison src dst i n) (\<lambda>_ es. es = poisonEvs src dst i n)"
proof (induction n arbitrary: i)
  case 0
  then show ?case by (simp add: does_ret)
next
  case (Suc n)
  then show ?case
    by (simp, intro does_intros does_mono [OF Suc.IH], simp)
qed

definition teardownEvs :: "CECopyPair \<Rightarrow> event list" where
  "teardownEvs p =
     (if fBar0 p then parkEvs p else []) @
     (if fRegionCpu (region p) \<noteq> None \<and> fRegionSize (region p) \<noteq> 0
      then poisonEvs (fSrcDesc p) (fDstDesc p) 0 16 @ [Sync] else []) @
     releaseEvs (region p)"

lemma does_teardown:
  "does (teardown H p) (\<lambda>p' es. es = teardownEvs p \<and> unheld (region p'))"
  unfolding teardown_def teardownEvs_def parkEvs_def
  by (intro does_intros does_mono [OF does_freeRegion] does_mono [OF does_poison]) auto

text \<open>\<open>init\<close> after a region was obtained: reset the indices, probe, program the rings.\<close>

definition initEvs :: "CECopyPair \<Rightarrow> event list" where
  "initEvs p =
     [WrReg (ceBase (fSrcCe p) + kCESRBaseLo) (ucast (fRegionPhys (region p))),
      WrReg (ceBase (fSrcCe p) + kCESRSize) 16,
      WrReg (ceBase (fDstCe p) + kCEDRBaseLo) (ucast (fRegionPhys (region p) + 4096)),
      WrReg (ceBase (fDstCe p) + kCEDRSize) 16, Sync]"

definition freshRings :: "CECopyPair \<Rightarrow> bool" where
  "freshRings p \<longleftrightarrow> fSrcSw p = 0 \<and> fSrcWrite p = 0 \<and> fDstSw p = 0 \<and> fDstWrite p = 0"

text \<open>The layout \<open>allocRegion\<close> gives an initialised pair.\<close>

definition laidOut :: "CECopyPair \<Rightarrow> bool" where
  "laidOut p \<longleftrightarrow> fRegionSize (region p) = 16384 \<and>
     (\<exists>base. fRegionCpu (region p) = Some base \<and> fSrcDesc p = base \<and>
        fDstDesc p = base + 4096 \<and> fTxCpu p = base + 8192 \<and> fRxCpu p = base + 12288) \<and>
     fTxPhys p = fRegionPhys (region p) + 8192 \<and> fRxPhys p = fRegionPhys (region p) + 12288"

lemma does_init:
  assumes "unheld (region p)"
  shows "does (init H p) (\<lambda>(ok, p') es.
     held es = holds (region p') \<and> fSrcCe p' = fSrcCe p \<and> fDstCe p' = fDstCe p \<and>
     fBar0 p' = fBar0 p \<and>
     (ok \<longrightarrow> fBar0 p \<and> fullRegion (region p') \<and> laidOut p' \<and> freshRings p' \<and>
        (\<exists>es' srri drri. es = es' @ [RdReg (ceBase (fSrcCe p) + kCECurrentSRRI) srri,
            RdReg (ceBase (fDstCe p) + kCECurrentDRRI) drri] @ initEvs p' \<and>
            srri \<noteq> 0xffffffff \<and> drri \<noteq> 0xffffffff)) \<and>
     (\<not> ok \<longrightarrow> unheld (region p') \<or> (fullRegion (region p') \<and>
        (\<exists>es' srri drri. es = es' @ [RdReg (ceBase (fSrcCe p) + kCECurrentSRRI) srri,
            RdReg (ceBase (fDstCe p) + kCECurrentDRRI) drri] \<and>
            (srri = 0xffffffff \<or> drri = 0xffffffff)))))"
proof -
  have h: "held (xs @ [RdReg a v]) = held xs" "held (xs @ [WrReg a v]) = held xs"
    "held (xs @ [Sync]) = held xs" for xs a v
    by (simp_all add: held_def)
  have 0: "held [] = holds (region p)"
    using assms by (simp add: held_def holds_def unheld_def)
  show ?thesis
    using assms unfolding init_def
    apply (intro does_intros does_mono [OF does_allocRegion])
    apply (auto simp: 0 laidOut_def freshRings_def initEvs_def held_append)
    apply (auto simp: held_def holds_def)
    done
qed

section \<open>Polling\<close>

text \<open>The events of a poll of one register, and the last value it read.\<close>

definition polls :: "u32 \<Rightarrow> event list \<Rightarrow> bool" where
  "polls off es \<longleftrightarrow> (\<forall>e \<in> set es. e = Delay 50 \<or> (\<exists>v. e = RdReg off v))"

fun lastRd :: "u32 \<Rightarrow> event list \<Rightarrow> u32 \<Rightarrow> u32" where
  "lastRd off [] v = v"
| "lastRd off (RdReg a x # es) v = lastRd off es (if a = off then x else v)"
| "lastRd off (_ # es) v = lastRd off es v"

lemma polls_simps [simp]:
  "polls off []" "polls off (Delay 50 # es) \<longleftrightarrow> polls off es"
  "polls off (RdReg off v # es) \<longleftrightarrow> polls off es"
  "polls off (xs @ ys) \<longleftrightarrow> polls off xs \<and> polls off ys"
  by (auto simp: polls_def)

lemma lastRd_append: "lastRd off (xs @ ys) v = lastRd off ys (lastRd off xs v)"
  by (induction off xs v rule: lastRd.induct) auto

abbreviation srriOff :: "CECopyPair \<Rightarrow> u32" where
  "srriOff p \<equiv> ceBase (fSrcCe p) + kCECurrentSRRI"

abbreviation drriOff :: "CECopyPair \<Rightarrow> u32" where
  "drriOff p \<equiv> ceBase (fDstCe p) + kCECurrentDRRI"

lemma does_waitSrri:
  "does (waitSrri H p n (v AND 15)) (\<lambda>r es. polls (srriOff p) es \<and> length es \<le> 2 * n \<and>
     r = lastRd (srriOff p) es v AND 15)"
proof (induction n arbitrary: v)
  case 0
  then show ?case by (simp add: does_ret)
next
  case (Suc n)
  show ?case
    by (simp only: waitSrri.simps kRingMask_def)
       (intro does_intros does_mono [OF Suc.IH], auto)
qed

text \<open>A transfer handed to the engine: payload, descriptor, doorbell, each fenced.\<close>

definition kickEvs :: "CECopyPair \<Rightarrow> u8 list \<Rightarrow> event list" where
  "kickEvs p buf =
     [St (fTxCpu p) buf, Sync,
      St (descAt (fSrcDesc p) (fSrcWrite p))
        (descBytes \<lparr>addr = ucast (fTxPhys p), nbytes = of_nat (length buf), flags = 0\<rparr>), Sync,
      WrReg (ceBase (fSrcCe p) + kCESRWrIndex) ((fSrcWrite p + 1) AND 15), Sync]"

definition goodLen :: "u8 list \<Rightarrow> bool" where
  "goodLen buf \<longleftrightarrow> 0 < length buf \<and> length buf \<le> 2048"

text \<open>What a call of \<open>send\<close> leaves on the log: nothing, a wait, or a transfer between waits.\<close>

inductive sendLog :: "CECopyPair \<Rightarrow> u8 list \<Rightarrow> bool \<Rightarrow> CECopyPair \<Rightarrow> event list \<Rightarrow> bool" where
  refused: "\<not> goodLen buf \<Longrightarrow> sendLog p buf False p []"
| stuck: "goodLen buf \<Longrightarrow> polls (srriOff p) pre \<Longrightarrow> length pre \<le> 400001 \<Longrightarrow>
     lastRd (srriOff p) pre 0 AND 15 \<noteq> fSrcWrite p \<Longrightarrow> sendLog p buf False p pre"
| kicked: "goodLen buf \<Longrightarrow> polls (srriOff p) pre \<Longrightarrow> length pre \<le> 400001 \<Longrightarrow>
     lastRd (srriOff p) pre 0 AND 15 = fSrcWrite p \<Longrightarrow>
     polls (srriOff p) post \<Longrightarrow> length post \<le> 400001 \<Longrightarrow>
     p' = p\<lparr>fSrcWrite := (fSrcWrite p + 1) AND 15\<rparr> \<Longrightarrow>
     ok = (lastRd (srriOff p) post 0 AND 15 = fSrcWrite p') \<Longrightarrow>
     sendLog p buf ok p' (pre @ kickEvs p buf @ post)"

lemma does_send: "does (send H p buf) (\<lambda>(ok, p') es. sendLog p buf ok p' es)"
proof (cases "goodLen buf")
  case False
  then show ?thesis
    unfolding send_def by (intro does_intros) (auto simp: goodLen_def intro: sendLog.intros)
next
  case True
  have w: "does (waitSrri H q 200000 (v AND 15)) (\<lambda>r es. polls (srriOff q) es \<and>
      length es \<le> 400000 \<and> r = lastRd (srriOff q) es v AND 15)" for q v
    using does_waitSrri [of H q 200000 v] by simp
  show ?thesis
    unfolding send_def sendDeadline_value kRingMask_def
  proof (intro does_intros does_mono [OF w], goal_cases)
    case 1
    then show ?case using True by (auto simp: goodLen_def)
  next
    case (2 v r es)
    then show ?case
      using True sendLog.stuck [of buf p "RdReg (srriOff p) v # es"] by simp
  next
    case (3 v r es va ra esa)
    then show ?case
      using True sendLog.kicked [of buf p "RdReg (srriOff p) v # es" "RdReg (srriOff p) va # esa"]
      by (simp add: kickEvs_def)
  qed
qed

section \<open>Receiving: what a wait may consume\<close>

definition armEvs :: "CECopyPair \<Rightarrow> event list" where
  "armEvs p =
     [St (descAt (fDstDesc p) (fDstWrite p))
        (descBytes \<lparr>addr = ucast (fRxPhys p), nbytes = 0, flags = 0\<rparr>), Sync,
      WrReg (ceBase (fDstCe p) + kCEDSTWrIndex) ((fDstWrite p + 1) AND 15), Sync]"

lemma does_postRecv:
  "does (postRecv H p) (\<lambda>(ok, p') es. ok \<and> p' = p\<lparr>fDstWrite := (fDstWrite p + 1) AND 15\<rparr> \<and>
     es = armEvs p)"
  unfolding postRecv_def armEvs_def by (intro does_intros) auto

text \<open>One unsuccessful round of the loop, and the round that consumes the entry.\<close>

definition recvIdle :: "CECopyPair \<Rightarrow> event list \<Rightarrow> bool" where
  "recvIdle p es \<longleftrightarrow> (\<forall>e \<in> set es. e = Delay 50 \<or> (\<exists>v. e = RdReg (drriOff p) v) \<or>
     (\<exists>b. e = Ld (descAt (fDstDesc p) (fDstSw p)) b \<and> nbytes (descOf b) = 0))"

inductive recvLog :: "CECopyPair \<Rightarrow> nat \<Rightarrow> bool \<Rightarrow> CECopyPair \<Rightarrow> event list \<Rightarrow> bool" where
  consumed: "recvIdle p idle \<Longrightarrow> length idle < 3 * n \<Longrightarrow> v AND 15 \<noteq> fDstSw p \<Longrightarrow>
     nbytes (descOf b) \<noteq> 0 \<Longrightarrow>
     p' = p\<lparr>fRxNbytes := ucast (nbytes (descOf b)), fDstSw := (fDstSw p + 1) AND 15\<rparr> \<Longrightarrow>
     recvLog p n True p' (idle @ [RdReg (drriOff p) v, Ld (descAt (fDstDesc p) (fDstSw p)) b, Sync])"
| timedOut: "recvIdle p es \<Longrightarrow> length es \<le> 3 * n + 1 \<Longrightarrow> recvLog p n False p es"

lemma recvIdle_append [simp]: "recvIdle p (xs @ ys) \<longleftrightarrow> recvIdle p xs \<and> recvIdle p ys"
  by (auto simp: recvIdle_def)

lemma recvLog_idle:
  assumes "recvLog p n ok p' es" and "recvIdle p ds" and "length ds \<le> 3"
  shows "recvLog p (Suc n) ok p' (ds @ es)"
  using assms
proof (cases rule: recvLog.cases)
  case (consumed idle v b)
  then show ?thesis
    using assms recvLog.consumed [of p "ds @ idle" "Suc n" v b p'] by simp
next
  case timedOut
  then show ?thesis using assms by (auto intro!: recvLog.timedOut)
qed

lemma does_recvLoop: "does (recvLoop H p n) (\<lambda>(ok, p') es. recvLog p n ok p' es)"
proof (induction n)
  case 0
  then show ?case
    by (simp, intro does_intros) (auto simp: recvIdle_def intro!: recvLog.timedOut)
next
  case (Suc n)
  show ?case
    unfolding recvLoop.simps kQCAPollStep_us_def kRingMask_def
  proof (intro does_intros does_mono [OF Suc.IH], goal_cases)
    case (1 v b r es)
    then show ?case
      using recvLog_idle [of p n "fst r" "snd r" es "[RdReg (drriOff p) v,
        Ld (descAt (fDstDesc p) (fDstSw p)) b, Delay 50]"]
      by (cases r) (auto simp: recvIdle_def)
  next
    case (2 v b)
    then show ?case
      using recvLog.consumed [of p "[]" "Suc n" v b] by (simp add: recvIdle_def)
  next
    case (3 v r es)
    then show ?case
      using recvLog_idle [of p n "fst r" "snd r" es "[RdReg (drriOff p) v, Delay 50]"]
      by (cases r) (auto simp: recvIdle_def)
  qed
qed

lemma does_recvWait:
  "does (recvWait H p ms) (\<lambda>(ok, p') es. recvLog p (recvDeadline ms) ok p' es)"
  unfolding recvWait_def by (rule does_recvLoop)

end
