(* ===== verification/DiagWindow.thy ===== *)
theory DiagWindow
  imports CopyEngine
begin

text \<open>
  The CE7 diagnostic window of \<open>skeleton/CE.hpp\<close> and \<open>skeleton/CE.cpp\<close> (class \<open>CEDiag\<close>): one
  engine serving both directions, whose descriptors carry raw addresses of the chip's
  interconnect.  It is the driver's way to read and write target memory before the firmware
  runs.
\<close>

definition kDiagCe :: u32 where [simp]: "kDiagCe = 7"
definition kDiagMax :: u32 where [simp]: "kDiagMax = 512"
definition kWaitStep_us :: nat where [simp]: "kWaitStep_us = 50"
definition kWaitTimeout_us :: nat where [simp]: "kWaitTimeout_us = 10000"
definition kPcieLocalBase :: u32 where [simp]: "kPcieLocalBase = 0x00080000"
definition kCoreCtrlOffset :: u32 where [simp]: "kCoreCtrlOffset = 0x00000000"

record CEDiag =
  dBar0 :: bool
  dRegion :: DmaRegion
  dSrcDesc :: nat
  dDstDesc :: nat
  dBounce :: nat
  dBouncePhys :: u64
  dSrcWrite :: u32
  dDstWrite :: u32
  dSrcSw :: u32
  dDstSw :: u32

definition newDiag :: "bool \<Rightarrow> CEDiag" where
  "newDiag bar0 = \<lparr>dBar0 = bar0, dRegion = noRegion, dSrcDesc = 0, dDstDesc = 0, dBounce = 0,
     dBouncePhys = 0, dSrcWrite = 0, dDstWrite = 0, dSrcSw = 0, dDstSw = 0\<rparr>"

section \<open>Region, set-up and teardown\<close>

definition bounceAligned :: u32 where "bounceAligned = alignUp kDiagMax"

definition diagFreeRegion :: "CEDiag \<Rightarrow> ('d, CEDiag) io" where
  "diagFreeRegion g = do {
     rg \<leftarrow> release (dRegion g);
     ret (g\<lparr>dRegion := rg\<lparr>fRegionSize := 0\<rparr>, dBounce := 0, dBouncePhys := 0\<rparr>) }"

definition diagAllocRegion ::
  "('d, 'h) hw_scheme \<Rightarrow> CEDiag \<Rightarrow> ('d, bool \<times> CEDiag) io" where
  "diagAllocRegion H g = do {
     let size = 2 * ringAligned + bounceAligned;
     (ok, rg) \<leftarrow> acquire H ((dRegion g)\<lparr>fRegionSize := size\<rparr>);
     let g = g\<lparr>dRegion := rg\<rparr>;
     if ok then ret (True, g) else do { g \<leftarrow> diagFreeRegion g; ret (False, g) } }"

definition diagInit :: "('d, 'h) hw_scheme \<Rightarrow> CEDiag \<Rightarrow> ('d, bool \<times> CEDiag) io" where
  "diagInit H g =
     (if \<not> dBar0 g then ret (False, g) else do {
        (ok, g) \<leftarrow> diagAllocRegion H g;
        if \<not> ok then ret (False, g) else do {
          let cpu = (case fRegionCpu (dRegion g) of None \<Rightarrow> 0 | Some base \<Rightarrow> base);
          let phys = fRegionPhys (dRegion g);
          let g = g\<lparr>dSrcDesc := cpu, dDstDesc := cpu + unat ringAligned,
                    dBounce := cpu + 2 * unat ringAligned,
                    dBouncePhys := phys + 2 * ucast ringAligned\<rparr>;
          srri \<leftarrow> read32 H (ceBase kDiagCe + kCECurrentSRRI);
          drri \<leftarrow> read32 H (ceBase kDiagCe + kCECurrentDRRI);
          if srri = 0xffffffff \<or> drri = 0xffffffff then ret (False, g) else do {
            write32 H (ceBase kDiagCe + kCESRBaseLo) (ucast phys);
            write32 H (ceBase kDiagCe + kCESRSize) kRingN;
            write32 H (ceBase kDiagCe + kCEDRBaseLo) (ucast (phys + ucast ringAligned));
            write32 H (ceBase kDiagCe + kCEDRSize) kRingN;
            emit Sync;
            ret (True, g) } } })"

definition diagTeardown :: "('d, 'h) hw_scheme \<Rightarrow> CEDiag \<Rightarrow> ('d, CEDiag) io" where
  "diagTeardown H g = do {
     (if dBar0 g then do {
        write32 H (ceBase kDiagCe + kCESRBaseLo) 0;
        write32 H (ceBase kDiagCe + kCESRSize) 0;
        write32 H (ceBase kDiagCe + kCESRWrIndex) 0;
        write32 H (ceBase kDiagCe + kCEDRBaseLo) 0;
        write32 H (ceBase kDiagCe + kCEDRSize) 0;
        write32 H (ceBase kDiagCe + kCEDSTWrIndex) 0 } else ret ());
     diagFreeRegion g }"

section \<open>Transfers\<close>

text \<open>The window key comes from the register at \<open>kPcieLocalBase + kCoreCtrlOffset\<close>.\<close>

definition ceAddrOf :: "u32 \<Rightarrow> u32 \<Rightarrow> u32" where
  "ceAddrOf ctrl adr = push_bit 21 (ctrl AND 0x7ff) OR
     ((if adr \<ge> 0x100000 then 0x100000 else 0) OR (adr AND 0xfffff))"

definition targToCeAddr :: "('d, 'h) hw_scheme \<Rightarrow> u32 \<Rightarrow> ('d, u32) io" where
  "targToCeAddr H adr = do {
     v \<leftarrow> read32 H (kPcieLocalBase + kCoreCtrlOffset);
     ret (ceAddrOf v adr) }"

text \<open>Both completion loops: poll until the index satisfies \<open>c\<close>, False when \<open>i == deadline\<close>.\<close>

fun diagWait ::
  "('d, 'h) hw_scheme \<Rightarrow> u32 \<Rightarrow> (u32 \<Rightarrow> bool) \<Rightarrow> nat \<Rightarrow> ('d, bool) io" where
  "diagWait H off c 0 = ret False"
| "diagWait H off c (Suc n) = do {
     v \<leftarrow> read32 H off;
     if c (v AND kRingMask) then ret True
     else do { delay H kWaitStep_us; diagWait H off c n } }"

definition diagDeadline :: nat where
  "diagDeadline = kWaitTimeout_us div kWaitStep_us"

definition xfer ::
  "('d, 'h) hw_scheme \<Rightarrow> CEDiag \<Rightarrow> u32 \<Rightarrow> u32 \<Rightarrow> u32 \<Rightarrow> ('d, bool \<times> CEDiag) io" where
  "xfer H g postAddr sendAddr len = do {
     store (descAt (dDstDesc g) (dDstWrite g))
       (descBytes \<lparr>addr = postAddr, nbytes = 0, flags = 0\<rparr>);
     emit Sync;
     let g = g\<lparr>dDstWrite := (dDstWrite g + 1) AND kRingMask\<rparr>;
     write32 H (ceBase kDiagCe + kCEDSTWrIndex) (dDstWrite g);
     emit Sync;
     store (descAt (dSrcDesc g) (dSrcWrite g))
       (descBytes \<lparr>addr = sendAddr, nbytes = ucast len, flags = 0\<rparr>);
     emit Sync;
     let g = g\<lparr>dSrcWrite := (dSrcWrite g + 1) AND kRingMask\<rparr>;
     write32 H (ceBase kDiagCe + kCESRWrIndex) (dSrcWrite g);
     emit Sync;
     ok \<leftarrow> diagWait H (ceBase kDiagCe + kCECurrentSRRI) (\<lambda>i. i = dSrcWrite g) diagDeadline;
     if \<not> ok then do {
       _ \<leftarrow> read32 H (ceBase kDiagCe + kCECurrentSRRI);      \<comment> \<open>the timeout message\<close>
       ret (False, g) }
     else do {
       ok \<leftarrow> diagWait H (ceBase kDiagCe + kCECurrentDRRI) (\<lambda>i. i \<noteq> dDstSw g) diagDeadline;
       if \<not> ok then do {
         _ \<leftarrow> read32 H (ceBase kDiagCe + kCECurrentDRRI);    \<comment> \<open>the timeout message\<close>
         ret (False, g) }
       else do {
         b \<leftarrow> load (descAt (dDstDesc g) (dDstSw g)) 8;
         let g = g\<lparr>dDstSw := (dDstSw g + 1) AND kRingMask\<rparr>;
         if nbytes (descOf b) \<noteq> ucast len then ret (False, g) else ret (True, g) } } }"

text \<open>\<open>readMem\<close> returns the bytes it copies to \<open>out\<close>; \<open>writeMem\<close> takes those of \<open>buf\<close>.\<close>

definition readMem ::
  "('d, 'h) hw_scheme \<Rightarrow> CEDiag \<Rightarrow> u32 \<Rightarrow> u32 \<Rightarrow> ('d, u8 list option \<times> CEDiag) io" where
  "readMem H g targAddr len =
     (if fRegionCpu (dRegion g) = None \<or> len = 0 \<or> len > kDiagMax then ret (None, g)
      else do {
        ceAddr \<leftarrow> targToCeAddr H targAddr;
        (ok, g) \<leftarrow> xfer H g (ucast (dBouncePhys g)) ceAddr len;
        if \<not> ok then ret (None, g) else do {
          out \<leftarrow> load (dBounce g) (unat len);
          ret (Some out, g) } })"

definition writeMem ::
  "('d, 'h) hw_scheme \<Rightarrow> CEDiag \<Rightarrow> u32 \<Rightarrow> u8 list \<Rightarrow> ('d, bool \<times> CEDiag) io" where
  "writeMem H g targAddr buf =
     (if fRegionCpu (dRegion g) = None \<or> length buf = 0 \<or> length buf > unat kDiagMax
      then ret (False, g)
      else do {
        ceAddr \<leftarrow> targToCeAddr H targAddr;
        store (dBounce g) buf;
        emit Sync;
        xfer H g ceAddr (ucast (dBouncePhys g)) (of_nat (length buf)) })"

text \<open>\<open>read32\<close> and \<open>write32\<close> of the class, on little-endian words.\<close>

definition diagRead32 ::
  "('d, 'h) hw_scheme \<Rightarrow> CEDiag \<Rightarrow> u32 \<Rightarrow> ('d, u32 option \<times> CEDiag) io" where
  "diagRead32 H g targAddr = do {
     (out, g) \<leftarrow> readMem H g targAddr 4;
     ret (map_option (\<lambda>b. get32 (b ! 0) (b ! 1) (b ! 2) (b ! 3)) out, g) }"

definition diagWrite32 ::
  "('d, 'h) hw_scheme \<Rightarrow> CEDiag \<Rightarrow> u32 \<Rightarrow> u32 \<Rightarrow> ('d, bool \<times> CEDiag) io" where
  "diagWrite32 H g targAddr val = writeMem H g targAddr (le32 val)"

end
