(* ===== verification/CeManager.thy ===== *)
theory CeManager
  imports DiagWindow
begin

text \<open>
  \<open>CEManager\<close> of \<open>skeleton/CE.hpp\<close> and \<open>skeleton/CE.cpp\<close>: the owner of the control pair
  (CE0/CE1), the WMI pair (CE3/CE2) and the diagnostic window (CE7).  Every upper layer talks
  to the chip through it.  Calling a method through a null pair is undefined in the source.
\<close>

record CEManager =
  mBar0 :: bool
  fCtrl :: "CECopyPair option"
  fWmi :: "CECopyPair option"
  fDiag :: "CEDiag option"

text \<open>\<open>create\<close>: \<open>None\<close> when \<open>new\<close> fails.\<close>

definition ceCreate :: "('d, 'h) hw_scheme \<Rightarrow> bool \<Rightarrow> ('d, CEManager option) io" where
  "ceCreate H bar0 = do {
     ok \<leftarrow> ioStep (ioNew H);
     if \<not> ok then ret None
     else ret (Some \<lparr>mBar0 = bar0, fCtrl = None, fWmi = None, fDiag = None\<rparr>) }"

definition ceDestroy :: "('d, 'h) hw_scheme \<Rightarrow> CEManager \<Rightarrow> ('d, unit) io" where
  "ceDestroy H m = do {
     (case fDiag m of None \<Rightarrow> ret () | Some g \<Rightarrow> do { _ \<leftarrow> diagTeardown H g; ret () });
     (case fCtrl m of None \<Rightarrow> ret () | Some p \<Rightarrow> do { _ \<leftarrow> teardown H p; ret () });
     (case fWmi m of None \<Rightarrow> ret () | Some p \<Rightarrow> do { _ \<leftarrow> teardown H p; ret () }) }"

text \<open>\<open>new\<close> and \<open>init\<close> of a pair; on a failed \<open>init\<close> the object is deleted and the slot nulled.\<close>

definition newPair ::
  "('d, 'h) hw_scheme \<Rightarrow> bool \<Rightarrow> u32 \<Rightarrow> u32 \<Rightarrow> ('d, bool \<times> CECopyPair option) io" where
  "newPair H bar0 src dst = do {
     ok \<leftarrow> ioStep (ioNew H);
     if \<not> ok then ret (False, None) else do {
       (ok, p) \<leftarrow> init H (newCopyPair bar0 src dst);
       if \<not> ok then ret (False, None) else ret (True, Some p) } }"

definition ceInit :: "('d, 'h) hw_scheme \<Rightarrow> CEManager \<Rightarrow> ('d, bool \<times> CEManager) io" where
  "ceInit H m = do {
     (ok, p) \<leftarrow> newPair H (mBar0 m) 0 1;
     ret (ok, m\<lparr>fCtrl := p\<rparr>) }"

definition ceInitWmi :: "('d, 'h) hw_scheme \<Rightarrow> CEManager \<Rightarrow> ('d, bool \<times> CEManager) io" where
  "ceInitWmi H m =
     (if fWmi m \<noteq> None then ret (True, m) else do {
        (ok, p) \<leftarrow> newPair H (mBar0 m) 3 2;
        ret (ok, m\<lparr>fWmi := p\<rparr>) })"

text \<open>\<open>initDiag\<close>; \<open>delete fDiag\<close> runs the destructor, that is \<open>teardown\<close>.\<close>

definition ceInitDiag :: "('d, 'h) hw_scheme \<Rightarrow> CEManager \<Rightarrow> ('d, bool \<times> CEManager) io" where
  "ceInitDiag H m =
     (if fDiag m \<noteq> None then ret (True, m) else do {
        ok \<leftarrow> ioStep (ioNew H);
        if \<not> ok then ret (False, m) else do {
          (ok, g) \<leftarrow> diagInit H (newDiag (mBar0 m));
          if \<not> ok then do { _ \<leftarrow> diagTeardown H g; ret (False, m) }
          else ret (True, m\<lparr>fDiag := Some g\<rparr>) } })"

section \<open>Forwarding to the pairs\<close>

definition onCtrl ::
  "(CECopyPair \<Rightarrow> ('d, bool \<times> CECopyPair) io) \<Rightarrow> CEManager \<Rightarrow> ('d, bool \<times> CEManager) io" where
  "onCtrl f m = (case fCtrl m of
       None \<Rightarrow> do { ub; ret (False, m) }
     | Some p \<Rightarrow> do { (ok, p) \<leftarrow> f p; ret (ok, m\<lparr>fCtrl := Some p\<rparr>) })"

definition onWmi ::
  "(CECopyPair \<Rightarrow> ('d, bool \<times> CECopyPair) io) \<Rightarrow> CEManager \<Rightarrow> ('d, bool \<times> CEManager) io" where
  "onWmi f m = (case fWmi m of
       None \<Rightarrow> do { ub; ret (False, m) }
     | Some p \<Rightarrow> do { (ok, p) \<leftarrow> f p; ret (ok, m\<lparr>fWmi := Some p\<rparr>) })"

definition ceSend :: "('d, 'h) hw_scheme \<Rightarrow> CEManager \<Rightarrow> u8 list \<Rightarrow> ('d, bool \<times> CEManager) io" where
  "ceSend H m buf = onCtrl (\<lambda>p. send H p buf) m"

definition cePostRecv :: "('d, 'h) hw_scheme \<Rightarrow> CEManager \<Rightarrow> ('d, bool \<times> CEManager) io" where
  "cePostRecv H m = onCtrl (postRecv H) m"

definition ceRecvWait :: "('d, 'h) hw_scheme \<Rightarrow> CEManager \<Rightarrow> u32 \<Rightarrow> ('d, bool \<times> CEManager) io" where
  "ceRecvWait H m ms = onCtrl (\<lambda>p. recvWait H p ms) m"

definition ceRxNbytes :: "CEManager \<Rightarrow> u32" where
  "ceRxNbytes m = (case fCtrl m of None \<Rightarrow> 0 | Some p \<Rightarrow> fRxNbytes p)"

definition wmiSend :: "('d, 'h) hw_scheme \<Rightarrow> CEManager \<Rightarrow> u8 list \<Rightarrow> ('d, bool \<times> CEManager) io" where
  "wmiSend H m buf = onWmi (\<lambda>p. send H p buf) m"

definition wmiRecvWait :: "('d, 'h) hw_scheme \<Rightarrow> CEManager \<Rightarrow> u32 \<Rightarrow> ('d, bool \<times> CEManager) io" where
  "wmiRecvWait H m ms = onWmi (\<lambda>p. recvWait H p ms) m"

definition wmiRxNbytes :: "CEManager \<Rightarrow> u32" where
  "wmiRxNbytes m = (case fWmi m of None \<Rightarrow> 0 | Some p \<Rightarrow> fRxNbytes p)"

text \<open>The two guarded posts on CE2.\<close>

definition armRecv :: "('d, 'h) hw_scheme \<Rightarrow> CECopyPair \<Rightarrow> ('d, bool \<times> CECopyPair) io" where
  "armRecv H p = (if rxArmed p = 0 then postRecv H p else ret (True, p))"

definition wmiArmRecv :: "('d, 'h) hw_scheme \<Rightarrow> CEManager \<Rightarrow> ('d, CEManager) io" where
  "wmiArmRecv H m = do { (_, m) \<leftarrow> onWmi (armRecv H) m; ret m }"

definition postRecvIfIdle :: "('d, 'h) hw_scheme \<Rightarrow> CECopyPair \<Rightarrow> ('d, bool \<times> CECopyPair) io" where
  "postRecvIfIdle H p = (if rxArmed p \<noteq> 0 then ret (True, p) else postRecv H p)"

definition wmiPostRecvIfIdle :: "('d, 'h) hw_scheme \<Rightarrow> CEManager \<Rightarrow> ('d, bool \<times> CEManager) io" where
  "wmiPostRecvIfIdle H m = onWmi (postRecvIfIdle H) m"

text \<open>
  The caller's reads through \<open>rxBuf()\<close>: \<open>n\<close> bytes from offset \<open>off\<close> of the receive buffer.  A
  read that leaves the DMA region is undefined behaviour.
\<close>

definition inRegion :: "CECopyPair \<Rightarrow> nat \<Rightarrow> nat \<Rightarrow> bool" where
  "inRegion p a n \<longleftrightarrow> (case fRegionCpu (region p) of None \<Rightarrow> False
     | Some base \<Rightarrow> base \<le> a \<and> a + n \<le> base + unat (fRegionSize (region p)))"

definition rxLoad :: "CECopyPair option \<Rightarrow> nat \<Rightarrow> nat \<Rightarrow> ('d, u8 list) io" where
  "rxLoad p off n = (case p of
       None \<Rightarrow> do { ub; ret (replicate n 0) }
     | Some p \<Rightarrow> do {
         (if inRegion p (fRxCpu p + off) n then ret () else ub);
         load (fRxCpu p + off) n })"

text \<open>Diagnostic access; false while the window is not up.\<close>

definition ceDiagReadMem ::
  "('d, 'h) hw_scheme \<Rightarrow> CEManager \<Rightarrow> u32 \<Rightarrow> u32 \<Rightarrow> ('d, u8 list option \<times> CEManager) io" where
  "ceDiagReadMem H m targAddr len = (case fDiag m of None \<Rightarrow> ret (None, m)
     | Some g \<Rightarrow> do { (r, g) \<leftarrow> readMem H g targAddr len; ret (r, m\<lparr>fDiag := Some g\<rparr>) })"

definition ceDiagWriteMem ::
  "('d, 'h) hw_scheme \<Rightarrow> CEManager \<Rightarrow> u32 \<Rightarrow> u8 list \<Rightarrow> ('d, bool \<times> CEManager) io" where
  "ceDiagWriteMem H m targAddr buf = (case fDiag m of None \<Rightarrow> ret (False, m)
     | Some g \<Rightarrow> do { (r, g) \<leftarrow> writeMem H g targAddr buf; ret (r, m\<lparr>fDiag := Some g\<rparr>) })"

definition ceDiagRead32 ::
  "('d, 'h) hw_scheme \<Rightarrow> CEManager \<Rightarrow> u32 \<Rightarrow> ('d, u32 option \<times> CEManager) io" where
  "ceDiagRead32 H m targAddr = (case fDiag m of None \<Rightarrow> ret (None, m)
     | Some g \<Rightarrow> do { (r, g) \<leftarrow> diagRead32 H g targAddr; ret (r, m\<lparr>fDiag := Some g\<rparr>) })"

definition ceDiagWrite32 ::
  "('d, 'h) hw_scheme \<Rightarrow> CEManager \<Rightarrow> u32 \<Rightarrow> u32 \<Rightarrow> ('d, bool \<times> CEManager) io" where
  "ceDiagWrite32 H m targAddr val = (case fDiag m of None \<Rightarrow> ret (False, m)
     | Some g \<Rightarrow> do { (r, g) \<leftarrow> diagWrite32 H g targAddr val; ret (r, m\<lparr>fDiag := Some g\<rparr>) })"

end
