(* ===== verification/FramePort.thy ===== *)
theory FramePort
  imports CeManager
begin

text \<open>
  The interface the protocol layers rely on: a pair on which a frame can be sent, a receive
  buffer posted and a completion awaited.  Its contract is stated on the marks a log leaves
  on the pair: a receive buffer was armed, a frame was handed to the engine, a completed
  receive descriptor was consumed, or the run left the defined behaviour of the source.  The clients' lemmas are proved once from the contract;
  the control pair and the WMI pair of the manager are its two implementations.
\<close>

datatype mark = Armed | Sent "u8 list" | Got | Undef

locale frame_port =
  fixes put :: "'c \<Rightarrow> u8 list \<Rightarrow> ('d, bool \<times> 'c) io"
    and up :: "'c \<Rightarrow> bool"
    and marks :: "'c \<Rightarrow> event list \<Rightarrow> mark list"
    and cap :: nat
  assumes does_put: "up c \<Longrightarrow> does (put c b) (\<lambda>(ok, c') es. up c' \<and> marks c' = marks c \<and>
      (if ok then marks c es = [Sent b] \<and> 0 < length b \<and> length b \<le> cap
       else marks c es = [] \<or> marks c es = [Sent b]))"
    and marks_nil [simp]: "marks c [] = []"
    and marks_append [simp]: "marks c (xs @ ys) = marks c xs @ marks c ys"

text \<open>Sending a list of frames, stopping at the first that fails.\<close>

fun sendAll ::
  "('c \<Rightarrow> u8 list \<Rightarrow> ('d, bool \<times> 'c) io) \<Rightarrow> 'c \<Rightarrow> u8 list list \<Rightarrow> ('d, bool \<times> 'c) io" where
  "sendAll put c [] = ret (True, c)"
| "sendAll put c (f # fs) = do {
     (ok, c) \<leftarrow> put c f;
     if \<not> ok then ret (False, c) else sendAll put c fs }"

context frame_port
begin

lemma does_sendAll:
  assumes "up c"
  shows "does (sendAll put c fs) (\<lambda>(ok, c') es. up c' \<and> marks c' = marks c \<and>
     (if ok then marks c es = map Sent fs \<and> (\<forall>f \<in> set fs. 0 < length f \<and> length f \<le> cap)
      else \<exists>k \<le> length fs. marks c es = map Sent (take k fs)))"
  using assms
proof (induction fs arbitrary: c)
  case Nil
  then show ?case by (simp add: does_ret)
next
  case (Cons f fs)
  show ?case
    unfolding sendAll.simps
  proof (intro does_intros does_mono [OF does_put [OF Cons.prems]], goal_cases)
    case (1 r es ok c')
    then show ?case by (auto intro: exI [of _ 0] exI [of _ "Suc 0"])
  next
    case (2 r es ok c')
    then have c': "up c'" "marks c' = marks c" "marks c es = [Sent f]" "0 < length f"
      "length f \<le> cap"
      by auto
    show ?case
    proof (rule does_mono [OF Cons.IH [OF c'(1)]], goal_cases)
      case (1 r' fs')
      then show ?case
        using c' by (auto split: if_splits intro: exI [of _ "Suc _"])
    qed
  qed
qed

end

locale exchange_port = frame_port put up marks cap
  for put :: "'c \<Rightarrow> u8 list \<Rightarrow> ('d, bool \<times> 'c) io" and up marks cap +
  fixes post :: "'c \<Rightarrow> ('d, bool \<times> 'c) io"
    and await :: "'c \<Rightarrow> u32 \<Rightarrow> ('d, bool \<times> 'c) io"
  assumes does_post: "up c \<Longrightarrow> does (post c) (\<lambda>(ok, c') es. up c' \<and> marks c' = marks c \<and>
      ok \<and> marks c es = [Armed])"
    and does_await: "up c \<Longrightarrow> does (await c ms) (\<lambda>(ok, c') es. up c' \<and> marks c' = marks c \<and>
      marks c es = (if ok then [Got] else []))"

section \<open>The pairs of the manager are exchange ports\<close>

definition pairUp :: "CECopyPair \<Rightarrow> bool" where
  "pairUp p \<longleftrightarrow> laidOut p \<and> unat (fSrcWrite p) < 16 \<and> unat (fDstWrite p) < 16 \<and>
     unat (fDstSw p) < 16 \<and> (fSrcCe p, fDstCe p) \<in> {(0, 1), (3, 2)}"

fun markOf :: "CECopyPair \<Rightarrow> event \<Rightarrow> mark option" where
  "markOf p (WrReg a v) = (if a = ceBase (fDstCe p) + kCEDSTWrIndex then Some Armed else None)"
| "markOf p (St a xs) = (if a = fTxCpu p then Some (Sent xs) else None)"
| "markOf p (Ld a b) = (if fDstDesc p \<le> a \<and> a < fDstDesc p + 128 \<and> nbytes (descOf b) \<noteq> 0
     then Some Got else None)"
| "markOf p Fault = Some Undef"
| "markOf p _ = None"

primrec pairMarks :: "CECopyPair \<Rightarrow> event list \<Rightarrow> mark list" where
  "pairMarks p [] = []"
| "pairMarks p (e # es) =
     (case markOf p e of None \<Rightarrow> pairMarks p es | Some x \<Rightarrow> x # pairMarks p es)"

lemma pairMarks_append [simp]: "pairMarks p (xs @ ys) = pairMarks p xs @ pairMarks p ys"
  by (induction xs) (auto split: option.split)

lemma pairMarks_none: "\<forall>e \<in> set es. markOf p e = None \<Longrightarrow> pairMarks p es = []"
  by (induction es) simp_all

lemma pairMarks_polls [simp]: "polls off es \<Longrightarrow> pairMarks p es = []"
  by (rule pairMarks_none) (fastforce simp: polls_def)

lemma pairMarks_idle: "recvIdle p es \<Longrightarrow> pairMarks p es = []"
  by (rule pairMarks_none) (fastforce simp: recvIdle_def)

lemma pairMarks_cong:
  assumes "fDstCe q = fDstCe p" and "fTxCpu q = fTxCpu p" and "fDstDesc q = fDstDesc p"
  shows "pairMarks q = pairMarks p"
proof -
  have "markOf q e = markOf p e" for e
    using assms by (cases e) auto
  then have "pairMarks q es = pairMarks p es" for es
    by (induction es) (simp_all split: option.split)
  then show ?thesis ..
qed

lemma sendLog_marks:
  assumes "pairUp p" and "sendLog p buf ok p' es"
  shows "pairUp p' \<and> pairMarks p' = pairMarks p \<and>
    (if ok then pairMarks p es = [Sent buf] \<and> 0 < length buf \<and> length buf \<le> 2048
     else pairMarks p es = [] \<or> pairMarks p es = [Sent buf])"
  using assms(2)
proof (cases rule: sendLog.cases)
  case (kicked pre post)
  have "pairMarks p (kickEvs p buf) = [Sent buf]"
    using assms(1) by (auto simp: kickEvs_def pairUp_def laidOut_def descAt_def ceBase_def)
  moreover have "pairUp p'"
    using assms(1) kicked by (simp add: pairUp_def laidOut_def)
  ultimately show ?thesis
    using kicked by (auto simp: goodLen_def intro: pairMarks_cong)
qed (use assms(1) in simp_all)

lemma does_send_marks:
  "pairUp p \<Longrightarrow> does (send H p b) (\<lambda>(ok, p') es. pairUp p' \<and> pairMarks p' = pairMarks p \<and>
    (if ok then pairMarks p es = [Sent b] \<and> 0 < length b \<and> length b \<le> 2048
     else pairMarks p es = [] \<or> pairMarks p es = [Sent b]))"
  by (rule does_mono [OF does_send]) (use sendLog_marks in fastforce)

lemma does_postRecv_marks:
  "pairUp p \<Longrightarrow> does (postRecv H p) (\<lambda>(ok, p') es. pairUp p' \<and> pairMarks p' = pairMarks p \<and>
     ok \<and> pairMarks p es = [Armed])"
  by (rule does_mono [OF does_postRecv])
     (auto simp: armEvs_def pairUp_def laidOut_def descAt_def ceBase_def intro!: pairMarks_cong)

lemma recvLog_marks:
  assumes "pairUp p" and "recvLog p n ok p' es"
  shows "pairUp p' \<and> pairMarks p' = pairMarks p \<and> pairMarks p es = (if ok then [Got] else [])"
  using assms(2)
proof (cases rule: recvLog.cases)
  case (consumed idle v b)
  then show ?thesis
    using assms(1) pairMarks_idle [of p idle]
    by (auto simp: pairUp_def laidOut_def descAt_def intro: pairMarks_cong)
next
  case timedOut
  then show ?thesis using assms(1) by (simp add: pairMarks_idle)
qed

lemma does_recvWait_marks:
  "pairUp p \<Longrightarrow> does (recvWait H p ms) (\<lambda>(ok, p') es. pairUp p' \<and> pairMarks p' = pairMarks p \<and>
     pairMarks p es = (if ok then [Got] else []))"
  by (rule does_mono [OF does_recvWait]) (use recvLog_marks in fastforce)

lemma does_rxLoad_marks:
  assumes "pairUp p"
  shows "does (rxLoad (Some p) off n) (\<lambda>b es. length b = n \<and>
     pairMarks p es = (if off + n \<le> 4096 then [] else [Undef]) \<and>
     (\<exists>us. es = us @ [Ld (fRxCpu p + off) b] \<and> set us \<subseteq> {Fault}))"
  using assms unfolding rxLoad_def option.case
  by (intro does_intros)
     (auto simp: pairUp_def laidOut_def inRegion_def split: option.splits if_splits)

definition ctrlUp :: "CEManager \<Rightarrow> bool" where
  "ctrlUp m \<longleftrightarrow> (\<exists>p. fCtrl m = Some p \<and> pairUp p)"

definition ctrlMarks :: "CEManager \<Rightarrow> event list \<Rightarrow> mark list" where
  "ctrlMarks m es = (case fCtrl m of None \<Rightarrow> [] | Some p \<Rightarrow> pairMarks p es)"

definition wmiUp :: "CEManager \<Rightarrow> bool" where
  "wmiUp m \<longleftrightarrow> (\<exists>p. fWmi m = Some p \<and> pairUp p)"

definition wmiMarks :: "CEManager \<Rightarrow> event list \<Rightarrow> mark list" where
  "wmiMarks m es = (case fWmi m of None \<Rightarrow> [] | Some p \<Rightarrow> pairMarks p es)"

lemma does_onCtrl:
  assumes "ctrlUp m" and "\<And>p. pairUp p \<Longrightarrow> does (f p) (\<lambda>(ok, p') es. pairUp p' \<and>
      pairMarks p' = pairMarks p \<and> P ok (pairMarks p es))"
  shows "does (onCtrl f m) (\<lambda>(ok, m') es. ctrlUp m' \<and> ctrlMarks m' = ctrlMarks m \<and>
      P ok (ctrlMarks m es))"
proof -
  from assms(1) obtain p where p: "fCtrl m = Some p" "pairUp p"
    by (auto simp: ctrlUp_def)
  show ?thesis
    unfolding onCtrl_def p option.case
    by (intro does_intros does_mono [OF assms(2) [OF p(2)]])
       (auto simp: ctrlUp_def ctrlMarks_def p fun_eq_iff)
qed

lemma does_onWmi:
  assumes "wmiUp m" and "\<And>p. pairUp p \<Longrightarrow> does (f p) (\<lambda>(ok, p') es. pairUp p' \<and>
      pairMarks p' = pairMarks p \<and> P ok (pairMarks p es))"
  shows "does (onWmi f m) (\<lambda>(ok, m') es. wmiUp m' \<and> wmiMarks m' = wmiMarks m \<and>
      P ok (wmiMarks m es))"
proof -
  from assms(1) obtain p where p: "fWmi m = Some p" "pairUp p"
    by (auto simp: wmiUp_def)
  show ?thesis
    unfolding onWmi_def p option.case
    by (intro does_intros does_mono [OF assms(2) [OF p(2)]])
       (auto simp: wmiUp_def wmiMarks_def p fun_eq_iff)
qed

interpretation ctrlPort: exchange_port "ceSend H" ctrlUp ctrlMarks 2048 "cePostRecv H"
    "ceRecvWait H" for H :: "('d, 'h) hw_scheme"
proof unfold_locales
  fix c b assume "ctrlUp c"
  then show "does (ceSend H c b) (\<lambda>(ok, c') es. ctrlUp c' \<and> ctrlMarks c' = ctrlMarks c \<and>
      (if ok then ctrlMarks c es = [Sent b] \<and> 0 < length b \<and> length b \<le> 2048
       else ctrlMarks c es = [] \<or> ctrlMarks c es = [Sent b]))"
    unfolding ceSend_def by (rule does_onCtrl) (rule does_send_marks)
next
  fix c assume "ctrlUp c"
  then show "does (cePostRecv H c) (\<lambda>(ok, c') es. ctrlUp c' \<and> ctrlMarks c' = ctrlMarks c \<and>
      ok \<and> ctrlMarks c es = [Armed])"
    unfolding cePostRecv_def by (rule does_onCtrl) (rule does_postRecv_marks)
next
  fix c ms assume "ctrlUp c"
  then show "does (ceRecvWait H c ms) (\<lambda>(ok, c') es. ctrlUp c' \<and> ctrlMarks c' = ctrlMarks c \<and>
      ctrlMarks c es = (if ok then [Got] else []))"
    unfolding ceRecvWait_def by (rule does_onCtrl) (rule does_recvWait_marks)
qed (simp_all add: ctrlMarks_def split: option.split)

interpretation wmiPort: exchange_port "wmiSend H" wmiUp wmiMarks 2048 "onWmi (postRecv H)"
    "wmiRecvWait H" for H :: "('d, 'h) hw_scheme"
proof unfold_locales
  fix c b assume "wmiUp c"
  then show "does (wmiSend H c b) (\<lambda>(ok, c') es. wmiUp c' \<and> wmiMarks c' = wmiMarks c \<and>
      (if ok then wmiMarks c es = [Sent b] \<and> 0 < length b \<and> length b \<le> 2048
       else wmiMarks c es = [] \<or> wmiMarks c es = [Sent b]))"
    unfolding wmiSend_def by (rule does_onWmi) (rule does_send_marks)
next
  fix c assume "wmiUp c"
  then show "does (onWmi (postRecv H) c) (\<lambda>(ok, c') es. wmiUp c' \<and> wmiMarks c' = wmiMarks c \<and>
      ok \<and> wmiMarks c es = [Armed])"
    by (rule does_onWmi) (rule does_postRecv_marks)
next
  fix c ms assume "wmiUp c"
  then show "does (wmiRecvWait H c ms) (\<lambda>(ok, c') es. wmiUp c' \<and> wmiMarks c' = wmiMarks c \<and>
      wmiMarks c es = (if ok then [Got] else []))"
    unfolding wmiRecvWait_def by (rule does_onWmi) (rule does_recvWait_marks)
qed (simp_all add: wmiMarks_def split: option.split)

end
