(* ===== verification/Sample.thy ===== *)
theory Sample
  imports FramePort
begin

text \<open>
  A concrete chip and concrete objects, at which the properties of the other theories are
  instantiated.  The chip is a register file whose copy engines report an index as consumed as
  soon as it is written (the CURRENT_* registers lie 8 bytes above the index registers); every
  IOKit call succeeds.
\<close>

type_synonym chip = "u32 \<Rightarrow> u32"

definition sampleHw :: "chip hw" where
  "sampleHw = \<lparr>hwRead = (\<lambda>off d m. (d off, d, m)),
     hwWrite = (\<lambda>off v d m. (d(off := v, off + 8 := v), m)),
     hwDelay = (\<lambda>us d m. (d, m)),
     ioNew = (\<lambda>d. (True, d)), ioStack = (\<lambda>d. ([], d)), ioBmd = (\<lambda>n d. (True, d)),
     ioPrepare = (\<lambda>d. (True, d)), ioBytes = (\<lambda>d. (Some 0x10000, d)), ioDma = (\<lambda>d. (True, d)),
     ioSetMd = (\<lambda>d. (True, d)),
     ioGen64 = (\<lambda>d. ((True, 1, 0x20000, 0x100000), d))\<rparr>"

definition sampleWorld :: "chip world" where
  "sampleWorld = \<lparr>dev = (\<lambda>_. 0), ram = (\<lambda>_. 0), bus = []\<rparr>"

definition fullRg :: "nat \<Rightarrow> u64 \<Rightarrow> DmaRegion" where
  "fullRg cpu phys = \<lparr>fBmd = True, fDma = True, fBmdPrepared = True, fDmaPrepared = True,
     fRegionCpu = Some cpu, fRegionPhys = phys, fRegionSize = 16384\<rparr>"

definition samplePair :: "u32 \<Rightarrow> u32 \<Rightarrow> nat \<Rightarrow> u64 \<Rightarrow> CECopyPair" where
  "samplePair src dst cpu phys =
     \<lparr>fBar0 = True, fSrcCe = src, fDstCe = dst, region = fullRg cpu phys,
      fSrcDesc = cpu, fDstDesc = cpu + 4096, fTxCpu = cpu + 8192, fRxCpu = cpu + 12288,
      fTxPhys = phys + 8192, fRxPhys = phys + 12288,
      fSrcWrite = 0, fDstWrite = 0, fSrcSw = 0, fDstSw = 0, fRxNbytes = 0\<rparr>"

definition sampleCe :: CEManager where
  "sampleCe = \<lparr>mBar0 = True, fCtrl = Some (samplePair 0 1 0x10000 0x20000),
     fWmi = Some (samplePair 3 2 0x30000 0x40000), fDiag = None\<rparr>"

lemma samplePair_up [simp]:
  "(src, dst) \<in> {(0, 1), (3, 2)} \<Longrightarrow> pairUp (samplePair src dst cpu phys)"
  by (auto simp: samplePair_def pairUp_def laidOut_def fullRg_def)

lemma sampleCe_up [simp]: "ctrlUp sampleCe" "wmiUp sampleCe"
  by (simp_all add: ctrlUp_def wmiUp_def sampleCe_def)

end
