(* ===== verification/Bmi.thy ===== *)
theory Bmi
  imports Sample
begin

text \<open>
  The boot-monitor protocol of \<open>skeleton/BMI.hpp\<close> and \<open>skeleton/BMI.cpp\<close> (class \<open>Bmi\<close>):
  commands go out on CE0, responses come back on CE1.  A method takes the manager \<open>fCe\<close>
  points to and the object, and returns both; a command struct is the list of its bytes.
\<close>

section \<open>Commands\<close>

definition kBmiDone :: u32 where [simp]: "kBmiDone = 1"
definition kBmiReadMemory :: u32 where [simp]: "kBmiReadMemory = 2"
definition kBmiWriteMemory :: u32 where [simp]: "kBmiWriteMemory = 3"
definition kBmiExecute :: u32 where [simp]: "kBmiExecute = 4"
definition kBmiGetTargetInfo :: u32 where [simp]: "kBmiGetTargetInfo = 8"
definition kBmiLzStreamStart :: u32 where [simp]: "kBmiLzStreamStart = 13"
definition kBmiLzData :: u32 where [simp]: "kBmiLzData = 14"
definition kBmiMaxDataSize :: nat where [simp]: "kBmiMaxDataSize = 256"

definition cmdGetTargetInfo :: "u8 list" where
  "cmdGetTargetInfo = le32 kBmiGetTargetInfo"

definition cmdDone :: "u8 list" where
  "cmdDone = le32 kBmiDone"

definition cmdReadMemory :: "u32 \<Rightarrow> u32 \<Rightarrow> u8 list" where
  "cmdReadMemory adr len = le32 kBmiReadMemory @ le32 adr @ le32 len"

definition cmdWriteMemory :: "u32 \<Rightarrow> u32 \<Rightarrow> u8 list \<Rightarrow> u8 list" where
  "cmdWriteMemory adr len payload =
     le32 kBmiWriteMemory @ le32 adr @ le32 len @ take (unat len) payload"

definition cmdExecute :: "u32 \<Rightarrow> u32 \<Rightarrow> u8 list" where
  "cmdExecute adr param = le32 kBmiExecute @ le32 adr @ le32 param"

definition cmdLzStart :: "u32 \<Rightarrow> u8 list" where
  "cmdLzStart adr = le32 kBmiLzStreamStart @ le32 adr"

definition cmdLzData :: "u8 list \<Rightarrow> u8 list" where
  "cmdLzData payload = le32 kBmiLzData @ le32 (of_nat (length payload)) @ payload"

record Bmi =
  fTargetVersion :: u32
  fTargetType :: u32
  fLastStage :: string
  fDoneSent :: bool

definition newBmi :: Bmi where
  "newBmi = \<lparr>fTargetVersion = 0, fTargetType = 0, fLastStage = ''idle'', fDoneSent = False\<rparr>"

section \<open>Exchanges with a response\<close>

text \<open>The response bytes, or \<open>None\<close> where the method returns false.\<close>

definition exchangeWait ::
  "('d, 'h) hw_scheme \<Rightarrow> CEManager \<Rightarrow> Bmi \<Rightarrow> u8 list \<Rightarrow> nat \<Rightarrow>
     ('d, u8 list option \<times> CEManager \<times> Bmi) io" where
  "exchangeWait H ce b cmd respLen =
     (if fDoneSent b then ret (None, ce, b\<lparr>fLastStage := ''after-done''\<rparr>) else do {
        let b = b\<lparr>fLastStage := ''post-recv''\<rparr>;
        (ok, ce) \<leftarrow> cePostRecv H ce;
        if \<not> ok then ret (None, ce, b) else do {
          let b = b\<lparr>fLastStage := ''send''\<rparr>;
          (ok, ce) \<leftarrow> ceSend H ce cmd;
          if \<not> ok then ret (None, ce, b) else do {
            let b = b\<lparr>fLastStage := ''recv-wait''\<rparr>;
            (ok, ce) \<leftarrow> ceRecvWait H ce kQCAExchangeTimeout_ms;
            if \<not> ok then ret (None, ce, b) else do {
              let b = b\<lparr>fLastStage := ''short-resp''\<rparr>;
              if unat (ceRxNbytes ce) < respLen then ret (None, ce, b) else do {
                resp \<leftarrow> rxLoad (fCtrl ce) 0 respLen;
                ret (Some resp, ce, b\<lparr>fLastStage := ''ok''\<rparr>) } } } } })"

definition word32At :: "u8 list \<Rightarrow> nat \<Rightarrow> u32" where
  "word32At b i = get32 (b ! i) (b ! (i + 1)) (b ! (i + 2)) (b ! (i + 3))"

text \<open>The null checks of \<open>txBuf()\<close> and \<open>rxBuf()\<close>.\<close>

definition buffersUp :: "CEManager \<Rightarrow> bool" where
  "buffersUp ce = (case fCtrl ce of None \<Rightarrow> False | Some p \<Rightarrow> fTxCpu p \<noteq> 0 \<and> fRxCpu p \<noteq> 0)"

definition getTargetInfo ::
  "('d, 'h) hw_scheme \<Rightarrow> CEManager \<Rightarrow> Bmi \<Rightarrow> ('d, bool \<times> CEManager \<times> Bmi) io" where
  "getTargetInfo H ce b = do {
     (if fCtrl ce = None then ub else ret ());
     if \<not> buffersUp ce then ret (False, ce, b) else do {
       (r, ce, b) \<leftarrow> exchangeWait H ce b cmdGetTargetInfo 12;
       case r of None \<Rightarrow> ret (False, ce, b)
       | Some resp \<Rightarrow> ret (True, ce,
           b\<lparr>fTargetVersion := word32At resp 4, fTargetType := word32At resp 8\<rparr>) } }"

definition targetFamily :: "u32 \<Rightarrow> string" where
  "targetFamily version =
     (if version AND 0xffff0000 = 0x05020000 then ''qca6174-family (QCA9377)'' else ''unknown'')"

text \<open>\<open>outp\<close>: the destination pointer is not null.\<close>

definition readMemory ::
  "('d, 'h) hw_scheme \<Rightarrow> CEManager \<Rightarrow> Bmi \<Rightarrow> u32 \<Rightarrow> bool \<Rightarrow> u32 \<Rightarrow>
     ('d, u8 list option \<times> CEManager \<times> Bmi) io" where
  "readMemory H ce b adr outp len =
     (if \<not> outp \<or> len = 0 \<or> unat len > kBmiMaxDataSize then ret (None, ce, b)
      else exchangeWait H ce b (cmdReadMemory adr len) (unat len))"

definition execute ::
  "('d, 'h) hw_scheme \<Rightarrow> CEManager \<Rightarrow> Bmi \<Rightarrow> u32 \<Rightarrow> u32 \<Rightarrow>
     ('d, u32 option \<times> CEManager \<times> Bmi) io" where
  "execute H ce b adr param = do {
     (r, ce, b) \<leftarrow> exchangeWait H ce b (cmdExecute adr param) 4;
     ret (map_option (\<lambda>resp. word32At resp 0) r, ce, b) }"

section \<open>Send-only transfers\<close>

text \<open>
  The chunk loop of \<open>writeMemory\<close>, over the send it is given.  \<open>payload\<close> is the local array
  \<open>cmd.payload\<close>: only its first \<open>tx\<close> bytes are overwritten by a round, so the bytes that pad a
  chunk are those of an earlier round or of the uninitialised stack.
\<close>

definition chunkCap :: nat where [simp]: "chunkCap = kBmiMaxDataSize - 12"

function writeLoop ::
  "('c \<Rightarrow> u8 list \<Rightarrow> ('d, bool \<times> 'c) io) \<Rightarrow> 'c \<Rightarrow> u8 list \<Rightarrow> u32 \<Rightarrow> u8 list \<Rightarrow>
     ('d, bool \<times> 'c) io" where
  "writeLoop out c payload adr p =
     (if p = [] then ret (True, c) else do {
        let tx = (if length p < chunkCap then length p else chunkCap);
        let payload = take tx p @ drop tx payload;
        (ok, c) \<leftarrow> out c (cmdWriteMemory adr (pad4 (of_nat tx)) payload);
        if \<not> ok then ret (False, c)
        else writeLoop out c payload (adr + of_nat tx) (drop tx p) })"
  by pat_completeness auto
termination
  by (relation "measure (\<lambda>(out, c, payload, adr, p). length p)") auto

declare writeLoop.simps [simp del]

definition writeMemory ::
  "('d, 'h) hw_scheme \<Rightarrow> CEManager \<Rightarrow> u32 \<Rightarrow> u8 list option \<Rightarrow> ('d, bool \<times> CEManager) io" where
  "writeMemory H ce adr buf = (case buf of None \<Rightarrow> ret (False, ce)
     | Some p \<Rightarrow> if p = [] then ret (False, ce) else do {
         payload \<leftarrow> stackBytes H kBmiMaxDataSize;
         writeLoop (ceSend H) ce payload adr p })"

definition kHostInterestAddress :: u32 where [simp]: "kHostInterestAddress = 0x00400800"

definition bmiRead32 ::
  "('d, 'h) hw_scheme \<Rightarrow> CEManager \<Rightarrow> Bmi \<Rightarrow> u32 \<Rightarrow> ('d, u32 option \<times> CEManager \<times> Bmi) io" where
  "bmiRead32 H ce b itemOffset = do {
     (r, ce, b) \<leftarrow> readMemory H ce b (kHostInterestAddress + itemOffset) True 4;
     ret (map_option (\<lambda>resp. word32At resp 0) r, ce, b) }"

definition bmiWrite32 ::
  "('d, 'h) hw_scheme \<Rightarrow> CEManager \<Rightarrow> u32 \<Rightarrow> u32 \<Rightarrow> ('d, bool \<times> CEManager) io" where
  "bmiWrite32 H ce itemOffset val =
     writeMemory H ce (kHostInterestAddress + itemOffset) (Some (le32 val))"

text \<open>The LZ stream: aligned chunks, one zero-padded trailer, and a flush.\<close>

definition lzCap :: nat where [simp]: "lzCap = kBmiMaxDataSize - 8"

function lzLoop ::
  "('c \<Rightarrow> u8 list \<Rightarrow> ('d, bool \<times> 'c) io) \<Rightarrow> 'c \<Rightarrow> u8 list \<Rightarrow> ('d, bool \<times> 'c) io" where
  "lzLoop out c p =
     (if p = [] then ret (True, c) else do {
        let tx = (if length p < lzCap then length p else lzCap);
        (ok, c) \<leftarrow> out c (cmdLzData (take tx p));
        if \<not> ok then ret (False, c) else lzLoop out c (drop tx p) })"
  by pat_completeness auto
termination
  by (relation "measure (\<lambda>(out, c, p). length p)") auto

declare lzLoop.simps [simp del]

definition lzStream ::
  "('c \<Rightarrow> u8 list \<Rightarrow> ('d, bool \<times> 'c) io) \<Rightarrow> 'c \<Rightarrow> u32 \<Rightarrow> u8 list \<Rightarrow> ('d, bool \<times> 'c) io" where
  "lzStream out c adr p = do {
     (ok, c) \<leftarrow> out c (cmdLzStart adr);
     if \<not> ok then ret (False, c) else do {
       let tail = length p mod 4;
       let remaining = length p - tail;
       (ok, c) \<leftarrow> lzLoop out c (take remaining p);
       if \<not> ok then ret (False, c) else do {
         (ok, c) \<leftarrow> (if tail \<noteq> 0
            then out c (cmdLzData (drop remaining p @ replicate (4 - tail) 0))
            else ret (True, c));
         if \<not> ok then ret (False, c) else out c (cmdLzStart 0) } } }"

definition fastDownload ::
  "('d, 'h) hw_scheme \<Rightarrow> CEManager \<Rightarrow> u32 \<Rightarrow> u8 list option \<Rightarrow> ('d, bool \<times> CEManager) io" where
  "fastDownload H ce adr buf = (case buf of None \<Rightarrow> ret (False, ce)
     | Some p \<Rightarrow> if p = [] then ret (False, ce) else lzStream (ceSend H) ce adr p)"

definition bmiDone ::
  "('d, 'h) hw_scheme \<Rightarrow> CEManager \<Rightarrow> Bmi \<Rightarrow> ('d, bool \<times> CEManager \<times> Bmi) io" where
  "bmiDone H ce b = do {
     (ok, ce) \<leftarrow> ceSend H ce cmdDone;
     if \<not> ok then ret (False, ce, b) else ret (True, ce, b\<lparr>fDoneSent := True\<rparr>) }"

section \<open>The frames of a transfer\<close>

text \<open>The frames \<open>writeLoop\<close> sends, and the loop as a send of exactly these.\<close>

function writeFrames :: "u8 list \<Rightarrow> u32 \<Rightarrow> u8 list \<Rightarrow> u8 list list" where
  "writeFrames payload adr p =
     (if p = [] then [] else
        let tx = min (length p) 244; payload = take tx p @ drop tx payload in
        cmdWriteMemory adr (pad4 (of_nat tx)) payload #
        writeFrames payload (adr + of_nat tx) (drop tx p))"
  by pat_completeness auto
termination
  by (relation "measure (\<lambda>(payload, adr, p). length p)") (auto simp: min_def)

declare writeFrames.simps [simp del]

lemma writeFrames_Nil [simp]: "writeFrames payload adr [] = []"
  by (simp add: writeFrames.simps)

lemma writeLoop_sendAll:
  "writeLoop out c payload adr p = sendAll out c (writeFrames payload adr p)"
proof (induction p arbitrary: c payload adr rule: length_induct)
  case (1 p)
  show ?case
  proof (cases "p = []")
    case True
    then show ?thesis by (simp add: writeLoop.simps)
  next
    case False
    then have "length (drop (min (length p) 244) p) < length p" by simp
    with "1.IH" False show ?thesis
      by (simp add: writeLoop.simps [of out c payload adr p] writeFrames.simps [of payload adr p]
            min_def Let_def cong: if_cong)
  qed
qed

function lzFrames :: "u8 list \<Rightarrow> u8 list list" where
  "lzFrames p = (if p = [] then [] else
     let tx = min (length p) 248 in cmdLzData (take tx p) # lzFrames (drop tx p))"
  by pat_completeness auto
termination
  by (relation "measure length") (auto simp: min_def)

declare lzFrames.simps [simp del]

lemma lzFrames_Nil [simp]: "lzFrames [] = []"
  by (simp add: lzFrames.simps)

lemma lzLoop_sendAll: "lzLoop out c p = sendAll out c (lzFrames p)"
proof (induction p arbitrary: c rule: length_induct)
  case (1 p)
  show ?case
  proof (cases "p = []")
    case True
    then show ?thesis by (simp add: lzLoop.simps)
  next
    case False
    then have "length (drop (min (length p) 248) p) < length p" by simp
    with "1.IH" False show ?thesis
      by (simp add: lzLoop.simps [of out c p] lzFrames.simps [of p] min_def Let_def
            cong: if_cong)
  qed
qed

definition streamFrames :: "u32 \<Rightarrow> u8 list \<Rightarrow> u8 list list" where
  "streamFrames adr p =
     (let tail = length p mod 4; n = length p - tail in
      cmdLzStart adr # lzFrames (take n p) @
      (if tail = 0 then [] else [cmdLzData (drop n p @ replicate (4 - tail) 0)]) @ [cmdLzStart 0])"

lemma bind_step:
  "(case r of (ok, c) \<Rightarrow> if \<not> ok then ret (False, c) else f c) \<bind>
     (\<lambda>(ok, c). if \<not> ok then ret (False, c) else g c) =
   (case r of (ok, c) \<Rightarrow> if \<not> ok then ret (False, c) else
     f c \<bind> (\<lambda>(ok, c). if \<not> ok then ret (False, c) else g c))"
  by (cases r) simp

lemma step_ret: "(\<lambda>(ok, c). if \<not> ok then ret (False, c) else ret (True, c)) = ret"
  by (auto simp: fun_eq_iff)

lemma sendAll_append:
  "sendAll out c (fs @ gs) = do {
     (ok, c) \<leftarrow> sendAll out c fs; if \<not> ok then ret (False, c) else sendAll out c gs }"
  by (induction fs arbitrary: c) (simp_all add: bind_step cong: if_cong)

lemma sendAll_single: "sendAll out c [f] = out c f"
  by (simp add: step_ret cong: if_cong)

lemma sendAll_pair:
  "sendAll out c [f, g] = do { (ok, c) \<leftarrow> out c f; if \<not> ok then ret (False, c) else out c g }"
  by (simp add: step_ret cong: if_cong)

lemma lzStream_sendAll: "lzStream out c adr p = sendAll out c (streamFrames adr p)"
proof (cases "length p mod 4 = 0")
  case True
  then show ?thesis
    by (simp add: lzStream_def streamFrames_def lzLoop_sendAll sendAll_append step_ret Let_def
      sendAll.simps(2) [of out c "cmdLzStart adr"] sendAll_single sendAll_pair
      del: sendAll.simps cong: if_cong)
next
  case False
  then show ?thesis
    by (simp add: lzStream_def streamFrames_def lzLoop_sendAll sendAll_append step_ret Let_def
      sendAll.simps(2) [of out c "cmdLzStart adr"] sendAll_single sendAll_pair
      del: sendAll.simps cong: if_cong)
qed

section \<open>What the frames mean to the boot monitor\<close>

text \<open>
  BMI_WRITE_MEMORY as documented: the payload goes to the given address; any other frame
  leaves target memory alone.
\<close>

definition bmiWriteOf :: "u8 list \<Rightarrow> (u32 \<times> u8 list) option" where
  "bmiWriteOf f = do {
     c \<leftarrow> u32At f 0; adr \<leftarrow> u32At f 4; n \<leftarrow> u32At f 8;
     if c = 3 \<and> length f = 12 + unat n then Some (adr, drop 12 f) else None }"

definition applyWrite :: "u8 list \<Rightarrow> mem \<Rightarrow> mem" where
  "applyWrite f m = (case bmiWriteOf f of None \<Rightarrow> m | Some (adr, bs) \<Rightarrow> stBytes (unat adr) bs m)"

lemma bmiWriteOf_cmd:
  assumes "unat n \<le> length payload"
  shows "bmiWriteOf (cmdWriteMemory adr n payload) = Some (adr, take (unat n) payload)"
proof -
  have "u32At (cmdWriteMemory adr n payload) 8 = Some n"
    using u32At_append [of "le32 3 @ le32 adr" n] by (simp add: cmdWriteMemory_def)
  then show ?thesis
    using assms by (simp add: bmiWriteOf_def cmdWriteMemory_def)
qed

lemma length_cmdWriteMemory:
  "unat n \<le> length payload \<Longrightarrow> length (cmdWriteMemory adr n payload) = 12 + unat n"
  by (simp add: cmdWriteMemory_def)

lemma chunk_facts:
  assumes "length p \<le> 244"
  shows "unat (pad4 (of_nat (length p))) = (length p + 3) div 4 * 4"
  using assms by (simp add: unat_pad4 unat_of_nat)

lemma writeFrames_effect:
  assumes "unat adr + length p + 3 < 2 ^ 32" and "length payload = 256"
  shows "\<exists>junk. length junk < 4 \<and> (\<forall>m. fold applyWrite (writeFrames payload adr p) m =
      stBytes (unat adr) (p @ junk) m)"
  using assms
proof (induction payload adr p rule: writeFrames.induct)
  case (1 payload adr p)
  consider "p = []" | "p \<noteq> []" "length p \<le> 244" | "length p > 244" by linarith
  then show ?case
  proof cases
    case 1
    then show ?thesis by (auto intro!: exI [of _ "[]"] simp: stBytes_def fun_eq_iff)
  next
    case 2
    let ?n = "(length p + 3) div 4 * 4"
    have n: "?n < length p + 4" "length p \<le> ?n" "?n \<le> 244" using 2 by presburger+
    have "applyWrite (cmdWriteMemory adr (pad4 (of_nat (length p))) (p @ drop (length p) payload)) =
        stBytes (unat adr) (take ?n (p @ drop (length p) payload))"
      using n 2 "1.prems" by (simp add: fun_eq_iff applyWrite_def bmiWriteOf_cmd chunk_facts)
    then show ?thesis
      using n 2 "1.prems"
      by (intro exI [of _ "take (?n - length p) (drop (length p) payload)"])
         (simp add: writeFrames.simps [of payload adr p] Let_def)
  next
    case 3
    then have "p \<noteq> []" by auto
    have "unat (adr + 244) = unat adr + 244"
      using "1.prems"(1) 3 by (simp add: unat_word_ariths)
    then obtain junk where j: "length junk < 4"
      "\<And>m. fold applyWrite (writeFrames (take 244 p @ drop 244 payload) (adr + 244) (drop 244 p)) m =
         stBytes (unat adr + 244) (drop 244 p @ junk) m"
      using "1.IH" [of 244 "take 244 p @ drop 244 payload"] 3 \<open>p \<noteq> []\<close> "1.prems" by (auto simp: min_def)
    have "applyWrite (cmdWriteMemory adr 244 (take 244 p @ drop 244 payload)) =
        stBytes (unat adr) (take 244 p)"
      using 3 "1.prems" by (simp add: fun_eq_iff applyWrite_def bmiWriteOf_cmd)
    moreover have "pad4 244 = 244" by (simp add: pad4_def)
    ultimately have "fold applyWrite (writeFrames payload adr p) m = stBytes (unat adr) (p @ junk) m" for m
      using 3 j(2) stBytes_append [of "unat adr" "take 244 p" "drop 244 p @ junk" m]
      by (auto simp: writeFrames.simps [of payload adr p] Let_def
            simp flip: append_assoc)
    with j(1) show ?thesis by blast
  qed
qed

lemma writeFrames_length:
  "length payload = 256 \<Longrightarrow> \<forall>f \<in> set (writeFrames payload adr p). length f \<le> 256"
proof (induction payload adr p rule: writeFrames.induct)
  case (1 payload adr p)
  have "unat (pad4 (of_nat (min (length p) 244))) \<le> 244"
    by (simp add: unat_pad4 unat_of_nat min_def) linarith
  then show ?case
    using 1 by (auto simp: writeFrames.simps [of payload adr p] Let_def length_cmdWriteMemory)
qed

text \<open>The LZ stream, read back: the payloads of the LZ_DATA frames, in order.\<close>

definition lzPayload :: "u8 list \<Rightarrow> u8 list" where
  "lzPayload f = (if u32At f 0 = Some 14 then drop 8 f else [])"

definition lzWellFormed :: "u8 list \<Rightarrow> bool" where
  "lzWellFormed f \<longleftrightarrow> (u32At f 0 = Some 14 \<longrightarrow>
     u32At f 4 = Some (of_nat (length f - 8)) \<and> length f mod 4 = 0) \<and> length f \<le> 256"

lemma lzPayload_data [simp]: "lzPayload (cmdLzData p) = p"
  by (simp add: lzPayload_def cmdLzData_def)

lemma lzPayload_start [simp]: "lzPayload (cmdLzStart a) = []"
  by (simp add: lzPayload_def cmdLzStart_def)

lemma lzWellFormed_data [simp]:
  "lzWellFormed (cmdLzData p) \<longleftrightarrow> length p mod 4 = 0 \<and> length p \<le> 248"
  by (auto simp: lzWellFormed_def cmdLzData_def) presburger+

lemma lzWellFormed_start [simp]: "lzWellFormed (cmdLzStart a)"
  by (simp add: lzWellFormed_def cmdLzStart_def)

lemma lzFrames_spec:
  "concat (map lzPayload (lzFrames p)) = p \<and>
   (length p mod 4 = 0 \<longrightarrow> (\<forall>f \<in> set (lzFrames p). lzWellFormed f))"
proof (induction p rule: lzFrames.induct)
  case (1 p)
  have "(length p - 248) mod 4 = 0" if "length p mod 4 = 0"
    using that by presburger
  then show ?case
    using 1 by (auto simp: lzFrames.simps [of p] Let_def min_def)
qed

lemma streamFrames_spec:
  "concat (map lzPayload (streamFrames adr p)) = p @ replicate ((4 - length p mod 4) mod 4) 0 \<and>
   (\<forall>f \<in> set (streamFrames adr p). lzWellFormed f) \<and>
   hd (streamFrames adr p) = cmdLzStart adr \<and> last (streamFrames adr p) = cmdLzStart 0"
proof -
  let ?n = "length p - length p mod 4"
  have n: "min (length p) ?n mod 4 = 0"
    by (simp add: min_def minus_mod_eq_mult_div) presburger
  then show ?thesis
    using lzFrames_spec [of "take ?n p"]
    by (auto simp: streamFrames_def Let_def)
qed

section \<open>Exchanges\<close>

text \<open>The marks of a complete exchange, in order: the receive buffer is armed first.\<close>

definition exchangeMarks :: "u8 list \<Rightarrow> mark list" where
  "exchangeMarks cmd = [Armed, Sent cmd, Got]"

lemma does_rxLoad_ctrl:
  assumes "ctrlUp ce" and "off + n \<le> 4096"
  shows "does (rxLoad (fCtrl ce) off n) (\<lambda>b es. length b = n \<and> ctrlMarks ce es = [])"
proof -
  from assms(1) obtain p where p: "fCtrl ce = Some p" "pairUp p"
    by (auto simp: ctrlUp_def)
  show ?thesis
    unfolding p by (rule does_mono [OF does_rxLoad_marks [OF p(2)]])
      (use assms(2) p in \<open>auto simp: ctrlMarks_def\<close>)
qed

lemma does_exchangeWait:
  assumes "ctrlUp ce" and "n \<le> 4096" and "\<not> fDoneSent b"
  shows "does (exchangeWait H ce b cmd n) (\<lambda>(r, ce', b') es. ctrlUp ce' \<and>
     ctrlMarks ce' = ctrlMarks ce \<and> \<not> fDoneSent b' \<and>
     (case r of Some resp \<Rightarrow> length resp = n \<and> fLastStage b' = ''ok'' \<and>
          ctrlMarks ce es = exchangeMarks cmd
      | None \<Rightarrow> \<exists>k. ctrlMarks ce es = take k (exchangeMarks cmd)))"
proof -
  have k: "\<exists>k. [] = take k (exchangeMarks cmd)" "\<exists>k. [Armed] = take k (exchangeMarks cmd)"
    "\<exists>k. [Armed, Sent cmd] = take k (exchangeMarks cmd)"
    "\<exists>k. [Armed, Sent cmd, Got] = take k (exchangeMarks cmd)"
    unfolding exchangeMarks_def
    by (rule exI [of _ 0] exI [of _ 1] exI [of _ 2] exI [of _ 3], simp)+
  show ?thesis
    using assms(3) unfolding exchangeWait_def Let_def
    apply simp
    apply (rule does_bindP [OF ctrlPort.does_post [OF assms(1)]], clarsimp)
    apply (rule does_bindP [OF ctrlPort.does_put], assumption, clarsimp)
    apply (intro does_intros conjI impI)
    apply (fastforce simp: k)
    apply (rule does_mono [OF ctrlPort.does_await], simp)
    apply (intro does_intros)
    apply (fastforce simp: k)
    apply (fastforce simp: k)
    apply (rule does_mono [OF does_rxLoad_ctrl], simp)
    using assms(2) apply simp
    apply (intro does_intros)
    apply (auto simp: exchangeMarks_def)
    done
qed

lemma does_writeMemory:
  assumes "ctrlUp ce"
  shows "does (writeMemory H ce adr (Some p)) (\<lambda>(ok, ce') es. ctrlUp ce' \<and>
     ctrlMarks ce' = ctrlMarks ce \<and> (ok \<longrightarrow> p \<noteq> []) \<and>
     (\<exists>payload k. length payload = 256 \<and>
        ctrlMarks ce es = map Sent (take k (writeFrames payload adr p)) \<and>
        (ok \<longrightarrow> k = length (writeFrames payload adr p))))"
proof (cases "p = []")
  case True
  then show ?thesis
    using assms
    by (auto simp: writeMemory_def intro!: does_ret exI [of _ "replicate 256 0"])
next
  case False
  then show ?thesis
    unfolding writeMemory_def writeLoop_sendAll
    apply (simp del: sendAll.simps)
    apply (intro does_intros)
    apply (rule does_mono [OF ctrlPort.does_sendAll [OF assms]])
    apply (fastforce split: if_splits)
    done
qed

lemma does_fastDownload:
  assumes "ctrlUp ce"
  shows "does (fastDownload H ce adr (Some p)) (\<lambda>(ok, ce') es. ctrlUp ce' \<and>
     ctrlMarks ce' = ctrlMarks ce \<and> (ok \<longrightarrow> p \<noteq> []) \<and>
     (\<exists>k. ctrlMarks ce es = map Sent (take k (streamFrames adr p)) \<and>
        (ok \<longrightarrow> k = length (streamFrames adr p))))"
proof (cases "p = []")
  case True
  then show ?thesis
    using assms by (auto simp: fastDownload_def intro!: does_ret exI [of _ 0])
next
  case False
  then show ?thesis
    unfolding fastDownload_def lzStream_sendAll
    apply (simp del: sendAll.simps)
    apply (rule does_mono [OF ctrlPort.does_sendAll [OF assms]])
    apply (fastforce split: if_splits)
    done
qed

lemma does_bmiDone:
  assumes "ctrlUp ce"
  shows "does (bmiDone H ce b) (\<lambda>(ok, ce', b') es. ctrlUp ce' \<and> ctrlMarks ce' = ctrlMarks ce \<and>
     (if ok then ctrlMarks ce es = [Sent cmdDone] \<and> fDoneSent b'
      else b' = b \<and> (ctrlMarks ce es = [] \<or> ctrlMarks ce es = [Sent cmdDone])))"
  unfolding bmiDone_def
  apply (rule does_bindP [OF ctrlPort.does_put [OF assms]], clarsimp)
  apply (intro does_intros conjI impI)
  apply auto
  done

lemma writeFrames_good:
  assumes "unat adr + length p + 3 < 2 ^ 32" and "length payload = 256"
  shows "\<exists>junk. length junk < 4 \<and> (\<forall>f \<in> set (writeFrames payload adr p). length f \<le> 256) \<and>
     (\<forall>m. fold applyWrite (writeFrames payload adr p) m = stBytes (unat adr) (p @ junk) m)"
  using writeFrames_effect [OF assms] writeFrames_length [OF assms(2)] by blast

section \<open>Properties\<close>

text \<open>
  C30: An exchange with the boot monitor arms the receive buffer, then sends the command, then
  consumes one completion, in this order and nothing else; a response has exactly the requested
  length; on a failure the run stopped at a prefix of this sequence.  No step is undefined, for
  any behaviour of the chip.  Once BMI_DONE has been sent the exchange touches nothing.
\<close>

theorem exchange_order:
  assumes "ctrlUp ce" and "respLen \<le> 4096"
  shows "does (exchangeWait H ce b cmd respLen) (\<lambda>(r, ce', b') es.
     if fDoneSent b then es = [] \<and> r = None \<and> ce' = ce \<and> fLastStage b' = ''after-done''
     else ctrlUp ce' \<and> (case r of
         Some resp \<Rightarrow> length resp = respLen \<and> ctrlMarks ce es = [Armed, Sent cmd, Got]
       | None \<Rightarrow> \<exists>k. ctrlMarks ce es = take k [Armed, Sent cmd, Got]))"
proof (cases "fDoneSent b")
  case True
  then show ?thesis by (simp add: exchangeWait_def does_ret)
next
  case False
  then show ?thesis
    by (intro does_mono [OF does_exchangeWait [OF assms False]])
       (auto simp: exchangeMarks_def split: option.splits)
qed

theorem exchange_order_witness:
  "does (exchangeWait sampleHw sampleCe newBmi cmdGetTargetInfo 12) (\<lambda>(r, ce', b') es.
     ctrlUp ce' \<and> (case r of
         Some resp \<Rightarrow> length resp = 12 \<and> ctrlMarks sampleCe es = [Armed, Sent cmdGetTargetInfo, Got]
       | None \<Rightarrow> \<exists>k. ctrlMarks sampleCe es = take k [Armed, Sent cmdGetTargetInfo, Got]))"
  using exchange_order [of sampleCe 12 sampleHw newBmi cmdGetTargetInfo]
  by (simp add: newBmi_def)

text \<open>
  C8: A successful \<open>writeMemory\<close> hands the chip a sequence of frames of at most 256 bytes
  which, executed by a boot monitor in order, leave exactly the buffer at the address and change
  nothing else but at most three bytes behind it; a failed one stopped at a prefix of such a
  sequence.
\<close>

theorem writeMemory_writes:
  assumes "ctrlUp ce" and "unat adr + length p + 3 < 2 ^ 32"
  shows "does (writeMemory H ce adr (Some p)) (\<lambda>(ok, ce') es. ctrlUp ce' \<and>
     (\<exists>fs k junk. ctrlMarks ce es = map Sent (take k fs) \<and> (ok \<longrightarrow> k = length fs \<and> p \<noteq> []) \<and>
        (\<forall>f \<in> set fs. length f \<le> 256) \<and> length junk < 4 \<and>
        (\<forall>m. fold applyWrite fs m = stBytes (unat adr) (p @ junk) m)))"
  by (rule does_mono [OF does_writeMemory [OF assms(1)]], clarsimp)
     (metis writeFrames_good [OF assms(2)])

theorem writeMemory_writes_witness:
  "does (writeMemory sampleHw sampleCe 0x00400800 (Some [1, 2, 3, 4, 5])) (\<lambda>(ok, ce') es. ctrlUp ce' \<and>
     (\<exists>fs k junk. ctrlMarks sampleCe es = map Sent (take k fs) \<and>
        (ok \<longrightarrow> k = length fs \<and> [1, 2, 3, 4, 5] \<noteq> ([] :: u8 list)) \<and>
        (\<forall>f \<in> set fs. length f \<le> 256) \<and> length junk < 4 \<and>
        (\<forall>m. fold applyWrite fs m = stBytes (unat (0x00400800 :: u32)) ([1, 2, 3, 4, 5] @ junk) m)))"
  by (rule writeMemory_writes) simp_all



text \<open>
  A successful BMI_DONE sends that one command and closes the exchanges: any later exchange
  is refused without touching the chip.
\<close>

lemma done_closes_exchanges:
  assumes "ctrlUp ce"
  shows "does (bmiDone H ce b) (\<lambda>(ok, ce', b') es. ok \<longrightarrow> ctrlMarks ce es = [Sent cmdDone] \<and>
     (\<forall>cmd n. exchangeWait H ce' b' cmd n = ret (None, ce', b'\<lparr>fLastStage := ''after-done''\<rparr>)))"
  by (rule does_mono [OF does_bmiDone [OF assms]]) (auto simp: exchangeWait_def)


end
