(* ===== verification/Records.thy ===== *)
theory Records
  imports World
begin

text \<open>
  Streams of length-prefixed records.  Three formats of the program are of this shape: the
  record trailers of HTC frames, the TLV bodies of WMI events and the information elements of
  firmware containers.  \<open>step\<close> is the one-record decoder of a format: the record at an offset
  and the offset behind it, or \<open>None\<close> where the loop of the source ends.  The locale gives, for
  every format that satisfies its laws, that walking an encoded stream yields its records and
  that a walk over arbitrary bytes is short.
\<close>

function walk :: "(u8 list \<Rightarrow> nat \<Rightarrow> ('r \<times> nat) option) \<Rightarrow> u8 list \<Rightarrow> nat \<Rightarrow> 'r list" where
  "walk step t off = (case step t off of
       None \<Rightarrow> []
     | Some (r, off') \<Rightarrow> if off < off' \<and> off' \<le> length t then r # walk step t off' else [r])"
  by pat_completeness auto
termination
  by (relation "measure (\<lambda>(step, t, off). length t - off)") auto

declare walk.simps [simp del]

text \<open>The offset at which a walk stops.\<close>

function walkEnd :: "(u8 list \<Rightarrow> nat \<Rightarrow> ('r \<times> nat) option) \<Rightarrow> u8 list \<Rightarrow> nat \<Rightarrow> nat" where
  "walkEnd step t off = (case step t off of
       None \<Rightarrow> off
     | Some (r, off') \<Rightarrow> if off < off' \<and> off' \<le> length t then walkEnd step t off' else off')"
  by pat_completeness auto
termination
  by (relation "measure (\<lambda>(step, t, off). length t - off)") auto

declare walkEnd.simps [simp del]

locale record_stream =
  fixes step :: "u8 list \<Rightarrow> nat \<Rightarrow> ('r \<times> nat) option"
    and enc :: "'r \<Rightarrow> u8 list"
    and good :: "'r \<Rightarrow> bool"
  assumes step_grows: "step t off = Some (r, off') \<Longrightarrow> off < off' \<and> off' \<le> length t"
    and step_enc: "good r \<Longrightarrow>
      step (xs @ enc r @ ys) (length xs) = Some (r, length xs + length (enc r))"
    and step_end: "step t (length t) = None"
begin

lemma walk_None: "step t off = None \<Longrightarrow> walk step t off = []"
  by (simp add: walk.simps)

lemma walk_Some: "step t off = Some (r, off') \<Longrightarrow> walk step t off = r # walk step t off'"
  using step_grows [of t off r off'] by (simp add: walk.simps [of step t off])

lemma walkEnd_None: "step t off = None \<Longrightarrow> walkEnd step t off = off"
  by (simp add: walkEnd.simps)

lemma walkEnd_Some: "step t off = Some (r, off') \<Longrightarrow> walkEnd step t off = walkEnd step t off'"
  using step_grows [of t off r off'] by (simp add: walkEnd.simps [of step t off])

lemma walkEnd_enc:
  "\<forall>r \<in> set rs. good r \<Longrightarrow>
     walkEnd step (xs @ concat (map enc rs)) (length xs) = length (xs @ concat (map enc rs))"
proof (induction rs arbitrary: xs)
  case Nil
  then show ?case by (simp add: walkEnd_None step_end)
next
  case (Cons r rs)
  from Cons.prems have "step (xs @ enc r @ concat (map enc rs)) (length xs) =
      Some (r, length xs + length (enc r))"
    by (simp add: step_enc)
  then show ?case
    using Cons.IH [of "xs @ enc r"] Cons.prems by (simp add: walkEnd_Some)
qed

lemma walk_enc:
  "\<forall>r \<in> set rs. good r \<Longrightarrow> walk step (xs @ concat (map enc rs)) (length xs) = rs"
proof (induction rs arbitrary: xs)
  case Nil
  then show ?case by (simp add: walk_None step_end)
next
  case (Cons r rs)
  from Cons.prems have "step (xs @ enc r @ concat (map enc rs)) (length xs) =
      Some (r, length xs + length (enc r))"
    by (simp add: step_enc)
  then show ?case
    using Cons.IH [of "xs @ enc r"] Cons.prems by (simp add: walk_Some)
qed

lemma walk_stream: "\<forall>r \<in> set rs. good r \<Longrightarrow> walk step (concat (map enc rs)) 0 = rs"
  using walk_enc [of rs "[]"] by simp

lemma walk_short: "length (walk step t off) \<le> length t - off"
proof (induction "length t - off" arbitrary: off rule: less_induct)
  case less
  show ?case
  proof (cases "step t off")
    case None
    then show ?thesis by (simp add: walk_None)
  next
    case (Some x)
    then obtain r off' where x: "step t off = Some (r, off')" by (cases x) auto
    then have "off < off'" "off' \<le> length t" using step_grows by blast+
    moreover from this have "length (walk step t off') \<le> length t - off'"
      by (intro less) linarith
    ultimately show ?thesis using x by (simp add: walk_Some)
  qed
qed

end

end
