(* ===== verification/Htc.thy ===== *)
theory Htc
  imports Bmi Records
begin

text \<open>
  Host-target communication, \<open>skeleton/HTC.hpp\<close> and \<open>skeleton/HTC.cpp\<close> (class \<open>Htc\<close>): the
  boot handshake on the control pair and the framed, credit-controlled WMI channel on CE3/CE2.
  Reads of a received frame are loads through \<open>rxLoad\<close>; parsing works on the bytes and yields
  \<open>None\<close> where the source would read past them.
\<close>

section \<open>Frames\<close>

definition kHtcMsgReady :: u16 where [simp]: "kHtcMsgReady = 1"
definition kHtcMsgConnectSvc :: u16 where [simp]: "kHtcMsgConnectSvc = 2"
definition kHtcMsgConnectResp :: u16 where [simp]: "kHtcMsgConnectResp = 3"
definition kHtcMsgSetupCompleteEx :: u16 where [simp]: "kHtcMsgSetupCompleteEx = 5"
definition kHtcSvcWmiControl :: u16 where [simp]: "kHtcSvcWmiControl = 0x0100"
definition kHtcConnFlagsDisableCreditFlow :: u16 where
  [simp]: "kHtcConnFlagsDisableCreditFlow = 8"
definition kHtcTxFlagNeedCreditUpdate :: u8 where [simp]: "kHtcTxFlagNeedCreditUpdate = 1"
definition kHtcRxFlagTrailerPresent :: u8 where [simp]: "kHtcRxFlagTrailerPresent = 2"
definition kHtcRecordCredits :: u8 where [simp]: "kHtcRecordCredits = 1"

text \<open>\<open>HtcFrameHdr\<close>: eid, flags, length, two control bytes, two zero bytes.\<close>

definition htcHdr :: "u8 \<Rightarrow> u8 \<Rightarrow> u16 \<Rightarrow> u8 \<Rightarrow> u8 \<Rightarrow> u8 list" where
  "htcHdr eid flgs len ctrl0 ctrl1 = [eid, flgs] @ le16 len @ [ctrl0, ctrl1, 0, 0]"

text \<open>The wire structs: their sizes, and the bytes of those the host sends.\<close>

definition szHtcFrameHdr :: u32 where [simp]: "szHtcFrameHdr = 8"
definition szHtcMsgHdr16 :: u32 where [simp]: "szHtcMsgHdr16 = 2"
definition szHtcReady :: u32 where [simp]: "szHtcReady = 2 + 2 + 1 + 1"
definition szHtcReadyExt :: u32 where [simp]: "szHtcReadyExt = szHtcReady + 1 + 1 + 2"
definition szHtcConnSvcResp :: u32 where [simp]: "szHtcConnSvcResp = 2 + 1 + 1 + 2"

definition htcConnSvc :: "u16 \<Rightarrow> u16 \<Rightarrow> u8 list" where
  [simp]: "htcConnSvc svcId flgs = le16 svcId @ le16 flgs @ [0, 0]"

definition htcSetupCompleteExt :: "u8 list" where
  [simp]: "htcSetupCompleteExt = replicate (1 + 1 + 4 + 1 + 1 + 1 + 1) 0"

definition rd16 :: "u8 list \<Rightarrow> nat \<Rightarrow> u16" where
  "rd16 p i = get16 (p ! i) (p ! (i + 1))"

record Htc =
  fTotalCredits :: u16
  fCreditSize :: u16
  fWmiCredits :: u16
  fWmiEid :: u8
  fCtrlSeq :: u8
  fWmiSeq :: u8

definition newHtc :: Htc where
  "newHtc = \<lparr>fTotalCredits = 0, fCreditSize = 0, fWmiCredits = 0, fWmiEid = 0xFF,
     fCtrlSeq = 0, fWmiSeq = 0\<rparr>"

section \<open>Credit reports\<close>

text \<open>The inner loop over the four-byte entries of one record, from offset \<open>i\<close>.\<close>

function creditEntries :: "u8 list \<Rightarrow> nat \<Rightarrow> nat \<Rightarrow> nat \<Rightarrow> Htc \<Rightarrow> Htc option" where
  "creditEntries t off recLen i h =
     (if i + 4 \<le> recLen then do {
        eid \<leftarrow> byteAt t (off + i);
        credits \<leftarrow> byteAt t (off + i + 1);
        creditEntries t off recLen (i + 4)
          (if eid = fWmiEid h then h\<lparr>fWmiCredits := fWmiCredits h + ucast credits\<rparr> else h) }
      else Some h)"
  by pat_completeness auto
termination
  by (relation "measure (\<lambda>(t, off, recLen, i, h). recLen - i)") auto

declare creditEntries.simps [simp del]

text \<open>The outer loop over the records, \<open>trailer\<close> being \<open>trailerLen\<close> bytes long.\<close>

function creditRecords :: "u8 list \<Rightarrow> nat \<Rightarrow> nat \<Rightarrow> Htc \<Rightarrow> Htc option" where
  "creditRecords t trailerLen off h =
     (if off + 2 \<le> trailerLen then do {
        recId \<leftarrow> byteAt t off;
        recLen \<leftarrow> byteAt t (off + 1);
        if off + 4 + unat recLen > trailerLen then Some h else do {
          h \<leftarrow> (if recId = kHtcRecordCredits \<and> recLen \<ge> 4
                then creditEntries t (off + 4) (unat recLen) 0 h else Some h);
          creditRecords t trailerLen (off + 4 + unat recLen) h } }
      else Some h)"
  by pat_completeness auto
termination
  by (relation "measure (\<lambda>(t, trailerLen, off, h). trailerLen - off)") auto

declare creditRecords.simps [simp del]

definition applyCreditReport :: "Htc \<Rightarrow> u8 list \<Rightarrow> nat \<Rightarrow> Htc option" where
  "applyCreditReport h trailer trailerLen = creditRecords trailer trailerLen 0 h"

section \<open>The control path\<close>

definition sendCtrlFrame ::
  "('d, 'x) hw_scheme \<Rightarrow> CEManager \<Rightarrow> Htc \<Rightarrow> u8 list \<Rightarrow> ('d, bool \<times> CEManager \<times> Htc) io" where
  "sendCtrlFrame H ce h payload =
     (if length payload > 256 then ret (False, ce, h) else do {
        let frame = htcHdr 0 0 (of_nat (length payload)) 0 (fCtrlSeq h) @ payload;
        let h = h\<lparr>fCtrlSeq := fCtrlSeq h + 1\<rparr>;
        (ok, ce) \<leftarrow> ceSend H ce frame;
        ret (ok, ce, h) })"

section \<open>The WMI path\<close>

text \<open>\<open>(len + fCreditSize - 1) / fCreditSize\<close> in 32 bits; dividing by zero is undefined.\<close>

definition creditsNeeded :: "Htc \<Rightarrow> u32 \<Rightarrow> u32" where
  "creditsNeeded h len = (len + ucast (fCreditSize h) - 1) div ucast (fCreditSize h)"

definition sendWmi ::
  "('d, 'x) hw_scheme \<Rightarrow> CEManager \<Rightarrow> Htc \<Rightarrow> u8 list \<Rightarrow> ('d, bool \<times> CEManager \<times> Htc) io" where
  "sendWmi H ce h payload =
     (if fWmiEid h = 0xFF then ret (False, ce, h)
      else if length payload = 0 \<or> length payload > 2040 then ret (False, ce, h)
      else do {
        (if fCreditSize h = 0 then ub else ret ());
        let needed = creditsNeeded h (of_nat (length payload));
        if ucast (fWmiCredits h) < needed then ret (False, ce, h) else do {
          (ok, ce) \<leftarrow> wmiPostRecvIfIdle H ce;
          if \<not> ok then ret (False, ce, h) else do {
            let frame = htcHdr (fWmiEid h) kHtcTxFlagNeedCreditUpdate (of_nat (length payload))
                          0 (fWmiSeq h) @ payload;
            let h = h\<lparr>fWmiSeq := fWmiSeq h + 1\<rparr>;
            (ok, ce) \<leftarrow> wmiSend H ce frame;
            if \<not> ok then ret (False, ce, h)
            else ret (True, ce, h\<lparr>fWmiCredits := fWmiCredits h - ucast needed\<rparr>) } } })"

text \<open>
  \<open>recvWmi\<close> after its wait: \<open>raw\<close> are the bytes at \<open>wmiRxBuf()\<close>, \<open>rawLen\<close> is
  \<open>wmiRxNbytes()\<close>.  The payload is returned; the empty list stands for the result 0.
\<close>

definition parseWmiFrame ::
  "Htc \<Rightarrow> u8 list \<Rightarrow> nat \<Rightarrow> nat \<Rightarrow> (u8 list \<times> Htc) option" where
  "parseWmiFrame h raw rawLen bufLen =
     (if rawLen < 8 then Some ([], h) else do {
        eid \<leftarrow> byteAt raw 0;
        flags \<leftarrow> byteAt raw 1;
        len \<leftarrow> u16At raw 2;
        trailerLen \<leftarrow> byteAt raw 4;
        if eid \<noteq> fWmiEid h \<and> eid \<noteq> 0 then Some ([], h)
        else if unat len > rawLen - 8 then Some ([], h)
        else if unat trailerLen > unat len then Some ([], h)
        else do {
          h \<leftarrow> (if trailerLen \<noteq> 0 \<and> flags AND kHtcRxFlagTrailerPresent \<noteq> 0
                then (let trOff = 8 + unat len - unat trailerLen in
                  if trOff \<ge> 8 \<and> trOff + unat trailerLen \<le> rawLen
                  then applyCreditReport h (take (unat trailerLen) (drop trOff raw)) (unat trailerLen)
                  else Some h)
                else Some h);
          let payloadLen = unat len - unat trailerLen;
          if payloadLen = 0 \<or> payloadLen > bufLen then Some ([], h)
          else if 8 + payloadLen > length raw then None
          else Some (take payloadLen (drop 8 raw), h) } })"

text \<open>The bytes of the receive buffer up to \<open>n\<close>, as far as the DMA region reaches.\<close>

definition rxBytes :: "CECopyPair option \<Rightarrow> nat \<Rightarrow> ('d, u8 list) io" where
  "rxBytes p n = (case p of
       None \<Rightarrow> do { ub; ret [] }
     | Some q \<Rightarrow> (case fRegionCpu (region q) of
         None \<Rightarrow> do { ub; ret [] }
       | Some base \<Rightarrow>
           load (fRxCpu q) (min n (base + unat (fRegionSize (region q)) - fRxCpu q))))"

definition recvWmi ::
  "('d, 'x) hw_scheme \<Rightarrow> CEManager \<Rightarrow> Htc \<Rightarrow> nat \<Rightarrow> u32 \<Rightarrow> ('d, u8 list \<times> CEManager \<times> Htc) io" where
  "recvWmi H ce h bufLen timeoutMs = do {
     (ok, ce) \<leftarrow> wmiRecvWait H ce timeoutMs;
     if \<not> ok then ret ([], ce, h) else do {
       raw \<leftarrow> rxBytes (fWmi ce) (unat (wmiRxNbytes ce));
       case parseWmiFrame h raw (unat (wmiRxNbytes ce)) bufLen of
         None \<Rightarrow> do { ub; ret ([], ce, h) }
       | Some (payload, h) \<Rightarrow> ret (payload, ce, h) } }"

section \<open>Boot sequence\<close>

fun readyLoop ::
  "('d, 'x) hw_scheme \<Rightarrow> CEManager \<Rightarrow> u32 \<Rightarrow> nat \<Rightarrow> ('d, bool \<times> CEManager) io" where
  "readyLoop H ce timeoutMs 0 = ret (False, ce)"
| "readyLoop H ce timeoutMs (Suc n) = do {
     (ok, ce) \<leftarrow> cePostRecv H ce;
     if \<not> ok then ret (False, ce) else do {
       (ok, ce) \<leftarrow> ceRecvWait H ce timeoutMs;
       if \<not> ok then ret (False, ce)
       else if ceRxNbytes ce < szHtcFrameHdr + szHtcMsgHdr16 then readyLoop H ce timeoutMs n
       else do {
         b \<leftarrow> rxLoad (fCtrl ce) 8 2;
         if rd16 b 0 \<noteq> kHtcMsgReady then readyLoop H ce timeoutMs n
         else ret (True, ce) } } }"

definition waitTarget ::
  "('d, 'x) hw_scheme \<Rightarrow> CEManager \<Rightarrow> Htc \<Rightarrow> u32 \<Rightarrow> ('d, bool \<times> CEManager \<times> Htc) io" where
  "waitTarget H ce h timeoutMs = do {
     (got, ce) \<leftarrow> readyLoop H ce timeoutMs (recvDeadline timeoutMs);
     if \<not> got then ret (False, ce, h)
     else if ceRxNbytes ce < szHtcFrameHdr + szHtcMsgHdr16 + szHtcReady then ret (False, ce, h)
     else do {
       b \<leftarrow> rxLoad (fCtrl ce) 10 5;                          \<comment> \<open>up to \<open>maxEndpoints\<close>\<close>
       let h = h\<lparr>fTotalCredits := rd16 b 0, fCreditSize := rd16 b 2\<rparr>;
       (if ceRxNbytes ce \<ge> szHtcFrameHdr + szHtcMsgHdr16 + szHtcReadyExt then do { _ \<leftarrow> rxLoad (fCtrl ce) 16 2; ret () } else ret ());
       ret (fTotalCredits h > 0 \<and> fCreditSize h > 0, ce, h) } }"

definition connFlags :: "Htc \<Rightarrow> u16 \<Rightarrow> u16" where
  "connFlags h serviceId =
     (if serviceId = kHtcSvcWmiControl then push_bit 8 (fTotalCredits h AND 0xFF)
      else kHtcConnFlagsDisableCreditFlow)"

text \<open>The result is the endpoint and the largest message, \<open>*outEid\<close> and \<open>*outMaxMsg\<close>.\<close>

definition connectService ::
  "('d, 'x) hw_scheme \<Rightarrow> CEManager \<Rightarrow> Htc \<Rightarrow> u16 \<Rightarrow>
     ('d, (u8 \<times> u16) option \<times> CEManager \<times> Htc) io" where
  "connectService H ce h serviceId = do {
     let payload = le16 kHtcMsgConnectSvc @ htcConnSvc serviceId (connFlags h serviceId);
     (ok, ce) \<leftarrow> cePostRecv H ce;
     if \<not> ok then ret (None, ce, h) else do {
       (ok, ce, h) \<leftarrow> sendCtrlFrame H ce h payload;
       if \<not> ok then ret (None, ce, h) else do {
         (ok, ce) \<leftarrow> ceRecvWait H ce kQCAExchangeTimeout_ms;
         if \<not> ok then ret (None, ce, h)
         else if ceRxNbytes ce < szHtcFrameHdr + 2 + szHtcConnSvcResp then ret (None, ce, h)
         else do {
           r \<leftarrow> rxLoad (fCtrl ce) 8 2;
           if rd16 r 0 \<noteq> kHtcMsgConnectResp then ret (None, ce, h) else do {
             b \<leftarrow> rxLoad (fCtrl ce) 10 6;
             let eid = b ! 3;
             if rd16 b 0 \<noteq> serviceId \<or> b ! 2 \<noteq> 0 then ret (None, ce, h) else do {
               let h = (if serviceId = kHtcSvcWmiControl
                        then h\<lparr>fWmiEid := eid, fWmiCredits := fTotalCredits h\<rparr> else h);
               ret (Some (eid, rd16 b 4), ce, h) } } } } } }"

definition setupComplete ::
  "('d, 'x) hw_scheme \<Rightarrow> CEManager \<Rightarrow> Htc \<Rightarrow> ('d, bool \<times> CEManager \<times> Htc) io" where
  "setupComplete H ce h =
     sendCtrlFrame H ce h (le16 kHtcMsgSetupCompleteEx @ htcSetupCompleteExt)"

end
