(* ===== verification/HtcProperties.thy ===== *)
theory HtcProperties
  imports Htc
begin

text \<open>
  The properties of the HTC layer: credit accounting, the framing of WMI traffic in both
  directions, and the boot handshake.
\<close>

section \<open>Trailers as record streams\<close>

type_synonym trailerRec = "u8 \<times> u8 list"

definition trailerStep :: "u8 list \<Rightarrow> nat \<Rightarrow> (trailerRec \<times> nat) option" where
  "trailerStep t off =
     (if off + 2 \<le> length t \<and> off + 4 + unat (t ! (off + 1)) \<le> length t
      then Some ((t ! off, take (unat (t ! (off + 1))) (drop (off + 4) t)),
                 off + 4 + unat (t ! (off + 1)))
      else None)"

definition encTrailerRec :: "trailerRec \<Rightarrow> u8 list" where
  "encTrailerRec r = [fst r, of_nat (length (snd r)), 0, 0] @ snd r"

interpretation trailers: record_stream trailerStep encTrailerRec "\<lambda>r. length (snd r) < 256"
proof unfold_locales
  fix t off r off'
  assume "trailerStep t off = Some (r, off')"
  then show "off < off' \<and> off' \<le> length t"
    by (auto simp: trailerStep_def split: if_splits)
next
  fix r :: trailerRec and xs ys :: "u8 list"
  assume "length (snd r) < 256"
  then have "unat (of_nat (length (snd r)) :: u8) = length (snd r)"
    by (simp add: unat_of_nat)
  then show "trailerStep (xs @ encTrailerRec r @ ys) (length xs) =
      Some (r, length xs + length (encTrailerRec r))"
    by (cases r) (simp add: trailerStep_def encTrailerRec_def nth_append)
qed (simp add: trailerStep_def)

text \<open>The four-byte entries of a record, and what they credit to an endpoint.\<close>

fun entriesOf :: "u8 list \<Rightarrow> (u8 \<times> u8) list" where
  "entriesOf (e # c # _ # _ # rest) = (e, c) # entriesOf rest"
| "entriesOf _ = []"

definition creditOf :: "u8 \<Rightarrow> (u8 \<times> u8) list \<Rightarrow> u16" where
  "creditOf eid es = sum_list (map (\<lambda>(e, c). if e = eid then ucast c else 0) es)"

definition creditsIn :: "u8 \<Rightarrow> trailerRec list \<Rightarrow> u16" where
  "creditsIn eid rs =
     sum_list (map (\<lambda>(i, d). if i = 1 then creditOf eid (entriesOf d) else 0) rs)"

abbreviation addCredits :: "u16 \<Rightarrow> Htc \<Rightarrow> Htc" where
  "addCredits n h \<equiv> h\<lparr>fWmiCredits := fWmiCredits h + n\<rparr>"

lemma entriesOf_short: "length d < 4 \<Longrightarrow> entriesOf d = []"
  by (cases d rule: entriesOf.cases) auto

lemma entriesOf_take:
  assumes "4 \<le> n" and "4 \<le> length d"
  shows "entriesOf (take n d) = (d ! 0, d ! 1) # entriesOf (take (n - 4) (drop 4 d))"
proof (cases d rule: entriesOf.cases)
  case (1 e c x y rest)
  from assms(1) obtain m where "n = Suc (Suc (Suc (Suc m)))"
    by (auto simp: numeral_eq_Suc Suc_le_eq dest!: less_imp_Suc_add)
  with 1 show ?thesis by (simp add: numeral_eq_Suc)
qed (use assms(2) in simp_all)

lemma creditOf_Cons: "creditOf eid ((e, c) # es) = (if e = eid then ucast c else 0) + creditOf eid es"
  by (simp add: creditOf_def)

lemma creditEntries_spec:
  "off + recLen \<le> length t \<Longrightarrow> creditEntries t off recLen i h =
     Some (addCredits (creditOf (fWmiEid h) (entriesOf (take (recLen - i) (drop (off + i) t)))) h)"
proof (induction t off recLen i h rule: creditEntries.induct)
  case (1 t off recLen i h)
  show ?case
  proof (cases "i + 4 \<le> recLen")
    case False
    then have "entriesOf (take (recLen - i) (drop (off + i) t)) = []"
      by (intro entriesOf_short) simp
    then show ?thesis using False by (subst creditEntries.simps) (simp add: creditOf_def)
  next
    case True
    have "entriesOf (take (recLen - i) (drop (off + i) t)) =
        (t ! (off + i), t ! (off + i + 1)) # entriesOf (take (recLen - (i + 4)) (drop (off + (i + 4)) t))"
      using True 1(2) by (subst entriesOf_take) (simp_all add: algebra_simps)
    then show ?thesis
      using True 1 by (subst creditEntries.simps) (simp add: creditOf_Cons algebra_simps)
  qed
qed

lemma creditRecords_spec:
  "creditRecords t (length t) off h =
     Some (addCredits (creditsIn (fWmiEid h) (walk trailerStep t off)) h)"
proof (induction "length t - off" arbitrary: off h rule: less_induct)
  case less
  show ?case
  proof (cases "trailerStep t off")
    case None
    then have "walk trailerStep t off = []" by (rule trailers.walk_None)
    then show ?thesis
      using None by (subst creditRecords.simps)
        (auto simp: trailerStep_def creditsIn_def split: if_splits)
  next
    case (Some x)
    let ?n = "unat (t ! (off + 1))"
    let ?d = "take ?n (drop (off + 4) t)"
    from Some have off: "off + 2 \<le> length t" "off + 4 + ?n \<le> length t" and
      x: "x = ((t ! off, ?d), off + 4 + ?n)"
      by (auto simp: trailerStep_def split: if_splits)
    have w: "walk trailerStep t off = (t ! off, ?d) # walk trailerStep t (off + 4 + ?n)"
      using Some x by (simp add: trailers.walk_Some)
    have e: "creditEntries t (off + 4) ?n 0 h' = Some (addCredits (creditOf (fWmiEid h') (entriesOf ?d)) h')" for h'
      using creditEntries_spec [of "off + 4" ?n t 0 h'] off by simp
    have s: "t ! (off + 1) < 4 \<Longrightarrow> entriesOf ?d = []"
      by (intro entriesOf_short) (simp add: word_less_nat_alt)
    show ?thesis
      using off less [of "off + 4 + ?n"] w e s
      by (subst creditRecords.simps) (auto simp: creditsIn_def creditOf_def algebra_simps not_le cong: if_cong)
  qed
qed

section \<open>Received frames\<close>

lemma u16At_2: "u16At (a # b # le16 v @ ys) 2 = Some v"
  using u16At_append [of "[a, b]" v ys] by (simp add: numeral_2_eq_2)

lemma htcHdr_at:
  "byteAt (htcHdr eid flgs len c0 c1 @ ys) 0 = Some eid"
  "byteAt (htcHdr eid flgs len c0 c1 @ ys) 1 = Some flgs"
  "byteAt (htcHdr eid flgs len c0 c1 @ ys) (Suc 0) = Some flgs"
  "u16At (htcHdr eid flgs len c0 c1 @ ys) 2 = Some len"
  "byteAt (htcHdr eid flgs len c0 c1 @ ys) 4 = Some c0"
  by (simp_all add: htcHdr_def u16At_2) (simp_all add: byteAt_def le16_def)

lemma length_htcHdr [simp]: "length (htcHdr eid flgs len c0 c1) = 8"
  by (simp add: htcHdr_def)

lemma applyCreditReport_full:
  "length t = n \<Longrightarrow> applyCreditReport h t n =
     Some (addCredits (creditsIn (fWmiEid h) (walk trailerStep t 0)) h)"
  by (auto simp: applyCreditReport_def creditRecords_spec)

lemma parseWmiFrame_bytes:
  assumes "rawLen \<le> length raw" and "8 \<le> rawLen"
    and "len = unat (get16 (raw ! 2) (raw ! 3))" and "tlen = unat (raw ! 4)"
  shows "parseWmiFrame h raw rawLen bufLen = Some (
    if raw ! 0 \<noteq> fWmiEid h \<and> raw ! 0 \<noteq> 0 \<or> rawLen - 8 < len \<or> len < tlen then ([], h)
    else (if len = tlen \<or> bufLen < len - tlen then [] else take (len - tlen) (drop 8 raw),
      if tlen \<noteq> 0 \<and> raw ! 1 AND 2 \<noteq> 0
      then addCredits (creditsIn (fWmiEid h)
        (walk trailerStep (take tlen (drop (8 + len - tlen) raw)) 0)) h else h))"
proof -
  have b: "byteAt raw 0 = Some (raw ! 0)" "byteAt raw 1 = Some (raw ! 1)"
    "byteAt raw (Suc 0) = Some (raw ! 1)" "byteAt raw 4 = Some (raw ! 4)"
    "u16At raw 2 = Some (get16 (raw ! 2) (raw ! 3))"
    using assms(1,2) by (auto simp: byteAt_def u16At_def)
  show ?thesis
  proof (cases "raw ! 0 \<noteq> fWmiEid h \<and> raw ! 0 \<noteq> 0 \<or> rawLen - 8 < len \<or> len < tlen")
    case True
    then show ?thesis using assms(2-4) by (auto simp: parseWmiFrame_def b)
  next
    case False
    then have l: "len \<le> rawLen - 8" "tlen \<le> len" by simp_all
    have a: "applyCreditReport h (take tlen (drop (8 + len - tlen) raw)) tlen = Some (addCredits
      (creditsIn (fWmiEid h) (walk trailerStep (take tlen (drop (8 + len - tlen) raw)) 0)) h)"
      by (rule applyCreditReport_full) (use l assms(1,2) in auto)
    have z: "raw ! 4 \<noteq> 0 \<longleftrightarrow> tlen \<noteq> 0" by (simp add: assms(4) unat_eq_zero)
    have c: "(8 \<le> 8 + len - tlen \<and> 8 + len - tlen + tlen \<le> rawLen) = True"
      "(length raw < 8 + (len - tlen)) = False" "(rawLen < 8) = False"
      "(raw ! 0 \<noteq> fWmiEid h \<and> raw ! 0 \<noteq> 0) = False" "(rawLen - 8 < len) = False"
      "(len < tlen) = False" "(len - tlen = 0) = (len = tlen)"
      using False l assms(1,2) by auto
    show ?thesis
      unfolding parseWmiFrame_def b Let_def assms(3,4) [symmetric] bind.bind_lunit c z if_True if_False
        kHtcRxFlagTrailerPresent_def a by simp
  qed
qed

lemma parseWmiFrame_safe:
  assumes "rawLen \<le> length raw"
  shows "\<exists>payload h'. parseWmiFrame h raw rawLen bufLen = Some (payload, h') \<and>
    length payload \<le> bufLen \<and> 8 + length payload \<le> max 8 rawLen \<and>
    payload = take (length payload) (drop 8 raw) \<and> (\<exists>n. h' = addCredits n h)"
proof (cases "rawLen < 8")
  case True
  then show ?thesis by (auto simp: parseWmiFrame_def intro: exI [of _ 0])
next
  case False
  then show ?thesis
    using parseWmiFrame_bytes [OF assms _ refl refl, of h bufLen] assms
    by (auto intro: exI [of _ 0])
qed

lemma parseWmiFrame_enc:
  assumes "raw = htcHdr eid flgs (of_nat (length payload + length trailer))
      (of_nat (length trailer)) b @ payload @ trailer"
    and "length payload + length trailer < 65536" and "length trailer < 256"
    and "eid = fWmiEid h \<or> eid = 0" and "length payload \<le> bufLen"
  shows "parseWmiFrame h raw (length raw) bufLen = Some (payload,
    if trailer \<noteq> [] \<and> flgs AND 2 \<noteq> 0
    then addCredits (creditsIn (fWmiEid h) (walk trailerStep trailer 0)) h else h)"
proof -
  have r: "raw ! 0 = eid" "raw ! 1 = flgs" "raw ! 4 = of_nat (length trailer)"
    "get16 (raw ! 2) (raw ! 3) = of_nat (length payload + length trailer)"
    by (simp_all add: assms(1) htcHdr_def le16_def)
  have n: "length payload + length trailer = unat (get16 (raw ! 2) (raw ! 3))"
    "length trailer = unat (raw ! 4)"
    using assms(2,3) unfolding r unat_of_nat by simp_all
  have d: "length raw = 8 + (length payload + length trailer)" "drop 8 raw = payload @ trailer"
    "drop (8 + length payload) raw = trailer"
    by (simp_all add: assms(1))
  show ?thesis
    using parseWmiFrame_bytes [OF order_refl _ n, of h bufLen] assms(4,5)
    unfolding r(1,2) by (auto simp: d)
qed

section \<open>Sending\<close>

lemma does_postRecvIfIdle_marks:
  "pairUp p \<Longrightarrow> does (postRecvIfIdle H p) (\<lambda>(ok, p') es. pairUp p' \<and>
     pairMarks p' = pairMarks p \<and> ok \<and> pairMarks p es \<in> {[], [Armed]})"
  unfolding postRecvIfIdle_def
  by (intro does_intros does_mono [OF does_postRecv_marks]) auto

lemma does_wmiPostRecvIfIdle:
  "wmiUp ce \<Longrightarrow> does (wmiPostRecvIfIdle H ce) (\<lambda>(ok, ce') es. wmiUp ce' \<and>
     wmiMarks ce' = wmiMarks ce \<and> ok \<and> wmiMarks ce es \<in> {[], [Armed]})"
  unfolding wmiPostRecvIfIdle_def 
  by (rule does_onWmi [where P = "\<lambda>ok ms. ok \<and> ms \<in> {[], [Armed]}"])
     (assumption, rule does_postRecvIfIdle_marks)

lemma unat_creditsNeeded:
  assumes "0 < len" and "len \<le> 2040" and "fCreditSize h \<noteq> 0"
  shows "unat (creditsNeeded h (of_nat len)) =
    (len + unat (fCreditSize h) - 1) div unat (fCreditSize h)"
proof -
  have s: "unat (ucast (fCreditSize h) :: u32) = unat (fCreditSize h)"
    by (simp add: unat_ucast_16_32)
  have "unat (fCreditSize h) < 65536" by (rule unat_less_u16)
  then have "unat (of_nat len + ucast (fCreditSize h) :: u32) = len + unat (fCreditSize h)"
    using assms by (simp add: unat_word_ariths s unat_of_nat)
  moreover from this have "unat (of_nat len + ucast (fCreditSize h) - 1 :: u32) =
      len + unat (fCreditSize h) - 1"
    using assms(1) by (subst unat_sub) (auto simp: word_le_nat_alt)
  ultimately show ?thesis
    by (simp add: creditsNeeded_def unat_div s)
qed

lemma credits_left:
  assumes "\<not> (ucast (c :: u16) :: u32) < n"
  shows "unat (c - ucast n) = unat c - unat n"
proof -
  have n: "unat n \<le> unat c"
    using assms by (simp add: word_less_nat_alt unat_ucast_16_32)
  then have "unat (ucast n :: u16) = unat n"
    using unat_less_u16 [of c] by (intro unat_ucast_32_16) linarith
  then show ?thesis using n by (simp add: unat_sub word_le_nat_alt)
qed

lemma Htc_same: "h\<lparr>fWmiSeq := n, fWmiCredits := fWmiCredits h\<rparr> = h\<lparr>fWmiSeq := n\<rparr>"
  by (cases h) simp

definition wmiFrame :: "Htc \<Rightarrow> u8 list \<Rightarrow> u8 list" where
  "wmiFrame h payload =
     [fWmiEid h, 1] @ le16 (of_nat (length payload)) @ [0, fWmiSeq h, 0, 0] @ payload"

lemma does_sendWmi:
  assumes "wmiUp ce" and "fCreditSize h \<noteq> 0"
  shows "does (sendWmi H ce h payload) (\<lambda>(ok, ce', h') es.
     let need = (length payload + unat (fCreditSize h) - 1) div unat (fCreditSize h) in
     if fWmiEid h = 0xFF \<or> payload = [] \<or> length payload > 2040 \<or> unat (fWmiCredits h) < need
     then \<not> ok \<and> es = [] \<and> ce' = ce \<and> h' = h
     else wmiUp ce' \<and> wmiMarks ce' = wmiMarks ce \<and> (\<exists>arm. arm \<in> {[], [Armed]} \<and>
       (wmiMarks ce es = arm @ [Sent (wmiFrame h payload)] \<or> \<not> ok \<and> wmiMarks ce es = arm)) \<and>
       h' = h\<lparr>fWmiSeq := fWmiSeq h + 1, fWmiCredits := fWmiCredits h'\<rparr> \<and>
       unat (fWmiCredits h') = unat (fWmiCredits h) - (if ok then need else 0))"
proof (cases "fWmiEid h = 0xFF \<or> payload = [] \<or> length payload > 2040")
  case True
  then show ?thesis by (auto simp: sendWmi_def Let_def intro: does_ret)
next
  case False
  then have len: "0 < length payload" "length payload \<le> 2040" by auto
  note need = unat_creditsNeeded [OF len assms(2)]
  have lt: "(ucast (fWmiCredits h) < creditsNeeded h (of_nat (length payload))) =
      (unat (fWmiCredits h) < (length payload + unat (fCreditSize h) - 1) div unat (fCreditSize h))"
    by (simp add: word_less_nat_alt need unat_ucast_16_32)
  show ?thesis
    unfolding sendWmi_def Let_def
    using False assms(2) len apply simp
    apply (intro does_intros conjI impI)
     apply (simp add: lt)
    apply (rule does_mono [OF does_wmiPostRecvIfIdle [OF assms(1)]], clarsimp)
    apply (rule does_bindP [OF wmiPort.does_put], assumption, clarsimp)
    apply (intro does_intros conjI impI)
    apply (auto simp: lt need credits_left wmiFrame_def Htc_same htcHdr_def split: if_splits)
    done
qed

section \<open>The boot handshake\<close>

lemma le16_rd16: "length b = 2 \<Longrightarrow> le16 (rd16 b 0) = b"
  by (auto simp: rd16_def numeral_2_eq_2 length_Suc_conv)

definition rxAddr :: "CEManager \<Rightarrow> nat" where
  "rxAddr ce = (case fCtrl ce of None \<Rightarrow> 0 | Some p \<Rightarrow> fRxCpu p)"

lemma does_rxLoad_at:
  assumes "ctrlUp ce" and "off + n \<le> 4096"
  shows "does (rxLoad (fCtrl ce) off n) (\<lambda>b es. length b = n \<and> ctrlMarks ce es = [] \<and>
     Ld (rxAddr ce + off) b \<in> set es)"
proof -
  from assms(1) obtain p where p: "fCtrl ce = Some p" "pairUp p"
    by (auto simp: ctrlUp_def)
  show ?thesis
    unfolding p by (rule does_mono [OF does_rxLoad_marks [OF p(2)]])
      (use assms(2) p in \<open>auto simp: ctrlMarks_def rxAddr_def\<close>)
qed

lemma does_sendCtrlFrame:
  assumes "ctrlUp ce" and "length payload \<le> 256"
  shows "does (sendCtrlFrame H ce h payload) (\<lambda>(ok, ce', h') es. ctrlUp ce' \<and>
     ctrlMarks ce' = ctrlMarks ce \<and> h' = h\<lparr>fCtrlSeq := fCtrlSeq h + 1\<rparr> \<and>
     (let m = [Sent (htcHdr 0 0 (of_nat (length payload)) 0 (fCtrlSeq h) @ payload)] in
      ctrlMarks ce es = m \<or> \<not> ok \<and> ctrlMarks ce es = []))"
  unfolding sendCtrlFrame_def Let_def
  using assms apply simp
  apply (rule does_bindP [OF ctrlPort.does_put], assumption, clarsimp)
  apply (rule does_ret)
  apply (auto split: if_splits)
  done

definition connectFrame :: "Htc \<Rightarrow> u16 \<Rightarrow> u8 list" where
  "connectFrame h svc = [0, 0, 8, 0, 0, fCtrlSeq h, 0, 0] @
     le16 2 @ le16 svc @ le16 (connFlags h svc) @ [0, 0]"

lemma does_connectService:
  assumes "ctrlUp ce"
  shows "does (connectService H ce h svc) (\<lambda>(r, ce', h') es. ctrlUp ce' \<and>
     ctrlMarks ce' = ctrlMarks ce \<and>
     (case r of
        None \<Rightarrow> (\<exists>k. ctrlMarks ce es = take k [Armed, Sent (connectFrame h svc), Got]) \<and>
          (\<exists>n. h' = h\<lparr>fCtrlSeq := n\<rparr>)
      | Some (eid, maxMsg) \<Rightarrow> ctrlMarks ce es = [Armed, Sent (connectFrame h svc), Got] \<and>
          Ld (rxAddr ce' + 8) (le16 3) \<in> set es \<and>
          Ld (rxAddr ce' + 10) (le16 svc @ [0, eid] @ le16 maxMsg) \<in> set es \<and>
          h' = (if svc = 0x0100 then h\<lparr>fCtrlSeq := fCtrlSeq h + 1, fWmiEid := eid,
                  fWmiCredits := fTotalCredits h\<rparr> else h\<lparr>fCtrlSeq := fCtrlSeq h + 1\<rparr>)))"
proof -
  let ?ms = "[Armed, Sent (connectFrame h svc), Got]"
  have k: "\<exists>k. [] = take k ?ms" "\<exists>k. [Armed] = take k ?ms"
    "\<exists>k. [Armed, Sent (connectFrame h svc)] = take k ?ms" "\<exists>k. ?ms = take k ?ms"
    by (rule exI [of _ 0] exI [of _ 1] exI [of _ 2] exI [of _ 3], simp)+
  have s: "\<exists>n. h = h\<lparr>fCtrlSeq := n\<rparr>" by (rule exI [of _ "fCtrlSeq h"]) simp
  have f: "htcHdr 0 0 8 0 (fCtrlSeq h) @ le16 2 @ le16 svc @ le16 (connFlags h svc) @ [0, 0] =
      connectFrame h svc"
    by (simp add: connectFrame_def htcHdr_def le16_def)
  have b6: "le16 (rd16 b 0) @ [b ! 2, b ! 3] @ le16 (rd16 b 4) = b" if "length b = 6" for b
    using that by (auto simp: rd16_def numeral_eq_Suc length_Suc_conv)
  show ?thesis
    unfolding connectService_def Let_def
    apply (rule does_bindP [OF ctrlPort.does_post [OF assms]], clarsimp)
    apply (rule does_bindP [OF does_sendCtrlFrame], assumption, simp)
    apply (clarsimp simp: f Let_def)
    apply (intro does_intros conjI impI)
    subgoal using k by (auto simp: s)
    apply (rule does_mono [OF ctrlPort.does_await], assumption, clarsimp)
    apply (intro does_intros conjI impI)
    subgoal using k by auto
    subgoal using k by auto
    subgoal using k by auto
    apply (rule does_mono [OF does_rxLoad_at], assumption, simp, clarsimp)
    apply (intro does_intros conjI impI)
    subgoal using k by auto
    apply (rule does_mono [OF does_rxLoad_at], assumption, simp, clarsimp)
    apply (intro does_intros conjI impI)
    subgoal using k by auto
    subgoal for a1 c1 e1 a2 c2 e2 a3 c3 e3 r e4 c e5
      using b6 [of c] le16_rd16 [of r] by auto
    subgoal using k by auto
    subgoal for a1 c1 e1 a2 c2 e2 a3 c3 e3 r e4 c e5
      using b6 [of c] le16_rd16 [of r] by auto
    done
qed

text \<open>The marks of a wait for READY that may look at \<open>n\<close> frames.\<close>

definition readyRun :: "nat \<Rightarrow> bool \<Rightarrow> mark list \<Rightarrow> bool" where
  "readyRun n got ms \<longleftrightarrow> (\<exists>k \<le> n. (ms = concat (replicate k [Armed, Got]) \<and> (got \<longrightarrow> 0 < k)) \<or>
     (\<not> got \<and> k < n \<and> ms = concat (replicate k [Armed, Got]) @ [Armed]))"

lemma readyRun_intros:
  "readyRun n False []" "readyRun (Suc n) False [Armed]" "readyRun (Suc n) True [Armed, Got]"
  "readyRun n got ms \<Longrightarrow> readyRun (Suc n) got (Armed # Got # ms)"
  unfolding readyRun_def
     apply (rule exI [of _ 0], simp)
    apply (rule exI [of _ 0], simp)
   apply (rule exI [of _ 1], simp)
  apply (elim exE conjE, rule_tac x = "Suc k" in exI, auto)
  done

lemma does_readyLoop:
  assumes "ctrlUp ce"
  shows "does (readyLoop H ce ms n) (\<lambda>(got, ce') es. ctrlUp ce' \<and> ctrlMarks ce' = ctrlMarks ce \<and>
     readyRun n got (ctrlMarks ce es) \<and> (got \<longrightarrow> Ld (rxAddr ce' + 8) (le16 1) \<in> set es))"
  using assms
proof (induction n arbitrary: ce)
  case 0
  then show ?case by (simp add: does_ret readyRun_intros)
next
  case (Suc n)
  have loop: "does (readyLoop H ce1 ms n) (\<lambda>(got, ce') es'. ctrlUp ce' \<and>
      ctrlMarks ce' = ctrlMarks ce \<and> readyRun (Suc n) got (ctrlMarks ce (es @ es')) \<and>
      (got \<longrightarrow> Ld (rxAddr ce' + 8) (le16 1) \<in> set (es @ es')))"
    if c: "ctrlUp ce1" "ctrlMarks ce1 = ctrlMarks ce" "ctrlMarks ce es = [Armed, Got]" for ce1 es
    by (rule does_mono [OF Suc.IH [OF c(1)]]) (auto simp: c intro: readyRun_intros)
  have loop': "does (readyLoop H ce1 ms n) (\<lambda>r' es'. (case r' of (got, ce') \<Rightarrow> \<lambda>es. ctrlUp ce' \<and>
      ctrlMarks ce' = ctrlMarks ce \<and> readyRun (Suc n) got (ctrlMarks ce es) \<and>
      (got \<longrightarrow> Ld (rxAddr ce' + 8) (le16 1) \<in> set es)) (e1 @ e2 @ e3 @ es'))"
    if "ctrlUp ce1" "ctrlMarks ce1 = ctrlMarks ce" "ctrlMarks ce (e1 @ e2 @ e3) = [Armed, Got]"
    for ce1 e1 e2 e3
    using loop [OF that] by (rule does_mono) auto
  show ?case
    unfolding readyLoop.simps
    apply (rule does_bindP [OF ctrlPort.does_post [OF Suc.prems]], clarsimp split del: if_split)
    apply (rule does_bindP [OF ctrlPort.does_await], assumption, clarsimp split del: if_split)
    apply (intro does_intros)
    subgoal by (simp add: readyRun_intros)
    subgoal for a1 c1 e1 a2 c2 e2 using loop' [of c2 e1 e2 "[]"] by (simp split: if_splits)
    apply (rule does_mono [OF does_rxLoad_at], assumption, simp, clarsimp split del: if_split)
    apply (intro does_intros)
    subgoal for a1 c1 e1 a2 c2 e2 b e3 using loop' [of c2 e1 e2 e3] by simp
    subgoal for a1 c1 e1 a2 c2 e2 b e3 using le16_rd16 [of b] by (auto simp: readyRun_intros)
    done
qed

lemma does_waitTarget:
  assumes "ctrlUp ce"
  shows "does (waitTarget H ce h ms) (\<lambda>(ok, ce', h') es. ctrlUp ce' \<and> ctrlMarks ce' = ctrlMarks ce \<and>
     readyRun (recvDeadline ms) ok (ctrlMarks ce es) \<and>
     h' = h\<lparr>fTotalCredits := fTotalCredits h', fCreditSize := fCreditSize h'\<rparr> \<and>
     (ok \<longrightarrow> 0 < fTotalCredits h' \<and> 0 < fCreditSize h' \<and> Ld (rxAddr ce' + 8) (le16 1) \<in> set es \<and>
        (\<exists>x. Ld (rxAddr ce' + 10) (le16 (fTotalCredits h') @ le16 (fCreditSize h') @ [x]) \<in> set es)))"
proof -
  have b5: "le16 (rd16 b 0) @ le16 (rd16 b 2) @ [b ! 4] = b" if "length b = 5" for b
    using that by (auto simp: rd16_def numeral_eq_Suc length_Suc_conv)
  have weak: "readyRun n True m \<Longrightarrow> readyRun n g m" for n m g
    by (auto simp: readyRun_def)
  have same: "h = h\<lparr>fTotalCredits := fTotalCredits h, fCreditSize := fCreditSize h\<rparr>" by simp
  show ?thesis
    unfolding waitTarget_def Let_def
    apply (rule does_bindP [OF does_readyLoop [OF assms]], clarsimp split del: if_split)
    apply (intro does_intros)
    subgoal by simp
    subgoal by (simp add: weak)
    apply (rule does_mono [OF does_rxLoad_at], assumption, simp, clarsimp split del: if_split)
    apply (rule does_bindP [where P = "\<lambda>_ es. ctrlMarks ce es = []"])
    apply (intro does_intros)
    apply (rule does_mono [OF does_rxLoad_at], assumption, simp)
    apply (intro does_intros)
    apply simp
    apply simp
    apply (intro does_intros)
    subgoal for ok c1 e1 b e2 u e3
      using b5 [of b] weak by (auto intro!: exI [of _ "b ! 4"])
    done
qed

section \<open>Receiving on the WMI pair\<close>

lemma does_rxBytes:
  assumes "pairUp p"
  shows "does (rxBytes (Some p) n) (\<lambda>b es. length b = min n 4096 \<and> pairMarks p es = [])"
proof -
  from assms obtain base where "fRegionCpu (region p) = Some base" "fRxCpu p = base + 12288"
    "fRegionSize (region p) = 16384" "fDstDesc p = base + 4096"
    by (auto simp: pairUp_def laidOut_def)
  then show ?thesis
    unfolding rxBytes_def by (simp, intro does_intros) simp
qed

definition sameButCredits :: "Htc \<Rightarrow> Htc \<Rightarrow> bool" where
  "sameButCredits h h' \<longleftrightarrow> (\<exists>n. h' = h\<lparr>fWmiCredits := n\<rparr>)"

lemma sameButCredits_simps [simp]: "sameButCredits h h" "sameButCredits h (h\<lparr>fWmiCredits := n\<rparr>)"
proof -
  have "h = h\<lparr>fWmiCredits := fWmiCredits h\<rparr>" by simp
  then show "sameButCredits h h" unfolding sameButCredits_def by blast
qed (auto simp: sameButCredits_def)

lemma sameButCredits_trans: "sameButCredits h h1 \<Longrightarrow> sameButCredits h1 h2 \<Longrightarrow> sameButCredits h h2"
  by (auto simp: sameButCredits_def)

lemma creditEntries_only:
  "creditEntries t off recLen i h = Some h' \<Longrightarrow> sameButCredits h h'"
proof (induction t off recLen i h rule: creditEntries.induct)
  case (1 t off recLen i h)
  show ?case
  proof (cases "i + 4 \<le> recLen")
    case True
    with 1(2) obtain eid c where e: "byteAt t (off + i) = Some eid" "byteAt t (off + i + 1) = Some c"
      "creditEntries t off recLen (i + 4) (if eid = fWmiEid h then addCredits (ucast c) h else h) = Some h'"
      by (subst (asm) creditEntries.simps) (auto simp: bind_eq_Some_conv)
    from 1(1) [OF True e] show ?thesis
      by (rule sameButCredits_trans [rotated]) simp
  next
    case False
    then show ?thesis using 1(2) by (simp add: creditEntries.simps)
  qed
qed

lemma creditRecords_only:
  "creditRecords t n off h = Some h' \<Longrightarrow> sameButCredits h h'"
proof (induction "n - off" arbitrary: off h rule: less_induct)
  case less
  show ?case
  proof (cases "off + 2 \<le> n \<and> (\<exists>l. byteAt t (off + 1) = Some l \<and> off + 4 + unat l \<le> n)")
    case False
    then show ?thesis
      using less(2) by (subst (asm) creditRecords.simps)
        (auto simp: bind_eq_Some_conv not_le split: if_splits)
  next
    case True
    then obtain l and k :: u8 and h1 where l: "off + 2 \<le> n" "byteAt t (off + 1) = Some l" "off + 4 + unat l \<le> n"
      and h1: "(if k = 1 \<and> 4 \<le> l then creditEntries t (off + 4) (unat l) 0 h else Some h) = Some h1"
        "creditRecords t n (off + 4 + unat l) h1 = Some h'"
      using less(2) [unfolded creditRecords.simps [of t n off h]]
      by (force simp: bind_eq_Some_conv)
    have "sameButCredits h h1"
      using h1(1) creditEntries_only by (auto split: if_splits)
    moreover have "sameButCredits h1 h'"
      using less(1) [OF _ h1(2)] l(1) by linarith
    ultimately show ?thesis by (rule sameButCredits_trans)
  qed
qed

lemma parseWmiFrame_result:
  assumes "parseWmiFrame h raw n bufLen = Some (payload, h')"
  shows "length payload \<le> bufLen \<and> sameButCredits h h'"
  using assms unfolding parseWmiFrame_def Let_def
  by (auto simp: bind_eq_Some_conv applyCreditReport_def split: if_splits dest: creditRecords_only)

lemma does_recvWmi:
  assumes "wmiUp ce"
  shows "does (recvWmi H ce h bufLen ms) (\<lambda>(payload, ce', h') es. wmiUp ce' \<and>
     wmiMarks ce' = wmiMarks ce \<and> length payload \<le> bufLen \<and> sameButCredits h h' \<and>
     wmiMarks ce es \<in> {[], [Got], [Got, Undef]} \<and>
     (payload \<noteq> [] \<longrightarrow> wmiMarks ce es = [Got]) \<and>
     (unat (wmiRxNbytes ce') \<le> 4096 \<longrightarrow> wmiMarks ce es = [] \<or> wmiMarks ce es = [Got]))"
proof -
  have b: "does (rxBytes (fWmi c) n) (\<lambda>b es. length b = min n 4096 \<and> wmiMarks ce es = [])"
    if "wmiUp c" "wmiMarks c = wmiMarks ce" for c n
  proof -
    from that(1) obtain p where p: "fWmi c = Some p" "pairUp p" by (auto simp: wmiUp_def)
    show ?thesis
      unfolding p that(2) [symmetric]
      by (rule does_mono [OF does_rxBytes [OF p(2)]]) (simp add: wmiMarks_def p)
  qed
  have f: "wmiMarks ce [Fault] = [Undef]"
    using assms by (auto simp: wmiUp_def wmiMarks_def)
  show ?thesis
    unfolding recvWmi_def
    apply (rule does_bindP [OF wmiPort.does_await [OF assms]], clarsimp split del: if_split)
    apply (intro does_intros)
    subgoal by simp
    apply (rule does_mono [OF b], assumption, simp, clarsimp)
    apply (intro does_intros)
    subgoal for a c e1 raw e2
      using parseWmiFrame_safe [of "unat (wmiRxNbytes c)" raw h bufLen] f by auto
    subgoal for a c e1 raw e2 x payload h'
      using parseWmiFrame_result [of h raw "unat (wmiRxNbytes c)" bufLen payload h'] by auto
    done
qed

text \<open>
  A frame whose descriptor announces more than the receive area holds makes the trailer parser
  read behind the DMA region.
\<close>

lemma trailer_overread:
  "parseWmiFrame newHtc (htcHdr 0 2 6000 4 0 @ replicate 4088 0) 6008 2048 = None"
proof -
  have "byteAt [] 0 = None" by (simp add: byteAt_def)
  then have "applyCreditReport newHtc [] 4 = None"
    by (simp add: applyCreditReport_def creditRecords.simps [of "[]"])
  then show ?thesis
    by (simp add: parseWmiFrame_def htcHdr_at Let_def del: byteAt_Some)
qed

section \<open>Properties\<close>

text \<open>
  C31: Applying a credit report never reads outside the trailer, whatever its bytes, and adds to
  the WMI credits, modulo 2^16, exactly the credits that its credit records grant to the WMI
  endpoint; nothing else changes.  On a trailer made of encoded records these are the records it
  was made of.
\<close>

theorem credit_report:
  "applyCreditReport h trailer (length trailer) =
     Some (h\<lparr>fWmiCredits := fWmiCredits h + creditsIn (fWmiEid h) (walk trailerStep trailer 0)\<rparr>) \<and>
   (trailer = concat (map encTrailerRec rs) \<and> (\<forall>r \<in> set rs. length (snd r) < 256) \<longrightarrow>
     walk trailerStep trailer 0 = rs)"
  using trailers.walk_stream [of rs] by (auto simp: applyCreditReport_def creditRecords_spec)

theorem credit_report_witness:
  "applyCreditReport (newHtc\<lparr>fWmiEid := 1\<rparr>)
     (concat (map encTrailerRec [(1, [1, 2, 0, 0, 2, 9, 0, 0, 1, 3, 0, 0]), (7, [1]), (1, [1, 1, 0, 0])]))
     (length (concat (map encTrailerRec
        [(1, [1, 2, 0, 0, 2, 9, 0, 0, 1, 3, 0, 0]), (7, [1]), (1, [1, 1, 0, 0])]))) =
   Some (newHtc\<lparr>fWmiEid := 1, fWmiCredits := 6\<rparr>)"
proof -
  let ?rs = "[(1, [1, 2, 0, 0, 2, 9, 0, 0, 1, 3, 0, 0]), (7, [1]), (1, [1, 1, 0, 0])] :: (u8 \<times> u8 list) list"
  have "walk trailerStep (concat (map encTrailerRec ?rs)) 0 = ?rs"
    using credit_report [of newHtc "concat (map encTrailerRec ?rs)" ?rs] by simp
  then show ?thesis
    using conjunct1 [OF credit_report, of "newHtc\<lparr>fWmiEid := 1\<rparr>" "concat (map encTrailerRec ?rs)"]
    by (simp add: newHtc_def creditsIn_def creditOf_def)
qed

text \<open>
  C32: A well-formed WMI frame is received exactly: the payload comes back without header and
  trailer, and the trailer's credits are applied when the header announces it.
\<close>

theorem wmi_frame_roundtrip:
  assumes "raw = htcHdr eid flgs (of_nat (length payload + length trailer))
      (of_nat (length trailer)) b @ payload @ trailer"
    and "length payload + length trailer < 65536" and "length trailer < 256"
    and "eid = fWmiEid h \<or> eid = 0" and "length payload \<le> bufLen"
  shows "parseWmiFrame h raw (length raw) bufLen = Some (payload,
    if trailer \<noteq> [] \<and> flgs AND 2 \<noteq> 0
    then h\<lparr>fWmiCredits := fWmiCredits h + creditsIn (fWmiEid h) (walk trailerStep trailer 0)\<rparr> else h)"
  using assms by (rule parseWmiFrame_enc)

theorem wmi_frame_roundtrip_witness:
  "parseWmiFrame (newHtc\<lparr>fWmiEid := 1\<rparr>)
     (htcHdr 1 2 (of_nat (length [9, 8, 7 :: u8] + length [1, 4, 0, 0, 1, 2, 0, 0 :: u8]))
       (of_nat (length [1, 4, 0, 0, 1, 2, 0, 0 :: u8])) 0 @ [9, 8, 7] @ [1, 4, 0, 0, 1, 2, 0, 0])
     (length (htcHdr 1 2 (of_nat (length [9, 8, 7 :: u8] + length [1, 4, 0, 0, 1, 2, 0, 0 :: u8]))
       (of_nat (length [1, 4, 0, 0, 1, 2, 0, 0 :: u8])) 0 @ [9, 8, 7] @ [1, 4, 0, 0, 1, 2, 0, 0])) 2048
   = Some ([9, 8, 7], newHtc\<lparr>fWmiEid := 1, fWmiCredits := 2\<rparr>)"
proof -
  have "walk trailerStep [1, 4, 0, 0, 1, 2, 0, 0] 0 = [(1, [1, 2, 0, 0])]"
    using trailers.walk_stream [of "[(1, [1, 2, 0, 0])]"] by (simp add: encTrailerRec_def)
  then show ?thesis
    using wmi_frame_roundtrip [OF refl, of "[9, 8, 7]" "[1, 4, 0, 0, 1, 2, 0, 0]" 1
      "newHtc\<lparr>fWmiEid := 1\<rparr>" 2048 2 0]
    by (simp add: newHtc_def creditsIn_def creditOf_def)
qed

text \<open>
  C24: Receiving never writes more than the caller's buffer holds, consumes one completion for a
  payload it returns, changes no HTC state but the credits, and, as long as the size the chip
  reports fits the receive area, never reads outside it.
\<close>

theorem wmi_receive_safe:
  assumes "wmiUp ce"
  shows "does (recvWmi H ce h bufLen ms) (\<lambda>(payload, ce', h') es. wmiUp ce' \<and>
     length payload \<le> bufLen \<and> (\<exists>n. h' = h\<lparr>fWmiCredits := n\<rparr>) \<and>
     (payload \<noteq> [] \<longrightarrow> wmiMarks ce es = [Got]) \<and>
     (unat (wmiRxNbytes ce') \<le> 4096 \<longrightarrow> wmiMarks ce es = [] \<or> wmiMarks ce es = [Got]))"
  by (rule does_mono [OF does_recvWmi [OF assms]]) (auto simp: sameButCredits_def)

theorem wmi_receive_safe_witness:
  "does (recvWmi sampleHw sampleCe newHtc 2048 100) (\<lambda>(payload, ce', h') es. wmiUp ce' \<and>
     length payload \<le> 2048 \<and> (\<exists>n. h' = newHtc\<lparr>fWmiCredits := n\<rparr>) \<and>
     (payload \<noteq> [] \<longrightarrow> wmiMarks sampleCe es = [Got]) \<and>
     (unat (wmiRxNbytes ce') \<le> 4096 \<longrightarrow> wmiMarks sampleCe es = [] \<or> wmiMarks sampleCe es = [Got]))"
  by (rule wmi_receive_safe) simp



text \<open>
  C26: Connecting a service arms the receive buffer before it sends the request, and succeeds only
  on a CONNECT_RESP for the same service with status 0, whose endpoint and message size it
  returns; only for the WMI control service it records the endpoint and takes all credits.  On a
  failure nothing but the sequence number changes.
\<close>

theorem connect_handshake:
  assumes "ctrlUp ce"
  shows "does (connectService H ce h svc) (\<lambda>(r, ce', h') es. ctrlUp ce' \<and>
     (let ms = [Armed, Sent ([0, 0, 8, 0, 0, fCtrlSeq h, 0, 0] @
         le16 2 @ le16 svc @ le16 (connFlags h svc) @ [0, 0]), Got] in
     case r of
        None \<Rightarrow> (\<exists>k. ctrlMarks ce es = take k ms) \<and> (\<exists>n. h' = h\<lparr>fCtrlSeq := n\<rparr>)
      | Some (eid, maxMsg) \<Rightarrow> ctrlMarks ce es = ms \<and>
          Ld (rxAddr ce' + 8) (le16 3) \<in> set es \<and>
          Ld (rxAddr ce' + 10) (le16 svc @ [0, eid] @ le16 maxMsg) \<in> set es \<and>
          h' = (if svc = 0x0100 then h\<lparr>fCtrlSeq := fCtrlSeq h + 1, fWmiEid := eid,
                  fWmiCredits := fTotalCredits h\<rparr> else h\<lparr>fCtrlSeq := fCtrlSeq h + 1\<rparr>)))"
  using does_connectService [OF assms, unfolded connectFrame_def]
  by (rule does_mono) (auto simp: Let_def split: prod.splits option.splits)

theorem connect_handshake_witness:
  "does (connectService sampleHw sampleCe newHtc 0x0100) (\<lambda>(r, ce', h') es.
     r \<noteq> None \<longrightarrow> fWmiCredits h' = 0 \<and> fCtrlSeq h' = 1)"
  using connect_handshake [of sampleCe sampleHw newHtc "0x0100"]
  by (auto simp: newHtc_def Let_def elim!: does_mono split: option.splits)

text \<open>
  C33: Waiting for READY alternates between arming the receive buffer and consuming one frame, at
  most as often as the timeout has poll steps; it succeeds only on a READY message, whose credit
  count and credit size, both non-zero, it records, so that the credit arithmetic of later sends
  is defined.
\<close>

theorem ready_handshake:
  assumes "ctrlUp ce"
  shows "does (waitTarget H ce h ms) (\<lambda>(ok, ce', h') es. ctrlUp ce' \<and>
     readyRun (recvDeadline ms) ok (ctrlMarks ce es) \<and>
     h' = h\<lparr>fTotalCredits := fTotalCredits h', fCreditSize := fCreditSize h'\<rparr> \<and>
     (ok \<longrightarrow> 0 < fTotalCredits h' \<and> 0 < fCreditSize h' \<and> Ld (rxAddr ce' + 8) (le16 1) \<in> set es \<and>
        (\<exists>x. Ld (rxAddr ce' + 10) (le16 (fTotalCredits h') @ le16 (fCreditSize h') @ [x]) \<in> set es)))"
  by (rule does_mono [OF does_waitTarget [OF assms]]) auto

theorem ready_handshake_witness:
  "does (waitTarget sampleHw sampleCe newHtc 1000) (\<lambda>(ok, ce', h') es. ctrlUp ce' \<and>
     readyRun 20000 ok (ctrlMarks sampleCe es))"
  using ready_handshake [of sampleCe sampleHw newHtc 1000]
  by (auto simp: recvDeadline_def elim!: does_mono)

end
