(* ===== verification/Wmi.thy ===== *)
theory Wmi
  imports HtcProperties
begin

text \<open>
  The WMI-TLV layer, \<open>skeleton/WMI.hpp\<close> and \<open>skeleton/WMI.cpp\<close> (class \<open>Wmi\<close>): the TLV
  iterator, the two boot events, the WMI_INIT command and the wait loop that ties them together.
  A pointer into an event is an offset into its bytes; \<open>None\<close> as the outermost result of a parser
  is a read outside the event.
\<close>

definition kWmiTlvEvtServiceReady :: u32 where [simp]: "kWmiTlvEvtServiceReady = 1"
definition kWmiTlvEvtReady :: u32 where [simp]: "kWmiTlvEvtReady = 2"
definition kWmiTlvCmdInit :: u32 where [simp]: "kWmiTlvCmdInit = 1"
definition kTlvArrayUInt32 :: u16 where [simp]: "kTlvArrayUInt32 = 16"
definition kTlvArrayStruct :: u16 where [simp]: "kTlvArrayStruct = 18"
definition kTlvSvcReadyEvent :: u16 where [simp]: "kTlvSvcReadyEvent = 32"
definition kTlvReadyEvent :: u16 where [simp]: "kTlvReadyEvent = 35"
definition kTlvInitCmd :: u16 where [simp]: "kTlvInitCmd = 74"
definition kTlvResourceConfig :: u16 where [simp]: "kTlvResourceConfig = 75"
definition kWmiCmdIdMask :: u32 where [simp]: "kWmiCmdIdMask = 0x00FFFFFF"
definition kTlvMaxTag :: nat where [simp]: "kTlvMaxTag = 128"

section \<open>The TLV iterator\<close>

text \<open>\<open>TlvView\<close>: where a value starts and its length; a tag that did not occur has none.\<close>

type_synonym tlvViews = "u16 \<Rightarrow> (nat \<times> nat) option"

function tlvLoop :: "u8 list \<Rightarrow> nat \<Rightarrow> tlvViews \<Rightarrow> nat \<Rightarrow> tlvViews option option" where
  "tlvLoop p off tb tbLen =
     (if off \<ge> length p then Some (Some tb)
      else if length p - off < 4 then Some None
      else do {
        tlvLen \<leftarrow> u16At p off;
        tlvTag \<leftarrow> u16At p (off + 2);
        if unat tlvLen > length p - (off + 4) then Some None
        else tlvLoop p (off + 4 + unat tlvLen)
          (if unat tlvTag < tbLen then tb(tlvTag := Some (off + 4, unat tlvLen)) else tb) tbLen })"
  by pat_completeness auto
termination
  by (relation "measure (\<lambda>(p, off, tb, tbLen). length p - off)") auto

declare tlvLoop.simps [simp del]

definition tlvParse :: "u8 list \<Rightarrow> nat \<Rightarrow> tlvViews option option" where
  "tlvParse p tbLen = tlvLoop p 0 (\<lambda>_. None) tbLen"

section \<open>Events\<close>

record Wmi =
  fFwBuild :: u32
  fPhyCapab :: u32
  fNumRfChains :: u32
  fNumMemReqs :: u32
  fAbi :: "u32 list"
  fMac :: "u8 list"

definition newWmi :: Wmi where
  "newWmi = \<lparr>fFwBuild = 0, fPhyCapab = 0, fNumRfChains = 0, fNumMemReqs = 0,
     fAbi = replicate 6 0, fMac = replicate 6 0\<rparr>"

fun u32sAt :: "u8 list \<Rightarrow> nat \<Rightarrow> nat \<Rightarrow> u32 list option" where
  "u32sAt p off 0 = Some []"
| "u32sAt p off (Suc n) = do { v \<leftarrow> u32At p off; vs \<leftarrow> u32sAt p (off + 4) n; Some (v # vs) }"

definition bytesAt :: "u8 list \<Rightarrow> nat \<Rightarrow> nat \<Rightarrow> u8 list option" where
  "bytesAt p off n = (if off + n \<le> length p then Some (take n (drop off p)) else None)"

definition parseServiceReady :: "Wmi \<Rightarrow> u8 list \<Rightarrow> (bool \<times> Wmi) option" where
  "parseServiceReady w p = do {
     r \<leftarrow> tlvParse p kTlvMaxTag;
     case r of None \<Rightarrow> Some (False, w) | Some tb \<Rightarrow>
     (case tb kTlvSvcReadyEvent of None \<Rightarrow> Some (False, w) | Some (ev, evLen) \<Rightarrow>
     if evLen < 76 then Some (False, w) else do {
       build \<leftarrow> u32At p ev;
       abi \<leftarrow> u32sAt p (ev + 4) 6;
       phy \<leftarrow> u32At p (ev + 28);
       chains \<leftarrow> u32At p (ev + 36);
       memReqs \<leftarrow> u32At p (ev + 72);
       let w = w\<lparr>fFwBuild := build, fAbi := abi, fPhyCapab := phy, fNumRfChains := chains,
                 fNumMemReqs := memReqs\<rparr>;
       case tb kTlvArrayUInt32 of None \<Rightarrow> Some (False, w) | Some (bmap, bmapLen) \<Rightarrow>
       if bmapLen < 4 \<or> bmapLen mod 4 \<noteq> 0 then Some (False, w) else do {
         _ \<leftarrow> u32sAt p bmap (min bmapLen 64 div 4);            \<comment> \<open>the bitmap message\<close>
         Some (True, w) } }) }"

definition parseReady :: "Wmi \<Rightarrow> u8 list \<Rightarrow> (bool \<times> Wmi) option" where
  "parseReady w p = do {
     r \<leftarrow> tlvParse p kTlvMaxTag;
     case r of None \<Rightarrow> Some (False, w) | Some tb \<Rightarrow>
     (case tb kTlvReadyEvent of None \<Rightarrow> Some (False, w) | Some (ev, evLen) \<Rightarrow>
     if evLen < 36 then Some (False, w) else do {
       abi \<leftarrow> u32sAt p ev 6;
       mac \<leftarrow> bytesAt p (ev + 24) 6;
       _ \<leftarrow> u32At p (ev + 32);                                 \<comment> \<open>\<open>status\<close>, only logged\<close>
       Some (True, w\<lparr>fAbi := abi, fMac := mac\<rparr>) }) }"

definition macAddress :: "Wmi \<Rightarrow> u8 list" where
  "macAddress w = take 6 (fMac w)"

section \<open>WMI_INIT\<close>

definition QCA_WMI_TLV_ABI_VER0 :: u32 where [simp]: "QCA_WMI_TLV_ABI_VER0 = 0x01000000"
definition QCA_WMI_TLV_ABI_VER1 :: u32 where [simp]: "QCA_WMI_TLV_ABI_VER1 = 53"
definition QCA_WMI_TLV_ABI_VER_NS0 :: u32 where [simp]: "QCA_WMI_TLV_ABI_VER_NS0 = 0x5F414351"
definition QCA_WMI_TLV_ABI_VER_NS1 :: u32 where [simp]: "QCA_WMI_TLV_ABI_VER_NS1 = 0x00004C4D"
definition QCA_WMI_TLV_ABI_VER_NS2 :: u32 where [simp]: "QCA_WMI_TLV_ABI_VER_NS2 = 0"
definition QCA_WMI_TLV_ABI_VER_NS3 :: u32 where [simp]: "QCA_WMI_TLV_ABI_VER_NS3 = 0"
definition QCA_TARGET_TLV_NUM_VDEVS :: u32 where [simp]: "QCA_TARGET_TLV_NUM_VDEVS = 4"
definition QCA_TARGET_TLV_NUM_PEERS :: u32 where [simp]: "QCA_TARGET_TLV_NUM_PEERS = 33"
definition QCA_TARGET_TLV_NUM_TIDS :: u32 where [simp]: "QCA_TARGET_TLV_NUM_TIDS = 66"
definition QCA_TARGET_TLV_NUM_TDLS_VDEVS :: u32 where [simp]: "QCA_TARGET_TLV_NUM_TDLS_VDEVS = 1"
definition QCA_TARGET_TLV_AST_SKID_LIMIT :: u32 where [simp]: "QCA_TARGET_TLV_AST_SKID_LIMIT = 0x10"
definition QCA_TARGET_TLV_NUM_WDS_ENTRIES :: u32 where [simp]: "QCA_TARGET_TLV_NUM_WDS_ENTRIES = 0x20"
definition QCA_TARGET_TLV_NUM_MSDU_DESC :: u32 where [simp]: "QCA_TARGET_TLV_NUM_MSDU_DESC = 1056"
definition QCA_WMI_TLV_FLAG_MGMT_BUNDLE_TX_COMPL :: u32 where
  [simp]: "QCA_WMI_TLV_FLAG_MGMT_BUNDLE_TX_COMPL = 0x200"

definition kRsrcCfg :: "u32 list" where
  "kRsrcCfg =
     [QCA_TARGET_TLV_NUM_VDEVS, QCA_TARGET_TLV_NUM_PEERS, 0, 0, 2, QCA_TARGET_TLV_NUM_TIDS,
      QCA_TARGET_TLV_AST_SKID_LIMIT, 7, 7, 0x64, 0x64, 0x64, 0x28, 1, 4,
      QCA_TARGET_TLV_NUM_VDEVS, QCA_TARGET_TLV_NUM_VDEVS, 8, 0, 0, 0, 0x400,
      QCA_TARGET_TLV_NUM_WDS_ENTRIES, 0, 0, 0, 0, 2, QCA_TARGET_TLV_NUM_MSDU_DESC, 2,
      QCA_TARGET_TLV_NUM_TDLS_VDEVS, 0x20, 2, 5, 22, 6, 0, 1, 1, 0, 0, 0, 0,
      QCA_WMI_TLV_FLAG_MGMT_BUNDLE_TX_COMPL]"

definition kInitAbi :: "u32 list" where
  "kInitAbi = [QCA_WMI_TLV_ABI_VER0, QCA_WMI_TLV_ABI_VER1, QCA_WMI_TLV_ABI_VER_NS0,
     QCA_WMI_TLV_ABI_VER_NS1, QCA_WMI_TLV_ABI_VER_NS2, QCA_WMI_TLV_ABI_VER_NS3]"

text \<open>A write into a local buffer, at an offset.\<close>

definition wrAt :: "nat \<Rightarrow> u8 list \<Rightarrow> u8 list \<Rightarrow> u8 list" where
  "wrAt i bs buf = take i buf @ bs @ drop (i + length bs) buf"

definition wrLe32 :: "nat \<Rightarrow> u32 \<Rightarrow> u8 list \<Rightarrow> u8 list" where
  "wrLe32 i v buf = wrAt i (le32 v) buf"

definition wrTlvHdr :: "nat \<Rightarrow> u16 \<Rightarrow> u16 \<Rightarrow> u8 list \<Rightarrow> u8 list" where
  "wrTlvHdr i len tag buf = wrAt i (le16 len @ le16 tag) buf"

fun wrWords :: "nat \<Rightarrow> u32 list \<Rightarrow> u8 list \<Rightarrow> u8 list" where
  "wrWords i [] buf = buf"
| "wrWords i (v # vs) buf = wrWords (i + 4) vs (wrLe32 i v buf)"

definition initFrame :: "u8 list" where
  "initFrame = (let
     buf = replicate (4 + 8 + 28 + 8 + 176 + 8) 0;
     buf = wrLe32 0 (kWmiTlvCmdInit AND kWmiCmdIdMask) buf;
     p = 4;
     buf = wrTlvHdr p 28 kTlvInitCmd buf;
     buf = wrWords (p + 4) kInitAbi buf;
     buf = wrLe32 (p + 28) 0 buf;
     p = p + 8 + 28;
     buf = wrTlvHdr p 176 kTlvResourceConfig buf;
     buf = wrWords (p + 4) kRsrcCfg buf;
     p = p + 8 + 176;
     buf = wrTlvHdr p 0 kTlvArrayStruct buf
   in buf)"

definition sendInit ::
  "('d, 'x) hw_scheme \<Rightarrow> CEManager \<Rightarrow> Htc \<Rightarrow> ('d, bool \<times> CEManager \<times> Htc) io" where
  "sendInit H ce h =
     (if length initFrame \<noteq> 4 + 36 + 184 + 8 then ret (False, ce, h)
      else sendWmi H ce h initFrame)"

section \<open>The wait loop\<close>

definition kWmiBuf :: nat where [simp]: "kWmiBuf = 2048"

text \<open>
  Phase 1 has no bound of its own: it runs as long as the target sends other events.  The fuel
  counts the events it may look at; with none left the result is \<open>None\<close>.
\<close>

fun serviceLoop ::
  "('d, 'x) hw_scheme \<Rightarrow> CEManager \<Rightarrow> Htc \<Rightarrow> Wmi \<Rightarrow> u32 \<Rightarrow> nat \<Rightarrow>
     ('d, bool option \<times> CEManager \<times> Htc \<times> Wmi) io" where
  "serviceLoop H ce h w deadlineMs fuel =
     (if \<not> (fFwBuild w = 0 \<and> fAbi w ! 0 = 0) then ret (Some True, ce, h, w)
      else case fuel of 0 \<Rightarrow> ret (None, ce, h, w) | Suc fuel \<Rightarrow> do {
        (buf, ce, h) \<leftarrow> recvWmi H ce h kWmiBuf deadlineMs;
        if length buf < 4 then ret (Some False, ce, h, w) else do {
          ce \<leftarrow> wmiArmRecv H ce;
          let evid = word32At buf 0 AND kWmiCmdIdMask;
          if evid = kWmiTlvEvtServiceReady then
            (case parseServiceReady w (drop 4 buf) of
               None \<Rightarrow> do { ub; ret (Some False, ce, h, w) }
             | Some (ok, w) \<Rightarrow>
                 if \<not> ok then ret (Some False, ce, h, w)
                 else serviceLoop H ce h w kQCAExchangeTimeout_ms fuel)
          else serviceLoop H ce h w kQCAExchangeTimeout_ms fuel } })"

declare serviceLoop.simps [simp del]

text \<open>Phase 3: at most five events.\<close>

fun readyEvents ::
  "('d, 'x) hw_scheme \<Rightarrow> CEManager \<Rightarrow> Htc \<Rightarrow> Wmi \<Rightarrow> nat \<Rightarrow>
     ('d, bool \<times> CEManager \<times> Htc \<times> Wmi) io" where
  "readyEvents H ce h w 0 = ret (False, ce, h, w)"
| "readyEvents H ce h w (Suc tries) = do {
     (buf, ce, h) \<leftarrow> recvWmi H ce h kWmiBuf kQCAExchangeTimeout_ms;
     if length buf < 4 then ret (False, ce, h, w) else do {
       ce \<leftarrow> wmiArmRecv H ce;
       if word32At buf 0 AND kWmiCmdIdMask = kWmiTlvEvtReady then
         (case parseReady w (drop 4 buf) of
            None \<Rightarrow> do { ub; ret (False, ce, h, w) }
          | Some (ok, w) \<Rightarrow> ret (ok, ce, h, w))
       else readyEvents H ce h w tries } }"

definition waitServiceAndReady ::
  "('d, 'x) hw_scheme \<Rightarrow> CEManager \<Rightarrow> Htc \<Rightarrow> Wmi \<Rightarrow> u32 \<Rightarrow> nat \<Rightarrow>
     ('d, bool option \<times> CEManager \<times> Htc \<times> Wmi) io" where
  "waitServiceAndReady H ce h w timeoutMs fuel = do {
     ce \<leftarrow> wmiArmRecv H ce;
     (r, ce, h, w) \<leftarrow> serviceLoop H ce h w timeoutMs fuel;
     if r \<noteq> Some True then ret (r, ce, h, w) else do {
       (ok, ce, h) \<leftarrow> sendInit H ce h;
       if \<not> ok then ret (Some False, ce, h, w) else do {
         (ok, ce, h, w) \<leftarrow> readyEvents H ce h w 5;
         ret (Some ok, ce, h, w) } } }"

end
