(* ===== verification/WmiProperties.thy ===== *)
theory WmiProperties
  imports Wmi
begin

text \<open>
  The properties of the WMI layer: the TLV iterator as a record stream, memory safety and
  round trips of the event parsers, the WMI_INIT frame, and the order of the boot conversation.
\<close>

section \<open>TLVs as a record stream\<close>

type_synonym tlv = "u16 \<times> u8 list"

definition tlvStep :: "u8 list \<Rightarrow> nat \<Rightarrow> (tlv \<times> nat) option" where
  "tlvStep p off =
     (if off + 4 \<le> length p \<and> off + 4 + unat (get16 (p ! off) (p ! (off + 1))) \<le> length p
      then Some ((get16 (p ! (off + 2)) (p ! (off + 3)),
                  take (unat (get16 (p ! off) (p ! (off + 1)))) (drop (off + 4) p)),
                 off + 4 + unat (get16 (p ! off) (p ! (off + 1))))
      else None)"

definition encTlv :: "tlv \<Rightarrow> u8 list" where
  "encTlv r = le16 (of_nat (length (snd r))) @ le16 (fst r) @ snd r"

interpretation tlvs: record_stream tlvStep encTlv "\<lambda>r. length (snd r) < 65536"
proof unfold_locales
  fix p off r off'
  assume "tlvStep p off = Some (r, off')"
  then show "off < off' \<and> off' \<le> length p"
    by (auto simp: tlvStep_def split: if_splits)
next
  fix r :: tlv and xs ys :: "u8 list"
  assume "length (snd r) < 65536"
  then have "unat (of_nat (length (snd r)) :: u16) = length (snd r)"
    by (simp add: unat_of_nat)
  then show "tlvStep (xs @ encTlv r @ ys) (length xs) = Some (r, length xs + length (encTlv r))"
    by (cases r) (simp add: tlvStep_def encTlv_def le16_def nth_append)
qed (simp add: tlvStep_def)

text \<open>The value a view shows, and the table that a list of TLVs leaves: the last one wins.\<close>

definition shown :: "u8 list \<Rightarrow> tlvViews \<Rightarrow> u16 \<Rightarrow> u8 list option" where
  "shown p tb tag = map_option (\<lambda>(o', n). take n (drop o' p)) (tb tag)"

definition table :: "nat \<Rightarrow> tlv list \<Rightarrow> u16 \<Rightarrow> u8 list option" where
  "table n rs tag = (if unat tag < n then map_of (rev rs) tag else None)"

definition viewsOk :: "u8 list \<Rightarrow> tlvViews \<Rightarrow> bool" where
  "viewsOk p tb \<longleftrightarrow> (\<forall>tag o' n. tb tag = Some (o', n) \<longrightarrow> o' + n \<le> length p)"

lemma tlvLoop_step:
  assumes "tlvStep p off = Some ((tag, d), off')"
  shows "tlvLoop p off tb n = tlvLoop p off'
    (if unat tag < n then tb(tag := Some (off + 4, length d)) else tb) n"
    and "d = take (length d) (drop (off + 4) p)" and "off + 4 + length d = off'"
    and "off' \<le> length p"
  using assms
  by (subst tlvLoop.simps, auto simp: tlvStep_def u16At_Some numeral_3_eq_3 split: if_splits)

lemma tlvLoop_end:
  assumes "tlvStep p off = None"
  shows "tlvLoop p off tb n = Some (if off < length p then None else Some tb)"
  using assms
  by (subst tlvLoop.simps) (auto simp: tlvStep_def u16At_Some split: if_splits)

lemma tlvLoop_safe:
  assumes "viewsOk p tb"
  shows "\<exists>r. tlvLoop p off tb n = Some r \<and> (\<forall>tb'. r = Some tb' \<longrightarrow> viewsOk p tb')"
  using assms
proof (induction "length p - off" arbitrary: off tb rule: less_induct)
  case less
  show ?case
  proof (cases "tlvStep p off")
    case None
    then show ?thesis using less.prems by (auto simp: tlvLoop_end)
  next
    case (Some x)
    then obtain tag d off' where x: "tlvStep p off = Some ((tag, d), off')" by (cases x) auto
    note s = tlvLoop_step [OF x]
    have "viewsOk p (if unat tag < n then tb(tag := Some (off + 4, length d)) else tb)"
      using less.prems s(3,4) by (auto simp: viewsOk_def)
    then show ?thesis
      using less.hyps [of off'] tlvs.step_grows [OF x] s(1) by auto
  qed
qed

lemma tlvLoop_table:
  assumes "\<forall>r \<in> set rs. length (snd r) < 65536"
  shows "\<exists>tb'. tlvLoop (xs @ concat (map encTlv rs)) (length xs) tb n = Some (Some tb') \<and>
    (\<forall>tag. shown (xs @ concat (map encTlv rs)) tb' tag =
      (case table n rs tag of None \<Rightarrow> shown (xs @ concat (map encTlv rs)) tb tag | Some d \<Rightarrow> Some d))"
  using assms
proof (induction rs arbitrary: xs tb)
  case Nil
  then show ?case by (auto simp: tlvLoop.simps table_def)
next
  case (Cons r rs)
  obtain tag d where r: "r = (tag, d)" by (cases r)
  let ?p = "xs @ concat (map encTlv (r # rs))"
  have s: "tlvStep ?p (length xs) = Some ((tag, d), length xs + length (encTlv r))"
    using tlvs.step_enc [of r xs "concat (map encTlv rs)"] Cons.prems r by simp
  note l = tlvLoop_step [OF s]
  let ?tb = "if unat tag < n then tb(tag := Some (length xs + 4, length d)) else tb"
  have p: "?p = (xs @ encTlv r) @ concat (map encTlv rs)" by simp
  obtain tb' where tb': "tlvLoop ?p (length (xs @ encTlv r)) ?tb n = Some (Some tb')"
    "\<And>t. shown ?p tb' t = (case table n rs t of None \<Rightarrow> shown ?p ?tb t | Some d \<Rightarrow> Some d)"
    using Cons.IH [of "xs @ encTlv r" ?tb] Cons.prems unfolding p by auto
  have "shown ?p ?tb t = (if unat tag < n \<and> t = tag then Some d else shown ?p tb t)" for t
    using l(2) by (auto simp: shown_def)
  then show ?case
    using tb' l(1) by (auto simp: r table_def map_add_def split: option.splits)
qed

section \<open>Event parsers\<close>

lemma u32sAt_safe: "off + 4 * n \<le> length p \<Longrightarrow> \<exists>vs. u32sAt p off n = Some vs \<and> length vs = n"
proof (induction n arbitrary: off)
  case (Suc n)
  then have "u32At p off \<noteq> None" "off + 4 + 4 * n \<le> length p" by (auto simp: u32At_Some)
  with Suc.IH [of "off + 4"] show ?case by auto
qed simp

lemma u32sAt_append: "u32sAt (xs @ concat (map le32 vs) @ ys) (length xs) (length vs) = Some vs"
proof (induction vs arbitrary: xs)
  case (Cons v vs)
  from Cons.IH [of "xs @ le32 v"] u32At_append [of xs v "concat (map le32 vs) @ ys"]
  show ?case by simp
qed simp

lemma tlvParse_safe:
  obtains r where "tlvParse p n = Some r" and "\<And>tb. r = Some tb \<Longrightarrow> viewsOk p tb"
  using tlvLoop_safe [of p "\<lambda>_. None" 0 n] by (auto simp: tlvParse_def viewsOk_def)

lemma view_word:
  assumes "viewsOk p tb" and "tb tag = Some (ev, n)" and "k + 4 \<le> n"
  shows "\<exists>v. u32At p (ev + k) = Some v"
  using assms unfolding viewsOk_def by (fastforce intro!: exI u32At_Some)

lemma view_words:
  assumes "viewsOk p tb" and "tb tag = Some (ev, n)" and "k + 4 * m \<le> n"
  shows "\<exists>vs. u32sAt p (ev + k) m = Some vs \<and> length vs = m"
  using assms u32sAt_safe [of "ev + k" m p] unfolding viewsOk_def by fastforce

lemma parseServiceReady_safe: "\<exists>r. parseServiceReady w p = Some r"
proof -
  obtain r where r: "tlvParse p 128 = Some r" "\<And>tb. r = Some tb \<Longrightarrow> viewsOk p tb"
    using tlvParse_safe by metis
  show ?thesis
  proof (cases "\<exists>tb ev n. r = Some tb \<and> tb 32 = Some (ev, n) \<and> 76 \<le> n")
    case False
    then show ?thesis
      by (auto simp: parseServiceReady_def r(1) not_le split: option.split)
  next
    case True
    then obtain tb ev n where tb: "r = Some tb" "tb 32 = Some (ev, n)" "76 \<le> n" by blast
    note v = r(2) [OF tb(1)]
    obtain b1 b2 b3 b4 where b: "u32At p ev = Some b1" "u32At p (ev + 28) = Some b2"
      "u32At p (ev + 36) = Some b3" "u32At p (ev + 72) = Some b4"
      using view_word [OF v tb(2), of 0] view_word [OF v tb(2), of 28]
        view_word [OF v tb(2), of 36] view_word [OF v tb(2), of 72] tb(3) by auto
    obtain abi where a: "u32sAt p (ev + 4) 6 = Some abi"
      using view_words [OF v tb(2), of 4 6] tb(3) by auto
    have "\<exists>vs. u32sAt p bmap (min n' 64 div 4) = Some vs" if "tb 16 = Some (bmap, n')" for bmap n'
    proof -
      have "4 * (min n' 64 div 4) \<le> n'" by linarith
      then show ?thesis using view_words [OF v that, of 0 "min n' 64 div 4"] by auto
    qed
    then show ?thesis
      using b a tb by (force simp: parseServiceReady_def r(1) Let_def split: option.split)
  qed
qed

lemma parseReady_safe: "\<exists>r. parseReady w p = Some r"
proof -
  obtain r where r: "tlvParse p 128 = Some r" "\<And>tb. r = Some tb \<Longrightarrow> viewsOk p tb"
    using tlvParse_safe by metis
  show ?thesis
  proof (cases "\<exists>tb ev n. r = Some tb \<and> tb 35 = Some (ev, n) \<and> 36 \<le> n")
    case False
    then show ?thesis
      by (auto simp: parseReady_def r(1) not_le split: option.split)
  next
    case True
    then obtain tb ev n where tb: "r = Some tb" "tb 35 = Some (ev, n)" "36 \<le> n" by blast
    note v = r(2) [OF tb(1)]
    obtain b where b: "u32At p (ev + 32) = Some b"
      using view_word [OF v tb(2), of 32] tb(3) by auto
    obtain abi where a: "u32sAt p ev 6 = Some abi"
      using view_words [OF v tb(2), of 0 6] tb(3) by auto
    have "ev + n \<le> length p" using v tb(2) by (auto simp: viewsOk_def)
    then show ?thesis
      using b a tb by (auto simp: parseReady_def r(1) bytesAt_def)
  qed
qed

text \<open>An event found through its view is that value, between what precedes and follows it.\<close>

lemma view_split:
  assumes "\<forall>r \<in> set rs. length (snd r) < 65536" and "p = concat (map encTlv rs)"
  obtains tb where "tlvParse p 128 = Some (Some tb)"
    and "\<And>tag d. table 128 rs tag = Some d \<Longrightarrow>
      \<exists>xs ys. p = xs @ d @ ys \<and> tb tag = Some (length xs, length d)"
    and "\<And>tag. table 128 rs tag = None \<Longrightarrow> tb tag = None"
proof -
  obtain tb where tb: "tlvLoop p 0 (\<lambda>_. None) 128 = Some (Some tb)"
    "\<And>tag. shown p tb tag = table 128 rs tag"
  proof -
    have "(case x of None \<Rightarrow> shown p (\<lambda>_. None) tag | Some d \<Rightarrow> Some d) = x" for x tag
      by (simp add: shown_def split: option.split)
    then show ?thesis
      using that tlvLoop_table [OF assms(1), of "[]" "\<lambda>_. None" 128,
        unfolded append_Nil list.size] assms(2) by auto
  qed
  have v: "viewsOk p tb"
    using tlvLoop_safe [of p "\<lambda>_. None" 0 128] tb(1) by (auto simp: viewsOk_def)
  have "\<exists>xs ys. p = xs @ d @ ys \<and> tb tag = Some (length xs, length d)"
    if t: "table 128 rs tag = Some d" for tag d
  proof -
    obtain off n where o: "tb tag = Some (off, n)" "take n (drop off p) = d"
      using tb(2) [of tag] t by (auto simp: shown_def)
    then have "off + n \<le> length p" using v by (auto simp: viewsOk_def)
    moreover have "p = take off p @ take n (drop off p) @ drop n (drop off p)"
      by (simp only: append_take_drop_id)
    ultimately show ?thesis
      using o by (intro exI [of _ "take off p"] exI [of _ "drop n (drop off p)"]) auto
  qed
  moreover have "tb tag = None" if "table 128 rs tag = None" for tag
    using tb(2) [of tag] that by (auto simp: shown_def)
  ultimately show ?thesis
    using that tb(1) by (auto simp: tlvParse_def)
qed

text \<open>The two events as the firmware lays them out.\<close>

definition svcReadyData ::
  "u32 \<Rightarrow> u32 list \<Rightarrow> u32 \<Rightarrow> u32 \<Rightarrow> u32 \<Rightarrow> u32 list \<Rightarrow> u32 \<Rightarrow> u8 list \<Rightarrow> u8 list" where
  "svcReadyData build abi phy frag nch mid memReqs rest =
     concat (map le32 ([build] @ abi @ [phy, frag, nch] @ mid @ [memReqs])) @ rest"

definition readyData :: "u32 list \<Rightarrow> u8 list \<Rightarrow> u8 \<Rightarrow> u8 \<Rightarrow> u32 \<Rightarrow> u8 list \<Rightarrow> u8 list" where
  "readyData abi mac x y status rest =
     concat (map le32 abi) @ mac @ [x, y] @ le32 status @ rest"

lemma length_words [simp]: "length (concat (map le32 vs)) = 4 * length vs"
  by (induction vs) auto

lemma u32At_words:
  "k < length vs \<Longrightarrow> u32At (xs @ concat (map le32 vs) @ ys) (length xs + 4 * k) = Some (vs ! k)"
proof -
  assume k: "k < length vs"
  have "xs @ concat (map le32 vs) @ ys =
      (xs @ concat (map le32 (take k vs))) @ le32 (vs ! k) @ concat (map le32 (drop (Suc k) vs)) @ ys"
    by (subst id_take_nth_drop [OF k]) simp
  then show ?thesis
    using k u32At_append [of "xs @ concat (map le32 (take k vs))" "vs ! k"] by simp
qed

lemma u32sAt_words:
  assumes "k + n \<le> length vs"
  shows "u32sAt (xs @ concat (map le32 vs) @ ys) (length xs + 4 * k) n = Some (take n (drop k vs))"
proof -
  have "vs = take k vs @ take n (drop k vs) @ drop n (drop k vs)"
    by (simp only: append_take_drop_id)
  then have "xs @ concat (map le32 vs) @ ys = (xs @ concat (map le32 (take k vs))) @
      concat (map le32 (take n (drop k vs))) @ concat (map le32 (drop n (drop k vs))) @ ys"
    by (metis append.assoc concat_append map_append)
  then show ?thesis
    using assms u32sAt_append [of "xs @ concat (map le32 (take k vs))" "take n (drop k vs)"] by simp
qed

lemma parseReady_enc:
  assumes "\<forall>r \<in> set rs. length (snd r) < 65536"
    and "table 128 rs 35 = Some (readyData abi mac x y status rest)"
    and "length abi = 6" and "length mac = 6"
  shows "parseReady w (concat (map encTlv rs)) = Some (True, w\<lparr>fAbi := abi, fMac := mac\<rparr>)"
proof -
  let ?p = "concat (map encTlv rs)"
  obtain tb where tb: "tlvParse ?p 128 = Some (Some tb)"
    "\<And>tag d. table 128 rs tag = Some d \<Longrightarrow>
      \<exists>xs ys. ?p = xs @ d @ ys \<and> tb tag = Some (length xs, length d)"
    using view_split [OF assms(1) refl] by metis
  from tb(2) [OF assms(2)] obtain xs ys where p: "?p = xs @ readyData abi mac x y status rest @ ys"
    "tb 35 = Some (length xs, length (readyData abi mac x y status rest))" by blast
  have "u32sAt ?p (length xs) 6 = Some abi"
    using u32sAt_append [of xs abi] assms(3) by (simp add: p readyData_def)
  moreover have "bytesAt ?p (length xs + 24) 6 = Some mac"
    using assms(3,4) by (simp add: p readyData_def bytesAt_def)
  moreover have "u32At ?p (length xs + 32) = Some status"
    using u32At_append [of "xs @ concat (map le32 abi) @ mac @ [x, y]" status] assms(3,4)
    by (simp add: p readyData_def)
  ultimately show ?thesis
    using assms(3,4) by (simp add: parseReady_def tb(1) p(2)) (simp add: readyData_def)
qed

lemma parseServiceReady_enc:
  assumes "\<forall>r \<in> set rs. length (snd r) < 65536"
    and "table 128 rs 32 = Some (svcReadyData build abi phy frag nch mid memReqs rest)"
    and "table 128 rs 16 = Some bitmap"
    and "length abi = 6" and "length mid = 8" and "4 \<le> length bitmap" and "length bitmap mod 4 = 0"
  shows "parseServiceReady w (concat (map encTlv rs)) = Some (True, w\<lparr>fFwBuild := build,
    fAbi := abi, fPhyCapab := phy, fNumRfChains := nch, fNumMemReqs := memReqs\<rparr>)"
proof -
  let ?p = "concat (map encTlv rs)"
  let ?ws = "[build] @ abi @ [phy, frag, nch] @ mid @ [memReqs]"
  obtain tb where tb: "tlvParse ?p 128 = Some (Some tb)"
    "\<And>tag d. table 128 rs tag = Some d \<Longrightarrow>
      \<exists>xs ys. ?p = xs @ d @ ys \<and> tb tag = Some (length xs, length d)"
    using view_split [OF assms(1) refl] by metis
  from tb(2) [OF assms(2)] obtain xs ys where p: "?p = xs @ concat (map le32 ?ws) @ rest @ ys"
    "tb 32 = Some (length xs, length (svcReadyData build abi phy frag nch mid memReqs rest))"
    by (auto simp: svcReadyData_def)
  have w: "u32At ?p (length xs) = Some build" "u32At ?p (length xs + 28) = Some phy"
    "u32At ?p (length xs + 36) = Some nch" "u32At ?p (length xs + 72) = Some memReqs"
    "u32sAt ?p (length xs + 4) 6 = Some abi"
    unfolding p(1)
    using u32At_words [of 0 ?ws xs] u32At_words [of 7 ?ws xs] u32At_words [of 9 ?ws xs]
      u32At_words [of 18 ?ws xs] u32sAt_words [of 1 6 ?ws xs] assms(4,5)
    by (simp_all add: nth_append)
  from tb(2) [OF assms(3)] obtain as bs where b: "?p = as @ bitmap @ bs"
    "tb 16 = Some (length as, length bitmap)" by blast
  have "\<exists>vs. u32sAt ?p (length as) (min (length bitmap) 64 div 4) = Some vs"
    using u32sAt_safe [of "length as" "min (length bitmap) 64 div 4" ?p] unfolding b(1)
    by fastforce
  then show ?thesis
    using assms(4-7) w b(2) by (auto simp: parseServiceReady_def tb(1) p(2) svcReadyData_def)
qed

section \<open>The WMI_INIT frame\<close>

definition initTlvs :: "tlv list" where
  "initTlvs = [(74, concat (map le32 (kInitAbi @ [0]))), (0, []),
     (75, concat (map le32 kRsrcCfg)), (0, []), (18, []), (0, [])]"

lemma initFrame_bytes: "initFrame = le32 1 @ concat (map encTlv initTlvs)"
  by code_simp

lemma length_initFrame: "length initFrame = 232"
  unfolding initFrame_bytes initTlvs_def by (simp add: encTlv_def kRsrcCfg_def kInitAbi_def)

section \<open>The boot conversation\<close>

text \<open>The frames that went out and the completions that were consumed.\<close>

definition traffic :: "mark list \<Rightarrow> mark list" where
  "traffic ms = filter (\<lambda>m. m \<noteq> Armed \<and> m \<noteq> Undef) ms"

lemma traffic_simps [simp]:
  "traffic [] = []" "traffic (xs @ ys) = traffic xs @ traffic ys"
  "traffic (Armed # ms) = traffic ms" "traffic (Undef # ms) = traffic ms"
  "traffic (Got # ms) = Got # traffic ms" "traffic (Sent f # ms) = Sent f # traffic ms"
  by (simp_all add: traffic_def)

lemma wmiMarks_append [simp]: "wmiMarks ce (xs @ ys) = wmiMarks ce xs @ wmiMarks ce ys"
  by (simp add: wmiMarks_def split: option.split)

lemma does_recvWmi_traffic:
  assumes "wmiUp ce"
  shows "does (recvWmi H ce h n ms) (\<lambda>(buf, ce', h') es. wmiUp ce' \<and> wmiMarks ce' = wmiMarks ce \<and>
     sameButCredits h h' \<and> (if buf = [] then traffic (wmiMarks ce es) \<in> {[], [Got]}
       else traffic (wmiMarks ce es) = [Got]))"
  by (rule does_mono [OF does_recvWmi [OF assms]]) auto

lemma does_wmiArmRecv:
  assumes "wmiUp ce"
  shows "does (wmiArmRecv H ce) (\<lambda>ce' es. wmiUp ce' \<and> wmiMarks ce' = wmiMarks ce \<and>
     traffic (wmiMarks ce es) = [])"
proof -
  have "does (onWmi (armRecv H) ce) (\<lambda>(ok, ce') es. wmiUp ce' \<and> wmiMarks ce' = wmiMarks ce \<and>
      wmiMarks ce es \<in> {[], [Armed]})"
    by (rule does_onWmi [where P = "\<lambda>ok ms. ms \<in> {[], [Armed]}", OF assms],
        unfold armRecv_def, intro does_intros does_mono [OF does_postRecv_marks]) auto
  then show ?thesis
    unfolding wmiArmRecv_def by (rule does_bindP) (auto intro: does_ret)
qed

definition svcSeen :: "Wmi \<Rightarrow> bool" where
  "svcSeen w \<longleftrightarrow> fFwBuild w \<noteq> 0 \<or> fAbi w ! 0 \<noteq> 0"

lemma does_serviceLoop:
  assumes "wmiUp ce"
  shows "does (serviceLoop H ce h w d fuel) (\<lambda>(r, ce', h', w') es. wmiUp ce' \<and>
     wmiMarks ce' = wmiMarks ce \<and> sameButCredits h h' \<and>
     (\<exists>k \<le> fuel. traffic (wmiMarks ce es) = replicate k Got \<and> (r = None \<longrightarrow> k = fuel)) \<and>
     (r = Some True \<longrightarrow> svcSeen w'))"
  using assms
proof (induction fuel arbitrary: ce h w d)
  case 0
  then show ?case by (subst serviceLoop.simps) (auto simp: svcSeen_def intro: does_ret)
next
  case (Suc fuel)
  have loop: "does (serviceLoop H c h1 w1 d1 fuel) (\<lambda>r' fs. (case r' of (r, ce', h', w') \<Rightarrow> \<lambda>es.
      wmiUp ce' \<and> wmiMarks ce' = wmiMarks ce \<and> sameButCredits h h' \<and>
      (\<exists>k \<le> Suc fuel. traffic (wmiMarks ce es) = replicate k Got \<and> (r = None \<longrightarrow> k = Suc fuel)) \<and>
      (r = Some True \<longrightarrow> svcSeen w')) (e1 @ e2 @ fs))"
    if c: "wmiUp c" "wmiMarks c = wmiMarks ce" "sameButCredits h h1"
      "traffic (wmiMarks ce (e1 @ e2)) = [Got]" for c h1 w1 d1 e1 e2
    apply (rule does_mono [OF Suc.IH [OF c(1)]], clarsimp simp: c)
    subgoal for r ce' h' w' es k
      using c(3,4) sameButCredits_trans [of h h1 h']
      by (auto simp: append_eq_Cons_conv intro!: exI [of _ "Suc k"])
    done
  show ?case
  proof (cases "fFwBuild w = 0 \<and> fAbi w ! 0 = 0")
    case False
    then show ?thesis using Suc.prems by (subst serviceLoop.simps) (auto simp: svcSeen_def intro!: does_ret)
  next
    case True
    show ?thesis
      using True apply (subst serviceLoop.simps) apply (simp add: Let_def)
      apply (rule does_bindP [OF does_recvWmi_traffic [OF Suc.prems]], clarsimp split del: if_split)
      apply (intro does_intros)
      subgoal by (auto split: if_splits intro: exI [of _ 0] exI [of _ 1])
      apply (rule does_mono [OF does_wmiArmRecv], assumption, clarsimp split del: if_split)
      apply (intro does_intros)
      subgoal for buf c h1 e1 c2 e2 using parseServiceReady_safe [of w "drop 4 buf"] by simp
      subgoal by (auto split: if_splits intro: exI [of _ 0] exI [of _ 1])
      subgoal by (rule loop) (auto split: if_splits)
      subgoal by (rule loop) (auto split: if_splits)
      done
  qed
qed

lemma does_readyEvents:
  assumes "wmiUp ce"
  shows "does (readyEvents H ce h w n) (\<lambda>(ok, ce', h', w') es. wmiUp ce' \<and>
     wmiMarks ce' = wmiMarks ce \<and> sameButCredits h h' \<and>
     (\<exists>k \<le> n. traffic (wmiMarks ce es) = replicate k Got \<and> (ok \<longrightarrow> 0 < k \<and> length (fMac w') = 6)))"
  using assms
proof (induction n arbitrary: ce h)
  case 0
  then show ?case by (simp add: does_ret)
next
  case (Suc n)
  have loop: "does (readyEvents H c h1 w n) (\<lambda>r' fs. (case r' of (ok, ce', h', w') \<Rightarrow> \<lambda>es.
      wmiUp ce' \<and> wmiMarks ce' = wmiMarks ce \<and> sameButCredits h h' \<and>
      (\<exists>k \<le> Suc n. traffic (wmiMarks ce es) = replicate k Got \<and>
        (ok \<longrightarrow> 0 < k \<and> length (fMac w') = 6))) (e1 @ e2 @ fs))"
    if c: "wmiUp c" "wmiMarks c = wmiMarks ce" "sameButCredits h h1"
      "traffic (wmiMarks ce (e1 @ e2)) = [Got]" for c h1 e1 e2
    apply (rule does_mono [OF Suc.IH [OF c(1)]], clarsimp simp: c)
    subgoal for ok ce' h' w' es k
      using c(3,4) sameButCredits_trans [of h h1 h']
      by (auto simp: append_eq_Cons_conv intro!: exI [of _ "Suc k"])
    done
  have mac: "length (fMac w') = 6" if "parseReady w p = Some (True, w')" for p w'
  proof (cases "\<exists>tb ev n. tlvParse p 128 = Some (Some tb) \<and> tb 35 = Some (ev, n) \<and> 36 \<le> n")
    case True
    then show ?thesis
      using that by (auto simp: parseReady_def bytesAt_def bind_eq_Some_conv split: if_splits)
  next
    case False
    then show ?thesis
      using that by (cases "tlvParse p 128")
        (auto simp: parseReady_def not_le split: option.split_asm if_split_asm)
  qed
  show ?case
    unfolding readyEvents.simps
    apply (rule does_bindP [OF does_recvWmi_traffic [OF Suc.prems]], clarsimp split del: if_split)
    apply (intro does_intros)
    subgoal by (auto split: if_splits intro: exI [of _ 0] exI [of _ 1])
    apply (rule does_mono [OF does_wmiArmRecv], assumption, clarsimp split del: if_split)
    apply (intro does_intros)
    subgoal for buf c h1 e1 c2 e2 using parseReady_safe [of w "drop 4 buf"] by simp
    subgoal for buf c h1 e1 c2 e2 x ok w'
      using mac [of "drop 4 buf" w'] by (auto split: if_splits intro!: exI [of _ 1])
    subgoal by (rule loop) (auto split: if_splits)
    done
qed

lemma does_sendInit:
  assumes "wmiUp ce" and "fCreditSize h \<noteq> 0"
  shows "does (sendInit H ce h) (\<lambda>(ok, ce', h') es. wmiUp ce' \<and> wmiMarks ce' = wmiMarks ce \<and>
     (traffic (wmiMarks ce es) = [Sent (wmiFrame h initFrame)] \<or>
      \<not> ok \<and> traffic (wmiMarks ce es) = []))"
  unfolding sendInit_def length_initFrame
  by (simp, rule does_mono [OF does_sendWmi [OF assms]])
     (auto simp: Let_def assms(1) split: if_splits)

lemma does_waitServiceAndReady:
  assumes "wmiUp ce" and "fCreditSize h \<noteq> 0"
  shows "does (waitServiceAndReady H ce h w ms fuel) (\<lambda>(r, ce', h', w') es. wmiUp ce' \<and>
     (\<exists>k \<le> fuel. if r = None then k = fuel \<and> traffic (wmiMarks ce es) = replicate k Got
       else r = Some False \<and> traffic (wmiMarks ce es) = replicate k Got \<or>
         (\<exists>h1 j. sameButCredits h h1 \<and> j \<le> 5 \<and> traffic (wmiMarks ce es) =
            replicate k Got @ [Sent (wmiFrame h1 initFrame)] @ replicate j Got \<and>
            (r = Some True \<longrightarrow> 0 < j \<and> length (fMac w') = 6))))"
  unfolding waitServiceAndReady_def
  apply (rule does_bindP [OF does_wmiArmRecv [OF assms(1)]], clarsimp split del: if_split)
  apply (rule does_bindP [OF does_serviceLoop], assumption, clarsimp split del: if_split)
  apply (intro does_intros)
  subgoal by auto
  subgoal for c1 e1 r c2 h2 w2 e2 k
    apply (rule does_mono [OF does_sendInit], assumption)
    subgoal using assms(2) by (auto simp: sameButCredits_def)
    apply (clarsimp split del: if_split)
    apply (intro does_intros)
    subgoal for ok c3 h3 e3
      by (fastforce intro: exI [of _ k] exI [of _ h2] exI [of _ "0 :: nat"])
    subgoal for ok c3 h3 e3
      apply (rule does_mono [OF does_readyEvents], assumption, clarsimp split del: if_split)
      apply (rule does_ret)
      apply (auto intro!: exI [of _ k])
      done
    done
  done

section \<open>Properties\<close>

text \<open>
  C34: The TLV iterator and the two boot-event parsers never read outside the event, whatever
  bytes the firmware sends, and every view the iterator returns lies inside the event.
\<close>

theorem wmi_parsers_safe:
  "(\<exists>r. tlvParse p n = Some r \<and> (\<forall>tb tag off len. r = Some tb \<and> tb tag = Some (off, len) \<longrightarrow>
     off + len \<le> length p)) \<and> parseServiceReady w p \<noteq> None \<and> parseReady w p \<noteq> None"
  using tlvLoop_safe [of p "\<lambda>_. None" 0 n] parseServiceReady_safe [of w p] parseReady_safe [of w p]
  by (auto simp: tlvParse_def viewsOk_def)

theorem wmi_parsers_safe_witness:
  "(\<exists>r. tlvParse [2, 0, 16, 0, 7, 8, 1] 128 = Some r \<and>
     (\<forall>tb tag off len. r = Some tb \<and> tb tag = Some (off, len) \<longrightarrow> off + len \<le> 7)) \<and>
   parseReady newWmi [2, 0, 16, 0, 7, 8, 1] \<noteq> None"
  using wmi_parsers_safe [of "[2, 0, 16, 0, 7, 8, 1]" 128 newWmi] by (simp add: eval_nat_numeral)

text \<open>
  C35: Parsing an encoded TLV stream succeeds and shows, for every tag below the table size, the
  value of the last TLV with that tag, and nothing for any other tag.
\<close>

theorem tlv_roundtrip:
  assumes "\<forall>r \<in> set rs. length (snd r) < 65536"
  shows "\<exists>tb. tlvParse (concat (map encTlv rs)) 128 = Some (Some tb) \<and>
    (\<forall>tag. shown (concat (map encTlv rs)) tb tag =
      (if unat tag < 128 then map_of (rev rs) tag else None))"
proof -
  obtain tb where tb: "tlvParse (concat (map encTlv rs)) 128 = Some (Some tb)"
    "\<And>tag d. table 128 rs tag = Some d \<Longrightarrow>
      \<exists>xs ys. concat (map encTlv rs) = xs @ d @ ys \<and> tb tag = Some (length xs, length d)"
    "\<And>tag. table 128 rs tag = None \<Longrightarrow> tb tag = None"
    using view_split [OF assms refl] by metis
  have "shown (concat (map encTlv rs)) tb tag = table 128 rs tag" for tag
  proof (cases "table 128 rs tag")
    case None
    then show ?thesis using tb(3) by (simp add: shown_def)
  next
    case (Some d)
    with tb(2) obtain xs ys where "concat (map encTlv rs) = xs @ d @ ys"
      "tb tag = Some (length xs, length d)" by blast
    then show ?thesis using Some by (simp add: shown_def)
  qed
  with tb(1) show ?thesis by (auto simp: table_def)
qed

theorem tlv_roundtrip_witness:
  "\<exists>tb. tlvParse (concat (map encTlv [(16, [1, 2]), (200, [5]), (16, [3])])) 128 = Some (Some tb) \<and>
     shown (concat (map encTlv [(16, [1, 2]), (200, [5]), (16, [3])])) tb 16 = Some [3] \<and>
     shown (concat (map encTlv [(16, [1, 2]), (200, [5]), (16, [3])])) tb 200 = None"
  using tlv_roundtrip [of "[(16, [1, 2]), (200, [5]), (16, [3])]"] by auto



text \<open>
  C37: The WMI_INIT frame is 232 bytes: the command word, then a TLV stream in which the iterator
  of the same layer finds the INIT_CMD with the ABI words and no memory chunks, the 44 words of
  the resource configuration and an empty chunk array.  Because each header is advanced by eight
  bytes instead of four, an empty TLV with tag 0 follows each of the three.
\<close>

theorem init_frame_decoded:
  "length initFrame = 232 \<and> u32At initFrame 0 = Some 1 \<and> length kRsrcCfg = 44 \<and>
   walk tlvStep (drop 4 initFrame) 0 =
     [(74, concat (map le32 ([0x01000000, 53, 0x5F414351, 0x00004C4D, 0, 0] @ [0]))), (0, []),
      (75, concat (map le32 kRsrcCfg)), (0, []), (18, []), (0, [])]"
proof -
  have "\<forall>r \<in> set initTlvs. length (snd r) < 65536"
    by (simp add: initTlvs_def kInitAbi_def kRsrcCfg_def)
  from tlvs.walk_stream [OF this] have "walk tlvStep (drop 4 initFrame) 0 = initTlvs"
    by (simp add: initFrame_bytes)
  moreover have "u32At initFrame 0 = Some 1" by (simp add: initFrame_bytes)
  ultimately show ?thesis
    by (simp add: length_initFrame initTlvs_def kInitAbi_def kRsrcCfg_def)
qed



end
