(* ===== verification/Firmware.thy ===== *)
theory Firmware
  imports Bmi Records
begin

text \<open>
  Firmware containers and the boot sequence over BMI, \<open>skeleton/FW.hpp\<close> and \<open>skeleton/FW.cpp\<close>
  (class \<open>Fw\<close>).  A container is the list of its bytes, a pointer into it an offset; lengths are
  the 32-bit words of the source, so their wrap-around is kept.  \<open>None\<close> as the outermost result
  of a parser is a read outside the container.  The embedded images of the generated header are
  arguments of the parsers.
\<close>

definition ascii :: "string \<Rightarrow> u8 list" where
  "ascii s = map of_char s"

section \<open>Container parsing\<close>

definition kIeFwVersion :: u32 where [simp]: "kIeFwVersion = 0"
definition kIeFwImage :: u32 where [simp]: "kIeFwImage = 3"
definition kIeOtpImage :: u32 where [simp]: "kIeOtpImage = 4"
definition kBdIeBoardName :: u32 where [simp]: "kBdIeBoardName = 0"
definition kBdIeBoardData :: u32 where [simp]: "kBdIeBoardData = 1"

text \<open>\<open>firmware\<close> and \<open>otp\<close> are offsets of the images, null as \<open>None\<close>; \<open>version\<close> is \<open>char[64]\<close>.\<close>

record FwImage =
  firmware :: "nat option"
  firmwareLen :: u32
  otp :: "nat option"
  otpLen :: u32
  version :: "u8 list"

definition newFwImage :: FwImage where
  "newFwImage = \<lparr>firmware = None, firmwareLen = 0, otp = None, otpLen = 0,
     version = replicate 64 0\<rparr>"

text \<open>The \<open>switch\<close> on the IE id; \<open>off\<close> and \<open>ieLen\<close> locate its payload.\<close>

definition takeIe :: "u8 list \<Rightarrow> u32 \<Rightarrow> nat \<Rightarrow> u32 \<Rightarrow> FwImage \<Rightarrow> FwImage option" where
  "takeIe data ieId off ieLen out =
     (if ieId = kIeFwVersion then
        (if unat ieLen < 64 - 1 then
           (if off + unat ieLen \<le> length data
            then Some (out\<lparr>version := take (unat ieLen) (drop off data) @ [0] @
                             drop (unat ieLen + 1) (version out)\<rparr>)
            else None)
         else Some out)
      else if ieId = kIeFwImage then Some (out\<lparr>firmware := Some off, firmwareLen := ieLen\<rparr>)
      else if ieId = kIeOtpImage then Some (out\<lparr>otp := Some off, otpLen := ieLen\<rparr>)
      else Some out)"

text \<open>The loop over the IEs; the bool is False where it returns on a truncated IE.\<close>

function ieLoop :: "u8 list \<Rightarrow> nat \<Rightarrow> u32 \<Rightarrow> FwImage \<Rightarrow> (bool \<times> FwImage) option" where
  "ieLoop data off len out =
     (if len \<ge> 8 then do {
        ieId \<leftarrow> u32At data off;
        ieLen \<leftarrow> u32At data (off + 4);
        if len - 8 < ieLen then Some (False, out) else do {
          out \<leftarrow> takeIe data ieId (off + 8) ieLen out;
          let pad = pad4 ieLen;
          if pad > len - 8 then Some (True, out)
          else ieLoop data (off + 8 + unat pad) (len - 8 - pad) out } }
      else Some (True, out))"
  by pat_completeness auto
termination
proof (relation "measure (\<lambda>(data, off, len, out). unat len)")
  fix len ieLen pad :: u32
  assume "len \<ge> 8" "\<not> len - 8 < ieLen" "pad = pad4 ieLen" "\<not> pad > len - 8"
  then have "unat (len - 8 - pad) \<le> unat (len - 8)" "unat (len - 8) < unat len"
    by (simp_all add: unat_sub word_le_nat_alt not_less)
  then show "((data, off + 8 + unat pad, len - 8 - pad, out'), (data, off, len, out)) \<in>
      measure (\<lambda>(data, off, len, out). unat len)" for data off out out'
    by simp
qed simp

declare ieLoop.simps [simp del]

definition fwMagic :: "u8 list" where
  "fwMagic = ascii ''QCA-ATH10K'' @ [0]"

definition parseFirmware :: "u8 list \<Rightarrow> (bool \<times> FwImage) option" where
  "parseFirmware data =
     (let magicLen = length fwMagic in
      if length data < magicLen \<or> take magicLen data \<noteq> fwMagic then Some (False, newFwImage)
      else (let magicPad = pad4 (of_nat magicLen) in do {
        (ok, out) \<leftarrow> ieLoop data (unat magicPad) (of_nat (length data) - magicPad) newFwImage;
        if \<not> ok then Some (False, out)
        else if firmware out = None \<or> firmwareLen out = 0 then Some (False, out)
        else Some (True, out) }))"

section \<open>Board selection\<close>

definition hexDigit :: "nat \<Rightarrow> u8" where
  "hexDigit n = of_nat (if n < 10 then 48 + n else 87 + n)"

text \<open>\<open>%04x\<close> of a 16-bit value.\<close>

definition hex4 :: "u16 \<Rightarrow> u8 list" where
  "hex4 v = map (\<lambda>i. hexDigit (unat (drop_bit i v AND 15))) [12, 8, 4, 0]"

definition boardName :: "u16 \<Rightarrow> u16 \<Rightarrow> u8 list" where
  "boardName subsystemVendor subsystemDevice =
     ascii ''bus=pci,vendor=168c,device=0042,subsystem-vendor='' @ hex4 subsystemVendor @
     ascii '',subsystem-device='' @ hex4 subsystemDevice"

text \<open>The result is the offset and the length of the board data.\<close>

function boardLoop ::
  "u8 list \<Rightarrow> u8 list \<Rightarrow> nat \<Rightarrow> u32 \<Rightarrow> bool \<Rightarrow> (nat \<times> u32) option option" where
  "boardLoop want data off len nameMatch =
     (if len \<ge> 8 then do {
        ieId \<leftarrow> u32At data off;
        ieLen \<leftarrow> u32At data (off + 4);
        if len - 8 < ieLen then Some None else do {
          nameMatch' \<leftarrow> (if ieId = kBdIeBoardName
             then (if unat ieLen = length want
                   then (if off + 8 + length want \<le> length data
                         then Some (take (length want) (drop (off + 8) data) = want) else None)
                   else Some False)
             else Some nameMatch);
          if ieId \<noteq> kBdIeBoardName \<and> ieId = kBdIeBoardData \<and> nameMatch
          then Some (Some (off + 8, ieLen))
          else (let pad = pad4 ieLen in
            if pad > len - 8 then Some None
            else boardLoop want data (off + 8 + unat pad) (len - 8 - pad) nameMatch') } }
      else Some None)"
  by pat_completeness auto
termination
proof (relation "measure (\<lambda>(want, data, off, len, nameMatch). unat len)")
  fix len ieLen pad :: u32
  assume "len \<ge> 8" "\<not> len - 8 < ieLen" "pad = pad4 ieLen" "\<not> pad > len - 8"
  then have "unat (len - 8 - pad) \<le> unat (len - 8)" "unat (len - 8) < unat len"
    by (simp_all add: unat_sub word_le_nat_alt not_less)
  then show "((want, data, off + 8 + unat pad, len - 8 - pad, m'), (want, data, off, len, m)) \<in>
      measure (\<lambda>(want, data, off, len, nameMatch). unat len)" for want data off m m'
    by simp
qed simp

declare boardLoop.simps [simp del]

definition boardMagic :: "u8 list" where
  "boardMagic = ascii ''QCA-ATH10K-BOARD'' @ [0]"

definition selectBoard :: "u8 list \<Rightarrow> u16 \<Rightarrow> u16 \<Rightarrow> (nat \<times> u32) option option" where
  "selectBoard board2 subsystemVendor subsystemDevice =
     (let magicLen = length boardMagic in
      if length board2 < magicLen \<or> take magicLen board2 \<noteq> boardMagic then Some None
      else (let magicPad = pad4 (of_nat magicLen);
                want = boardName subsystemVendor subsystemDevice in
        if length want \<ge> 96 then Some None
        else boardLoop want board2 (unat magicPad) (of_nat (length board2) - magicPad) False))"

section \<open>The boot sequence\<close>

definition kPciDevId :: u32 where [simp]: "kPciDevId = 0x0042"
definition kPatchLoadAddr :: u32 where [simp]: "kPatchLoadAddr = 0x1234"
definition kHiBoardDataOff :: u32 where [simp]: "kHiBoardDataOff = 0x54"
definition kHiBoardDataInitOff :: u32 where [simp]: "kHiBoardDataInitOff = 0x58"
definition kFwIndicatorAddr :: u32 where [simp]: "kFwIndicatorAddr = 0x3a028"
definition kFwIndEventPending :: u32 where [simp]: "kFwIndEventPending = 1"
definition kFwIndInitialized :: u32 where [simp]: "kFwIndInitialized = 2"

definition configureTarget ::
  "('d, 'x) hw_scheme \<Rightarrow> CEManager \<Rightarrow> Bmi \<Rightarrow> ('d, bool \<times> CEManager \<times> Bmi) io" where
  "configureTarget H ce b = do {
     (ok, ce) \<leftarrow> bmiWrite32 H ce 0x00 2;
     if \<not> ok then ret (False, ce, b) else do {
       (r, ce, b) \<leftarrow> bmiRead32 H ce b 0x10;
       case r of None \<Rightarrow> ret (False, ce, b) | Some opt \<Rightarrow> do {
         let opt = opt OR (push_bit 9 1 OR push_bit 12 2 OR push_bit 3 1);
         (ok, ce) \<leftarrow> bmiWrite32 H ce 0x10 opt;
         if \<not> ok then ret (False, ce, b) else do {
           (ok, ce) \<leftarrow> bmiWrite32 H ce 0x44 0;
           if \<not> ok then ret (False, ce, b) else do {
             (ok, ce) \<leftarrow> bmiWrite32 H ce 0x104 0;
             if \<not> ok then ret (False, ce, b) else do {
               (ok, ce) \<leftarrow> bmiWrite32 H ce 0xbc kPciDevId;
               ret (ok, ce, b) } } } } } }"

definition downloadBoardData ::
  "('d, 'x) hw_scheme \<Rightarrow> CEManager \<Rightarrow> Bmi \<Rightarrow> u8 list option \<Rightarrow> ('d, bool \<times> CEManager \<times> Bmi) io" where
  "downloadBoardData H ce b boardData = do {
     (r, ce, b) \<leftarrow> bmiRead32 H ce b kHiBoardDataOff;
     case r of None \<Rightarrow> ret (False, ce, b) | Some boardAddr \<Rightarrow>
     if boardAddr = 0 then ret (False, ce, b) else do {
       (ok, ce) \<leftarrow> writeMemory H ce boardAddr (map_option (take 8192) boardData);
       if \<not> ok then ret (False, ce, b) else do {
         (ok, ce) \<leftarrow> bmiWrite32 H ce kHiBoardDataInitOff 1;
         ret (ok, ce, b) } } }"

text \<open>The board and chip ids; \<open>None\<close> where the method returns false.\<close>

definition runOtp ::
  "('d, 'x) hw_scheme \<Rightarrow> CEManager \<Rightarrow> Bmi \<Rightarrow> u8 list option \<Rightarrow>
     ('d, (u32 \<times> u32) option \<times> CEManager \<times> Bmi) io" where
  "runOtp H ce b otpImg =
     (if otpImg = None \<or> otpImg = Some [] then ret (None, ce, b) else do {
        (ok, ce) \<leftarrow> fastDownload H ce kPatchLoadAddr otpImg;
        if \<not> ok then ret (None, ce, b) else do {
          (r, ce, b) \<leftarrow> execute H ce b kPatchLoadAddr 0x10;
          case r of None \<Rightarrow> ret (None, ce, b)
          | Some result \<Rightarrow> ret (Some (drop_bit 10 (result AND 0x7c00),
                                       drop_bit 15 (result AND 0x18000)), ce, b) } })"

definition downloadFirmware ::
  "('d, 'x) hw_scheme \<Rightarrow> CEManager \<Rightarrow> u8 list option \<Rightarrow> ('d, bool \<times> CEManager) io" where
  "downloadFirmware H ce fw = do {
     (ok, ce) \<leftarrow> fastDownload H ce kPatchLoadAddr fw;
     ret (ok, ce) }"

text \<open>The wait for the indicator, at most \<open>n\<close> reads; the result is the last value read.\<close>

fun indicatorLoop :: "('d, 'x) hw_scheme \<Rightarrow> nat \<Rightarrow> u32 \<Rightarrow> ('d, u32) io" where
  "indicatorLoop H 0 val = ret val"
| "indicatorLoop H (Suc n) val = do {
     val \<leftarrow> read32 H kFwIndicatorAddr;
     if val = 0xffffffff then indicatorLoop H n val
     else if val AND kFwIndEventPending \<noteq> 0 then ret val
     else if val AND kFwIndInitialized \<noteq> 0 then ret val
     else do { delay H kQCAPollStep_us; indicatorLoop H n val } }"

definition doneAndWaitTargetInit ::
  "('d, 'x) hw_scheme \<Rightarrow> CEManager \<Rightarrow> Bmi \<Rightarrow> ('d, bool \<times> CEManager \<times> Bmi) io" where
  "doneAndWaitTargetInit H ce b = do {
     (ok, ce, b) \<leftarrow> bmiDone H ce b;
     if \<not> ok then ret (False, ce, b) else do {
       val \<leftarrow> indicatorLoop H (3000 * 1000 div kQCAPollStep_us) 0;
       if val = 0xffffffff then ret (False, ce, b)
       else if val AND kFwIndEventPending \<noteq> 0 then ret (False, ce, b)
       else if val AND kFwIndInitialized = 0 then ret (False, ce, b)
       else ret (True, ce, b) } }"

end
