(* ===== verification/FirmwareProperties.thy ===== *)
theory FirmwareProperties
  imports Firmware
begin

text \<open>
  The properties of the container parsers and of the boot sequence: memory safety, round trips
  over encoded containers, what the layout of board-2.bin makes of the board selection, and the
  commands each boot step sends.
\<close>

section \<open>Information elements as a record stream\<close>

type_synonym ie = "u32 \<times> u8 list"

definition ieStep :: "u8 list \<Rightarrow> nat \<Rightarrow> (ie \<times> nat) option" where
  "ieStep t off =
     (if off + 8 \<le> length t \<and> off + 8 + unat (word32At t (off + 4)) \<le> length t
      then Some ((word32At t off, take (unat (word32At t (off + 4))) (drop (off + 8) t)),
                 min (off + 8 + (unat (word32At t (off + 4)) + 3) div 4 * 4) (length t))
      else None)"

text \<open>An element as the packing tools write it, padded with some byte \<open>b\<close>.\<close>

definition encIe :: "u8 \<Rightarrow> ie \<Rightarrow> u8 list" where
  "encIe b r = le32 (fst r) @ le32 (of_nat (length (snd r))) @ snd r @
     replicate ((4 - length (snd r) mod 4) mod 4) b"

lemma word32At_append: "word32At (xs @ le32 v @ ys) (length xs) = v"
  using u32At_append [of xs v ys] by (simp add: u32At_def word32At_def)

lemma u32At_word32At: "off + 4 \<le> length p \<Longrightarrow> u32At p off = Some (word32At p off)"
  by (simp add: u32At_Some word32At_def)

interpretation ies: record_stream ieStep "encIe b" "\<lambda>r. length (snd r) + 3 < 2 ^ 32" for b
proof unfold_locales
  fix t off r off'
  assume "ieStep t off = Some (r, off')"
  then show "off < off' \<and> off' \<le> length t"
    by (auto simp: ieStep_def split: if_splits)
next
  fix r :: ie and xs ys :: "u8 list"
  assume "length (snd r) + 3 < 2 ^ 32"
  then have n: "unat (of_nat (length (snd r)) :: u32) = length (snd r)"
    by (simp add: unat_of_nat)
  define z :: "u8 list" where "z = replicate ((4 - length (snd r) mod 4) mod 4) b"
  have lz: "length z = (4 - length (snd r) mod 4) mod 4" by (simp add: z_def)
  have e: "encIe b r = le32 (fst r) @ le32 (of_nat (length (snd r))) @ snd r @ z"
    by (simp only: encIe_def z_def)
  have w: "word32At (xs @ encIe b r @ ys) (length xs) = fst r"
    "word32At (xs @ encIe b r @ ys) (length xs + 4) = of_nat (length (snd r))"
    using word32At_append [of xs "fst r"]
      word32At_append [of "xs @ le32 (fst r)" "of_nat (length (snd r))" "(snd r @ z) @ ys"]
    by (simp_all add: e)
  have l: "length (encIe b r) = 8 + length (snd r) + length z"
    "drop (length xs + 8) (xs @ encIe b r @ ys) = snd r @ z @ ys"
    by (simp_all add: e)
  show "ieStep (xs @ encIe b r @ ys) (length xs) = Some (r, length xs + length (encIe b r))"
    unfolding ieStep_def w n pad_len lz [symmetric] l(2) by (simp add: l(1))
qed (simp add: ieStep_def)

section \<open>The firmware image\<close>

type_synonym image = "u8 list option \<times> u8 list option \<times> u8 list"

text \<open>The contents behind the pointers of a \<open>FwImage\<close>, and what an element contributes.\<close>

definition imageOf :: "u8 list \<Rightarrow> FwImage \<Rightarrow> image" where
  "imageOf data out =
     (map_option (\<lambda>p. take (unat (firmwareLen out)) (drop p data)) (firmware out),
      map_option (\<lambda>p. take (unat (otpLen out)) (drop p data)) (otp out), version out)"

fun addIe :: "ie \<Rightarrow> image \<Rightarrow> image" where
  "addIe (i, d) (f, e, v) =
     (if i = 0 then (f, e, if length d < 63 then d @ [0] @ drop (length d + 1) v else v)
      else if i = 3 then (Some d, e, v)
      else if i = 4 then (f, Some d, v)
      else (f, e, v))"

definition imageOk :: "u8 list \<Rightarrow> FwImage \<Rightarrow> bool" where
  "imageOk data out \<longleftrightarrow>
     (\<forall>p. firmware out = Some p \<longrightarrow> p + unat (firmwareLen out) \<le> length data) \<and>
     (\<forall>p. otp out = Some p \<longrightarrow> p + unat (otpLen out) \<le> length data) \<and>
     length (version out) = 64 \<and> version out ! 63 = 0"

lemma takeIe_spec:
  assumes "off + unat n \<le> length data" and "imageOk data out"
  shows "\<exists>out'. takeIe data i off n out = Some out' \<and> imageOk data out' \<and>
    imageOf data out' = addIe (i, take (unat n) (drop off data)) (imageOf data out)"
  using assms by (auto simp: takeIe_def imageOf_def imageOk_def nth_append)

text \<open>The \<open>len\<close> of the loop at an offset.\<close>

definition left :: "u8 list \<Rightarrow> nat \<Rightarrow> u32" where
  "left data off = of_nat (length data - off)"

lemma unat_left: "length data < 2 ^ 32 \<Longrightarrow> unat (left data off) = length data - off"
  unfolding left_def unat_of_nat by (rule mod_less) simp

text \<open>The arithmetic of one round: the header fits, the payload fits, where the next one starts.\<close>

lemma ie_fits:
  assumes "length data < 2 ^ 32" and "off + 8 \<le> length data"
  shows "8 \<le> left data off" "unat (left data off - 8) = length data - (off + 8)"
    "left data off - 8 < n \<longleftrightarrow> length data < off + 8 + unat n"
proof -
  show ge: "8 \<le> left data off"
    using unat_left [OF assms(1), of off] assms(2) by (simp add: word_le_nat_alt)
  then show l: "unat (left data off - 8) = length data - (off + 8)"
    using unat_left [OF assms(1), of off] by (simp add: unat_sub)
  show "left data off - 8 < n \<longleftrightarrow> length data < off + 8 + unat n"
    using assms(2) by (auto simp: word_less_nat_alt l)
qed

lemma ie_next:
  assumes "length data < 2 ^ 32" and "off + 8 + unat n \<le> length data"
    and "off' = min (off + 8 + (unat n + 3) div 4 * 4) (length data)"
  shows "if left data off - 8 < pad4 n then off' = length data
    else off' = off + 8 + unat (pad4 n) \<and> left data off - 8 - pad4 n = left data off'"
proof -
  have pad: "unat (pad4 n) = (unat n + 3) div 4 * 4"
    using assms(1,2) by (intro unat_pad4) simp
  have "off + 8 \<le> length data" using assms(2) by simp
  note f = ie_fits [OF assms(1) this]
  show ?thesis
    using assms(2,3) pad f(2) unat_left [OF assms(1), of off']
    by (auto simp: f(3) word_unat_eq_iff unat_sub not_less word_le_nat_alt)
qed

lemma ieStep_facts:
  assumes "ieStep data off = Some ((i, d), off')"
  obtains n where "u32At data off = Some i" and "u32At data (off + 4) = Some n"
    and "off + 8 \<le> length data" and "off + 8 + unat n \<le> length data"
    and "d = take (unat n) (drop (off + 8) data)"
    and "off' = min (off + 8 + (unat n + 3) div 4 * 4) (length data)" and "n = word32At data (off + 4)"
  using assms by (auto simp: ieStep_def u32At_word32At split: if_splits)

lemma ieLoop_step:
  assumes "ieStep data off = Some ((i, d), off')" and "length data < 2 ^ 32" and "imageOk data out"
  shows "\<exists>out'. ieLoop data off (left data off) out = ieLoop data off' (left data off') out' \<and>
      imageOk data out' \<and> imageOf data out' = addIe (i, d) (imageOf data out)"
proof -
  obtain n where s: "u32At data off = Some i" "u32At data (off + 4) = Some n"
    "off + 8 \<le> length data" "off + 8 + unat n \<le> length data"
    "d = take (unat n) (drop (off + 8) data)"
    "off' = min (off + 8 + (unat n + 3) div 4 * 4) (length data)"
    using ieStep_facts [OF assms(1)] by metis
  note f = ie_fits [OF assms(2) s(3)] and nx = ie_next [OF assms(2) s(4,6)]
  obtain out' where out': "takeIe data i (off + 8) n out = Some out'" "imageOk data out'"
    "imageOf data out' = addIe (i, d) (imageOf data out)"
    using takeIe_spec [OF s(4) assms(3), of i] s(5) by auto
  have "ieLoop data off (left data off) out = ieLoop data off' (left data off') out'"
  proof (cases "left data off - 8 < pad4 n")
    case True
    then show ?thesis
      using f s out'(1) nx
      by (subst ieLoop.simps) (simp add: Let_def ieLoop.simps [of data "length data"] left_def not_less)
  next
    case False
    then show ?thesis
      using f s out'(1) nx by (subst ieLoop.simps) (simp add: Let_def not_less)
  qed
  then show ?thesis using out'(2,3) by blast
qed

lemma ieLoop_stop:
  assumes "ieStep data off = None" and "length data < 2 ^ 32"
  shows "ieLoop data off (left data off) out = Some (length data < off + 8, out)"
proof (cases "off + 8 \<le> length data")
  case False
  then show ?thesis
    using unat_left [OF assms(2), of off]
    by (subst ieLoop.simps) (auto simp: word_le_nat_alt)
next
  case True
  then have "length data < off + 8 + unat (word32At data (off + 4))"
    using assms(1) by (simp add: ieStep_def not_le split: if_splits)
  then show ?thesis
    using True ie_fits [OF assms(2) True] by (subst ieLoop.simps) (simp add: u32At_word32At)
qed

lemma ieLoop_spec:
  assumes "length data < 2 ^ 32" and "imageOk data out"
  shows "\<exists>out'. ieLoop data off (left data off) out =
      Some (length data < walkEnd ieStep data off + 8, out') \<and> imageOk data out' \<and>
      imageOf data out' = fold addIe (walk ieStep data off) (imageOf data out)"
  using assms(2)
proof (induction "length data - off" arbitrary: off out rule: less_induct)
  case less
  show ?case
  proof (cases "ieStep data off")
    case None
    then show ?thesis
      using less.prems ieLoop_stop [OF None assms(1), of out]
      by (simp add: ies.walk_None ies.walkEnd_None)
  next
    case (Some x)
    then obtain i d off' where x: "ieStep data off = Some ((i, d), off')" by (cases x) auto
    obtain out1 where o: "ieLoop data off (left data off) out = ieLoop data off' (left data off') out1"
      "imageOk data out1" "imageOf data out1 = addIe (i, d) (imageOf data out)"
      using ieLoop_step [OF x assms(1) less.prems] by blast
    have "length data - off' < length data - off"
      using ies.step_grows [OF x] by linarith
    from less.hyps [OF this o(2)] show ?thesis
      by (simp add: o(1,3) ies.walk_Some [OF x] ies.walkEnd_Some [OF x])
  qed
qed

lemma imageOk_new [simp]: "imageOk data newFwImage"
  by (simp add: imageOk_def newFwImage_def)

lemma length_magics [simp]: "length fwMagic = 11" "length boardMagic = 17"
  by (simp_all add: fwMagic_def boardMagic_def ascii_def)

lemma magic_pads [simp]: "pad4 11 = 12" "pad4 17 = 20"
  by (simp_all add: pad4_def)

lemma magic_left:
  assumes "12 \<le> length data" and "length data < 2 ^ 32"
  shows "of_nat (length data) - 12 = left data 12"
  using assms by (simp add: left_def of_nat_diff)

lemma parseFirmware_spec:
  assumes "12 \<le> length data" and "length data < 2 ^ 32" and "take 11 data = fwMagic"
  shows "\<exists>out. parseFirmware data = Some (length data < walkEnd ieStep data 12 + 8 \<and>
      firmware out \<noteq> None \<and> firmwareLen out \<noteq> 0, out) \<and> imageOk data out \<and>
      imageOf data out = fold addIe (walk ieStep data 12) (None, None, replicate 64 0)"
proof -
  have "imageOf data newFwImage = (None, None, replicate 64 0)"
    by (simp add: imageOf_def newFwImage_def)
  then show ?thesis
    using ieLoop_spec [OF assms(2) imageOk_new, of 12] assms
    by (auto simp: parseFirmware_def magic_left Let_def)
qed

lemma parseFirmware_encoded:
  assumes "\<forall>r \<in> set rs. length (snd r) + 3 < 2 ^ 32"
    and "data = fwMagic @ [x] @ concat (map (encIe b) rs)" and "length data < 2 ^ 32"
  obtains out where "parseFirmware data = Some (firmware out \<noteq> None \<and> firmwareLen out \<noteq> 0, out)"
    and "imageOk data out" and "imageOf data out = fold addIe rs (None, None, replicate 64 0)"
proof -
  have w: "walk ieStep data 12 = rs" "walkEnd ieStep data 12 = length data"
    using ies.walk_enc [OF assms(1), of "fwMagic @ [x]"] ies.walkEnd_enc [OF assms(1), of "fwMagic @ [x]"]
      assms(2) by simp_all
  have "12 \<le> length data" "take 11 data = fwMagic" using assms(2) by simp_all
  from parseFirmware_spec [OF this(1) assms(3) this(2)] show thesis
    by (auto simp: w intro: that)
qed

section \<open>Board selection\<close>

text \<open>The reference: the first board data after a matching name, no other name in between.\<close>

fun boardSpec :: "u8 list \<Rightarrow> bool \<Rightarrow> ie list \<Rightarrow> u8 list option" where
  "boardSpec want m [] = None"
| "boardSpec want m ((i, d) # rs) =
     (if i = 0 then boardSpec want (d = want) rs
      else if i = 1 \<and> m then Some d
      else boardSpec want m rs)"

definition slice :: "u8 list \<Rightarrow> nat \<times> u32 \<Rightarrow> u8 list" where
  "slice data r = take (unat (snd r)) (drop (fst r) data)"

definition boardOk :: "u8 list \<Rightarrow> (nat \<times> u32) option \<Rightarrow> bool" where
  "boardOk data r \<longleftrightarrow> (\<forall>p n. r = Some (p, n) \<longrightarrow> p + unat n \<le> length data)"

lemma boardLoop_step:
  assumes "ieStep data off = Some ((i, d), off')" and "length data < 2 ^ 32"
  shows "boardLoop want data off (left data off) m =
    (if i \<noteq> 0 \<and> i = 1 \<and> m then Some (Some (off + 8, word32At data (off + 4)))
     else boardLoop want data off' (left data off') (if i = 0 then d = want else m))"
proof -
  obtain n where s: "u32At data off = Some i" "u32At data (off + 4) = Some n"
    "off + 8 \<le> length data" "off + 8 + unat n \<le> length data"
    "d = take (unat n) (drop (off + 8) data)"
    "off' = min (off + 8 + (unat n + 3) div 4 * 4) (length data)" "n = word32At data (off + 4)"
    using ieStep_facts [OF assms(1)] by metis
  note f = ie_fits [OF assms(2) s(3)] and nx = ie_next [OF assms(2) s(4,6)]
  have "length d = unat n" using s(4,5) by simp
  then have nm: "(if unat n = length want
      then (if off + 8 + length want \<le> length data
            then Some (take (length want) (drop (off + 8) data) = want) else None)
      else Some False) = Some (d = want)"
    using s(4,5) by auto
  have "\<not> left data off - 8 < n" using f(3) s(4) by simp
  then have *: "boardLoop want data off (left data off) m =
      (if i \<noteq> 0 \<and> i = 1 \<and> m then Some (Some (off + 8, n))
       else if left data off - 8 < pad4 n then Some None
       else boardLoop want data (off + 8 + unat (pad4 n)) (left data off - 8 - pad4 n)
         (if i = 0 then d = want else m))"
    using f(1) s(1,2) nm by (subst boardLoop.simps) (simp add: Let_def)
  have "boardLoop want data (length data) (left data (length data)) m' = Some None" for m'
    by (subst boardLoop.simps) (simp add: left_def)
  then show ?thesis
    unfolding * using nx s(7) by (auto split: if_splits)
qed

lemma boardLoop_stop:
  assumes "ieStep data off = None" and "length data < 2 ^ 32"
  shows "boardLoop want data off (left data off) m = Some None"
proof (cases "off + 8 \<le> length data")
  case False
  then show ?thesis
    using unat_left [OF assms(2), of off]
    by (subst boardLoop.simps) (auto simp: word_le_nat_alt)
next
  case True
  then have "length data < off + 8 + unat (word32At data (off + 4))"
    using assms(1) by (simp add: ieStep_def not_le split: if_splits)
  then show ?thesis
    using True ie_fits [OF assms(2) True] by (subst boardLoop.simps) (simp add: u32At_word32At)
qed

lemma boardLoop_spec:
  assumes "length data < 2 ^ 32"
  shows "\<exists>r. boardLoop want data off (left data off) m = Some r \<and> boardOk data r \<and>
    map_option (slice data) r = boardSpec want m (walk ieStep data off)"
proof (induction "length data - off" arbitrary: off m rule: less_induct)
  case less
  show ?case
  proof (cases "ieStep data off")
    case None
    then show ?thesis
      using boardLoop_stop [OF None assms] by (simp add: ies.walk_None boardOk_def)
  next
    case (Some x)
    then obtain i d off' where x: "ieStep data off = Some ((i, d), off')" by (cases x) auto
    obtain n where s: "off + 8 + unat n \<le> length data" "d = take (unat n) (drop (off + 8) data)"
      "n = word32At data (off + 4)"
      using ieStep_facts [OF x] by metis
    have "length data - off' < length data - off"
      using ies.step_grows [OF x] by linarith
    from less.hyps [OF this] show ?thesis
      using s by (auto simp: boardLoop_step [OF x assms] ies.walk_Some [OF x] boardOk_def slice_def)
  qed
qed

lemma length_boardName [simp]: "length (boardName v d) = 75"
  by (simp add: boardName_def ascii_def hex4_def)

lemma selectBoard_spec:
  assumes "20 \<le> length data" and "length data < 2 ^ 32" and "take 17 data = boardMagic"
  shows "\<exists>r. selectBoard data v d = Some r \<and> boardOk data r \<and>
    map_option (slice data) r = boardSpec (boardName v d) False (walk ieStep data 20)"
proof -
  have "of_nat (length data) - 20 = left data 20"
    using assms(1) by (simp add: left_def of_nat_diff)
  then show ?thesis
    using boardLoop_spec [OF assms(2), of "boardName v d" 20 False] assms
    by (simp add: selectBoard_def Let_def)
qed

lemma boardSpec_names_only: "\<forall>r \<in> set rs. fst r = 0 \<Longrightarrow> boardSpec want m rs = None"
  by (induction rs arbitrary: m) auto

section \<open>Boot steps\<close>

text \<open>The frame that writes one word of the host-interest area.\<close>

definition hiWrite :: "u32 \<Rightarrow> u32 \<Rightarrow> u8 list" where
  "hiWrite off v = le32 3 @ le32 (0x00400800 + off) @ le32 4 @ le32 v"

definition hiRead :: "u32 \<Rightarrow> u8 list" where
  "hiRead off = le32 2 @ le32 (0x00400800 + off) @ le32 4"

lemma writeFrames_word:
  assumes "length payload = 256"
  shows "writeFrames payload adr (le32 v) = [le32 3 @ le32 adr @ le32 4 @ le32 v]"
proof -
  have "pad4 4 = 4" by (simp add: pad4_def)
  moreover have "le32 v \<noteq> []" by (simp add: le32_def)
  ultimately show ?thesis
    by (simp add: writeFrames.simps [of payload] cmdWriteMemory_def Let_def)
qed

lemma does_bmiWrite32:
  assumes "ctrlUp ce"
  shows "does (bmiWrite32 H ce off v) (\<lambda>(ok, ce') es. ctrlUp ce' \<and> ctrlMarks ce' = ctrlMarks ce \<and>
     (ctrlMarks ce es = [Sent (hiWrite off v)] \<or> \<not> ok \<and> ctrlMarks ce es = []))"
  unfolding bmiWrite32_def kHostInterestAddress_def
proof (rule does_mono [OF does_writeMemory [OF assms]], clarify, goal_cases)
  case (1 ok ce' es payload k)
  then show ?case
    by (cases k) (auto simp: writeFrames_word hiWrite_def)
qed

lemma does_bmiRead32:
  assumes "ctrlUp ce" and "\<not> fDoneSent b"
  shows "does (bmiRead32 H ce b off) (\<lambda>(r, ce', b') es. ctrlUp ce' \<and> ctrlMarks ce' = ctrlMarks ce \<and>
     \<not> fDoneSent b' \<and> (r \<noteq> None \<longrightarrow> ctrlMarks ce es = [Armed, Sent (hiRead off), Got]))"
  unfolding bmiRead32_def readMemory_def
  apply (simp del: kHostInterestAddress_def)
  apply (rule does_bindP [OF does_exchangeWait [OF assms(1) _ assms(2)]], simp, clarsimp)
  apply (rule does_ret)
  apply (auto simp: exchangeMarks_def hiRead_def cmdReadMemory_def)
  done

lemma does_configureTarget:
  assumes "ctrlUp ce" and "\<not> fDoneSent b"
  shows "does (configureTarget H ce b) (\<lambda>(ok, ce', b') es. ctrlUp ce' \<and>
     ctrlMarks ce' = ctrlMarks ce \<and> \<not> fDoneSent b' \<and>
     (ok \<longrightarrow> (\<exists>opt. ctrlMarks ce es = [Sent (hiWrite 0 2), Armed, Sent (hiRead 0x10), Got,
        Sent (hiWrite 0x10 (opt OR 0x2208)), Sent (hiWrite 0x44 0), Sent (hiWrite 0x104 0),
        Sent (hiWrite 0xbc 0x42)])))"
  unfolding configureTarget_def Let_def
  apply (rule does_bindP [OF does_bmiWrite32 [OF assms(1)]], clarsimp split del: if_split)
  apply (intro does_intros)
  subgoal using assms by simp
  apply (rule does_mono [OF does_bmiRead32 [OF _ assms(2)]], assumption, clarsimp split del: if_split)
  apply (intro does_intros)
  subgoal by simp
  apply (rule does_mono [OF does_bmiWrite32], assumption, clarsimp split del: if_split)
  apply (intro does_intros)
  subgoal by simp
  apply (rule does_mono [OF does_bmiWrite32], assumption, clarsimp split del: if_split)
  apply (intro does_intros)
  subgoal by simp
  apply (rule does_mono [OF does_bmiWrite32], assumption, clarsimp split del: if_split)
  apply (intro does_intros)
  subgoal by simp
  apply (rule does_mono [OF does_bmiWrite32], assumption, clarsimp split del: if_split)
  apply (rule does_ret)
  apply auto
  done

lemma does_downloadBoardData:
  assumes "ctrlUp ce" and "\<not> fDoneSent b"
  shows "does (downloadBoardData H ce b (Some img)) (\<lambda>(ok, ce', b') es. ctrlUp ce' \<and>
     ctrlMarks ce' = ctrlMarks ce \<and> \<not> fDoneSent b' \<and>
     (ok \<longrightarrow> (\<exists>adr payload. adr \<noteq> 0 \<and> length payload = 256 \<and> img \<noteq> [] \<and>
        ctrlMarks ce es = [Armed, Sent (hiRead 0x54), Got] @
          map Sent (writeFrames payload adr (take 8192 img)) @ [Sent (hiWrite 0x58 1)])))"
  unfolding downloadBoardData_def kHiBoardDataOff_def kHiBoardDataInitOff_def option.map
  apply (rule does_bindP [OF does_bmiRead32 [OF assms]], clarsimp split del: if_split)
  apply (intro does_intros)
  subgoal by simp
  subgoal by simp
  apply (rule does_mono [OF does_writeMemory], assumption, clarsimp split del: if_split)
  apply (intro does_intros)
  subgoal by simp
  apply (rule does_mono [OF does_bmiWrite32], assumption, clarsimp split del: if_split)
  apply (rule does_ret)
  apply auto
  done

lemma does_runOtp:
  assumes "ctrlUp ce" and "\<not> fDoneSent b"
  shows "does (runOtp H ce b (Some img)) (\<lambda>(r, ce', b') es. ctrlUp ce' \<and>
     ctrlMarks ce' = ctrlMarks ce \<and> \<not> fDoneSent b' \<and>
     (\<forall>boardId chipId. r = Some (boardId, chipId) \<longrightarrow> img \<noteq> [] \<and> boardId < 32 \<and> chipId < 4 \<and>
        ctrlMarks ce es = map Sent (streamFrames 0x1234 img) @
          [Armed, Sent (le32 4 @ le32 0x1234 @ le32 0x10), Got]))"
proof -
  have bits: "v AND 31 < (32 :: u32)" "v AND 3 < (4 :: u32)" for v
    by (rule le_less_trans [OF word_and_le1], simp)+
  show ?thesis
  unfolding runOtp_def execute_def kPatchLoadAddr_def
  apply (intro does_intros)
  subgoal using assms by simp
  apply (rule does_mono [OF does_fastDownload [OF assms(1)]], clarsimp split del: if_split)
  apply (intro does_intros)
  subgoal using assms by simp
  apply (rule does_mono [OF does_exchangeWait [OF _ _ assms(2)]], assumption, simp, clarsimp split del: if_split)
  apply (intro does_intros)
  subgoal by simp
  subgoal by (auto simp: exchangeMarks_def cmdExecute_def bits)
  done
qed

lemma does_indicatorLoop:
  "does (indicatorLoop H n v) (\<lambda>r es. polls 0x3a028 es \<and> length es \<le> 2 * n \<and>
     r = lastRd 0x3a028 es v)"
proof (induction n arbitrary: v)
  case 0
  then show ?case by (simp add: does_ret)
next
  case (Suc n)
  show ?case
    unfolding indicatorLoop.simps kFwIndicatorAddr_def kQCAPollStep_us_def
    by (intro does_intros does_mono [OF Suc.IH]) auto
qed

lemma ctrlMarks_polls: "polls off es \<Longrightarrow> ctrlMarks ce es = []"
  by (simp add: ctrlMarks_def split: option.split)

lemma does_doneAndWaitTargetInit:
  assumes "ctrlUp ce"
  shows "does (doneAndWaitTargetInit H ce b) (\<lambda>(ok, ce', b') es. ctrlUp ce' \<and>
     ctrlMarks ce' = ctrlMarks ce \<and>
     (ok \<longrightarrow> fDoneSent b' \<and> ctrlMarks ce es = [Sent cmdDone] \<and>
        (\<exists>pre ps. es = pre @ ps \<and> polls 0x3a028 ps \<and> length ps \<le> 120000 \<and>
           (let v = lastRd 0x3a028 ps 0 in v \<noteq> 0xffffffff \<and> v AND 1 = 0 \<and> v AND 2 \<noteq> 0))))"
  unfolding doneAndWaitTargetInit_def Let_def
  apply (rule does_bindP [OF does_bmiDone [OF assms]], clarsimp split del: if_split)
  apply (intro does_intros)
  subgoal by simp
  apply (rule does_mono [OF does_indicatorLoop])
  apply (intro does_intros)
  subgoal by simp
  subgoal by simp
  subgoal by simp
  subgoal for ok ce' b' es v ps 
    by (auto simp: ctrlMarks_polls intro: exI [where x = es])
  done

text \<open>The board image, up to 8192 bytes of it, and then the initialised flag.\<close>

lemma board_downloads:
  assumes "ctrlUp ce" and "\<not> fDoneSent b"
  shows "does (downloadBoardData H ce b (Some img)) (\<lambda>(ok, ce', b') es. ctrlUp ce' \<and>
     (ok \<longrightarrow> (\<exists>(adr :: u32) fs. adr \<noteq> 0 \<and> ctrlMarks ce es =
        [Armed, Sent (hiRead 0x54), Got] @ map Sent fs @ [Sent (hiWrite 0x58 1)] \<and>
        (unat adr + 8195 < 2 ^ 32 \<longrightarrow> (\<exists>junk. length junk < 4 \<and> (\<forall>m. fold applyWrite fs m =
           stBytes (unat adr) (take 8192 img @ junk) m))))))"
  apply (rule does_mono [OF does_downloadBoardData [OF assms]], clarsimp)
  subgoal for ok ce' b' es adr payload
  proof -
    assume *: "length payload = 256" "adr \<noteq> 0"
    have "unat adr < 4294959101 \<Longrightarrow> \<exists>junk. length junk < 4 \<and>
        (\<forall>m. fold applyWrite (writeFrames payload adr (take 8192 img)) m =
           stBytes (unat adr) (take 8192 img @ junk) m)"
      by (rule writeFrames_effect) (simp_all add: *(1))
    with *(2) show ?thesis
      by - (rule exI [of _ adr], rule conjI, assumption, rule exI, rule conjI, rule refl, blast)
  qed
  done

section \<open>Properties\<close>

text \<open>
  C38: Parsing a firmware container of at least 12 bytes never reads outside it, whatever its
  bytes; the images it returns lie inside the container and the version is a terminated string
  of 64 bytes.
\<close>

theorem firmware_parser_safe:
  assumes "12 \<le> length data" and "length data < 2 ^ 32"
  shows "\<exists>ok out. parseFirmware data = Some (ok, out) \<and> imageOk data out"
proof (cases "take 11 data = fwMagic")
  case True
  then show ?thesis using parseFirmware_spec [OF assms] by blast
next
  case False
  then show ?thesis
    using assms
    by (intro exI [of _ False] exI [of _ newFwImage]) (simp add: parseFirmware_def Let_def)
qed

theorem firmware_parser_safe_witness:
  "\<exists>ok out. parseFirmware (fwMagic @ [0, 3, 0, 0, 0, 9, 0, 0, 0]) = Some (ok, out) \<and>
     imageOk (fwMagic @ [0, 3, 0, 0, 0, 9, 0, 0, 0]) out"
  by (rule firmware_parser_safe) simp_all

text \<open>
  C14: A container written as the magic and encoded elements is parsed exactly: the firmware is
  the last FW_IMAGE payload, the OTP image the last OTP_IMAGE payload, the version the last
  FW_VERSION payload shorter than 63 bytes; it is accepted just when there is a non-empty
  firmware.
\<close>

theorem firmware_roundtrip:
  assumes "\<forall>r \<in> set rs. length (snd r) + 3 < 2 ^ 32"
    and "data = fwMagic @ [x] @ concat (map (encIe b) rs)" and "length data < 2 ^ 32"
  shows "\<exists>ok out. parseFirmware data = Some (ok, out) \<and>
    imageOf data out = fold addIe rs (None, None, replicate 64 0) \<and>
    ok = (\<exists>f e v. fold addIe rs (None, None, replicate 64 0) = (Some f, e, v) \<and> f \<noteq> [])"
proof -
  obtain out where
    p: "parseFirmware data = Some (firmware out \<noteq> None \<and> firmwareLen out \<noteq> 0, out)"
      "imageOk data out" "imageOf data out = fold addIe rs (None, None, replicate 64 0)"
    using parseFirmware_encoded [OF assms] by blast
  have "(firmware out \<noteq> None \<and> firmwareLen out \<noteq> 0) =
      (\<exists>f e v. imageOf data out = (Some f, e, v) \<and> f \<noteq> [])"
    using p(2) by (cases "firmware out") (auto simp: imageOf_def imageOk_def word_unat_eq_iff)
  then show ?thesis using p by auto
qed

theorem firmware_roundtrip_witness:
  "\<exists>ok out. parseFirmware (fwMagic @ [0] @ concat (map (encIe 0) [(0, [65, 66]), (4, [1, 2, 3]), (3, [7])])) =
      Some (ok, out) \<and>
    imageOf (fwMagic @ [0] @ concat (map (encIe 0) [(0, [65, 66]), (4, [1, 2, 3]), (3, [7])])) out =
      (Some [7], Some [1, 2, 3], 65 # 66 # 0 # replicate 61 0) \<and> ok"
  using firmware_roundtrip [OF _ refl, of "[(0, [65, 66]), (4, [1, 2, 3]), (3, [7])]" 0]
  by (auto simp: encIe_def)



text \<open>
  On the layout that \<open>FW.hpp\<close> documents for board-2.bin, where every top-level element is a
  BOARD element (id 0) with the name and data elements nested in its payload, no board is ever
  selected: the loop looks for the data element at the top level only.
\<close>

lemma nested_boards_never_selected:
  assumes "\<forall>r \<in> set boards. fst r = 0 \<and> length (snd r) + 3 < 2 ^ 32"
    and "data = boardMagic @ [x, y, z] @ concat (map (encIe b) boards)" and "length data < 2 ^ 32"
  shows "selectBoard data v d = Some None"
proof -
  have g: "\<forall>r \<in> set boards. length (snd r) + 3 < 2 ^ 32" using assms(1) by blast
  have "walk ieStep data 20 = boards"
    using ies.walk_enc [OF g, of "boardMagic @ [x, y, z]"] assms(2) by simp
  moreover have "boardSpec (boardName v d) False boards = None"
    using assms(1) by (intro boardSpec_names_only) blast
  ultimately show ?thesis
    using selectBoard_spec [of data v d] assms(2,3) by simp
qed

text \<open>
  A container that ends right after its magic makes \<open>len -= magicPad\<close> wrap, and the loop reads
  behind the container.
\<close>

lemma short_container_overread:
  "parseFirmware fwMagic = None" "selectBoard boardMagic v d = None"
proof -
  have "u32At fwMagic 12 = None" "u32At boardMagic 20 = None"
    by (simp_all add: u32At_def byteAt_def)
  then show "parseFirmware fwMagic = None" "selectBoard boardMagic v d = None"
    by (simp_all add: parseFirmware_def selectBoard_def ieLoop.simps [of fwMagic]
        boardLoop.simps [of _ boardMagic])
qed

text \<open>
  A successful OTP run streams the whole OTP image to the patch address, then executes it
  there with the board-id parameter; the ids it returns fit their fields.
\<close>

lemma otp_executed:
  assumes "ctrlUp ce" and "\<not> fDoneSent b"
  shows "does (runOtp H ce b (Some img)) (\<lambda>(r, ce', b') es. ctrlUp ce' \<and>
     (\<forall>boardId chipId. r = Some (boardId, chipId) \<longrightarrow> boardId < 32 \<and> chipId < 4 \<and>
        (\<exists>fs. ctrlMarks ce es = map Sent fs @ [Armed, Sent (le32 4 @ le32 0x1234 @ le32 0x10), Got] \<and>
          hd fs = cmdLzStart 0x1234 \<and> last fs = cmdLzStart 0 \<and>
          concat (map lzPayload fs) = img @ replicate ((4 - length img mod 4) mod 4) 0)))"
  by (rule does_mono [OF does_runOtp [OF assms]], clarsimp) (metis streamFrames_spec)

end
