(* ===== verification/CeProperties.thy ===== *)
theory CeProperties
  imports Sample
begin

text \<open>
  The properties of the copy-engine pair: the transfer and completion protocols, memory safety
  of its ring accesses, the life cycle of its DMA region, and the single-buffer invariant of the
  guarded posts that the WMI layer uses.
\<close>

section \<open>Memory safety\<close>

definition inside :: "CECopyPair \<Rightarrow> event \<Rightarrow> bool" where
  "inside p e = (case e of St a xs \<Rightarrow> inRegion p a (length xs)
     | Ld a xs \<Rightarrow> inRegion p a (length xs) | Fault \<Rightarrow> False | _ \<Rightarrow> True)"

lemma inside_simps [simp]:
  "inside p (RdReg a v)" "inside p (WrReg a v)" "inside p (Delay n)" "inside p Sync"
  "inside p (St b xs) = inRegion p b (length xs)" "inside p (Ld b xs) = inRegion p b (length xs)"
  by (simp_all add: inside_def)

lemma inRegion_laidOut:
  assumes "laidOut p"
  shows "inRegion p a n \<longleftrightarrow> fSrcDesc p \<le> a \<and> a + n \<le> fSrcDesc p + 16384"
  using assms by (auto simp: laidOut_def inRegion_def)

lemma inRegion_desc:
  assumes "laidOut p" and "unat i < 16"
  shows "inRegion p (descAt (fSrcDesc p) i) 8" "inRegion p (descAt (fDstDesc p) i) 8"
  using assms by (auto simp: inRegion_laidOut descAt_def laidOut_def)

lemma inside_polls: "polls off es \<Longrightarrow> \<forall>e \<in> set es. inside p e"
  by (auto simp: polls_def)

lemma sendLog_inside:
  assumes "pairUp p" and "sendLog p buf ok p' es"
  shows "\<forall>e \<in> set es. inside p e"
  using assms(2)
proof (cases rule: sendLog.cases)
  case (kicked pre post)
  have "\<forall>e \<in> set (kickEvs p buf). inside p e"
    using assms(1) kicked
    by (auto simp: kickEvs_def pairUp_def goodLen_def inRegion_desc)
       (auto simp: inRegion_laidOut laidOut_def)
  then show ?thesis using kicked inside_polls by auto
qed (auto simp: inside_polls)

lemma recvLog_inside:
  assumes "pairUp p" and "recvLog p n ok p' es" and "\<forall>a b. Ld a b \<in> set es \<longrightarrow> length b = 8"
  shows "\<forall>e \<in> set es. inside p e"
proof -
  have r: "inRegion p (descAt (fDstDesc p) (fDstSw p)) 8"
    using assms(1) by (simp add: pairUp_def inRegion_desc)
  have "\<forall>e \<in> set ds. inside p e" if "recvIdle p ds" "set ds \<subseteq> set es" for ds
    using that r assms(3) by (fastforce simp: recvIdle_def)
  with assms(2,3) r show ?thesis
    by (cases rule: recvLog.cases) auto
qed

lemma armEvs_inside: "pairUp p \<Longrightarrow> \<forall>e \<in> set (armEvs p). inside p e"
  by (auto simp: armEvs_def pairUp_def inRegion_desc)

lemma does_recvLoop_loads:
  "does (recvLoop H p n) (\<lambda>_ es. \<forall>a b. Ld a b \<in> set es \<longrightarrow> length b = 8)"
proof (induction n)
  case 0
  then show ?case by (simp, intro does_intros) auto
next
  case (Suc n)
  show ?case
    unfolding recvLoop.simps by (intro does_intros does_mono [OF Suc.IH]) auto
qed

lemma held_poisonEvs: "held (poisonEvs src dst i n) = [0, 0, 0, 0]"
proof (induction n arbitrary: i)
  case (Suc n)
  from Suc.IH [of "i + 1"] show ?case by (simp add: held_def)
qed (simp add: held_def)

lemma held_teardownEvs:
  assumes "regionOk (region p)"
  shows "held (teardownEvs p) = map uminus (holds (region p))"
proof -
  have "held (parkEvs p) = [0, 0, 0, 0]" "held [Sync] = [0, 0, 0, 0]" "held [] = [0, 0, 0, 0]"
    by (simp_all add: held_def parkEvs_def)
  then show ?thesis
    using held_releaseEvs [OF assms] held_poisonEvs
    by (simp add: teardownEvs_def held_append holds_def)
qed

lemma new_unheld [simp]: "unheld (region (newCopyPair bar0 src dst))"
  by (simp add: newCopyPair_def unheld_def noRegion_def)

lemma init_regionOk:
  "unheld (region p) \<Longrightarrow> does (init H p) (\<lambda>(ok, p') es. held es = holds (region p') \<and> regionOk (region p'))"
  by (rule does_mono [OF does_init])
     (auto simp: regionOk_def unheld_def fullRegion_def)

lemma poisonEvs_list:
  "unat i + n < 2 ^ 32 \<Longrightarrow> poisonEvs src dst i n =
     concat (map (\<lambda>j. [St (src + 8 * j) (replicate 8 0), St (dst + 8 * j) (replicate 8 0)])
       [unat i ..< unat i + n])"
proof (induction n arbitrary: i)
  case (Suc n)
  then have "unat (i + 1) = Suc (unat i)" by (simp add: unat_word_ariths)
  with Suc show ?case by (simp add: descAt_def upt_conv_Cons del: upt_Suc)
qed simp

section \<open>The single receive buffer\<close>

text \<open>
  The calls the WMI layer makes on its pair, and the runs they form.  The engine is assumed
  \<open>honest\<close>: while no descriptor is outstanding, the index register shows the driver's own index.
\<close>

datatype rxOp = Arm | PostIdle | Recv u32 | Transmit "u8 list"

fun runOp :: "('d, 'h) hw_scheme \<Rightarrow> rxOp \<Rightarrow> CECopyPair \<Rightarrow> ('d, bool \<times> CECopyPair) io" where
  "runOp H Arm p = armRecv H p"
| "runOp H PostIdle p = postRecvIfIdle H p"
| "runOp H (Recv ms) p = recvWait H p ms"
| "runOp H (Transmit buf) p = send H p buf"

definition honest :: "CECopyPair \<Rightarrow> event list \<Rightarrow> bool" where
  "honest p es \<longleftrightarrow> (rxArmed p = 0 \<longrightarrow>
     (\<forall>v. RdReg (drriOff p) v \<in> set es \<longrightarrow> v AND 15 = fDstSw p))"

inductive rxRun :: "('d, 'h) hw_scheme \<Rightarrow> CECopyPair \<Rightarrow> CECopyPair \<Rightarrow> event list \<Rightarrow> bool"
  for H :: "('d, 'h) hw_scheme" and p0 :: CECopyPair where
  start: "rxRun H p0 p0 []"
| call: "rxRun H p0 p log \<Longrightarrow> run_state (runOp H opn p) s = ((ok, p'), t) \<Longrightarrow>
     bus t = bus s @ es \<Longrightarrow> honest p es \<Longrightarrow> rxRun H p0 p' (log @ es)"

definition rxMarks :: "CECopyPair \<Rightarrow> event list \<Rightarrow> mark list" where
  "rxMarks p es = filter (\<lambda>m. m = Armed \<or> m = Got) (pairMarks p es)"

lemma unat_armed:
  fixes w s :: u32
  assumes "unat w < 16" and "unat s < 16"
  shows "unat (w - s AND 15) =
    (if unat s \<le> unat w then unat w - unat s else unat w + 16 - unat s)"
proof (cases "s \<le> w")
  case True
  then have "unat s \<le> unat w" by (simp add: word_le_nat_alt)
  then show ?thesis
    using assms True by (simp add: unat_and_15 unat_sub)
next
  case False
  then have less: "unat w < unat s" by (simp add: word_le_nat_alt)
  then have "unat (w - s) = (unat w + 16 - unat s) + 16 * 268435455"
    using False less assms by (simp add: unat_sub_if_size word_size)
  then have "unat (w - s) mod 16 = (unat w + 16 - unat s) mod 16"
    by (simp only: mod_mult_self2)
  then show ?thesis
    using assms less by (simp add: unat_and_15)
qed

lemma Suc_mod_16: "n < 16 \<Longrightarrow> Suc n mod 16 = (if n = 15 then 0 else Suc n)"
  by auto

lemma unat_rxArmed:
  "pairUp p \<Longrightarrow> unat (rxArmed p) = (if unat (fDstSw p) \<le> unat (fDstWrite p)
     then unat (fDstWrite p) - unat (fDstSw p) else unat (fDstWrite p) + 16 - unat (fDstSw p))"
  by (simp add: rxArmed_def unat_armed pairUp_def)

lemma rxArmed_post:
  assumes "pairUp p" and "unat (rxArmed p) < 15"
  shows "unat (rxArmed (p\<lparr>fDstWrite := (fDstWrite p + 1) AND 15\<rparr>)) = Suc (unat (rxArmed p))"
  using assms
  by (auto simp: rxArmed_def unat_armed pairUp_def unat_next_index Suc_mod_16 split: if_splits)

lemma rxArmed_take:
  assumes "pairUp p" and "0 < unat (rxArmed p)"
  shows "unat (rxArmed (p\<lparr>fRxNbytes := n, fDstSw := (fDstSw p + 1) AND 15\<rparr>)) =
    unat (rxArmed p) - 1"
  using assms
  by (auto simp: rxArmed_def unat_armed pairUp_def unat_next_index Suc_mod_16 split: if_splits)

definition singleRx :: "CECopyPair \<Rightarrow> mark list \<Rightarrow> bool" where
  "singleRx p ms \<longleftrightarrow> (\<exists>n. (ms = concat (replicate n [Armed, Got]) \<and> rxArmed p = 0) \<or>
     (ms = concat (replicate n [Armed, Got]) @ [Armed] \<and> rxArmed p = 1))"

lemma singleRx_arm:
  assumes "singleRx p ms" and "rxArmed p = 0" and "rxArmed p' = 1"
  shows "singleRx p' (ms @ [Armed])"
  using assms by (auto simp: singleRx_def)

lemma replicate_snoc: "concat (replicate n xs) @ xs = concat (replicate (Suc n) xs)"
  by (induction n) auto

lemma singleRx_take:
  assumes "singleRx p ms" and "rxArmed p \<noteq> 0" and "rxArmed p' = 0"
  shows "singleRx p' (ms @ [Got])"
proof -
  from assms obtain n where "ms = concat (replicate n [Armed, Got]) @ [Armed]"
    by (auto simp: singleRx_def)
  then have "ms @ [Got] = concat (replicate (Suc n) [Armed, Got])"
    using replicate_snoc [of n "[Armed, Got]"] by simp
  with assms(3) show ?thesis unfolding singleRx_def by blast
qed

lemma singleRx_same: "singleRx p ms \<Longrightarrow> rxArmed p' = rxArmed p \<Longrightarrow> singleRx p' ms"
  by (auto simp: singleRx_def)

text \<open>One call of the guarded interface.\<close>

definition opLog :: "rxOp \<Rightarrow> CECopyPair \<Rightarrow> bool \<Rightarrow> CECopyPair \<Rightarrow> event list \<Rightarrow> bool" where
  "opLog opn p ok p' es \<longleftrightarrow> (case opn of
       Recv ms \<Rightarrow> recvLog p (recvDeadline ms) ok p' es
     | Transmit buf \<Rightarrow> sendLog p buf ok p' es
     | _ \<Rightarrow> if rxArmed p = 0 then p' = p\<lparr>fDstWrite := (fDstWrite p + 1) AND 15\<rparr> \<and> es = armEvs p
          else p' = p \<and> es = [])"

lemma does_runOp: "does (runOp H opn p) (\<lambda>(ok, p') es. opLog opn p ok p' es)"
proof (cases opn)
  case (Recv ms)
  then show ?thesis by (simp add: opLog_def) (rule does_recvWait)
next
  case (Transmit buf)
  then show ?thesis by (simp add: opLog_def) (rule does_send)
next
  case Arm
  then show ?thesis
    by (auto simp: opLog_def armRecv_def intro!: does_ret does_mono [OF does_postRecv])
next
  case PostIdle
  then show ?thesis
    by (auto simp: opLog_def postRecvIfIdle_def intro!: does_ret does_mono [OF does_postRecv])
qed

lemma rxMarks_arm: "pairUp p \<Longrightarrow> rxMarks p (armEvs p) = [Armed]"
  by (auto simp: rxMarks_def armEvs_def pairUp_def laidOut_def descAt_def ceBase_def)

lemma recvLog_armed:
  assumes "pairUp p" and "recvLog p n ok p' es" and "honest p es"
  shows "if ok then rxArmed p \<noteq> 0 \<and> unat (rxArmed p') = unat (rxArmed p) - 1 else p' = p"
  using assms(2)
proof (cases rule: recvLog.cases)
  case (consumed idle v b)
  then have "rxArmed p \<noteq> 0" using assms(3) by (auto simp: honest_def)
  then show ?thesis
    using consumed rxArmed_take [OF assms(1)] by (simp add: unat_gt_0)
qed simp

lemma arm_singleRx:
  assumes "pairUp p" and "singleRx p ms" and
    "if rxArmed p = 0 then p' = p\<lparr>fDstWrite := (fDstWrite p + 1) AND 15\<rparr> \<and> es = armEvs p
     else p' = p \<and> es = []"
  shows "pairUp p' \<and> pairMarks p' = pairMarks p \<and> singleRx p' (ms @ rxMarks p es)"
proof (cases "rxArmed p = 0")
  case True
  then have p': "p' = p\<lparr>fDstWrite := (fDstWrite p + 1) AND 15\<rparr>" "es = armEvs p"
    using assms(3) by simp_all
  then have "rxArmed p' = 1"
    using rxArmed_post [OF assms(1)] True by (simp add: word_unat_eq_iff)
  then show ?thesis
    using assms(1,2) p' True singleRx_arm [OF assms(2)]
    by (auto simp: rxMarks_arm pairUp_def laidOut_def intro: pairMarks_cong)
next
  case False
  then show ?thesis using assms by (simp add: rxMarks_def)
qed

lemma opLog_singleRx:
  assumes "pairUp p" and "opLog opn p ok p' es" and "honest p es" and "singleRx p ms"
  shows "pairUp p' \<and> pairMarks p' = pairMarks p \<and> singleRx p' (ms @ rxMarks p es)"
proof (cases opn)
  case (Recv t)
  then have r: "recvLog p (recvDeadline t) ok p' es" using assms(2) by (simp add: opLog_def)
  note m = recvLog_marks [OF assms(1) r]
  show ?thesis
  proof (cases ok)
    case True
    have "rxArmed p = 1" "rxArmed p' = 0"
      using True assms(4) recvLog_armed [OF assms(1) r assms(3)]
      by (auto simp: singleRx_def unat_eq_zero)
    then show ?thesis using m True singleRx_take [OF assms(4)] by (simp add: rxMarks_def)
  next
    case False
    then show ?thesis using m assms recvLog_armed [OF assms(1) r assms(3)] by (simp add: rxMarks_def)
  qed
next
  case (Transmit buf)
  then have s: "sendLog p buf ok p' es" using assms(2) by (simp add: opLog_def)
  have "rxArmed p' = rxArmed p"
    using s by (cases rule: sendLog.cases) (simp_all add: rxArmed_def)
  then show ?thesis
    using sendLog_marks [OF assms(1) s] singleRx_same [OF assms(4)]
    by (auto simp: rxMarks_def split: if_splits)
next
  case Arm
  then show ?thesis using assms(2) arm_singleRx [OF assms(1,4)] by (simp add: opLog_def)
next
  case PostIdle
  then show ?thesis using assms(2) arm_singleRx [OF assms(1,4)] by (simp add: opLog_def)
qed

lemma rxRun_invariant:
  assumes "rxRun H p0 p log" and "pairUp p0" and "rxArmed p0 = 0"
  shows "pairUp p \<and> pairMarks p = pairMarks p0 \<and> singleRx p (rxMarks p0 log)"
  using assms
proof (induction rule: rxRun.induct)
  case start
  then show ?case by (auto simp: singleRx_def rxMarks_def intro: exI [of _ 0])
next
  case (call p log opn s ok p' t es)
  have "opLog opn p ok p' es"
    using doesD [OF does_runOp call.hyps(2)] call.hyps(3) by auto
  then show ?case
    using opLog_singleRx [of p opn ok p' es "rxMarks p0 log"] call by (auto simp: rxMarks_def)
qed

section \<open>Properties\<close>

text \<open>
  C5: \<open>send\<close> refuses an empty or oversized frame without touching the chip.  Otherwise it polls
  the source read index for at most 200000 steps until the ring is idle; if it never is, nothing
  was handed over.  If it is, the payload is in the transmit buffer and fenced before the
  descriptor, the descriptor before the doorbell; the write index advances modulo 16, and the
  result is whether the engine's index reached it within the same bound.
\<close>

theorem send_transfer:
  "does (send H p buf) (\<lambda>(ok, p') es.
     if length buf = 0 \<or> length buf > 2048 then es = [] \<and> \<not> ok \<and> p' = p
     else \<exists>pre post. polls (srriOff p) pre \<and> polls (srriOff p) post \<and>
       length pre \<le> 400001 \<and> length post \<le> 400001 \<and>
       (if lastRd (srriOff p) pre 0 AND 15 \<noteq> fSrcWrite p then es = pre \<and> \<not> ok \<and> p' = p
        else p' = p\<lparr>fSrcWrite := (fSrcWrite p + 1) AND 15\<rparr> \<and>
          es = pre @
            [St (fTxCpu p) buf, Sync,
             St (descAt (fSrcDesc p) (fSrcWrite p)) (descBytes
               \<lparr>addr = ucast (fTxPhys p), nbytes = of_nat (length buf), flags = 0\<rparr>), Sync,
             WrReg (ceBase (fSrcCe p) + kCESRWrIndex) (fSrcWrite p'), Sync] @ post \<and>
          ok = (lastRd (srriOff p) post 0 AND 15 = fSrcWrite p')))"
proof (rule does_mono [OF does_send], clarify, goal_cases)
  case (1 ok p' es)
  then show ?case
  proof (cases rule: sendLog.cases)
    case refused
    then show ?thesis by (simp add: goodLen_def) linarith
  next
    case stuck
    then have n: "\<not> (length buf = 0 \<or> length buf > 2048)" by (simp add: goodLen_def)
    show ?thesis
      unfolding if_not_P [OF n]
      by (intro exI [of _ es] exI [of _ "[]"]) (use stuck in simp)
  next
    case (kicked pre post)
    then have n: "\<not> (length buf = 0 \<or> length buf > 2048)" by (simp add: goodLen_def)
    show ?thesis
      unfolding if_not_P [OF n]
      by (intro exI [of _ pre] exI [of _ post]) (use kicked in \<open>simp add: kickEvs_def\<close>)
  qed
qed

text \<open>
  C6: \<open>recvWait\<close> consumes at most one completion, and only one whose descriptor, read after the
  engine's index had left the driver's, carries a non-zero size; that size is recorded, the
  driver's index advances modulo 16 and a fence precedes the caller's reads.  Otherwise the pair
  is unchanged.  The number of steps is bounded by the timeout.
\<close>

theorem recv_completion:
  "does (recvWait H p ms) (\<lambda>(ok, p') es. length es \<le> 3 * recvDeadline ms + 2 \<and>
     (if ok then \<exists>idle v b. recvIdle p idle \<and> v AND 15 \<noteq> fDstSw p \<and> nbytes (descOf b) \<noteq> 0 \<and>
          es = idle @ [RdReg (drriOff p) v, Ld (descAt (fDstDesc p) (fDstSw p)) b, Sync] \<and>
          p' = p\<lparr>fRxNbytes := ucast (nbytes (descOf b)), fDstSw := (fDstSw p + 1) AND 15\<rparr>
      else recvIdle p es \<and> p' = p))"
  by (rule does_mono [OF does_recvWait]) (fastforce elim: recvLog.cases)

text \<open>
  C23: On a pair with the layout \<open>init\<close> gives, every access of a send, a post or a wait to the
  shared memory stays inside the DMA region, for any behaviour of the chip.
\<close>

theorem ring_accesses_inside:
  assumes "pairUp p"
  shows "does (send H p buf) (\<lambda>_ es. \<forall>e \<in> set es. inside p e) \<and>
    does (postRecv H p) (\<lambda>_ es. \<forall>e \<in> set es. inside p e) \<and>
    does (recvWait H p ms) (\<lambda>_ es. \<forall>e \<in> set es. inside p e)"
proof (intro conjI)
  show "does (send H p buf) (\<lambda>_ es. \<forall>e \<in> set es. inside p e)"
    by (rule does_mono [OF does_send]) (use sendLog_inside [OF assms] in fastforce)
  show "does (postRecv H p) (\<lambda>_ es. \<forall>e \<in> set es. inside p e)"
    by (rule does_mono [OF does_postRecv]) (use armEvs_inside [OF assms] in auto)
  show "does (recvWait H p ms) (\<lambda>_ es. \<forall>e \<in> set es. inside p e)"
    unfolding recvWait_def
    by (rule does_mono [OF does_conj [OF does_recvLoop does_recvLoop_loads]])
       (use recvLog_inside [OF assms] in \<open>auto split: prod.splits\<close>)
qed

theorem ring_accesses_inside_witness:
  "does (send sampleHw (samplePair 3 2 0x30000 0x40000) [1, 2, 3])
     (\<lambda>_ es. \<forall>e \<in> set es. inside (samplePair 3 2 0x30000 0x40000) e)"
  using ring_accesses_inside [of "samplePair 3 2 0x30000 0x40000" sampleHw "[1, 2, 3]"] by simp

text \<open>
  \<open>teardown\<close> of an initialised pair zeroes the base, size and index registers of both
  rings, fences, zeroes all 16 descriptors of both rings, fences, and only then gives the memory
  back, the DMA mapping first.
\<close>

theorem teardown_order:
  assumes "fBar0 p" and "laidOut p" and "fullRegion (region p)"
  shows "does (teardown H p) (\<lambda>p' es. es =
     [WrReg (ceBase (fSrcCe p)) 0, WrReg (ceBase (fSrcCe p) + 4) 0,
      WrReg (ceBase (fSrcCe p) + 0x3c) 0, WrReg (ceBase (fDstCe p) + 8) 0,
      WrReg (ceBase (fDstCe p) + 0xc) 0, WrReg (ceBase (fDstCe p) + 0x40) 0, Sync] @
     concat (map (\<lambda>i. [St (fSrcDesc p + 8 * i) (replicate 8 0),
                       St (fDstDesc p + 8 * i) (replicate 8 0)]) [0..<16]) @
     [Sync, DmaClearMd, DmaRelease, BmdComplete, BmdRelease] \<and> unheld (region p'))"
proof (rule does_mono [OF does_teardown], clarify)
  show "teardownEvs p = [WrReg (ceBase (fSrcCe p)) 0, WrReg (ceBase (fSrcCe p) + 4) 0,
      WrReg (ceBase (fSrcCe p) + 0x3c) 0, WrReg (ceBase (fDstCe p) + 8) 0,
      WrReg (ceBase (fDstCe p) + 0xc) 0, WrReg (ceBase (fDstCe p) + 0x40) 0, Sync] @
     concat (map (\<lambda>i. [St (fSrcDesc p + 8 * i) (replicate 8 0),
                       St (fDstDesc p + 8 * i) (replicate 8 0)]) [0..<16]) @
     [Sync, DmaClearMd, DmaRelease, BmdComplete, BmdRelease]"
    using assms poisonEvs_list [of 0 16 "fSrcDesc p" "fDstDesc p"]
    by (auto simp: teardownEvs_def parkEvs_def releaseEvs_def fullRegion_def laidOut_def)
qed

theorem teardown_order_witness:
  "does (teardown sampleHw (samplePair 0 1 0x10000 0x20000)) (\<lambda>p' es.
     last es = BmdRelease \<and> unheld (region p'))"
  using teardown_order [of "samplePair 0 1 0x10000 0x20000" sampleHw]
  by (auto simp: samplePair_def fullRg_def laidOut_def fullRegion_def elim!: does_mono)

text \<open>
  C29: A successful \<open>init\<close> leaves a pair whose four areas follow each other in one 16 KiB region
  that is fully acquired, all indices zero; after both engines answered the probe it programmed
  the base and size of the source ring and of the destination ring with the bus addresses of
  that region.  A failed one holds nothing, unless an engine did not answer.
\<close>

theorem init_ready:
  "does (init H (newCopyPair bar0 src dst)) (\<lambda>(ok, p') es.
     if ok then bar0 \<and> laidOut p' \<and> freshRings p' \<and> fullRegion (region p') \<and>
       pairUp p' = ((src, dst) \<in> {(0, 1), (3, 2)}) \<and>
       (\<exists>es' srri drri. srri \<noteq> 0xffffffff \<and> drri \<noteq> 0xffffffff \<and> es = es' @
         [RdReg (ceBase src + 0x44) srri, RdReg (ceBase dst + 0x48) drri,
          WrReg (ceBase src) (ucast (fRegionPhys (region p'))), WrReg (ceBase src + 4) 16,
          WrReg (ceBase dst + 8) (ucast (fRegionPhys (region p') + 4096)),
          WrReg (ceBase dst + 0xc) 16, Sync])
     else unheld (region p') \<or> (\<exists>es' srri drri. (srri = 0xffffffff \<or> drri = 0xffffffff) \<and>
       es = es' @ [RdReg (ceBase src + 0x44) srri, RdReg (ceBase dst + 0x48) drri]))"
  by (rule does_mono [OF does_init])
     (auto simp: initEvs_def pairUp_def freshRings_def newCopyPair_def unheld_def noRegion_def)

text \<open>
  C7: On an honest engine, any sequence of the guarded calls of the WMI layer (arm, post if idle,
  wait, send) keeps at most one receive descriptor outstanding: over the whole run, arming and
  consuming strictly alternate, beginning with an arm.  The one receive buffer is therefore never
  handed to the chip while a completed frame is still expected in it.
\<close>

theorem single_receive_buffer:
  assumes "rxRun H p0 p log" and "pairUp p0" and "freshRings p0"
  shows "unat (rxArmed p) \<le> 1 \<and> (\<exists>n. rxMarks p0 log =
    concat (replicate n [Armed, Got]) @ (if rxArmed p = 0 then [] else [Armed]))"
proof -
  have "rxArmed p0 = 0" using assms(3) by (simp add: rxArmed_def freshRings_def)
  with rxRun_invariant [OF assms(1,2)] have "singleRx p (rxMarks p0 log)" by simp
  then show ?thesis by (auto simp: singleRx_def)
qed

lemma sample_arm:
  "rxRun sampleHw (samplePair 3 2 0x30000 0x40000) ((samplePair 3 2 0x30000 0x40000)\<lparr>fDstWrite := 1\<rparr>)
     (armEvs (samplePair 3 2 0x30000 0x40000))"
proof -
  let ?p = "samplePair 3 2 0x30000 0x40000"
  have "\<exists>t. run_state (runOp sampleHw Arm ?p) sampleWorld = ((True, ?p\<lparr>fDstWrite := 1\<rparr>), t) \<and>
      bus t = bus sampleWorld @ armEvs ?p"
    by (simp add: armRecv_def postRecv_def store_def write32_def emit_def modify_def rxArmed_def
        samplePair_def sampleHw_def armEvs_def)
  then obtain t where "run_state (runOp sampleHw Arm ?p) sampleWorld = ((True, ?p\<lparr>fDstWrite := 1\<rparr>), t)"
    "bus t = bus sampleWorld @ armEvs ?p" by blast
  from rxRun.call [OF rxRun.start this] show ?thesis
    by (simp add: honest_def armEvs_def)
qed

theorem single_receive_buffer_witness:
  "unat (rxArmed ((samplePair 3 2 0x30000 0x40000)\<lparr>fDstWrite := 1\<rparr>)) \<le> 1 \<and>
   (\<exists>n. rxMarks (samplePair 3 2 0x30000 0x40000) (armEvs (samplePair 3 2 0x30000 0x40000)) =
    concat (replicate n [Armed, Got]) @
      (if rxArmed ((samplePair 3 2 0x30000 0x40000)\<lparr>fDstWrite := 1\<rparr>) = 0 then [] else [Armed]))"
  by (rule single_receive_buffer [OF sample_arm]) (simp_all add: freshRings_def samplePair_def
      pairUp_def laidOut_def fullRg_def)

text \<open>
  A pair whose engine does not answer the probe is deleted by its manager with the region still
  held: nothing releases it any more.
\<close>

definition deadHw :: "chip hw" where
  "deadHw = sampleHw\<lparr>hwRead := (\<lambda>off d m. (0xffffffff, d, m))\<rparr>"

lemma newPair_dead_engine_leaks:
  "case run_state (newPair deadHw True 0 1) sampleWorld of ((ok, p), t) \<Rightarrow>
     \<not> ok \<and> p = None \<and> held (bus t) = [1, 1, 1, 1]"
  by (simp add: newPair_def init_def allocRegion_def acquire_def ioStep_def emit_def modify_def
      store_def read32_def newCopyPair_def deadHw_def sampleHw_def sampleWorld_def held_def
      noRegion_def Let_def)

end
