(* ===== verification/LogTail.thy ===== *)
theory LogTail
  imports World
begin

text \<open>
  The log tail of \<open>skeleton/QCA9377Driver.cpp\<close> (\<open>qlog\<close>, \<open>fLogTail\<close>, \<open>fLogTailUsed\<close>): a buffer of
  1536 characters that keeps the last lines of the log for the NVRAM mirror, and the conversions
  of \<open>printf\<close> that the messages use.
\<close>

section \<open>Formatting\<close>

function numStr :: "nat \<Rightarrow> nat \<Rightarrow> string" where
  "numStr b n = (if n < b \<or> b < 2 then [''0123456789abcdef'' ! (n mod 16)]
     else numStr b (n div b) @ [''0123456789abcdef'' ! (n mod b)])"
  by pat_completeness auto
termination
  by (relation "measure snd") auto

declare numStr.simps [simp del]

text \<open>\<open>%u\<close>, \<open>%x\<close> and \<open>%0nx\<close>\<close>

definition dec :: "nat \<Rightarrow> string" where
  "dec n = numStr 10 n"

definition hex :: "nat \<Rightarrow> string" where
  "hex n = numStr 16 n"

definition hexN :: "nat \<Rightarrow> nat \<Rightarrow> string" where
  "hexN w n = replicate (w - length (hex n)) (CHR ''0'') @ hex n"

abbreviation hex8 :: "u32 \<Rightarrow> string" where
  "hex8 v \<equiv> hexN 8 (unat v)"

abbreviation nl :: string where
  "nl \<equiv> [CHR 0x0A]"

section \<open>The buffer\<close>

record LogTail =
  fLogTail :: string
  fLogTailUsed :: u32

definition newLogTail :: LogTail where
  "newLogTail = \<lparr>fLogTail = replicate 1536 (CHR 0x00), fLogTailUsed = 0\<rparr>"

lemma unat_Suc_below:
  fixes a b :: u32
  assumes "a < b"
  shows "unat (a + 1) = Suc (unat a)" and "unat a < unat b"
  using assms unsigned_less [of b, where ?'a = nat]
  by (simp_all add: word_less_nat_alt unat_word_ariths)

text \<open>The scan for the end of the line at \<open>cut\<close>.\<close>

function cutScan :: "string \<Rightarrow> u32 \<Rightarrow> u32 \<Rightarrow> u32" where
  "cutScan t used pos =
     (if pos < used \<and> t ! unat pos \<noteq> CHR 0x0A then cutScan t used (pos + 1) else pos)"
  by pat_completeness auto
termination
proof (relation "measure (\<lambda>(t, used, pos). unat used - unat pos)")
  fix t :: string and used pos :: u32
  assume "pos < used \<and> t ! unat pos \<noteq> CHR 0x0A"
  then have "unat pos < unat used" "unat (pos + 1) = unat pos + 1"
    using unat_Suc_below [of pos used] by simp_all
  then show "((t, used, pos + 1), t, used, pos) \<in> measure (\<lambda>(t, used, pos). unat used - unat pos)"
    by simp
qed simp

declare cutScan.simps [simp del]

text \<open>\<open>bcopy\<close> of \<open>n\<close> characters to offset \<open>i\<close> of the buffer.\<close>

definition blit :: "string \<Rightarrow> nat \<Rightarrow> nat \<Rightarrow> string \<Rightarrow> string" where
  "blit src i n t = take i t @ take n src @ drop (i + n) t"

definition dropOldest :: "LogTail \<Rightarrow> LogTail" where
  "dropOldest b = (let
     used = fLogTailUsed b;
     pos = cutScan (fLogTail b) used (used div 2);
     pos = (if pos < used then pos + 1 else pos);
     used = used - pos
   in \<lparr>fLogTail = blit (drop (unat pos) (fLogTail b)) 0 (unat used) (fLogTail b),
       fLogTailUsed = used\<rparr>)"

text \<open>\<open>s\<close> is the formatted text; \<open>char line[256]\<close> keeps at most 255 characters of it.\<close>

definition logAppend :: "string \<Rightarrow> LogTail \<Rightarrow> LogTail" where
  "logAppend s b = (let
     line = take 255 s;
     len = of_nat (length s) :: u32;
     space = 1535 - fLogTailUsed b;
     b = (if len + 1 > space then dropOldest b else b);
     present = (if len < 256 then len else 255);
     space2 = 1535 - fLogTailUsed b;
     n = (if present < space2 then present else space2);
     t = blit line (unat (fLogTailUsed b)) (unat n) (fLogTail b);
     used = fLogTailUsed b + n
   in \<lparr>fLogTail = t[unat used := CHR 0x00], fLogTailUsed = used\<rparr>)"

section \<open>The invariant\<close>

definition logText :: "LogTail \<Rightarrow> string" where
  "logText b = take (unat (fLogTailUsed b)) (fLogTail b)"

definition logOk :: "LogTail \<Rightarrow> bool" where
  "logOk b \<longleftrightarrow> length (fLogTail b) = 1536 \<and> unat (fLogTailUsed b) \<le> 1535 \<and>
     fLogTail b ! unat (fLogTailUsed b) = CHR 0x00"

lemma newLogTail_ok: "logOk newLogTail"
  by (simp add: logOk_def newLogTail_def)

lemma cutScan_bounds:
  assumes "unat pos \<le> unat used"
  shows "unat pos \<le> unat (cutScan t used pos) \<and> unat (cutScan t used pos) \<le> unat used \<and>
    (cutScan t used pos < used \<longrightarrow> t ! unat (cutScan t used pos) = CHR 0x0A)"
  using assms
proof (induction t used pos rule: cutScan.induct)
  case (1 t used pos)
  show ?case
  proof (cases "pos < used \<and> t ! unat pos \<noteq> CHR 0x0A")
    case True
    then have "unat (pos + 1) = unat pos + 1" "unat pos < unat used"
      using unat_Suc_below [of pos used] by simp_all
    then show ?thesis
      using 1(1) [OF True] True by (simp add: cutScan.simps [of t used pos])
  next
    case False
    then show ?thesis using 1(2) by (auto simp: cutScan.simps [of t used pos])
  qed
qed

text \<open>What a cut leaves: the text from the start of a line, at most half of the old text.\<close>

definition lineCut :: "string \<Rightarrow> string \<Rightarrow> string \<Rightarrow> bool" where
  "lineCut old dropped kept \<longleftrightarrow> old = dropped @ kept \<and> length kept \<le> (length old + 1) div 2 \<and>
     (kept = [] \<or> (dropped \<noteq> [] \<and> last dropped = CHR 0x0A))"

lemma dropOldest_cut:
  assumes "logOk b"
  shows "length (fLogTail (dropOldest b)) = 1536 \<and> unat (fLogTailUsed (dropOldest b)) \<le> 768 \<and>
    (\<exists>dropped. lineCut (logText b) dropped (logText (dropOldest b)))"
proof -
  let ?t = "fLogTail b" and ?u = "fLogTailUsed b"
  let ?c = "cutScan ?t ?u (?u div 2)"
  define c where "c = (if ?c < ?u then ?c + 1 else ?c)"
  have len: "length ?t = 1536" and u: "unat ?u \<le> 1535" using assms by (simp_all add: logOk_def)
  have half: "unat (?u div 2) = unat ?u div 2" by (simp add: unat_div)
  have b: "unat ?u div 2 \<le> unat ?c" "unat ?c \<le> unat ?u" "?c < ?u \<longrightarrow> ?t ! unat ?c = CHR 0x0A"
    using cutScan_bounds [of "?u div 2" ?u ?t] half by simp_all
  have s: "unat (?c + 1) = unat ?c + 1" using b(2) u by (simp add: unat_word_ariths)
  have c: "unat ?u div 2 \<le> unat c" "unat c \<le> unat ?u"
    using b s by (auto simp: c_def word_less_nat_alt)
  have nl: "unat c = unat ?u \<or> (0 < unat c \<and> ?t ! (unat c - 1) = CHR 0x0A)"
    using b s by (auto simp: c_def word_less_nat_alt)
  have d: "unat (?u - c) = unat ?u - unat c" using c(2) by (simp add: unat_sub word_le_nat_alt)
  have eq: "dropOldest b = \<lparr>fLogTail = blit (drop (unat c) ?t) 0 (unat (?u - c)) ?t,
      fLogTailUsed = ?u - c\<rparr>"
    by (simp add: dropOldest_def Let_def c_def)
  have kept: "logText (dropOldest b) = drop (unat c) (logText b)"
    using c len u by (simp add: eq logText_def blit_def d take_drop)
  have "drop (unat c) (logText b) = [] \<or> (take (unat c) (logText b) \<noteq> [] \<and>
      last (take (unat c) (logText b)) = CHR 0x0A)"
  proof -
    have "last (take (unat c) (logText b)) = fLogTail b ! (unat c - 1)" if "0 < unat c"
      using that c len u by (subst last_conv_nth) (auto simp: logText_def)
    then show ?thesis using nl c len u by (auto simp: logText_def)
  qed
  then have "lineCut (logText b) (take (unat c) (logText b)) (logText (dropOldest b))"
    using c len u unfolding lineCut_def kept by (simp add: append_take_drop_id) (simp add: logText_def)
  moreover have "length (fLogTail (dropOldest b)) = 1536" "unat (fLogTailUsed (dropOldest b)) \<le> 768"
    using c len u by (simp_all add: eq blit_def d)
  ultimately show ?thesis by blast
qed

lemma unat_of_nat_small: "n < 2 ^ 32 \<Longrightarrow> unat (of_nat n :: u32) = n"
  by (simp add: unat_of_nat)

lemma logAppend_at:
  assumes "length (fLogTail b) = 1536" and "unat (fLogTailUsed b) + length line \<le> 1535"
    and "n = of_nat (length line)"
  shows "let b' = \<lparr>fLogTail = (blit line (unat (fLogTailUsed b)) (unat n) (fLogTail b))
        [unat (fLogTailUsed b + n) := CHR 0x00], fLogTailUsed = fLogTailUsed b + n\<rparr>
    in logOk b' \<and> logText b' = logText b @ line"
proof -
  have n: "unat n = length line" and s: "unat (fLogTailUsed b + n) = unat (fLogTailUsed b) + length line"
    using assms by (simp_all add: unat_of_nat unat_word_ariths)
  show ?thesis
    using assms(1,2) by (simp add: Let_def logOk_def logText_def blit_def n s)
qed

text \<open>
  C39: Appending a line keeps the tail a terminated string inside its 1536 bytes, and the first
  255 characters of the line always make it in.  If the line fits, the old text is kept; otherwise a
  prefix of the old text that ends with a line break is dropped, at least half of it.
\<close>

theorem log_tail_keeps_last_lines:
  assumes "logOk b" and "length s < 2 ^ 31"
  shows "logOk (logAppend s b) \<and> (\<exists>dropped kept. logText (logAppend s b) = kept @ take 255 s \<and>
    (if length (logText b) + length s + 1 \<le> 1535 then kept = logText b
     else lineCut (logText b) dropped kept))"
proof -
  define c where "c = (if of_nat (length s) + 1 > 1535 - fLogTailUsed b then dropOldest b else b)"
  let ?u = "fLogTailUsed b"
  have u: "unat ?u \<le> 1535" "length (logText b) = unat ?u"
    using assms(1) by (simp_all add: logOk_def logText_def)
  have sp: "unat (1535 - ?u) = 1535 - unat ?u"
    using u(1) by (simp add: unat_sub word_le_nat_alt)
  have l: "unat (of_nat (length s) :: u32) = length s" "unat (of_nat (length s) + 1 :: u32) = length s + 1"
    using assms(2) by (simp_all add: unat_of_nat unat_word_ariths)
  have fits: "of_nat (length s) + 1 > 1535 - ?u \<longleftrightarrow> \<not> length (logText b) + length s + 1 \<le> 1535"
    using u by (auto simp: word_less_nat_alt sp l)
  have room: "length (fLogTail c) = 1536 \<and> unat (fLogTailUsed c) + length (take 255 s) \<le> 1535"
    using dropOldest_cut [OF assms(1)] assms(1) fits u by (auto simp: c_def logOk_def)
  have n: "(if (if of_nat (length s) < (256 :: u32) then of_nat (length s) else 255)
        < 1535 - fLogTailUsed c
      then (if of_nat (length s) < (256 :: u32) then of_nat (length s) else 255)
      else 1535 - fLogTailUsed c) = (of_nat (length (take 255 s)) :: u32)"
  proof -
    have p: "(if of_nat (length s) < (256 :: u32) then of_nat (length s) else 255) =
        (of_nat (length (take 255 s)) :: u32)"
      by (auto simp: word_less_nat_alt l min_def)
    have q: "unat (of_nat (length (take 255 s)) :: u32) = length (take 255 s)"
      by (simp add: unat_of_nat)
    have r: "unat (1535 - fLogTailUsed c) = 1535 - unat (fLogTailUsed c)"
      using room by (simp add: unat_sub word_le_nat_alt)
    show ?thesis
      unfolding p using room q [unfolded length_take]
      by (auto simp: word_less_nat_alt q [unfolded length_take] r word_unat_eq_iff)
  qed
  have "logAppend s b = (let n = of_nat (length (take 255 s)) in
      \<lparr>fLogTail = (blit (take 255 s) (unat (fLogTailUsed c)) (unat n) (fLogTail c))
        [unat (fLogTailUsed c + n) := CHR 0x00], fLogTailUsed = fLogTailUsed c + n\<rparr>)"
    unfolding logAppend_def Let_def c_def [symmetric] n ..
  then have a: "logOk (logAppend s b)" "logText (logAppend s b) = logText c @ take 255 s"
    using logAppend_at [of c "take 255 s"] room by (simp_all add: Let_def)
  show ?thesis
    using a dropOldest_cut [OF assms(1)] fits unfolding c_def by (auto simp: not_le)
qed

theorem log_tail_keeps_last_lines_witness:
  "logOk (logAppend ''QCA9377: target awake'' newLogTail) \<and>
   (\<exists>dropped kept. logText (logAppend ''QCA9377: target awake'' newLogTail) =
       kept @ take 255 ''QCA9377: target awake'' \<and>
     (if length (logText newLogTail) + length ''QCA9377: target awake'' + 1 \<le> 1535
      then kept = logText newLogTail else lineCut (logText newLogTail) dropped kept))"
  by (rule log_tail_keeps_last_lines [OF newLogTail_ok]) simp

end
