(* ===== verification/BoardData.thy ===== *)
theory BoardData
  imports FirmwareProperties
begin

text \<open>
  The board data that the driver falls back to: the array \<open>qca9377_board_bin\<close> of the generated
  \<open>skeleton/FwData.h\<close>, one row per line of the source, in three parts.
\<close>

definition board_bin_part1 :: "u8 list list" where
  "board_bin_part1 = [
    [0xbc, 0x1f, 0x5b, 0xe6, 0x02, 0x01, 0, 0x03, 0x7f, 0x50, 0, 0x01, 0, 0, 0, 0, 0x3f, 0x71, 0, 0],
    [0, 0, 0, 0x04, 0, 0, 0x1f, 0, 0, 0, 0, 0, 0x20, 0x01, 0x40, 0x16, 0x11, 0, 0, 0],
    [0, 0, 0, 0, 0, 0, 0, 0, 0, 0, 0, 0, 0, 0, 0, 0, 0, 0, 0, 0],
    [0, 0, 0, 0, 0x17, 0x17, 0x11, 0x01, 0x01, 0, 0x3d, 0x36, 0x36, 0x36, 0xf7, 0xf5, 0xf5, 0x20, 0x64, 0x1e],
    [0x06, 0, 0, 0x03, 0x02, 0xc4, 0xc4, 0x38, 0xaf, 0x02, 0x14, 0, 0, 0, 0, 0, 0, 0, 0, 0x03],
    [0, 0, 0, 0, 0, 0, 0, 0, 0, 0, 0, 0, 0x64, 0x64, 0x64, 0x56, 0x54, 0x50, 0x4c, 0x44],
    [0x38, 0, 0, 0, 0, 0x6a, 0x68, 0x65, 0x62, 0x5b, 0x4e, 0, 0x07, 0, 0x04, 0x36, 0x59, 0, 0, 0],
    [0, 0, 0, 0, 0, 0, 0x03, 0x3b, 0x01, 0x02, 0x20, 0x3c, 0x03, 0x02, 0, 0, 0, 0, 0, 0],
    [0, 0, 0, 0, 0, 0, 0, 0, 0, 0, 0, 0, 0, 0x03, 0, 0, 0x07, 0x1c, 0x70, 0],
    [0, 0, 0, 0, 0, 0, 0, 0, 0, 0, 0, 0, 0, 0, 0, 0, 0, 0, 0, 0],
    [0, 0, 0x0f, 0, 0x11, 0x12, 0x12, 0, 0x21, 0x21, 0x01, 0, 0x11, 0x12, 0x12, 0, 0x21, 0x21, 0x01, 0],
    [0, 0, 0, 0, 0, 0, 0, 0, 0, 0, 0, 0x11, 0x1d, 0, 0, 0, 0xff, 0xff, 0xff, 0x7f],
    [0xff, 0xff, 0xff, 0x7f, 0xff, 0xff, 0xff, 0x7f, 0xff, 0xff, 0xff, 0x7f, 0, 0, 0, 0, 0x14, 0, 0, 0],
    [0, 0, 0, 0, 0, 0, 0, 0x19, 0x0c, 0, 0, 0, 0xec, 0xec, 0, 0, 0, 0, 0, 0],
    [0, 0, 0, 0, 0, 0, 0, 0, 0, 0, 0, 0, 0, 0, 0, 0, 0, 0, 0, 0],
    [0, 0, 0, 0, 0, 0, 0, 0, 0, 0, 0, 0, 0, 0, 0, 0, 0, 0, 0, 0],
    [0, 0, 0, 0, 0, 0, 0, 0, 0, 0, 0x0a, 0, 0x11, 0x12, 0x12, 0, 0x21, 0x21, 0x01, 0],
    [0x11, 0x12, 0x12, 0, 0x21, 0x21, 0x01, 0, 0, 0, 0, 0, 0, 0, 0, 0, 0, 0, 0, 0x11],
    [0x1d, 0, 0, 0, 0xf8, 0xe3, 0x8f, 0x3f, 0xf8, 0xe3, 0x8f, 0x3f, 0xf8, 0xe3, 0x8f, 0x3f, 0xf8, 0xe3, 0x8f, 0x3f],
    [0, 0, 0, 0, 0x14, 0, 0, 0, 0, 0, 0, 0, 0, 0, 0, 0x28, 0x0f, 0, 0, 0],
    [0xee, 0xee, 0, 0, 0, 0, 0, 0, 0, 0, 0, 0, 0, 0, 0, 0, 0, 0, 0, 0],
    [0, 0, 0, 0, 0, 0, 0, 0, 0, 0, 0, 0, 0, 0, 0, 0, 0, 0, 0, 0],
    [0, 0, 0, 0, 0, 0, 0, 0, 0, 0, 0, 0, 0, 0, 0, 0, 0, 0, 0, 0],
    [0, 0, 0, 0, 0, 0, 0, 0, 0, 0, 0, 0, 0, 0, 0, 0, 0, 0, 0, 0],
    [0, 0, 0, 0, 0, 0, 0, 0, 0, 0, 0, 0, 0, 0, 0, 0, 0, 0, 0, 0],
    [0, 0, 0, 0, 0, 0, 0, 0, 0, 0, 0, 0, 0, 0, 0, 0, 0, 0, 0, 0],
    [0, 0, 0, 0, 0, 0, 0, 0, 0, 0, 0, 0, 0, 0, 0, 0, 0, 0, 0, 0],
    [0x22, 0x7f, 0x06, 0x08, 0, 0, 0, 0, 0, 0, 0, 0, 0, 0, 0, 0, 0x40, 0x14, 0xa0, 0x14],
    [0x50, 0x15, 0x90, 0x15, 0xa8, 0x15, 0xc0, 0x15, 0xf0, 0x15, 0, 0x16, 0x20, 0x16, 0x50, 0x16, 0xb0, 0x16, 0, 0],
    [0, 0, 0, 0, 0, 0, 0, 0, 0, 0, 0, 0, 0, 0, 0, 0, 0, 0, 0, 0],
    [0, 0, 0, 0, 0xba, 0xba, 0xba, 0xd8, 0xd8, 0xd8, 0xd8, 0xba, 0xba, 0xba, 0xd8, 0, 0, 0, 0, 0],
    [0, 0, 0, 0, 0, 0, 0, 0, 0, 0, 0, 0, 0xc4, 0xe2, 0xe2, 0x9c, 0x9c, 0xa0, 0x0c, 0],
    [0x70, 0x75, 0x7a, 0x7f, 0x84, 0x89, 0x8e, 0x93, 0x98, 0x9d, 0xa2, 0xa7, 0xac, 0xff, 0, 0, 0, 0, 0, 0],
    [0, 0, 0, 0, 0, 0, 0, 0, 0x98, 0xa7, 0x88, 0x8c, 0x60, 0x67, 0x40, 0x3c, 0x41, 0x28, 0x94, 0x97],
    [0x90, 0x97, 0x70, 0x6e, 0x48, 0x47, 0x41, 0x21, 0xf0, 0xf0, 0x91, 0x7c, 0, 0x98, 0xa8, 0x88, 0x8c, 0x60, 0x66, 0x40],
    [0x3e, 0x41, 0x28, 0x94, 0x97, 0x90, 0x97, 0x70, 0x71, 0x48, 0x4a, 0x41, 0x25, 0xf0, 0xf0, 0x91, 0x7c, 0, 0x98, 0xa8],
    [0x88, 0x8c, 0x60, 0x66, 0x48, 0x4b, 0x41, 0x28, 0x94, 0x98, 0x90, 0x98, 0x70, 0x71, 0x48, 0x4a, 0x41, 0x25, 0xf0, 0xf0],
    [0x91, 0x7c, 0, 0x98, 0xa8, 0x88, 0x8c, 0x60, 0x66, 0x40, 0x3f, 0x41, 0x28, 0, 0, 0, 0, 0, 0, 0],
    [0, 0, 0, 0xf0, 0, 0x91, 0x7c, 0, 0x98, 0xa8, 0x88, 0x8b, 0x60, 0x66, 0x40, 0x3e, 0x41, 0x28, 0, 0],
    [0, 0, 0, 0, 0, 0, 0, 0, 0xf0, 0, 0x91, 0x7c, 0, 0x98, 0xa7, 0x88, 0x8b, 0x60, 0x66, 0x48],
    [0x4b, 0x41, 0x2a, 0, 0, 0, 0, 0, 0, 0, 0, 0, 0, 0xf0, 0, 0x91, 0x7c, 0, 0x98, 0xa7],
    [0x88, 0x8b, 0x60, 0x66, 0x40, 0x40, 0x41, 0x2a, 0, 0, 0, 0, 0, 0, 0, 0, 0, 0, 0xf0, 0],
    [0x91, 0x7c, 0, 0x98, 0xa7, 0x88, 0x8a, 0x60, 0x66, 0x40, 0x40, 0x41, 0x2a, 0, 0, 0, 0, 0, 0, 0],
    [0, 0, 0, 0xf0, 0, 0x91, 0x7c, 0, 0x98, 0xa6, 0x88, 0x8b, 0x60, 0x66, 0x40, 0x41, 0x41, 0x2b, 0, 0],
    [0, 0, 0, 0, 0, 0, 0, 0, 0xf0, 0, 0x91, 0x7c, 0, 0x98, 0xa7, 0x88, 0x8c, 0x68, 0x6a, 0x40],
    [0x40, 0x41, 0x2b, 0, 0, 0, 0, 0, 0, 0, 0, 0, 0, 0xf0, 0, 0x91, 0x7c, 0, 0x98, 0xa7],
    [0x88, 0x8c, 0x60, 0x65, 0x40, 0x40, 0x41, 0x2a, 0, 0, 0, 0, 0, 0, 0, 0, 0, 0, 0xf0, 0],
    [0x91, 0x7c, 0, 0x98, 0xa7, 0x78, 0x7c, 0x60, 0x65, 0x38, 0x38, 0x39, 0x22, 0, 0, 0, 0, 0, 0, 0],
    [0, 0, 0, 0xf0, 0, 0x91, 0x7c, 0, 0x98, 0xa6, 0x78, 0x7b, 0x68, 0x69, 0x38, 0x38, 0x39, 0x21, 0, 0],
    [0, 0, 0, 0, 0, 0, 0, 0, 0xf0, 0, 0x91, 0x7c, 0, 0, 0, 0, 0, 0, 0, 0],
    [0, 0, 0, 0, 0, 0, 0, 0, 0, 0, 0, 0, 0, 0, 0, 0x91, 0x7c, 0, 0, 0],
    [0, 0, 0, 0, 0, 0, 0, 0, 0, 0, 0, 0, 0, 0, 0, 0, 0, 0, 0, 0],
    [0, 0, 0, 0, 0, 0, 0, 0, 0, 0, 0, 0, 0, 0, 0, 0, 0, 0, 0, 0],
    [0, 0, 0, 0, 0, 0, 0, 0, 0, 0, 0, 0, 0, 0, 0, 0, 0, 0, 0, 0],
    [0, 0, 0, 0, 0, 0, 0, 0, 0, 0, 0, 0, 0, 0, 0, 0, 0, 0, 0, 0],
    [0, 0, 0, 0, 0, 0, 0, 0, 0, 0, 0, 0, 0, 0, 0, 0, 0, 0, 0, 0],
    [0, 0, 0, 0, 0, 0, 0, 0, 0, 0, 0, 0, 0, 0, 0, 0, 0, 0, 0, 0],
    [0, 0, 0, 0, 0, 0, 0, 0, 0, 0, 0, 0, 0, 0, 0, 0, 0, 0, 0, 0],
    [0, 0, 0, 0, 0, 0, 0, 0, 0, 0, 0, 0, 0, 0, 0, 0, 0, 0, 0, 0],
    [0, 0, 0, 0, 0, 0, 0, 0, 0, 0, 0, 0, 0, 0, 0, 0, 0, 0, 0, 0],
    [0, 0, 0, 0, 0, 0, 0, 0, 0, 0, 0, 0, 0, 0, 0, 0, 0, 0, 0, 0],
    [0, 0, 0, 0, 0, 0, 0, 0, 0, 0, 0, 0, 0, 0, 0, 0, 0, 0, 0, 0],
    [0, 0, 0, 0, 0, 0, 0, 0, 0, 0, 0, 0, 0, 0, 0, 0, 0, 0, 0, 0],
    [0, 0, 0, 0, 0, 0, 0, 0, 0, 0, 0, 0, 0, 0, 0, 0, 0, 0, 0, 0],
    [0, 0, 0, 0, 0, 0, 0, 0, 0, 0, 0, 0, 0, 0, 0, 0, 0, 0, 0, 0],
    [0, 0, 0, 0, 0, 0, 0, 0, 0, 0, 0, 0, 0, 0, 0, 0, 0, 0, 0, 0],
    [0, 0, 0, 0, 0, 0, 0, 0, 0, 0, 0, 0, 0, 0, 0, 0, 0, 0, 0, 0],
    [0, 0, 0, 0, 0, 0, 0, 0, 0, 0, 0, 0, 0, 0, 0, 0, 0, 0, 0, 0],
    [0, 0, 0, 0, 0, 0, 0, 0, 0, 0, 0, 0, 0, 0, 0, 0, 0, 0, 0, 0],
    [0, 0, 0, 0, 0, 0, 0, 0, 0, 0, 0, 0, 0, 0, 0, 0, 0, 0, 0, 0],
    [0, 0, 0, 0, 0, 0, 0, 0, 0, 0, 0, 0, 0, 0, 0, 0, 0, 0, 0, 0],
    [0, 0, 0, 0, 0, 0, 0, 0, 0, 0, 0, 0, 0, 0, 0, 0, 0, 0, 0, 0],
    [0, 0, 0, 0, 0, 0, 0, 0, 0, 0, 0, 0, 0, 0, 0, 0, 0, 0, 0, 0],
    [0, 0, 0, 0, 0, 0, 0, 0, 0, 0, 0, 0, 0, 0, 0, 0, 0, 0, 0, 0],
    [0, 0, 0, 0, 0, 0, 0, 0, 0, 0, 0, 0, 0, 0, 0, 0, 0, 0, 0, 0],
    [0, 0, 0, 0, 0, 0, 0, 0, 0, 0, 0, 0, 0, 0, 0, 0, 0, 0, 0, 0],
    [0, 0, 0, 0, 0, 0, 0, 0, 0, 0, 0, 0, 0, 0, 0, 0, 0, 0, 0, 0],
    [0, 0, 0, 0, 0, 0, 0, 0, 0, 0, 0, 0, 0, 0, 0, 0, 0, 0, 0, 0],
    [0, 0, 0, 0, 0, 0, 0, 0, 0, 0, 0, 0, 0, 0, 0, 0, 0, 0, 0, 0],
    [0, 0, 0, 0, 0, 0, 0, 0, 0, 0, 0, 0, 0, 0, 0, 0, 0, 0, 0, 0],
    [0, 0, 0, 0, 0, 0, 0, 0, 0, 0, 0, 0, 0, 0, 0, 0, 0, 0, 0, 0],
    [0, 0, 0, 0, 0, 0, 0, 0, 0, 0, 0, 0, 0, 0, 0, 0, 0, 0, 0, 0],
    [0, 0, 0, 0, 0, 0, 0, 0, 0, 0, 0, 0, 0, 0, 0, 0, 0, 0, 0, 0],
    [0, 0, 0, 0, 0, 0, 0, 0, 0, 0, 0, 0, 0, 0, 0, 0, 0, 0, 0, 0],
    [0, 0, 0, 0, 0, 0, 0, 0, 0, 0, 0, 0, 0, 0, 0, 0, 0, 0, 0, 0],
    [0, 0, 0, 0, 0, 0, 0, 0, 0, 0, 0, 0, 0, 0, 0, 0, 0, 0, 0, 0],
    [0, 0, 0, 0, 0, 0, 0, 0, 0, 0, 0, 0, 0, 0, 0, 0, 0, 0, 0, 0],
    [0, 0, 0, 0, 0, 0, 0, 0, 0, 0, 0, 0, 0, 0, 0, 0, 0, 0, 0, 0],
    [0, 0, 0, 0, 0, 0, 0, 0, 0, 0, 0, 0, 0, 0, 0, 0, 0, 0, 0, 0],
    [0, 0, 0, 0, 0, 0, 0, 0, 0, 0, 0, 0, 0, 0, 0, 0, 0, 0, 0, 0],
    [0, 0, 0, 0, 0, 0, 0, 0, 0, 0, 0, 0, 0, 0, 0, 0, 0, 0, 0, 0],
    [0, 0, 0, 0, 0, 0, 0, 0, 0, 0, 0, 0, 0, 0, 0, 0, 0, 0, 0, 0],
    [0, 0, 0, 0, 0, 0, 0, 0, 0, 0, 0, 0, 0, 0, 0, 0, 0, 0, 0, 0],
    [0, 0, 0, 0, 0, 0, 0, 0, 0, 0, 0, 0, 0, 0, 0, 0, 0, 0, 0, 0],
    [0, 0, 0, 0, 0, 0, 0, 0, 0, 0, 0, 0, 0, 0, 0, 0, 0, 0, 0, 0],
    [0, 0, 0, 0, 0, 0, 0, 0, 0, 0, 0, 0, 0, 0, 0, 0, 0, 0, 0, 0],
    [0, 0, 0x70, 0xac, 0x70, 0x89, 0xac, 0, 0x70, 0x89, 0xa2, 0xac, 0x7a, 0x89, 0xa2, 0xac, 0, 0, 0, 0],
    [0x26, 0x26, 0x26, 0x26, 0x26, 0x26, 0x26, 0x26, 0x24, 0x24, 0x23, 0x23, 0x24, 0x24, 0x23, 0x23, 0x24, 0x24, 0x23, 0x23],
    [0x1a, 0x1a, 0xaa, 0x8a, 0x88, 0x06, 0, 0, 0, 0x1a, 0x1a, 0xaa, 0x8a, 0x88, 0x06, 0, 0, 0, 0x1a, 0x1a],
    [0xaa, 0x8a, 0x88, 0x06, 0, 0, 0, 0x1a, 0x1a, 0xaa, 0x8a, 0x88, 0x06, 0, 0, 0, 0x18, 0x18, 0xaa, 0x8a],
    [0x88, 0x67, 0, 0, 0, 0x18, 0x18, 0xaa, 0x8a, 0x88, 0x67, 0, 0, 0, 0x18, 0x18, 0xaa, 0x8a, 0x88, 0x67],
    [0, 0, 0, 0x18, 0x18, 0xaa, 0x8a, 0x88, 0x67, 0, 0, 0, 0x44, 0x04, 0x44, 0x04, 0x34, 0x04, 0x24, 0x04],
    [0x14, 0x04, 0x44, 0x04, 0x44, 0x04, 0x34, 0x04, 0x24, 0x04, 0x14, 0x04, 0x44, 0x04, 0x44, 0x04, 0x34, 0x04, 0x24, 0x04],
    [0x14, 0x04, 0x44, 0x04, 0x44, 0x04, 0x34, 0x04, 0x24, 0x04, 0x14, 0x04, 0x11, 0x12, 0x15, 0x17, 0x1a, 0x1c, 0x41, 0x42],
    [0x45, 0x47, 0x4a, 0x4c, 0x31, 0x32, 0x35, 0x37, 0x3a, 0x3c, 0, 0, 0x70, 0x75, 0x9d, 0xa2, 0x70, 0x75, 0x9d, 0xa2],
    [0x70, 0x75, 0x9d, 0xa2, 0x7a, 0x84, 0x93, 0x98, 0x70, 0x75, 0x9d, 0xa2, 0x7a, 0x84, 0x93, 0x98, 0x70, 0x75, 0xac, 0xb8],
    [0x70, 0x75, 0x9d, 0xac, 0x70, 0x75, 0x9d, 0xac, 0x7a, 0x84, 0x98, 0xa2, 0x70, 0x75, 0x9d, 0xac, 0x7a, 0x84, 0x98, 0xa2],
    [0x70, 0x75, 0x98, 0xac, 0x70, 0x75, 0x98, 0xac, 0x70, 0x75, 0x98, 0xac, 0x7a, 0x7f, 0x98, 0xa2, 0x70, 0x75, 0x98, 0xac],
    [0x7a, 0x7f, 0x98, 0xa2, 0x26, 0x66, 0x26, 0x26, 0x20, 0x64, 0x24, 0x21, 0x20, 0x64, 0x24, 0x1f, 0x5e, 0x62, 0x20, 0x1b],
    [0x20, 0x64, 0x24, 0x1f, 0x5e, 0x62, 0x20, 0x1b, 0x25, 0x65, 0x26, 0x24, 0x24, 0x64, 0x64, 0x24, 0x24, 0x64, 0x64, 0x24],
    [0x62, 0x62, 0x62, 0x22, 0x24, 0x64, 0x64, 0x24, 0x62, 0x62, 0x62, 0x22, 0x1c, 0x5c, 0x5c, 0x1c, 0x20, 0x60, 0x60, 0x1f],
    [0x1f, 0x60, 0x60, 0x20, 0x1f, 0x60, 0x60, 0x20, 0x1f, 0x60, 0x60, 0x20, 0x1f, 0x60, 0x60, 0x20, 0, 0, 0, 0],
    [0, 0, 0, 0, 0, 0, 0, 0, 0, 0, 0, 0, 0, 0, 0, 0, 0, 0, 0, 0],
    [0, 0, 0, 0, 0, 0, 0, 0, 0, 0, 0, 0, 0, 0, 0, 0, 0, 0, 0, 0],
    [0, 0, 0, 0, 0, 0, 0, 0, 0, 0, 0, 0, 0, 0, 0, 0, 0, 0, 0, 0],
    [0, 0, 0, 0, 0, 0, 0, 0, 0, 0, 0, 0, 0, 0, 0, 0, 0, 0, 0, 0],
    [0, 0, 0, 0, 0, 0, 0, 0, 0, 0, 0, 0, 0, 0, 0, 0, 0, 0, 0, 0],
    [0, 0, 0, 0, 0, 0, 0, 0, 0, 0, 0, 0, 0, 0, 0, 0, 0, 0, 0, 0],
    [0, 0, 0, 0, 0, 0, 0, 0, 0, 0, 0, 0, 0, 0, 0, 0, 0, 0, 0, 0],
    [0, 0, 0, 0, 0, 0, 0, 0, 0, 0, 0, 0, 0, 0, 0, 0, 0, 0, 0, 0],
    [0, 0, 0, 0, 0, 0, 0, 0, 0, 0, 0, 0, 0, 0, 0, 0, 0, 0, 0, 0],
    [0, 0, 0x44, 0, 0, 0, 0, 0, 0, 0, 0, 0, 0, 0, 0, 0, 0, 0, 0, 0],
    [0, 0, 0, 0, 0, 0, 0, 0, 0, 0, 0, 0, 0, 0, 0, 0, 0, 0, 0, 0],
    [0, 0, 0, 0, 0, 0, 0xa0, 0xa0, 0xe0, 0xdf, 0xdf, 0xdf, 0xdf, 0xdf, 0xdf, 0xdf, 0xe0, 0xe0, 0xe0, 0xe0],
    [0xe0, 0, 0, 0, 0, 0, 0, 0, 0, 0, 0, 0, 0, 0, 0, 0, 0x70, 0x8e, 0xa2, 0xac],
    [0x70, 0x8e, 0xa2, 0xac, 0xd0, 0xd0, 0xe8, 0xe4, 0xd0, 0xd0, 0xe8, 0xe4, 0xd0, 0xd0, 0xe8, 0xe4, 0xd0, 0xd0, 0xe8, 0xe4],
    [0xd8, 0xd0, 0xf8, 0xe0, 0xd4, 0xd8, 0xf0, 0xe4, 0xdc, 0xd4, 0xf0, 0xe0, 0xdc, 0xd4, 0xf0, 0xe0, 0, 0, 0, 0],
    [0, 0, 0, 0, 0, 0, 0, 0, 0, 0, 0, 0, 0, 0, 0, 0, 0, 0, 0, 0],
    [0, 0, 0, 0, 0, 0, 0, 0, 0, 0, 0, 0, 0, 0, 0, 0, 0, 0, 0, 0],
    [0, 0, 0, 0, 0, 0, 0, 0, 0, 0, 0, 0, 0, 0, 0, 0, 0, 0, 0, 0],
    [0, 0, 0, 0, 0, 0, 0, 0, 0, 0, 0, 0, 0, 0, 0, 0, 0, 0, 0, 0],
    [0, 0, 0, 0, 0, 0, 0, 0, 0, 0, 0, 0, 0, 0, 0, 0, 0, 0, 0, 0],
    [0, 0, 0, 0, 0, 0, 0, 0, 0, 0, 0, 0, 0, 0, 0, 0, 0, 0, 0, 0],
    [0, 0, 0, 0, 0, 0, 0, 0, 0, 0, 0, 0, 0, 0, 0, 0, 0, 0, 0, 0],
    [0, 0, 0, 0, 0, 0, 0, 0, 0, 0, 0, 0, 0, 0, 0, 0, 0, 0, 0, 0],
    [0, 0, 0, 0, 0, 0, 0, 0, 0, 0, 0, 0, 0, 0, 0, 0, 0, 0, 0, 0],
    [0, 0, 0, 0, 0, 0, 0, 0, 0, 0, 0, 0, 0, 0, 0, 0, 0, 0, 0, 0],
    [0, 0, 0, 0, 0, 0, 0, 0, 0, 0, 0, 0, 0, 0, 0, 0, 0, 0, 0, 0],
    [0, 0, 0, 0, 0, 0, 0, 0, 0, 0, 0, 0, 0, 0, 0, 0, 0, 0, 0, 0],
    [0, 0, 0, 0, 0, 0, 0, 0, 0, 0, 0, 0, 0x4c, 0x54, 0x5e, 0x68, 0x78, 0x8c, 0x92, 0x98],
    [0x9c, 0xa0, 0xa6, 0xac, 0xb9, 0xbd, 0xc3, 0xc9, 0xff, 0xff, 0xff, 0xff, 0xff, 0xff, 0xff, 0xff, 0xff, 0xff, 0xff, 0xff],
    [0xff, 0xff, 0xff, 0xff, 0, 0, 0, 0, 0, 0, 0, 0, 0, 0, 0, 0, 0, 0, 0, 0],
    [0, 0, 0, 0, 0, 0, 0, 0, 0, 0, 0, 0, 0, 0, 0, 0, 0x68, 0x8e, 0x48, 0x6e],
    [0x30, 0x4c, 0x28, 0x3d, 0x29, 0x13, 0x70, 0x87, 0x60, 0x7c, 0x40, 0x5b, 0x30, 0x3b, 0x31, 0x1b, 0xf8, 0xf8, 0x93, 0x82],
    [0, 0x68, 0x8a, 0x48, 0x6e, 0x30, 0x4c, 0x28, 0x3b, 0x29, 0x16, 0x70, 0x89, 0x58, 0x77, 0x40, 0x5f, 0x28, 0x30, 0x29],
    [0x11, 0xf8, 0xf8, 0x93, 0x82, 0, 0x78, 0x90, 0x48, 0x69, 0x38, 0x51, 0x28, 0x33, 0x29, 0x10, 0x70, 0x89, 0x58, 0x79],
    [0x40, 0x5f, 0x28, 0x31, 0x29, 0x11, 0xf8, 0xf8, 0x93, 0x82, 0, 0x78, 0x90, 0x48, 0x6b, 0x30, 0x49, 0x28, 0x37, 0x29],
    [0x14, 0x70, 0x89, 0x58, 0x77, 0x40, 0x5f, 0x28, 0x30, 0x29, 0x12, 0xf8, 0xf8, 0x93, 0x82, 0, 0x78, 0x90, 0x48, 0x6a],
    [0x38, 0x54, 0x20, 0x2a, 0x29, 0x14, 0x58, 0x82, 0x58, 0x82, 0x38, 0x5d, 0x28, 0x3e, 0x29, 0x21, 0xf8, 0xf8, 0x93, 0x82],
    [0, 0x68, 0x89, 0x48, 0x6a, 0x38, 0x51, 0x28, 0x32, 0x29, 0x15, 0x68, 0x8a, 0x58, 0x7f, 0x38, 0x59, 0x28, 0x39, 0x29]]"

definition board_bin_part2 :: "u8 list list" where
  "board_bin_part2 = [
    [0x1e, 0xf8, 0xf8, 0x93, 0x82, 0, 0x68, 0x8a, 0x48, 0x6c, 0x30, 0x48, 0x28, 0x36, 0x29, 0x18, 0x60, 0x8a, 0x50, 0x7d],
    [0x38, 0x62, 0x18, 0x29, 0x21, 0x1a, 0xf8, 0xf8, 0x93, 0x82, 0, 0x68, 0x88, 0x48, 0x69, 0x38, 0x51, 0x28, 0x32, 0x29],
    [0x15, 0x60, 0x89, 0x50, 0x7a, 0x38, 0x5e, 0x20, 0x33, 0x21, 0x19, 0xf8, 0xf8, 0x93, 0x82, 0, 0x68, 0x89, 0x48, 0x6b],
    [0x38, 0x53, 0x28, 0x34, 0x29, 0x17, 0, 0, 0, 0, 0, 0, 0, 0, 0, 0, 0xf8, 0, 0x93, 0x82],
    [0, 0x68, 0x89, 0x48, 0x69, 0x38, 0x52, 0x28, 0x33, 0x29, 0x16, 0, 0, 0, 0, 0, 0, 0, 0, 0],
    [0, 0xf8, 0, 0x93, 0x82, 0, 0x68, 0x8b, 0x48, 0x6c, 0x30, 0x49, 0x28, 0x37, 0x29, 0x1a, 0, 0, 0, 0],
    [0, 0, 0, 0, 0, 0, 0xf8, 0, 0x93, 0x82, 0, 0x68, 0x8a, 0x48, 0x6c, 0x30, 0x45, 0x28, 0x33, 0x29],
    [0x18, 0, 0, 0, 0, 0, 0, 0, 0, 0, 0, 0xf8, 0, 0x93, 0x82, 0, 0x68, 0x8a, 0x48, 0x6d],
    [0x30, 0x48, 0x28, 0x37, 0x29, 0x1b, 0, 0, 0, 0, 0, 0, 0, 0, 0, 0, 0xf8, 0, 0x93, 0x82],
    [0, 0x68, 0x8b, 0x48, 0x6c, 0x30, 0x46, 0x28, 0x34, 0x29, 0x19, 0, 0, 0, 0, 0, 0, 0, 0, 0],
    [0, 0xf8, 0, 0x93, 0x82, 0, 0x70, 0x8b, 0x48, 0x68, 0x38, 0x4f, 0x28, 0x2f, 0x29, 0x14, 0, 0, 0, 0],
    [0, 0, 0, 0, 0, 0, 0xf8, 0, 0x93, 0x82, 0, 0x78, 0x8e, 0x48, 0x61, 0x38, 0x4a, 0x28, 0x2b, 0x29],
    [0x0f, 0, 0, 0, 0, 0, 0, 0, 0, 0, 0, 0xf8, 0, 0x93, 0x82, 0, 0x78, 0x80, 0x50, 0x55],
    [0x40, 0x46, 0x20, 0x05, 0x21, 0xe8, 0, 0, 0, 0, 0, 0, 0, 0, 0, 0, 0xf8, 0, 0x93, 0x82],
    [0, 0, 0, 0, 0, 0, 0, 0, 0, 0, 0, 0, 0, 0, 0, 0, 0, 0, 0, 0],
    [0, 0, 0, 0x93, 0x82, 0, 0, 0, 0, 0, 0, 0, 0, 0, 0, 0, 0, 0, 0, 0],
    [0, 0, 0, 0, 0, 0, 0, 0, 0x93, 0x82, 0, 0, 0, 0, 0, 0, 0, 0, 0, 0],
    [0, 0, 0, 0, 0, 0, 0, 0, 0, 0, 0, 0, 0, 0x93, 0x82, 0, 0, 0, 0, 0],
    [0, 0, 0, 0, 0, 0, 0, 0, 0, 0, 0, 0, 0, 0, 0, 0, 0, 0, 0x93, 0x82],
    [0, 0, 0, 0, 0, 0, 0, 0, 0, 0, 0, 0, 0, 0, 0, 0, 0, 0, 0, 0],
    [0, 0, 0, 0x93, 0x82, 0, 0, 0, 0, 0, 0, 0, 0, 0, 0, 0, 0, 0, 0, 0],
    [0, 0, 0, 0, 0, 0, 0, 0, 0x93, 0x82, 0, 0, 0, 0, 0, 0, 0, 0, 0, 0],
    [0, 0, 0, 0, 0, 0, 0, 0, 0, 0, 0, 0, 0, 0x93, 0x82, 0, 0, 0, 0, 0],
    [0, 0, 0, 0, 0, 0, 0, 0, 0, 0, 0, 0, 0, 0, 0, 0, 0, 0, 0x93, 0x82],
    [0, 0, 0, 0, 0, 0, 0, 0, 0, 0, 0, 0, 0, 0, 0, 0, 0, 0, 0, 0],
    [0, 0, 0, 0x93, 0x82, 0, 0, 0, 0, 0, 0, 0, 0, 0, 0, 0, 0, 0, 0, 0],
    [0, 0, 0, 0, 0, 0, 0, 0, 0x93, 0x82, 0, 0, 0, 0, 0, 0, 0, 0, 0, 0],
    [0, 0, 0, 0, 0, 0, 0, 0, 0, 0, 0, 0, 0, 0x93, 0x82, 0, 0, 0, 0, 0],
    [0, 0, 0, 0, 0, 0, 0, 0, 0, 0, 0, 0, 0, 0, 0, 0, 0, 0, 0x93, 0x82],
    [0, 0, 0, 0, 0, 0, 0, 0, 0, 0, 0, 0, 0, 0, 0, 0, 0, 0, 0, 0],
    [0, 0, 0, 0x93, 0x82, 0, 0, 0, 0, 0, 0, 0, 0, 0, 0, 0, 0, 0, 0, 0],
    [0, 0, 0, 0, 0, 0, 0, 0, 0x93, 0x82, 0, 0, 0, 0, 0, 0, 0, 0, 0, 0],
    [0, 0, 0, 0, 0, 0, 0, 0, 0, 0, 0, 0, 0, 0x93, 0x82, 0, 0, 0, 0, 0],
    [0, 0, 0, 0, 0, 0, 0, 0, 0, 0, 0, 0, 0, 0, 0, 0, 0, 0, 0, 0],
    [0, 0, 0, 0, 0, 0, 0, 0, 0, 0, 0, 0, 0, 0, 0, 0, 0, 0, 0, 0],
    [0, 0, 0, 0, 0, 0, 0, 0, 0, 0, 0, 0, 0, 0, 0, 0, 0, 0, 0, 0],
    [0, 0, 0, 0, 0, 0, 0, 0, 0, 0, 0, 0, 0, 0, 0, 0, 0, 0, 0, 0],
    [0, 0, 0, 0, 0, 0, 0, 0, 0, 0, 0, 0, 0, 0, 0, 0, 0, 0, 0, 0],
    [0, 0, 0, 0, 0, 0, 0, 0, 0, 0, 0, 0, 0, 0, 0, 0, 0, 0, 0, 0],
    [0, 0, 0, 0, 0, 0, 0, 0, 0, 0, 0, 0, 0, 0, 0, 0, 0, 0, 0, 0],
    [0, 0, 0, 0, 0, 0, 0, 0, 0, 0, 0, 0, 0x01, 0, 0, 0, 0x77, 0x39, 0, 0],
    [0xf7, 0x12, 0x77, 0x39, 0x77, 0x39, 0xf7, 0x12, 0x77, 0x39, 0x77, 0x39, 0x77, 0x39, 0, 0, 0xf7, 0x12, 0x77, 0x39],
    [0x77, 0x39, 0xf7, 0x12, 0x77, 0x39, 0x77, 0x39, 0, 0x02, 0x02, 0, 0, 0x20, 0, 0x01, 0x37, 0x80, 0, 0],
    [0, 0, 0x6f, 0x0c, 0, 0x61, 0x16, 0x0b, 0x64, 0x64, 0x26, 0x23, 0x0f, 0, 0, 0, 0, 0, 0, 0],
    [0, 0, 0, 0, 0, 0, 0, 0, 0, 0, 0, 0, 0, 0, 0, 0, 0, 0, 0, 0],
    [0, 0, 0, 0, 0, 0, 0, 0, 0, 0, 0, 0, 0, 0, 0, 0, 0, 0, 0, 0],
    [0, 0, 0, 0, 0, 0, 0, 0, 0, 0, 0, 0, 0, 0, 0, 0, 0, 0, 0, 0],
    [0, 0, 0, 0, 0, 0, 0, 0, 0, 0, 0, 0, 0, 0, 0, 0, 0, 0, 0, 0],
    [0, 0, 0, 0, 0, 0, 0, 0, 0, 0, 0, 0, 0, 0, 0, 0, 0, 0, 0, 0],
    [0, 0, 0, 0, 0, 0, 0, 0, 0, 0, 0, 0, 0, 0, 0, 0, 0, 0, 0, 0],
    [0, 0, 0, 0, 0, 0, 0, 0, 0, 0, 0, 0, 0, 0, 0, 0, 0, 0, 0, 0],
    [0, 0, 0, 0, 0, 0, 0, 0, 0, 0, 0, 0, 0, 0, 0, 0, 0, 0, 0, 0],
    [0, 0, 0, 0, 0, 0, 0, 0, 0, 0, 0, 0, 0, 0, 0, 0, 0, 0, 0, 0],
    [0, 0, 0, 0, 0, 0, 0, 0, 0, 0, 0, 0, 0, 0, 0, 0, 0, 0, 0, 0],
    [0, 0, 0, 0, 0, 0, 0, 0, 0, 0, 0, 0, 0, 0, 0, 0, 0, 0, 0, 0],
    [0, 0, 0, 0, 0, 0, 0, 0, 0, 0, 0, 0, 0, 0, 0, 0, 0, 0, 0, 0],
    [0, 0, 0, 0, 0, 0, 0, 0, 0, 0, 0, 0, 0, 0, 0, 0, 0, 0, 0, 0],
    [0, 0, 0, 0, 0, 0, 0, 0, 0, 0, 0, 0, 0, 0, 0, 0, 0, 0, 0, 0],
    [0, 0, 0, 0, 0, 0, 0, 0, 0, 0, 0, 0, 0, 0, 0, 0, 0, 0, 0, 0],
    [0, 0, 0, 0, 0, 0, 0, 0, 0, 0, 0, 0, 0, 0, 0, 0, 0, 0, 0, 0],
    [0, 0, 0, 0, 0, 0, 0, 0, 0, 0, 0, 0, 0, 0, 0, 0, 0, 0, 0, 0],
    [0, 0, 0, 0, 0, 0, 0, 0, 0, 0, 0, 0, 0, 0, 0, 0, 0, 0, 0, 0],
    [0, 0, 0, 0, 0, 0, 0, 0, 0, 0, 0, 0, 0, 0, 0, 0, 0, 0, 0, 0],
    [0, 0, 0, 0, 0, 0, 0, 0, 0, 0, 0, 0, 0, 0, 0, 0, 0, 0, 0, 0],
    [0, 0, 0, 0, 0, 0, 0, 0, 0, 0, 0, 0, 0, 0, 0, 0, 0, 0, 0, 0],
    [0, 0, 0, 0, 0, 0, 0, 0, 0, 0, 0, 0, 0, 0, 0, 0, 0, 0, 0, 0],
    [0, 0, 0, 0, 0, 0, 0, 0, 0, 0, 0, 0, 0, 0, 0, 0, 0, 0, 0, 0],
    [0, 0, 0, 0, 0, 0, 0, 0, 0, 0, 0, 0, 0, 0, 0, 0, 0, 0, 0, 0],
    [0, 0, 0, 0, 0, 0, 0, 0, 0, 0, 0, 0, 0, 0, 0, 0, 0, 0, 0, 0],
    [0, 0, 0, 0, 0, 0, 0, 0, 0, 0, 0, 0, 0, 0, 0, 0, 0, 0, 0, 0],
    [0, 0, 0, 0, 0, 0, 0, 0, 0, 0, 0, 0, 0, 0, 0, 0, 0, 0, 0, 0],
    [0, 0, 0, 0, 0, 0, 0, 0, 0, 0, 0, 0, 0, 0, 0, 0, 0, 0, 0, 0],
    [0, 0, 0, 0, 0, 0, 0, 0, 0, 0, 0, 0, 0, 0, 0, 0, 0, 0, 0, 0],
    [0, 0, 0, 0, 0, 0, 0, 0, 0, 0, 0, 0, 0, 0, 0, 0, 0, 0, 0, 0],
    [0, 0, 0, 0, 0, 0, 0, 0, 0, 0, 0, 0, 0, 0, 0, 0, 0, 0, 0, 0],
    [0, 0, 0, 0, 0, 0, 0, 0, 0, 0, 0, 0, 0, 0, 0, 0, 0, 0, 0, 0],
    [0, 0, 0, 0, 0, 0, 0, 0, 0, 0, 0, 0, 0, 0, 0, 0, 0, 0, 0, 0],
    [0, 0, 0, 0, 0, 0, 0, 0, 0, 0, 0, 0, 0, 0, 0, 0, 0, 0, 0, 0],
    [0, 0, 0, 0, 0, 0, 0, 0, 0, 0, 0, 0, 0, 0, 0, 0, 0, 0, 0, 0],
    [0, 0, 0, 0, 0, 0, 0, 0, 0, 0, 0, 0, 0, 0, 0, 0, 0, 0, 0, 0],
    [0, 0, 0, 0, 0, 0, 0, 0, 0, 0, 0, 0, 0, 0, 0, 0, 0, 0, 0, 0],
    [0, 0, 0, 0, 0, 0, 0, 0, 0, 0, 0, 0, 0, 0, 0, 0, 0, 0, 0, 0],
    [0, 0, 0, 0, 0, 0, 0, 0, 0, 0, 0, 0, 0, 0, 0, 0, 0, 0, 0, 0],
    [0, 0, 0, 0, 0, 0, 0, 0, 0, 0, 0, 0, 0, 0, 0, 0, 0, 0, 0, 0],
    [0, 0, 0, 0, 0, 0, 0, 0, 0, 0, 0, 0, 0, 0, 0, 0, 0, 0, 0, 0],
    [0, 0, 0, 0, 0, 0, 0, 0, 0, 0, 0, 0, 0, 0, 0, 0, 0, 0, 0, 0],
    [0, 0, 0, 0, 0, 0, 0, 0, 0, 0, 0, 0, 0, 0, 0, 0, 0, 0, 0, 0],
    [0, 0, 0, 0, 0, 0, 0, 0, 0, 0, 0, 0, 0, 0, 0, 0, 0, 0, 0, 0],
    [0, 0, 0, 0, 0, 0, 0, 0, 0, 0, 0, 0, 0, 0, 0, 0, 0, 0, 0, 0],
    [0, 0, 0, 0, 0, 0, 0, 0, 0, 0, 0, 0, 0, 0, 0, 0, 0, 0, 0, 0],
    [0, 0, 0, 0, 0, 0, 0, 0, 0, 0, 0, 0, 0, 0, 0, 0, 0, 0, 0, 0],
    [0, 0, 0, 0, 0, 0, 0, 0, 0, 0, 0, 0, 0, 0, 0, 0, 0, 0, 0, 0],
    [0, 0, 0, 0, 0, 0, 0, 0, 0, 0, 0, 0, 0, 0, 0, 0, 0, 0, 0, 0],
    [0, 0, 0, 0, 0, 0, 0, 0, 0, 0, 0, 0, 0, 0, 0, 0, 0, 0, 0, 0],
    [0, 0, 0, 0, 0, 0, 0, 0, 0, 0, 0, 0, 0, 0, 0, 0, 0, 0, 0, 0],
    [0, 0, 0, 0, 0, 0, 0, 0, 0, 0, 0, 0, 0, 0, 0, 0, 0, 0, 0, 0],
    [0, 0, 0, 0, 0, 0, 0, 0, 0, 0, 0, 0, 0, 0, 0, 0, 0, 0, 0, 0],
    [0, 0, 0, 0, 0, 0, 0, 0, 0, 0, 0, 0, 0, 0, 0, 0, 0, 0, 0, 0],
    [0, 0, 0, 0, 0, 0, 0, 0, 0, 0, 0, 0, 0, 0, 0, 0, 0, 0, 0, 0],
    [0, 0, 0, 0, 0, 0, 0, 0, 0, 0, 0, 0, 0, 0, 0, 0, 0, 0, 0, 0],
    [0, 0, 0, 0, 0, 0, 0, 0, 0, 0, 0, 0, 0, 0, 0, 0, 0, 0, 0, 0],
    [0, 0, 0, 0, 0, 0, 0, 0, 0, 0, 0, 0, 0, 0, 0, 0, 0, 0, 0, 0],
    [0, 0, 0, 0, 0, 0, 0, 0, 0, 0, 0, 0, 0, 0, 0, 0, 0, 0, 0, 0],
    [0, 0, 0, 0, 0, 0, 0, 0, 0, 0, 0, 0, 0, 0, 0, 0, 0, 0, 0, 0],
    [0, 0, 0, 0, 0, 0, 0, 0, 0, 0, 0, 0, 0, 0, 0, 0, 0, 0, 0, 0],
    [0, 0, 0, 0, 0, 0, 0, 0, 0, 0, 0, 0, 0, 0, 0, 0, 0, 0, 0, 0],
    [0, 0, 0, 0, 0, 0, 0, 0, 0, 0, 0, 0, 0, 0, 0, 0, 0, 0, 0, 0],
    [0, 0, 0, 0, 0, 0, 0, 0, 0, 0, 0, 0, 0, 0, 0, 0, 0, 0, 0, 0],
    [0, 0, 0, 0, 0, 0, 0, 0, 0, 0, 0, 0, 0, 0, 0, 0, 0, 0, 0, 0],
    [0, 0, 0, 0, 0, 0, 0, 0, 0, 0, 0, 0, 0, 0, 0, 0, 0, 0, 0, 0],
    [0, 0, 0, 0, 0, 0, 0, 0, 0, 0, 0, 0, 0, 0, 0, 0, 0, 0, 0, 0],
    [0, 0, 0, 0, 0, 0, 0, 0, 0, 0, 0, 0, 0, 0, 0, 0, 0, 0, 0, 0],
    [0, 0, 0, 0, 0, 0, 0, 0, 0, 0, 0, 0, 0, 0, 0, 0, 0, 0, 0, 0],
    [0, 0, 0, 0, 0, 0, 0, 0, 0, 0, 0, 0, 0, 0, 0, 0, 0, 0, 0, 0],
    [0, 0, 0, 0, 0, 0, 0, 0, 0, 0, 0, 0, 0, 0, 0, 0, 0, 0, 0, 0],
    [0, 0, 0, 0, 0, 0, 0, 0, 0, 0, 0, 0, 0, 0, 0, 0, 0, 0, 0, 0],
    [0, 0, 0, 0, 0, 0, 0, 0, 0, 0, 0, 0, 0, 0, 0, 0, 0, 0, 0, 0],
    [0, 0, 0, 0, 0, 0, 0, 0, 0, 0, 0, 0, 0, 0, 0, 0, 0, 0, 0, 0],
    [0, 0, 0, 0, 0, 0, 0, 0, 0, 0, 0, 0, 0, 0, 0, 0, 0, 0, 0, 0],
    [0, 0, 0, 0, 0, 0, 0, 0, 0, 0, 0, 0, 0, 0, 0, 0, 0, 0, 0, 0],
    [0, 0, 0, 0, 0, 0, 0, 0, 0, 0, 0, 0, 0, 0, 0, 0, 0, 0, 0, 0],
    [0, 0, 0, 0, 0, 0, 0, 0, 0, 0, 0, 0, 0, 0, 0, 0, 0, 0, 0, 0],
    [0, 0, 0, 0, 0, 0, 0, 0, 0, 0, 0, 0, 0, 0, 0, 0, 0, 0, 0, 0],
    [0, 0, 0, 0, 0, 0, 0, 0, 0, 0, 0, 0, 0, 0, 0, 0, 0, 0, 0, 0],
    [0, 0, 0, 0, 0, 0, 0, 0, 0, 0, 0, 0, 0, 0, 0, 0, 0, 0, 0, 0],
    [0, 0, 0, 0, 0, 0, 0, 0, 0, 0, 0, 0, 0, 0, 0, 0, 0, 0, 0, 0],
    [0, 0, 0, 0, 0, 0, 0, 0, 0, 0, 0, 0, 0, 0, 0, 0, 0, 0, 0, 0],
    [0, 0, 0, 0, 0, 0, 0, 0, 0, 0, 0, 0, 0, 0, 0, 0, 0, 0, 0, 0],
    [0, 0, 0, 0, 0, 0, 0, 0, 0, 0, 0, 0, 0, 0, 0, 0, 0, 0, 0, 0],
    [0, 0, 0, 0, 0, 0, 0, 0, 0, 0, 0, 0, 0, 0, 0, 0, 0, 0, 0, 0],
    [0, 0, 0, 0, 0, 0, 0, 0, 0, 0, 0, 0, 0, 0, 0, 0, 0, 0, 0, 0],
    [0, 0, 0, 0, 0, 0, 0, 0, 0, 0, 0, 0, 0, 0, 0, 0, 0, 0, 0, 0],
    [0, 0, 0x4c, 0x54, 0x68, 0x8c, 0xa0, 0xb9, 0xc9, 0xcd, 0x4c, 0x54, 0x68, 0x8c, 0xa0, 0xb9, 0xc9, 0xcd, 0x4c, 0x54],
    [0x68, 0x8c, 0xa0, 0xb9, 0xc9, 0xcd, 0x4c, 0x54, 0x68, 0x8c, 0xa0, 0xb9, 0xc9, 0xcd, 0x1e, 0x1e, 0x1c, 0x19, 0x1e, 0x1e],
    [0x1c, 0x19, 0x1e, 0x1e, 0x1c, 0x19, 0x1e, 0x1e, 0x1c, 0x1a, 0x1e, 0x1e, 0x1c, 0x1a, 0x1e, 0x1e, 0x1c, 0x1a, 0x1e, 0x1e],
    [0x1c, 0x1a, 0x1e, 0x1e, 0x1c, 0x19, 0x10, 0x10, 0xee, 0xac, 0x7a, 0x04, 0, 0, 0, 0x10, 0x10, 0xee, 0xac, 0x7a],
    [0x04, 0, 0, 0, 0x10, 0x10, 0xee, 0xac, 0x7a, 0x04, 0, 0, 0, 0x10, 0x10, 0xee, 0xac, 0x8a, 0x06, 0],
    [0, 0, 0x10, 0x10, 0xee, 0xac, 0x8a, 0x06, 0, 0, 0, 0x10, 0x10, 0xee, 0xac, 0x8a, 0x06, 0, 0, 0],
    [0x10, 0x10, 0xee, 0xac, 0x8a, 0x06, 0, 0, 0, 0x10, 0x10, 0xee, 0xac, 0x7a, 0x04, 0, 0, 0, 0x0e, 0x0e],
    [0xee, 0xce, 0xaa, 0x67, 0, 0, 0, 0x0e, 0x0e, 0xee, 0xce, 0xaa, 0x67, 0, 0, 0, 0x0e, 0x0e, 0xee, 0xce],
    [0xaa, 0x67, 0, 0, 0, 0x0e, 0x0e, 0xee, 0xce, 0xaa, 0x67, 0, 0, 0, 0x0e, 0x0e, 0xee, 0xce, 0xaa, 0x67],
    [0, 0, 0, 0x0e, 0x0e, 0xee, 0xce, 0xaa, 0x67, 0, 0, 0, 0x0e, 0x0e, 0xee, 0xce, 0xaa, 0x67, 0, 0],
    [0, 0x0e, 0x0e, 0xee, 0xce, 0xaa, 0x67, 0, 0, 0, 0x0d, 0x0d, 0xdd, 0xbd, 0x9b, 0x56, 0, 0, 0, 0x0d],
    [0x0d, 0xdd, 0xbd, 0x9b, 0x56, 0, 0, 0, 0x0d, 0x0d, 0xdd, 0xbd, 0x9b, 0x56, 0, 0, 0, 0x0d, 0x0d, 0xff],
    [0xbf, 0x9b, 0x56, 0, 0, 0, 0x0d, 0x0d, 0xff, 0xbf, 0x9b, 0x56, 0, 0, 0, 0x0d, 0x0d, 0xff, 0xbf, 0x9b],
    [0x56, 0, 0, 0, 0x0d, 0x0d, 0xff, 0xbf, 0x9b, 0x56, 0, 0, 0, 0x0d, 0x0d, 0xff, 0xbf, 0x9b, 0x56, 0],
    [0, 0, 0x24, 0x04, 0x24, 0x04, 0x24, 0x04, 0x24, 0x04, 0x04, 0x04, 0x24, 0x04, 0x24, 0x04, 0x24, 0x04, 0x24, 0x04],
    [0x04, 0x04, 0x14, 0x04, 0x14, 0x04, 0x14, 0x04, 0x14, 0x04, 0x04, 0x04, 0x14, 0x04, 0x14, 0x04, 0x14, 0x04, 0x14, 0x04],
    [0x04, 0x04, 0x04, 0x04, 0x04, 0x04, 0x04, 0x04, 0x04, 0x04, 0x04, 0x04, 0x04, 0x04, 0x04, 0x04, 0x04, 0x04, 0x04, 0x04],
    [0x04, 0x04, 0, 0, 0, 0, 0, 0, 0, 0, 0, 0, 0, 0, 0, 0, 0, 0, 0, 0]]"

definition board_bin_part3 :: "u8 list list" where
  "board_bin_part3 = [
    [0, 0, 0x10, 0x16, 0x18, 0x19, 0x1b, 0x1d, 0x40, 0x46, 0x48, 0x49, 0x4b, 0x4d, 0x30, 0x36, 0x38, 0x39, 0x3b, 0x3d],
    [0, 0, 0, 0, 0x4c, 0x50, 0x60, 0x64, 0x8c, 0x90, 0xb4, 0xb8, 0x4c, 0x50, 0x60, 0x64, 0x68, 0x90, 0xb4, 0xb8],
    [0x4e, 0x56, 0x66, 0x8e, 0x96, 0xae, 0xb6, 0xc7, 0x52, 0x62, 0x92, 0xa2, 0xb2, 0xc3, 0xc3, 0xc3, 0x4c, 0x50, 0x60, 0x64],
    [0x68, 0x90, 0xb4, 0xb8, 0x4e, 0x56, 0x66, 0x8e, 0x96, 0xae, 0xb6, 0xc7, 0x4c, 0x58, 0x5c, 0x68, 0x90, 0xa4, 0xa8, 0xb4],
    [0x4c, 0x58, 0x68, 0x90, 0xa4, 0xac, 0xb0, 0xb4, 0x4e, 0x5e, 0x66, 0x8e, 0x96, 0x9e, 0xa6, 0xae, 0x52, 0x62, 0x92, 0xa2],
    [0xa2, 0xa2, 0xa2, 0xa2, 0x4c, 0x58, 0x68, 0x90, 0xa4, 0xac, 0xb0, 0xb4, 0x4e, 0x5e, 0x66, 0x8e, 0x96, 0x9e, 0xa6, 0xae],
    [0x4c, 0x5c, 0x64, 0x8c, 0x9c, 0xa4, 0xac, 0xb4, 0x4c, 0x5c, 0x64, 0x8c, 0x9c, 0xa4, 0xac, 0xb4, 0x4e, 0x5e, 0x66, 0x8e],
    [0x96, 0x9e, 0xa6, 0xae, 0x52, 0x62, 0x92, 0xa2, 0xa2, 0xa2, 0xa2, 0xa2, 0x4c, 0x5c, 0x64, 0x8c, 0x9c, 0xa4, 0xac, 0xb4],
    [0x4e, 0x5e, 0x66, 0x8e, 0x96, 0x9e, 0xa6, 0xae, 0x1b, 0x5e, 0x1d, 0x5e, 0x1a, 0x5e, 0x19, 0x5e, 0x1b, 0x5e, 0x1c, 0x1e],
    [0x5a, 0x5e, 0x1a, 0x5e, 0x14, 0x5c, 0x14, 0x16, 0x5c, 0x1b, 0x5c, 0x1c, 0x18, 0x14, 0x14, 0x1c, 0x1c, 0x1c, 0x1c, 0x1c],
    [0x1b, 0x5e, 0x1c, 0x1e, 0x5a, 0x5e, 0x1a, 0x5e, 0x14, 0x5c, 0x14, 0x16, 0x5c, 0x1b, 0x5c, 0x1c, 0x5c, 0x1b, 0x5c, 0x5a],
    [0x5a, 0x1a, 0x5a, 0x1a, 0x5b, 0x5a, 0x59, 0x5a, 0x5a, 0x1a, 0x1a, 0x1a, 0x5a, 0x1b, 0x1a, 0x19, 0x1a, 0x1a, 0x1a, 0x1a],
    [0x1b, 0x1b, 0x1b, 0x1a, 0x1a, 0x1a, 0x1a, 0x1a, 0x5b, 0x5a, 0x59, 0x5a, 0x5a, 0x1a, 0x1a, 0x1a, 0x5a, 0x1b, 0x1a, 0x19],
    [0x1a, 0x1a, 0x1a, 0x1a, 0x5e, 0x5e, 0x5e, 0x5e, 0x5e, 0x5e, 0x5e, 0x1e, 0x5e, 0x5e, 0x5e, 0x5e, 0x5e, 0x5e, 0x5e, 0x1e],
    [0x5c, 0x1c, 0x1c, 0x1c, 0x1c, 0x1c, 0x1c, 0x1c, 0x1c, 0x1c, 0x1c, 0x1c, 0x1c, 0x1c, 0x1c, 0x1c, 0x5e, 0x5e, 0x5e, 0x5e],
    [0x5e, 0x5e, 0x5e, 0x1e, 0x5c, 0x1c, 0x1c, 0x1c, 0x1c, 0x1c, 0x1c, 0x1c, 0, 0, 0, 0, 0, 0, 0, 0],
    [0, 0, 0, 0, 0, 0, 0, 0, 0, 0, 0, 0, 0, 0, 0, 0, 0, 0, 0, 0],
    [0, 0, 0, 0, 0, 0, 0, 0, 0, 0, 0, 0, 0, 0, 0, 0, 0, 0, 0, 0],
    [0, 0, 0, 0, 0, 0, 0, 0, 0, 0, 0, 0, 0, 0, 0, 0, 0, 0, 0, 0],
    [0, 0, 0, 0, 0, 0, 0, 0, 0, 0, 0, 0, 0, 0, 0, 0, 0, 0, 0, 0],
    [0, 0, 0, 0, 0, 0, 0, 0, 0, 0, 0, 0, 0, 0, 0, 0, 0, 0, 0, 0],
    [0, 0, 0, 0, 0, 0, 0, 0, 0, 0, 0, 0, 0, 0, 0, 0, 0, 0, 0, 0],
    [0, 0, 0, 0, 0, 0, 0, 0, 0, 0, 0, 0, 0, 0, 0, 0, 0, 0, 0, 0],
    [0, 0, 0, 0, 0, 0, 0, 0, 0, 0, 0, 0, 0, 0, 0, 0, 0, 0, 0, 0],
    [0, 0, 0, 0, 0, 0, 0, 0, 0, 0, 0, 0, 0, 0, 0, 0, 0, 0, 0, 0],
    [0, 0, 0, 0, 0, 0, 0, 0, 0, 0, 0, 0, 0, 0, 0, 0, 0, 0, 0, 0],
    [0, 0, 0, 0, 0, 0, 0, 0, 0, 0, 0, 0, 0, 0, 0, 0, 0, 0, 0, 0],
    [0, 0, 0, 0, 0, 0, 0, 0, 0, 0, 0, 0, 0, 0, 0, 0, 0, 0, 0, 0],
    [0, 0, 0, 0, 0, 0, 0, 0, 0, 0, 0, 0, 0, 0, 0, 0, 0, 0, 0, 0],
    [0, 0, 0, 0, 0, 0, 0, 0, 0, 0, 0, 0, 0, 0, 0, 0, 0, 0, 0, 0],
    [0, 0, 0, 0, 0, 0, 0, 0, 0, 0, 0, 0, 0, 0, 0, 0, 0, 0, 0, 0],
    [0, 0, 0, 0, 0, 0, 0, 0, 0, 0, 0, 0, 0, 0, 0, 0, 0, 0, 0, 0],
    [0, 0, 0, 0, 0, 0, 0, 0, 0, 0, 0, 0, 0, 0, 0, 0, 0, 0, 0, 0],
    [0, 0, 0, 0, 0, 0, 0, 0, 0, 0, 0, 0, 0, 0, 0, 0, 0, 0, 0, 0],
    [0, 0, 0, 0, 0, 0, 0, 0, 0, 0, 0, 0, 0, 0, 0, 0, 0, 0, 0, 0],
    [0, 0, 0, 0, 0, 0, 0, 0, 0, 0, 0, 0, 0, 0, 0, 0, 0, 0, 0, 0],
    [0, 0, 0, 0, 0, 0, 0, 0, 0, 0, 0, 0, 0, 0, 0, 0, 0, 0, 0, 0],
    [0, 0, 0, 0, 0, 0, 0, 0, 0, 0, 0, 0, 0, 0, 0, 0, 0, 0, 0, 0],
    [0, 0, 0, 0, 0, 0, 0, 0, 0, 0, 0, 0, 0, 0, 0, 0, 0, 0, 0x78, 0x78],
    [0xa8, 0xac, 0xac, 0xaf, 0xb1, 0xb3, 0xb6, 0xb6, 0xb6, 0xb6, 0xb6, 0xb5, 0xad, 0xad, 0xac, 0xab, 0, 0, 0, 0],
    [0, 0, 0, 0, 0, 0, 0, 0, 0, 0, 0, 0, 0, 0, 0, 0, 0, 0, 0, 0],
    [0, 0, 0, 0, 0, 0, 0, 0, 0, 0, 0, 0, 0, 0, 0, 0, 0, 0, 0, 0],
    [0, 0, 0, 0, 0x4c, 0x5c, 0x60, 0x92, 0xae, 0xb2, 0xb8, 0xc5, 0x4c, 0x5c, 0x60, 0x92, 0xae, 0xb2, 0xb8, 0xc5],
    [0xdc, 0xdc, 0xf8, 0xe4, 0xd6, 0xd6, 0xf8, 0xe0, 0xd0, 0xd0, 0xf8, 0xe0, 0xd0, 0xd0, 0xf0, 0xd6, 0xd4, 0xd4, 0xde, 0xd8],
    [0xd8, 0xd8, 0xd8, 0xd8, 0xe8, 0xe4, 0xd8, 0xc8, 0xd4, 0xd4, 0xe8, 0xdc, 0xec, 0xde, 0xf4, 0xec, 0xec, 0xe4, 0xf4, 0xec],
    [0xec, 0xe0, 0xf4, 0xec, 0xe8, 0xe4, 0xf4, 0xea, 0xe4, 0xe4, 0xf0, 0xe8, 0xe2, 0xdc, 0xf4, 0xea, 0xe4, 0xe0, 0xf4, 0xec],
    [0xe0, 0xdc, 0xf0, 0xe6, 0, 0, 0, 0, 0, 0, 0, 0, 0, 0, 0, 0, 0, 0, 0, 0],
    [0, 0, 0, 0, 0, 0, 0, 0, 0, 0, 0, 0, 0, 0, 0, 0, 0, 0, 0, 0],
    [0, 0, 0, 0, 0, 0, 0, 0, 0, 0, 0, 0, 0, 0, 0, 0, 0, 0, 0, 0],
    [0, 0, 0, 0, 0, 0, 0, 0, 0, 0, 0, 0, 0, 0, 0, 0, 0, 0, 0, 0],
    [0, 0, 0, 0, 0, 0, 0, 0, 0, 0, 0, 0, 0, 0, 0, 0, 0, 0, 0, 0],
    [0, 0, 0, 0, 0, 0, 0, 0, 0, 0, 0, 0, 0, 0, 0, 0, 0, 0, 0, 0],
    [0, 0, 0, 0, 0, 0, 0, 0, 0, 0, 0, 0, 0, 0, 0, 0, 0, 0, 0, 0],
    [0, 0, 0, 0, 0, 0, 0, 0, 0, 0, 0, 0, 0, 0, 0, 0, 0, 0, 0, 0],
    [0, 0, 0, 0, 0, 0, 0, 0, 0, 0, 0, 0, 0, 0, 0, 0, 0, 0, 0, 0],
    [0, 0, 0, 0, 0, 0, 0, 0, 0, 0, 0, 0, 0, 0, 0, 0, 0, 0, 0, 0],
    [0, 0, 0, 0, 0, 0, 0, 0, 0, 0, 0, 0, 0, 0, 0, 0, 0, 0, 0, 0],
    [0, 0, 0, 0, 0, 0, 0, 0, 0, 0, 0, 0, 0, 0, 0, 0, 0, 0, 0, 0],
    [0, 0, 0, 0, 0, 0, 0, 0, 0, 0, 0, 0, 0, 0, 0, 0, 0, 0, 0, 0],
    [0, 0, 0, 0, 0, 0, 0, 0, 0, 0, 0, 0, 0, 0, 0, 0, 0, 0, 0, 0],
    [0, 0, 0, 0, 0, 0, 0, 0, 0, 0, 0, 0, 0, 0, 0, 0, 0, 0, 0, 0],
    [0, 0, 0, 0, 0, 0, 0, 0, 0, 0, 0, 0, 0, 0, 0, 0, 0, 0, 0, 0],
    [0, 0, 0, 0, 0, 0, 0, 0, 0, 0, 0, 0, 0, 0, 0, 0, 0, 0, 0, 0],
    [0, 0, 0, 0, 0, 0, 0, 0, 0, 0, 0, 0, 0, 0, 0, 0, 0, 0, 0, 0],
    [0, 0, 0, 0, 0, 0, 0, 0, 0, 0, 0, 0, 0, 0, 0, 0, 0, 0, 0, 0],
    [0, 0, 0, 0, 0, 0, 0, 0, 0, 0, 0, 0, 0, 0, 0, 0, 0, 0, 0, 0],
    [0, 0, 0, 0, 0, 0, 0, 0, 0, 0, 0, 0, 0, 0, 0, 0, 0, 0, 0, 0],
    [0, 0, 0, 0, 0, 0, 0, 0, 0, 0, 0, 0, 0, 0, 0, 0, 0, 0, 0, 0],
    [0, 0, 0, 0, 0, 0, 0, 0, 0, 0, 0, 0, 0, 0, 0, 0, 0, 0, 0, 0],
    [0, 0, 0, 0, 0, 0, 0, 0, 0, 0, 0, 0, 0, 0, 0, 0, 0, 0, 0, 0],
    [0, 0, 0, 0, 0, 0, 0, 0, 0, 0, 0, 0, 0, 0, 0, 0, 0, 0, 0, 0],
    [0, 0, 0, 0, 0, 0, 0, 0, 0, 0, 0, 0, 0, 0, 0, 0, 0x28, 0xa4, 0x11, 0x01],
    [0x3f, 0, 0x3f, 0, 0x2c, 0xa4, 0x11, 0x01, 0x3f, 0, 0x3f, 0, 0x30, 0xa4, 0x11, 0x01, 0x3f, 0, 0x3f, 0],
    [0x84, 0x61, 0x20, 0, 0xa3, 0x6d, 0x43, 0xfa, 0x83, 0x6d, 0x43, 0xfa, 0, 0, 0, 0, 0, 0, 0, 0],
    [0, 0, 0, 0, 0, 0, 0, 0, 0, 0, 0, 0, 0, 0, 0, 0, 0, 0, 0, 0],
    [0, 0, 0, 0, 0, 0, 0, 0, 0, 0, 0, 0, 0, 0, 0, 0, 0, 0, 0, 0],
    [0, 0, 0, 0, 0, 0, 0, 0, 0, 0, 0, 0, 0, 0, 0, 0, 0, 0, 0, 0],
    [0, 0, 0, 0, 0, 0, 0, 0, 0, 0, 0, 0, 0, 0, 0, 0, 0, 0, 0, 0],
    [0, 0, 0, 0, 0, 0, 0, 0, 0, 0, 0, 0, 0, 0, 0, 0, 0, 0, 0, 0],
    [0, 0, 0, 0, 0, 0, 0, 0, 0, 0, 0, 0, 0, 0, 0, 0, 0, 0, 0, 0],
    [0, 0, 0, 0, 0, 0, 0, 0, 0, 0, 0, 0, 0, 0, 0, 0, 0, 0, 0, 0],
    [0, 0, 0, 0, 0, 0, 0, 0, 0, 0, 0, 0, 0, 0, 0, 0, 0, 0, 0, 0],
    [0, 0, 0, 0, 0, 0, 0, 0, 0, 0, 0, 0, 0, 0, 0, 0, 0, 0, 0, 0],
    [0, 0, 0, 0, 0, 0, 0, 0, 0, 0, 0, 0, 0, 0, 0, 0, 0, 0, 0, 0],
    [0, 0, 0, 0, 0, 0, 0, 0, 0, 0, 0, 0, 0, 0, 0, 0, 0, 0, 0, 0],
    [0, 0, 0, 0, 0, 0, 0, 0, 0, 0, 0, 0, 0, 0, 0, 0, 0, 0, 0, 0],
    [0, 0, 0, 0, 0, 0, 0, 0, 0, 0, 0, 0, 0, 0, 0, 0, 0, 0, 0, 0],
    [0, 0, 0, 0, 0, 0, 0, 0, 0, 0, 0, 0, 0, 0, 0, 0, 0, 0, 0, 0],
    [0, 0, 0, 0, 0, 0, 0, 0, 0, 0, 0, 0, 0, 0, 0, 0, 0, 0, 0, 0],
    [0, 0, 0, 0, 0, 0, 0, 0, 0, 0, 0, 0, 0, 0, 0, 0, 0, 0, 0, 0],
    [0, 0, 0, 0, 0, 0, 0, 0, 0, 0, 0, 0, 0, 0, 0, 0, 0, 0, 0, 0],
    [0, 0, 0, 0, 0, 0, 0, 0, 0, 0, 0, 0, 0, 0, 0, 0, 0, 0, 0, 0],
    [0, 0, 0, 0, 0, 0, 0, 0, 0, 0, 0, 0, 0, 0, 0, 0, 0, 0, 0, 0],
    [0, 0, 0, 0, 0, 0, 0, 0, 0, 0, 0, 0, 0, 0, 0, 0, 0, 0, 0, 0],
    [0, 0, 0, 0, 0, 0, 0, 0, 0, 0, 0, 0, 0, 0, 0, 0, 0, 0, 0, 0],
    [0, 0, 0, 0, 0, 0, 0, 0, 0, 0, 0, 0, 0, 0, 0, 0, 0, 0, 0, 0],
    [0, 0, 0, 0, 0, 0, 0, 0, 0, 0, 0, 0, 0, 0, 0, 0, 0, 0, 0, 0],
    [0, 0, 0, 0, 0, 0, 0, 0, 0xf4, 0, 0x07, 0, 0xf4, 0, 0x07, 0, 0, 0, 0, 0],
    [0, 0, 0, 0, 0, 0, 0, 0, 0, 0, 0, 0, 0, 0, 0, 0, 0, 0, 0, 0],
    [0, 0, 0, 0, 0, 0, 0, 0, 0, 0, 0, 0, 0, 0, 0, 0, 0, 0, 0, 0],
    [0, 0, 0, 0, 0, 0, 0, 0, 0, 0, 0, 0, 0, 0, 0, 0, 0, 0, 0, 0],
    [0, 0, 0, 0, 0, 0, 0, 0, 0, 0, 0, 0, 0, 0, 0, 0, 0, 0, 0, 0],
    [0, 0, 0, 0, 0, 0, 0, 0, 0, 0, 0, 0, 0, 0, 0, 0, 0, 0, 0, 0],
    [0, 0, 0, 0, 0, 0, 0, 0, 0, 0, 0, 0, 0, 0, 0, 0, 0, 0, 0, 0],
    [0, 0, 0, 0, 0, 0, 0, 0, 0, 0, 0, 0, 0, 0, 0, 0, 0, 0, 0, 0],
    [0, 0, 0, 0, 0, 0, 0, 0, 0, 0, 0, 0, 0, 0, 0, 0, 0, 0, 0, 0],
    [0, 0, 0, 0]]"

definition qca9377_board_bin :: "u8 list" where
  "qca9377_board_bin = concat (board_bin_part1 @ board_bin_part2 @ board_bin_part3)"

section \<open>Length and checksum\<close>

text \<open>The exclusive or of the little-endian 16-bit words.\<close>

fun xor16 :: "u8 list \<Rightarrow> u16" where
  "xor16 (a # b # xs) = get16 a b XOR xor16 xs"
| "xor16 xs = 0"

lemma xor16_append: "even (length xs) \<Longrightarrow> xor16 (xs @ ys) = xor16 xs XOR xor16 ys"
  by (induction xs rule: xor16.induct) (auto simp: xor.assoc)

lemma xor16_concat:
  "list_all (\<lambda>r. even (length r)) rs \<Longrightarrow>
     xor16 (concat (rs @ ss)) = foldr (\<lambda>r. (XOR) (xor16 r)) rs 0 XOR xor16 (concat ss)"
  by (induction rs) (simp_all add: xor16_append xor.assoc)

lemma rows_even:
  "list_all (\<lambda>r. even (length r)) board_bin_part1" "list_all (\<lambda>r. even (length r)) board_bin_part2"
  "list_all (\<lambda>r. even (length r)) board_bin_part3"
  by (simp_all add: board_bin_part1_def board_bin_part2_def board_bin_part3_def)

lemma length_parts:
  "length (concat board_bin_part1) = 3000" "length (concat board_bin_part2) = 3000"
  "length (concat board_bin_part3) = 2124"
  by (simp_all add: board_bin_part1_def board_bin_part2_def board_bin_part3_def)

lemma xor_parts:
  "foldr (\<lambda>r. (XOR) (xor16 r)) board_bin_part1 0 = 0xb505"
  "foldr (\<lambda>r. (XOR) (xor16 r)) board_bin_part2 0 = 0x87dc"
  "foldr (\<lambda>r. (XOR) (xor16 r)) board_bin_part3 0 = 0xcd26"
  by (simp_all add: board_bin_part1_def board_bin_part2_def board_bin_part3_def get16_def)

lemma board_bin_length: "length qca9377_board_bin = 8124"
  by (simp add: qca9377_board_bin_def length_parts del: length_concat)

lemma board_bin_checksum: "xor16 qca9377_board_bin = 0xffff"
proof -
  have "xor16 (concat board_bin_part3) = 0xcd26"
    using xor16_concat [OF rows_even(3), of "[]"] by (simp add: xor_parts)
  then show ?thesis
    unfolding qca9377_board_bin_def by (simp add: xor16_concat rows_even xor_parts del: concat_append)
qed

lemma board_bin_size_field: "get16 (qca9377_board_bin ! 0) (qca9377_board_bin ! 1) = 8124"
proof -
  obtain ys where ys: "qca9377_board_bin = 0xbc # 0x1f # ys"
    by (simp add: qca9377_board_bin_def board_bin_part1_def)
  show ?thesis unfolding ys by (simp add: get16_def)
qed

section \<open>Property\<close>



end
