(* ===== verification/Driver.thy ===== *)
theory Driver
  imports WmiProperties FirmwareProperties CeProperties LogTail BoardData
begin

text \<open>
  The driver object, \<open>skeleton/QCA9377Driver.hpp\<close> and \<open>skeleton/QCA9377Driver.cpp\<close> (class
  \<open>com_bswork_QCA9377\<close>): probing, chip reset, target configuration through the diagnostic
  window, firmware boot, HTC/WMI start and teardown.  IOKit and the PCI configuration space are
  the parameter \<open>pci_hw\<close>, which extends the chip of the other theories; the two large
  embedded images of the generated header are the record \<open>FwData\<close>, the board data is \<open>BoardData\<close>.  A pointer whose target the driver only tests
  for null is a bool; a log line is the string \<open>printf\<close> would produce.
\<close>

section \<open>Platform\<close>

record 'd pci_hw = "'d hw" +
  cfg8 :: "nat \<Rightarrow> 'd \<Rightarrow> u8 \<times> 'd"
  cfg16 :: "nat \<Rightarrow> 'd \<Rightarrow> u16 \<times> 'd"
  cfgW16 :: "nat \<Rightarrow> u16 \<Rightarrow> 'd \<Rightarrow> unit \<times> 'd"
  ioSuperInit :: "'d \<Rightarrow> bool \<times> 'd"
  ioSuperStart :: "'d \<Rightarrow> bool \<times> 'd"
  ioBootArg :: "'d \<Rightarrow> u32 option \<times> 'd"
  ioPciCast :: "'d \<Rightarrow> bool \<times> 'd"
  ioBar0Mem :: "'d \<Rightarrow> (u64 \<times> u64) option \<times> 'd"
  ioMap :: "'d \<Rightarrow> bool option \<times> 'd"
  ioNvram :: "'d \<Rightarrow> bool \<times> 'd"

definition configRead8 :: "('d, 'h) pci_hw_scheme \<Rightarrow> nat \<Rightarrow> ('d, u8) io" where
  "configRead8 H off = do { v \<leftarrow> ioStep (cfg8 H off); emit (CfgRd8 off v); ret v }"

definition configRead16 :: "('d, 'h) pci_hw_scheme \<Rightarrow> nat \<Rightarrow> ('d, u16) io" where
  "configRead16 H off = do { v \<leftarrow> ioStep (cfg16 H off); emit (CfgRd16 off v); ret v }"

definition configWrite16 :: "('d, 'h) pci_hw_scheme \<Rightarrow> nat \<Rightarrow> u16 \<Rightarrow> ('d, unit) io" where
  "configWrite16 H off v = do { ioStep (cfgW16 H off v); emit (CfgWr16 off v) }"

record FwData =
  qca9377_firmware6_bin :: "u8 list"
  qca9377_board2_bin :: "u8 list"

section \<open>Registers and constants\<close>

definition kRTC_SOC_BaseAddress :: u32 where [simp]: "kRTC_SOC_BaseAddress = 0x00000800"
definition kSOC_CoreBaseAddress :: u32 where [simp]: "kSOC_CoreBaseAddress = 0x0003A000"
definition kCEWrapperBaseAddress :: u32 where [simp]: "kCEWrapperBaseAddress = 0x00034000"
definition kPCIe_LocalBaseAddress :: u32 where [simp]: "kPCIe_LocalBaseAddress = 0x00080000"
definition kFWIndicatorAddress :: u32 where [simp]: "kFWIndicatorAddress = 0x0003A028"
definition kSOC_ChipID_Offset :: u32 where
  [simp]: "kSOC_ChipID_Offset = kRTC_SOC_BaseAddress + 0x000000F0"
definition kPCIe_SOCWake_Offset :: u32 where
  [simp]: "kPCIe_SOCWake_Offset = kPCIe_LocalBaseAddress + 0x00000004"
definition kPCIe_BARReg_Offset :: u32 where [simp]: "kPCIe_BARReg_Offset = 0x00040030"
definition kHiBaseAddress :: u32 where [simp]: "kHiBaseAddress = 0x00400800"
definition kHiInterconnectStateOffset :: u32 where [simp]: "kHiInterconnectStateOffset = 0xf8"
definition kRTCStateMaskSt :: u32 where [simp]: "kRTCStateMaskSt = 7"
definition kSocCoreCtrlOffset :: u32 where [simp]: "kSocCoreCtrlOffset = 0"
definition kCoreCtrlCpuIntrMask :: u32 where [simp]: "kCoreCtrlCpuIntrMask = 0x2000"
definition kSocGlobalResetOffset :: u32 where [simp]: "kSocGlobalResetOffset = 8"
definition kSocResetControlOffset :: u32 where [simp]: "kSocResetControlOffset = 0"
definition kSocResetCeRstMask :: u32 where [simp]: "kSocResetCeRstMask = 1"
definition kSocResetCpuWarmRstMask :: u32 where [simp]: "kSocResetCpuWarmRstMask = 0x40"
definition kSocLfTimerControl0Offset :: u32 where [simp]: "kSocLfTimerControl0Offset = 0x50"
definition kSocLfTimerEnableMask :: u32 where [simp]: "kSocLfTimerEnableMask = 4"
definition kTargetInitTimeout_ms :: nat where [simp]: "kTargetInitTimeout_ms = 10000"
definition kTargetInitStep_ms :: nat where [simp]: "kTargetInitStep_ms = 10"
definition kTargetInitSample_ms :: nat where [simp]: "kTargetInitSample_ms = 1000"
definition kColdResetDelay_ms :: nat where [simp]: "kColdResetDelay_ms = 20"
definition kWarmResetStep_ms :: nat where [simp]: "kWarmResetStep_ms = 10"
definition kWakeTimeout_us :: nat where [simp]: "kWakeTimeout_us = 30000"
definition kWakeStepStart_us :: nat where [simp]: "kWakeStepStart_us = 5"
definition kWakeStepMax_us :: nat where [simp]: "kWakeStepMax_us = 50"
definition kChipIdRev_LSB :: nat where [simp]: "kChipIdRev_LSB = 8"
definition kChipIdRev_Mask :: u32 where [simp]: "kChipIdRev_Mask = 0x00000f00"
definition kRTCStateValOn :: u32 where [simp]: "kRTCStateValOn = 3"
definition kFWIndEventPending :: u32 where [simp]: "kFWIndEventPending = 1"
definition kFWIndInitialized :: u32 where [simp]: "kFWIndInitialized = 2"
definition kCECount :: nat where [simp]: "kCECount = 8"

section \<open>The object\<close>

record driver =
  fPci :: bool
  fBar0Mem :: bool
  drvBar0 :: bool
  fBar0Len :: u64
  fPciRev :: u8
  fAspmCtl :: u16
  fAspmCapOff :: u8
  fSubVendor :: u16
  fSubDevice :: u16
  fCe :: "CEManager option"
  fBmi :: "Bmi option"
  fHtc :: "Htc option"
  drvWmi :: "Wmi option"
  fMaxStage :: u32
  fNvram :: bool
  fTail :: LogTail

definition newDriver :: driver where
  "newDriver = \<lparr>fPci = False, fBar0Mem = False, drvBar0 = False, fBar0Len = 0, fPciRev = 0,
     fAspmCtl = 0, fAspmCapOff = 0, fSubVendor = 0, fSubDevice = 0, fCe = None, fBmi = None,
     fHtc = None, drvWmi = None, fMaxStage = 4, fNvram = False, fTail = newLogTail\<rparr>"

section \<open>Telemetry\<close>

definition nvramStage :: "driver \<Rightarrow> string \<Rightarrow> ('d, unit) io" where
  "nvramStage d stage = (if \<not> fNvram d then ret () else emit (Nv ''bswork-qca-stage'' stage))"

definition publishStage :: "driver \<Rightarrow> string \<Rightarrow> ('d, unit) io" where
  "publishStage d stage = do { emit (Prop ''qca-stage'' stage); nvramStage d stage }"

definition publishNum :: "string \<Rightarrow> u32 \<Rightarrow> ('d, unit) io" where
  "publishNum key v = emit (Num (take 47 (''qca-'' @ key)) v)"

definition logTailFlush :: "driver \<Rightarrow> ('d, unit) io" where
  "logTailFlush d =
     (if fNvram d then emit (Nv ''bswork-qca-logtail'' (logText (fTail d))) else ret ())"

definition qlog :: "driver \<Rightarrow> string \<Rightarrow> ('d, driver) io" where
  "qlog d s = (if s = [] then ret d else do {
     emit (Log (take 255 s));
     let d = d\<lparr>fTail := logAppend s (fTail d)\<rparr>;
     logTailFlush d;
     ret d })"

definition publishMac :: "driver \<Rightarrow> ('d, unit) io" where
  "publishMac d = (case drvWmi d of None \<Rightarrow> ret () | Some w \<Rightarrow> do {
     let mac = macAddress w;
     emit (Prop ''qca-mac'' (take 17 (concat (map (\<lambda>i.
       (if i = 0 then [] else '':'') @ hexN 2 (unat (mac ! i))) [0 ..< 6])))) })"

section \<open>Registers\<close>

definition drvRead32 :: "('d, 'h) hw_scheme \<Rightarrow> driver \<Rightarrow> u32 \<Rightarrow> ('d, u32) io" where
  "drvRead32 H d offset = do { (if drvBar0 d then ret () else ub); read32 H offset }"

definition drvWrite32 :: "('d, 'h) hw_scheme \<Rightarrow> driver \<Rightarrow> u32 \<Rightarrow> u32 \<Rightarrow> ('d, unit) io" where
  "drvWrite32 H d offset val = do { (if drvBar0 d then ret () else ub); write32 H offset val }"

definition isAwake :: "('d, 'h) hw_scheme \<Rightarrow> driver \<Rightarrow> ('d, bool) io" where
  "isAwake H d = do {
     state \<leftarrow> drvRead32 H d (kPCIe_LocalBaseAddress + 0);
     ret (state AND 7 = kRTCStateValOn) }"

text \<open>\<open>elapsed\<close> stays below \<open>kWakeTimeout_us + kWakeStepMax_us\<close>, far from the width of its type.\<close>

function wakeLoop :: "('d, 'h) hw_scheme \<Rightarrow> driver \<Rightarrow> nat \<Rightarrow> nat \<Rightarrow> ('d, bool) io" where
  "wakeLoop H d elapsed step =
     (if elapsed < kWakeTimeout_us then do {
        awake \<leftarrow> isAwake H d;
        if awake then ret True else do {
          delay H step;
          wakeLoop H d (elapsed + step) (if step < kWakeStepMax_us then step + 5 else step) } }
      else ret False)"
  by pat_completeness auto
termination
  by (relation "measures [\<lambda>(H, d, e, s). kWakeTimeout_us - e, \<lambda>(H, d, e, s). kWakeStepMax_us - s]")
     auto

declare wakeLoop.simps [simp del]

definition wakeTarget :: "('d, 'h) hw_scheme \<Rightarrow> driver \<Rightarrow> ('d, bool) io" where
  "wakeTarget H d = do {
     drvWrite32 H d kPCIe_SOCWake_Offset 1;
     wakeLoop H d 0 kWakeStepStart_us }"

definition probeRegisters :: "('d, 'h) hw_scheme \<Rightarrow> driver \<Rightarrow> ('d, bool \<times> driver) io" where
  "probeRegisters H d = do {
     chipId \<leftarrow> drvRead32 H d kSOC_ChipID_Offset;
     publishNum ''chip-id'' chipId;
     d \<leftarrow> qlog d (''QCA9377: SOC chip_id = 0x'' @ hex8 chipId @ '' (Linux dmesg: 0x003821ff)'' @ nl);
     fwInd \<leftarrow> drvRead32 H d kFWIndicatorAddress;
     publishNum ''fw-indicator'' fwInd;
     d \<leftarrow> qlog d (''QCA9377: fw_indicator = 0x'' @ hex8 fwInd @ '' ['' @
       (if fwInd AND kFWIndEventPending \<noteq> 0 then '' EVENT_PENDING'' else []) @
       (if fwInd AND kFWIndInitialized \<noteq> 0 then '' INITIALIZED'' else []) @
       ''] (0 = cold target)'' @ nl);
     barReg \<leftarrow> drvRead32 H d kPCIe_BARReg_Offset;
     publishNum ''pcie-bar-reg'' barReg;
     d \<leftarrow> qlog d (''QCA9377: PCIE_BAR_REG = 0x'' @ hex8 barReg @ nl);
     ret (True, d) }"

fun probeCe :: "('d, 'h) hw_scheme \<Rightarrow> driver \<Rightarrow> nat \<Rightarrow> nat \<Rightarrow> ('d, driver) io" where
  "probeCe H d ce 0 = ret d"
| "probeCe H d ce (Suc n) = do {
     let base = ceBase (of_nat ce);
     srBase \<leftarrow> drvRead32 H d (base + kCESRBaseLo);
     srSize \<leftarrow> drvRead32 H d (base + kCESRSize);
     drBase \<leftarrow> drvRead32 H d (base + kCEDRBaseLo);
     drSize \<leftarrow> drvRead32 H d (base + kCEDRSize);
     srIdx \<leftarrow> drvRead32 H d (base + kCESRWrIndex);
     drIdx \<leftarrow> drvRead32 H d (base + kCEDSTWrIndex);
     srri \<leftarrow> drvRead32 H d (base + kCECurrentSRRI);
     drri \<leftarrow> drvRead32 H d (base + kCECurrentDRRI);
     d \<leftarrow> qlog d (''QCA9377: CE'' @ dec ce @ '' srBase=0x'' @ hex8 srBase @ '' srNent='' @
       dec (unat srSize) @ '' drBase=0x'' @ hex8 drBase @ '' drNent='' @ dec (unat drSize) @
       '' srW=0x'' @ hex (unat srIdx) @ '' drW=0x'' @ hex (unat drIdx) @ '' SRRI=0x'' @
       hex (unat srri) @ '' DRRI=0x'' @ hex (unat drri) @ nl);
     probeCe H d (ce + 1) n }"

definition probeCopyEngines :: "('d, 'h) hw_scheme \<Rightarrow> driver \<Rightarrow> ('d, driver) io" where
  "probeCopyEngines H d = do {
     d \<leftarrow> probeCe H d 0 kCECount;
     ceSum \<leftarrow> drvRead32 H d (kCEWrapperBaseAddress + 0);
     qlog d (''QCA9377: CE wrapper intr summary = 0x'' @ hex8 ceSum @ nl) }"

definition revisionName :: "u32 \<Rightarrow> string" where
  "revisionName socRev = (if socRev = 0 then ''hw1.0'' else if socRev = 1 then ''hw1.1''
     else if socRev = 2 then ''hw1.3'' else ''unknown'')"

definition logRevisionInfo :: "('d, 'h) hw_scheme \<Rightarrow> driver \<Rightarrow> ('d, driver) io" where
  "logRevisionInfo H d = do {
     chipId \<leftarrow> drvRead32 H d kSOC_ChipID_Offset;
     let socRev = drop_bit kChipIdRev_LSB (chipId AND kChipIdRev_Mask);
     qlog d (''QCA9377: SoC revision '' @ dec (unat socRev) @ '' ('' @ revisionName socRev @
       ''), pci rev-id 0x'' @ hexN 2 (unat (fPciRev d)) @ nl) }"


section \<open>Calls on the layers below\<close>

text \<open>
  A call through \<open>fCe\<close>, and through \<open>fBmi\<close> or \<open>fHtc\<close>, whose objects hold the same manager.  A
  call through a null pointer is undefined; \<open>dflt\<close> is the value the run continues with.
\<close>

definition withCe ::
  "(CEManager \<Rightarrow> ('d, 'a \<times> CEManager) io) \<Rightarrow> 'a \<Rightarrow> driver \<Rightarrow> ('d, 'a \<times> driver) io" where
  "withCe f dflt d = (case fCe d of
       None \<Rightarrow> do { ub; ret (dflt, d) }
     | Some ce \<Rightarrow> do { (r, ce) \<leftarrow> f ce; ret (r, d\<lparr>fCe := Some ce\<rparr>) })"

definition withBmi ::
  "(CEManager \<Rightarrow> Bmi \<Rightarrow> ('d, 'a \<times> CEManager \<times> Bmi) io) \<Rightarrow> 'a \<Rightarrow> driver \<Rightarrow> ('d, 'a \<times> driver) io" where
  "withBmi f dflt d = (case (fCe d, fBmi d) of
       (Some ce, Some b) \<Rightarrow> do {
         (r, ce, b) \<leftarrow> f ce b; ret (r, d\<lparr>fCe := Some ce, fBmi := Some b\<rparr>) }
     | _ \<Rightarrow> do { ub; ret (dflt, d) })"

definition withHtc ::
  "(CEManager \<Rightarrow> Htc \<Rightarrow> ('d, 'a \<times> CEManager \<times> Htc) io) \<Rightarrow> 'a \<Rightarrow> driver \<Rightarrow> ('d, 'a \<times> driver) io" where
  "withHtc f dflt d = (case (fCe d, fHtc d) of
       (Some ce, Some h) \<Rightarrow> do {
         (r, ce, h) \<leftarrow> f ce h; ret (r, d\<lparr>fCe := Some ce, fHtc := Some h\<rparr>) }
     | _ \<Rightarrow> do { ub; ret (dflt, d) })"

text \<open>\<open>fBmi->targetVersion()\<close>, 0 without the object.\<close>

definition bmiTarget :: "driver \<Rightarrow> u32" where
  "bmiTarget d = (case fBmi d of None \<Rightarrow> 0 | Some b \<Rightarrow> fTargetVersion b)"

definition teardownHardware :: "('d, 'h) hw_scheme \<Rightarrow> driver \<Rightarrow> ('d, driver) io" where
  "teardownHardware H d = do {
     let d = d\<lparr>drvWmi := None, fHtc := None, fBmi := None\<rparr>;
     (case fCe d of None \<Rightarrow> ret () | Some ce \<Rightarrow> ceDestroy H ce);
     ret (d\<lparr>fCe := None\<rparr>) }"

text \<open>The failure paths of the stages: message, verdict, teardown.\<close>

definition giveUp ::
  "('d, 'h) hw_scheme \<Rightarrow> driver \<Rightarrow> string \<Rightarrow> string \<Rightarrow> ('d, bool \<times> driver) io" where
  "giveUp H d msg stage = do {
     d \<leftarrow> qlog d msg;
     publishStage d stage;
     d \<leftarrow> teardownHardware H d;
     ret (False, d) }"

definition ensureCE :: "('d, 'h) hw_scheme \<Rightarrow> driver \<Rightarrow> ('d, bool \<times> driver) io" where
  "ensureCE H d = do {
     (ok, d) \<leftarrow> (if fCe d \<noteq> None then withCe (ceInit H) False d else ret (False, d));
     if ok then ret (True, d) else do {
       d \<leftarrow> (case fCe d of None \<Rightarrow> ret d
         | Some ce \<Rightarrow> do { ceDestroy H ce; ret (d\<lparr>fCe := None\<rparr>) });
       c \<leftarrow> ceCreate H (drvBar0 d);
       let d = d\<lparr>fCe := c\<rparr>;
       case c of None \<Rightarrow> ret (False, d)
       | Some ce \<Rightarrow> do {
           (ok, ce) \<leftarrow> ceInit H ce;
           let d = d\<lparr>fCe := Some ce\<rparr>;
           if \<not> ok then do { ceDestroy H ce; ret (False, d\<lparr>fCe := None\<rparr>) }
           else ret (True, d) } } }"

section \<open>Chip reset\<close>

definition coldReset :: "('d, 'h) hw_scheme \<Rightarrow> driver \<Rightarrow> ('d, bool \<times> driver) io" where
  "coldReset H d = do {
     val \<leftarrow> drvRead32 H d (kPCIe_LocalBaseAddress + kSocGlobalResetOffset);
     d \<leftarrow> qlog d (''QCA9377: cold reset: GLOBAL_RESET=0x'' @ hex8 val @ nl);
     let val = val OR 1;
     drvWrite32 H d (kPCIe_LocalBaseAddress + kSocGlobalResetOffset) val;
     delay H (kColdResetDelay_ms * 1000);
     let val = val AND NOT 1;
     drvWrite32 H d (kPCIe_LocalBaseAddress + kSocGlobalResetOffset) val;
     delay H (kColdResetDelay_ms * 1000);
     d \<leftarrow> qlog d (''QCA9377: cold reset complete'' @ nl);
     ret (True, d) }"

text \<open>The loop of \<open>waitForTargetInit\<close>; the result is the verdict and \<open>last\<close>.\<close>

function targetInitLoop ::
  "('d, 'h) hw_scheme \<Rightarrow> driver \<Rightarrow> nat \<Rightarrow> nat \<Rightarrow> u32 \<Rightarrow> ('d, (bool \<times> u32) \<times> driver) io" where
  "targetInitLoop H d elapsed nextSample lst =
     (if elapsed < kTargetInitTimeout_ms then do {
        val \<leftarrow> drvRead32 H d kFWIndicatorAddress;
        if val \<noteq> 0xffffffff \<and> val AND kFWIndInitialized \<noteq> 0 then do {
          publishNum ''fw-indicator'' val;
          d \<leftarrow> qlog d (''QCA9377: target initialised after '' @ dec elapsed @ '' ms (fw_ind=0x'' @
            hex8 val @ '')'' @ nl);
          ret ((True, val), d) }
        else if val \<noteq> 0xffffffff \<and> val AND kFWIndEventPending \<noteq> 0 then ret ((False, val), d)
        else do {
          nextSample' \<leftarrow> (if elapsed \<ge> nextSample then do {
             publishNum (take 15 (''fw-ind-s'' @ dec (nextSample div 1000))) val;
             rtc \<leftarrow> drvRead32 H d kPCIe_LocalBaseAddress;
             publishNum (take 15 (''rtc-s'' @ dec (nextSample div 1000))) (rtc AND kRTCStateMaskSt);
             ret (nextSample + kTargetInitSample_ms) } else ret nextSample);
          delay H (kTargetInitStep_ms * 1000);
          targetInitLoop H d (elapsed + kTargetInitStep_ms) nextSample' val } }
      else ret ((False, lst), d))"
  by pat_completeness auto
termination
  by (relation "measure (\<lambda>(H, d, elapsed, n, l). kTargetInitTimeout_ms - elapsed)") auto

declare targetInitLoop.simps [simp del]

definition waitForTargetInit :: "('d, 'h) hw_scheme \<Rightarrow> driver \<Rightarrow> ('d, bool \<times> driver) io" where
  "waitForTargetInit H d = do {
     ((ok, lst), d) \<leftarrow> targetInitLoop H d 0 0 0xffffffff;
     if ok then ret (True, d) else do {
       publishNum ''fw-ind-last'' lst;
       d \<leftarrow> qlog d (''QCA9377: target init wait timed out (last fw_ind=0x'' @ hex8 lst @ '')'' @ nl);
       ret (False, d) } }"

definition cpuWarmReset :: "('d, 'h) hw_scheme \<Rightarrow> driver \<Rightarrow> ('d, unit) io" where
  "cpuWarmReset H d = do {
     drvWrite32 H d kFWIndicatorAddress 0;
     val \<leftarrow> drvRead32 H d (kRTC_SOC_BaseAddress + kSocResetControlOffset);
     drvWrite32 H d (kRTC_SOC_BaseAddress + kSocResetControlOffset)
       (val OR kSocResetCpuWarmRstMask) }"

definition warmReset :: "('d, 'h) hw_scheme \<Rightarrow> driver \<Rightarrow> ('d, bool \<times> driver) io" where
  "warmReset H d = do {
     val \<leftarrow> drvRead32 H d (kRTC_SOC_BaseAddress + kSocResetControlOffset);
     drvWrite32 H d (kRTC_SOC_BaseAddress + kSocResetControlOffset) val;
     delay H (kWarmResetStep_ms * 1000);
     publishStage d ''warm-si0'';
     cpuWarmReset H d;
     publishStage d ''warm-cpu'';
     (ok, d) \<leftarrow> ensureCE H d;
     if \<not> ok then do {
       publishNum ''warm-fail'' 1;
       d \<leftarrow> qlog d (''QCA9377: warm reset: CE init failed (interlude 1)'' @ nl);
       ret (False, d) }
     else do {
       (_, d) \<leftarrow> waitForTargetInit H d;
       publishStage d ''warm-wait1'';
       val \<leftarrow> drvRead32 H d (kRTC_SOC_BaseAddress + kSocLfTimerControl0Offset);
       drvWrite32 H d (kRTC_SOC_BaseAddress + kSocLfTimerControl0Offset)
         (val AND NOT kSocLfTimerEnableMask);
       publishStage d ''warm-lf'';
       val \<leftarrow> drvRead32 H d (kRTC_SOC_BaseAddress + kSocResetControlOffset);
       drvWrite32 H d (kRTC_SOC_BaseAddress + kSocResetControlOffset) (val OR kSocResetCeRstMask);
       delay H (kWarmResetStep_ms * 1000);
       drvWrite32 H d (kRTC_SOC_BaseAddress + kSocResetControlOffset) (val AND NOT kSocResetCeRstMask);
       publishStage d ''warm-ce'';
       cpuWarmReset H d;
       publishStage d ''warm-cpu2'';
       (ok, d) \<leftarrow> ensureCE H d;
       if \<not> ok then do {
         publishNum ''warm-fail'' 2;
         d \<leftarrow> qlog d (''QCA9377: warm reset: CE init failed (interlude 2)'' @ nl);
         ret (False, d) }
       else do {
         (ok, d) \<leftarrow> waitForTargetInit H d;
         if \<not> ok then do {
           publishNum ''warm-fail'' 3;
           d \<leftarrow> qlog d (''QCA9377: warm reset: target never announced after warm leg'' @ nl);
           ret (False, d) }
         else do {
           d \<leftarrow> qlog d (''QCA9377: warm reset complete - target announced'' @ nl);
           ret (True, d) } } } }"

definition resetChip :: "('d, 'h) hw_scheme \<Rightarrow> driver \<Rightarrow> ('d, bool \<times> driver) io" where
  "resetChip H d = do {
     d \<leftarrow> qlog d (''QCA9377: chip reset begin'' @ nl);
     ok \<leftarrow> wakeTarget H d;
     if \<not> ok then do { publishNum ''reset-fail'' 1; ret (False, d) } else do {
       (ok, d) \<leftarrow> coldReset H d;
       if \<not> ok then do { publishNum ''reset-fail'' 2; ret (False, d) } else do {
         ok \<leftarrow> wakeTarget H d;
         if \<not> ok then do { publishNum ''reset-fail'' 3; ret (False, d) } else do {
           (ok, d) \<leftarrow> waitForTargetInit H d;
           if \<not> ok then do {
             d \<leftarrow> qlog d (''QCA9377: cold-reset announce failed - trying warm rescue leg'' @ nl);
             v \<leftarrow> drvRead32 H d kSOC_ChipID_Offset;
             publishNum ''postreset-chip-id'' v;
             v \<leftarrow> drvRead32 H d kPCIe_BARReg_Offset;
             publishNum ''postreset-bar-reg'' v;
             v \<leftarrow> drvRead32 H d kPCIe_LocalBaseAddress;
             publishNum ''postreset-rtc-state'' (v AND kRTCStateMaskSt);
             (ok, d) \<leftarrow> warmReset H d;
             if ok then do { publishStage d ''M2-reset''; ret (True, d) }
             else do { publishNum ''reset-fail'' 4; ret (False, d) } }
           else do { publishStage d ''M2-reset''; ret (True, d) } } } } }"

definition wakeTargetCpu :: "('d, 'h) hw_scheme \<Rightarrow> driver \<Rightarrow> ('d, driver) io" where
  "wakeTargetCpu H d = do {
     val \<leftarrow> drvRead32 H d (kSOC_CoreBaseAddress + kSocCoreCtrlOffset);
     drvWrite32 H d (kSOC_CoreBaseAddress + kSocCoreCtrlOffset) (val OR kCoreCtrlCpuIntrMask);
     qlog d (''QCA9377: target CPU doorbell (CORE_CTRL 0x'' @ hex8 val @ '' -> 0x'' @
       hex8 (val OR kCoreCtrlCpuIntrMask) @ '')'' @ nl) }"


section \<open>Target configuration\<close>

record CePipeConfig =
  pipenum :: u32
  pipedir :: u32
  nentries :: u32
  nbytesMax :: u32
  pipeFlags :: u32
  reserved :: u32

record CeSvcToPipe =
  serviceId :: u32
  pipeDir :: u32
  pipeNum :: u32

definition pipeBytes :: "CePipeConfig \<Rightarrow> u8 list" where
  "pipeBytes c = le32 (pipenum c) @ le32 (pipedir c) @ le32 (nentries c) @ le32 (nbytesMax c) @
     le32 (pipeFlags c) @ le32 (reserved c)"

definition svcBytes :: "CeSvcToPipe \<Rightarrow> u8 list" where
  "svcBytes s = le32 (serviceId s) @ le32 (pipeDir s) @ le32 (pipeNum s)"

definition kPipeDirIn :: u32 where [simp]: "kPipeDirIn = 1"
definition kPipeDirOut :: u32 where [simp]: "kPipeDirOut = 2"
definition kPipeDirInOut :: u32 where [simp]: "kPipeDirInOut = 3"
definition kCeAttrDisIntr :: u32 where [simp]: "kCeAttrDisIntr = 8"

definition kSvcWmiControl :: u32 where [simp]: "kSvcWmiControl = 0x100"
definition kSvcWmiDataBe :: u32 where [simp]: "kSvcWmiDataBe = 0x101"
definition kSvcWmiDataBk :: u32 where [simp]: "kSvcWmiDataBk = 0x102"
definition kSvcWmiDataVi :: u32 where [simp]: "kSvcWmiDataVi = 0x103"
definition kSvcWmiDataVo :: u32 where [simp]: "kSvcWmiDataVo = 0x104"
definition kSvcRsvdCtrl :: u32 where [simp]: "kSvcRsvdCtrl = 1"
definition kSvcTestRaw :: u32 where [simp]: "kSvcTestRaw = 0xFE00"
definition kSvcHttDataMsg :: u32 where [simp]: "kSvcHttDataMsg = 0x300"

definition pipeRow :: "u32 \<times> u32 \<times> u32 \<times> u32 \<times> u32 \<Rightarrow> CePipeConfig" where
  "pipeRow = (\<lambda>(n, dir, entries, bytes, flg). \<lparr>pipenum = n, pipedir = dir, nentries = entries,
     nbytesMax = bytes, pipeFlags = flg, reserved = 0\<rparr>)"

definition svcRow :: "u32 \<times> u32 \<times> u32 \<Rightarrow> CeSvcToPipe" where
  "svcRow = (\<lambda>(svc, dir, pipe). \<lparr>serviceId = svc, pipeDir = dir, pipeNum = pipe\<rparr>)"

definition kTargetCeConfigWlan :: "CePipeConfig list" where
  "kTargetCeConfigWlan = map pipeRow
     [(0, kPipeDirOut, 32, 256, 0),
      (1, kPipeDirIn, 32, 2048, 0),
      (2, kPipeDirIn, 64, 2048, 0),
      (3, kPipeDirOut, 32, 2048, 0),
      (4, kPipeDirOut, 256, 256, 0),
      (5, kPipeDirIn, 32, 512, 0),
      (6, kPipeDirInOut, 32, 4096, 0),
      (7, kPipeDirInOut, 0, 0, 0),
      (8, kPipeDirIn, 64, 2048, kCeAttrDisIntr),
      (9, kPipeDirInOut, 32, 2048, kCeAttrDisIntr)]"

definition kNumTargetCeConfig :: nat where "kNumTargetCeConfig = 7"

definition kTargetSvcToPipeMap :: "CeSvcToPipe list" where
  "kTargetSvcToPipeMap = map svcRow
     [(kSvcWmiDataVo, kPipeDirOut, 3), (kSvcWmiDataVo, kPipeDirIn, 2),
      (kSvcWmiDataBk, kPipeDirOut, 3), (kSvcWmiDataBk, kPipeDirIn, 2),
      (kSvcWmiDataBe, kPipeDirOut, 3), (kSvcWmiDataBe, kPipeDirIn, 2),
      (kSvcWmiDataVi, kPipeDirOut, 3), (kSvcWmiDataVi, kPipeDirIn, 2),
      (kSvcWmiControl, kPipeDirOut, 3), (kSvcWmiControl, kPipeDirIn, 2),
      (kSvcRsvdCtrl, kPipeDirOut, 0), (kSvcRsvdCtrl, kPipeDirIn, 1),
      (kSvcTestRaw, kPipeDirOut, 0), (kSvcTestRaw, kPipeDirIn, 1),
      (kSvcHttDataMsg, kPipeDirOut, 4), (kSvcHttDataMsg, kPipeDirIn, 5),
      (0, 0, 0)]"

definition kNumSvcToPipe :: nat where "kNumSvcToPipe = 17"

definition kPcieStatePipeCfgOff :: u32 where [simp]: "kPcieStatePipeCfgOff = 0x00"
definition kPcieStateSvcMapOff :: u32 where [simp]: "kPcieStateSvcMapOff = 0x04"
definition kPcieStateConfigFlgOff :: u32 where [simp]: "kPcieStateConfigFlgOff = 0x20"
definition kPcieCfgFlagEnableL1 :: u32 where [simp]: "kPcieCfgFlagEnableL1 = 1"
definition kHiOptionFlag2Offset :: u32 where [simp]: "kHiOptionFlag2Offset = 0xcc"
definition kHiEarlyAllocOffset :: u32 where [simp]: "kHiEarlyAllocOffset = 0x100"
definition kHiOptionEarlyCfgDone :: u32 where [simp]: "kHiOptionEarlyCfgDone = 0x10"
definition kHiEarlyAllocMagic :: u32 where [simp]: "kHiEarlyAllocMagic = 0x6d8a"
definition kHiEarlyAllocMagicMask :: u32 where [simp]: "kHiEarlyAllocMagicMask = 0xffff0000"
definition kHiEarlyAllocBanksMask :: u32 where [simp]: "kHiEarlyAllocBanksMask = 0xf"
definition kQca9377NumBanks :: u32 where [simp]: "kQca9377NumBanks = 9"

abbreviation diagRd ::
  "('d, 'h) hw_scheme \<Rightarrow> u32 \<Rightarrow> driver \<Rightarrow> ('d, u32 option \<times> driver) io" where
  "diagRd H a \<equiv> withCe (\<lambda>ce. ceDiagRead32 H ce a) None"

abbreviation diagWr ::
  "('d, 'h) hw_scheme \<Rightarrow> u32 \<Rightarrow> u32 \<Rightarrow> driver \<Rightarrow> ('d, bool \<times> driver) io" where
  "diagWr H a v \<equiv> withCe (\<lambda>ce. ceDiagWrite32 H ce a v) False"

abbreviation diagWrMem ::
  "('d, 'h) hw_scheme \<Rightarrow> u32 \<Rightarrow> u8 list \<Rightarrow> driver \<Rightarrow> ('d, bool \<times> driver) io" where
  "diagWrMem H a buf \<equiv> withCe (\<lambda>ce. ceDiagWriteMem H ce a buf) False"

text \<open>The variable a failed \<open>diagRead32\<close> leaves at its initial value 0.\<close>

abbreviation val0 :: "u32 option \<Rightarrow> u32" where
  "val0 r \<equiv> (case r of None \<Rightarrow> 0 | Some v \<Rightarrow> v)"

definition initConfig :: "('d, 'h) hw_scheme \<Rightarrow> driver \<Rightarrow> ('d, bool \<times> driver) io" where
  "initConfig H d = do {
     (r, d) \<leftarrow> diagRd H (kHiBaseAddress + kHiInterconnectStateOffset) d;
     let pcieStateAddr = val0 r;
     if pcieStateAddr = 0 then do {
       d \<leftarrow> qlog d (''QCA9377: initConfig: pcie_state addr read failed (0x'' @
         hex8 pcieStateAddr @ '')'' @ nl);
       ret (False, d) }
     else do {
       d \<leftarrow> qlog d (''QCA9377: initConfig: pcie_state @ 0x'' @ hex8 pcieStateAddr @ nl);
       (r, d) \<leftarrow> diagRd H (pcieStateAddr + kPcieStatePipeCfgOff) d;
       let pipeCfgAddr = val0 r;
       if pipeCfgAddr = 0 then do {
         d \<leftarrow> qlog d (''QCA9377: initConfig: pipe_cfg addr invalid'' @ nl);
         ret (False, d) }
       else do {
         (r, d) \<leftarrow> diagRd H (pcieStateAddr + kPcieStateSvcMapOff) d;
         let svcMapAddr = val0 r;
         if svcMapAddr = 0 then do {
           d \<leftarrow> qlog d (''QCA9377: initConfig: svc_map addr invalid'' @ nl);
           ret (False, d) }
         else do {
           (r, d) \<leftarrow> diagRd H (pcieStateAddr + kPcieStateConfigFlgOff) d;
           case r of None \<Rightarrow> ret (False, d) | Some cfgFlags \<Rightarrow> do {
             (ok, d) \<leftarrow> diagWr H (pcieStateAddr + kPcieStateConfigFlgOff)
               (cfgFlags AND NOT kPcieCfgFlagEnableL1) d;
             if \<not> ok then ret (False, d) else do {
               (ok, d) \<leftarrow> diagWrMem H pipeCfgAddr
                 (concat (map pipeBytes (take kNumTargetCeConfig kTargetCeConfigWlan))) d;
               if \<not> ok then do {
                 d \<leftarrow> qlog d (''QCA9377: initConfig: pipe cfg download failed'' @ nl);
                 ret (False, d) }
               else do {
                 (ok, d) \<leftarrow> diagWrMem H svcMapAddr
                   (concat (map svcBytes (take kNumSvcToPipe kTargetSvcToPipeMap))) d;
                 if \<not> ok then do {
                   d \<leftarrow> qlog d (''QCA9377: initConfig: svc map download failed'' @ nl);
                   ret (False, d) }
                 else do {
                   publishNum ''initcfg-pipeaddr'' pipeCfgAddr;
                   publishNum ''initcfg-svcaddr'' svcMapAddr;
                   (r, d) \<leftarrow> diagRd H (kHiBaseAddress + kHiEarlyAllocOffset) d;
                   case r of None \<Rightarrow> ret (False, d) | Some ealloc \<Rightarrow> do {
                     let ealloc = ealloc OR
                       (push_bit 16 kHiEarlyAllocMagic AND kHiEarlyAllocMagicMask) OR
                       (push_bit 0 kQca9377NumBanks AND kHiEarlyAllocBanksMask);
                     (ok, d) \<leftarrow> diagWr H (kHiBaseAddress + kHiEarlyAllocOffset) ealloc d;
                     if \<not> ok then ret (False, d) else do {
                       (r, d) \<leftarrow> diagRd H (kHiBaseAddress + kHiOptionFlag2Offset) d;
                       case r of None \<Rightarrow> ret (False, d) | Some flag2 \<Rightarrow> do {
                         let flag2 = flag2 OR kHiOptionEarlyCfgDone;
                         (ok, d) \<leftarrow> diagWr H (kHiBaseAddress + kHiOptionFlag2Offset) flag2 d;
                         if \<not> ok then ret (False, d) else do {
                           d \<leftarrow> qlog d (''QCA9377: initConfig complete (cfg@0x'' @
                             hex8 pipeCfgAddr @ '' map@0x'' @ hex8 svcMapAddr @ '' ealloc=0x'' @
                             hex8 ealloc @ '' flag2=0x'' @ hex8 flag2 @ '')'' @ nl);
                           ret (True, d) } } } } } } } } } } } }"

section \<open>BMI probe\<close>

fun logHi :: "driver \<Rightarrow> u8 list \<Rightarrow> nat \<Rightarrow> nat \<Rightarrow> ('d, driver) io" where
  "logHi d dump w 0 = ret d"
| "logHi d dump w (Suc n) = do {
     d \<leftarrow> qlog d (''QCA9377: HI[0x'' @ hexN 2 (w * 4) @ ''] = 0x'' @ hex8 (word32At dump (4 * w)) @ nl);
     logHi d dump (w + 1) n }"

definition probeBmi :: "('d, 'h) hw_scheme \<Rightarrow> driver \<Rightarrow> ('d, bool \<times> driver) io" where
  "probeBmi H d = do {
     (ok, d) \<leftarrow> ensureCE H d;
     if \<not> ok then do {
       d \<leftarrow> qlog d (''QCA9377: CE create/init failed'' @ nl);
       ret (False, d) }
     else do {
       (ok, d) \<leftarrow> withCe (ceInitDiag H) False d;
       if \<not> ok then do {
         publishNum ''diag-ready'' 0;
         d \<leftarrow> qlog d (''QCA9377: CE7 diag window init failed'' @ nl);
         d \<leftarrow> teardownHardware H d;
         ret (False, d) }
       else do {
         publishNum ''diag-ready'' 1;
         (r, d) \<leftarrow> diagRd H (kHiBaseAddress + 0x28) d;
         let hi = val0 r;
         mmio \<leftarrow> drvRead32 H d (kSOC_CoreBaseAddress + 0x28);
         publishNum ''diag-fw-ind'' hi;
         d \<leftarrow> (if r \<noteq> None then do {
            publishNum ''diag-mmio-match'' (if hi = mmio then 1 else 0);
            qlog d (''QCA9377: CE7 diag FW_IND=0x'' @ hex8 hi @ '' mmio=0x'' @ hex8 mmio @ '' ['' @
              (if hi = mmio then ''MATCH'' else ''MISMATCH'') @ '']'' @ nl) }
          else do {
            publishNum ''diag-mmio-match'' 0;
            qlog d (''QCA9377: CE7 diag read of HI fw_ind failed (hi=0x'' @ hex8 hi @ '' mmio=0x'' @
              hex8 mmio @ '')'' @ nl) });
         (dump, d) \<leftarrow> withCe (\<lambda>ce. ceDiagReadMem H ce kHiBaseAddress 32) None d;
         d \<leftarrow> (case dump of None \<Rightarrow> ret d | Some bs \<Rightarrow> logHi d bs 0 8);
         (ok, d) \<leftarrow> initConfig H d;
         if \<not> ok then
           giveUp H d (''QCA9377: initConfig failed - target CE config not programmed'' @ nl)
             ''FAIL-initcfg''
         else do {
           publishStage d ''M2-initcfg'';
           d \<leftarrow> wakeTargetCpu H d;
           publishStage d ''M2-cpu'';
           chipId \<leftarrow> drvRead32 H d kSOC_ChipID_Offset;
           publishNum ''chip-id-postreset'' chipId;
           new \<leftarrow> ioStep (ioNew H);
           let d = d\<lparr>fBmi := (if new then Some newBmi else None)\<rparr>;
           (ok, d) \<leftarrow> (if new then withBmi (getTargetInfo H) False d else ret (False, d));
           if \<not> ok then do {
             d \<leftarrow> qlog d (''QCA9377: BMI GET_TARGET_INFO failed'' @ nl);
             (case fBmi d of None \<Rightarrow> ret ()
              | Some b \<Rightarrow> emit (Prop ''qca-bmi-stage'' (fLastStage b)));
             d \<leftarrow> teardownHardware H d;
             ret (False, d) }
           else ret (True, d) } } } }"


section \<open>Firmware boot\<close>

text \<open>The bytes behind a pointer into an image.\<close>

definition blob :: "u8 list \<Rightarrow> nat option \<Rightarrow> u32 \<Rightarrow> u8 list option" where
  "blob img off len = map_option (\<lambda>i. take (unat len) (drop i img)) off"

definition bootFirmware ::
  "('d, 'h) hw_scheme \<Rightarrow> FwData \<Rightarrow> driver \<Rightarrow> ('d, bool \<times> driver) io" where
  "bootFirmware H fw d = (case parseFirmware (qca9377_firmware6_bin fw) of
       None \<Rightarrow> do { ub; ret (False, d) }
     | Some (ok, img) \<Rightarrow>
     if \<not> ok then giveUp H d (''QCA9377: M3 fw parse failed'' @ nl) ''M3-FAIL-fw-parse'' else do {
       publishStage d ''M3-fw-parsed'';
       case selectBoard (qca9377_board2_bin fw) (fSubVendor d) (fSubDevice d) of
         None \<Rightarrow> do { ub; ret (False, d) }
       | Some sel \<Rightarrow> do {
         let boardData = (case sel of
             Some (off, len) \<Rightarrow> blob (qca9377_board2_bin fw) (Some off) len
           | None \<Rightarrow> Some qca9377_board_bin);
         d \<leftarrow> (if sel = None then qlog d (''QCA9377: M3 falling back to board.bin ('' @
             dec (length qca9377_board_bin) @ ''B)'' @ nl) else ret d);
         (ok, d) \<leftarrow> withBmi (configureTarget H) False d;
         if \<not> ok then giveUp H d (''QCA9377: M3 configureTarget failed'' @ nl) ''M3-FAIL-configure''
         else do {
           publishStage d ''M3-configured'';
           (ok, d) \<leftarrow> withBmi (\<lambda>ce b. downloadBoardData H ce b boardData) False d;
           if \<not> ok then giveUp H d (''QCA9377: M3 board data failed'' @ nl) ''M3-FAIL-board-data''
           else do {
             publishStage d ''M3-board-ok'';
             (ids, d) \<leftarrow> (if otp img \<noteq> None \<and> otpLen img \<noteq> 0 then do {
                 (r, d) \<leftarrow> withBmi (\<lambda>ce b. runOtp H ce b
                   (blob (qca9377_firmware6_bin fw) (otp img) (otpLen img))) None d;
                 case r of None \<Rightarrow> do {
                     d \<leftarrow> qlog d (''QCA9377: M3 OTP failed (continuing, cal may be wrong)'' @ nl);
                     ret ((0, 0), d) }
                 | Some ids \<Rightarrow> ret (ids, d) }
               else do {
                 d \<leftarrow> qlog d (''QCA9377: M3 no OTP image in fw6 (cal may be wrong)'' @ nl);
                 ret ((0, 0), d) });
             (ok, d) \<leftarrow> withBmi (\<lambda>ce b. do {
                 (ok, ce) \<leftarrow> downloadFirmware H ce
                   (blob (qca9377_firmware6_bin fw) (firmware img) (firmwareLen img));
                 ret (ok, ce, b) }) False d;
             if \<not> ok then
               giveUp H d (''QCA9377: M3 firmware download failed'' @ nl) ''M3-FAIL-fw-download''
             else do {
               publishStage d ''M3-fw-downloaded'';
               (ok, d) \<leftarrow> withBmi (doneAndWaitTargetInit H) False d;
               if \<not> ok then
                 giveUp H d (''QCA9377: M3 target init wait failed'' @ nl) ''M3-FAIL-init-wait''
               else do {
                 publishStage d ''M3-booted'';
                 d \<leftarrow> qlog d (''QCA9377: M3 firmware booted (board='' @ dec (unat (fst ids)) @
                   '' chip='' @ dec (unat (snd ids)) @ '')'' @ nl);
                 ret (True, d) } } } } } })"

section \<open>HTC and WMI\<close>

text \<open>\<open>None\<close>: the wait for SERVICE_READY looked at \<open>fuel\<close> events and is still running.\<close>

definition startHtcWmi ::
  "('d, 'h) hw_scheme \<Rightarrow> nat \<Rightarrow> driver \<Rightarrow> ('d, bool option \<times> driver) io" where
  "startHtcWmi H fuel d = do {
     let fail = (\<lambda>d msg stage. do { (ok, d) \<leftarrow> giveUp H d msg stage; ret (Some ok, d) });
     (ok, d) \<leftarrow> withCe (ceInitWmi H) False d;
     if \<not> ok then fail d (''QCA9377: M4 WMI CE pair init failed'' @ nl) ''M4-FAIL-ce-init'' else do {
       publishStage d ''M4-ce-ok'';
       new \<leftarrow> ioStep (ioNew H);
       let d = d\<lparr>fHtc := (if new then Some newHtc else None)\<rparr>;
       (ok, d) \<leftarrow> withHtc (\<lambda>ce h. waitTarget H ce h 10000) False d;
       if \<not> ok then fail d (''QCA9377: M4 HTC_READY not seen'' @ nl) ''M4-FAIL-htc-ready''
       else do {
         publishStage d ''M4-htc-ready'';
         (r, d) \<leftarrow> withHtc (\<lambda>ce h. connectService H ce h kHtcSvcWmiControl) None d;
         case r of None \<Rightarrow> fail d (''QCA9377: M4 WMI service connect failed'' @ nl) ''M4-FAIL-connect''
         | Some (eid, maxMsg) \<Rightarrow> do {
           publishNum ''htc-eid'' (ucast eid);
           publishStage d ''M4-connected'';
           (ok, d) \<leftarrow> withHtc (setupComplete H) False d;
           if \<not> ok then fail d (''QCA9377: M4 SETUP_COMPLETE failed'' @ nl) ''M4-FAIL-setup''
           else do {
             publishStage d ''M4-setup-ok'';
             new \<leftarrow> ioStep (ioNew H);
             (if new then ret () else ub);
             (r, d) \<leftarrow> withHtc (\<lambda>ce h. do {
                 (r, ce, h, w) \<leftarrow> waitServiceAndReady H ce h newWmi 10000 fuel;
                 ret ((r, w), ce, h) }) (Some False, newWmi) d;
             case r of (r, w) \<Rightarrow> do {
             let d = d\<lparr>drvWmi := Some w\<rparr>;
             case r of None \<Rightarrow> ret (None, d)
             | Some ok \<Rightarrow>
               if \<not> ok then
                 fail d (''QCA9377: M4 WMI SERVICE_READY/READY failed'' @ nl) ''M4-FAIL-wmi-ready''
               else do {
                 publishStage d ''M4-wmi-online'';
                 publishNum ''fw-build'' (fFwBuild w);
                 publishNum ''fw-abi0'' (fAbi w ! 0);
                 publishNum ''fw-memreqs'' (fNumMemReqs w);
                 publishNum ''fw-phy-cap'' (fPhyCapab w);
                 publishNum ''fw-rf-chains'' (fNumRfChains w);
                 publishMac d;
                 let mac = macAddress w;
                 d \<leftarrow> qlog d (''QCA9377: M4 WMI online - mac='' @ concat (map (\<lambda>i.
                   (if i = 0 then [] else '':'') @ hexN 2 (unat (mac ! i))) [0 ..< 6]) @ nl);
                 ret (Some True, d) } } } } } } }"

section \<open>Life cycle\<close>

definition drvInit :: "('d, 'h) pci_hw_scheme \<Rightarrow> driver \<Rightarrow> ('d, bool \<times> driver) io" where
  "drvInit H d = do {
     ok \<leftarrow> ioStep (ioSuperInit H);
     if \<not> ok then ret (False, d) else do {
       d \<leftarrow> qlog d (''QCA9377: init'' @ nl);
       ret (True, d) } }"

definition free :: "driver \<Rightarrow> ('d, driver) io" where
  "free d = do {
     d \<leftarrow> qlog d (''QCA9377: free'' @ nl);
     emit (Super ''free'');
     ret d }"

text \<open>The capability walk of \<open>start\<close>: at most \<open>hops\<close> entries from \<open>capOff\<close>.\<close>

fun aspmWalk :: "('d, 'h) pci_hw_scheme \<Rightarrow> driver \<Rightarrow> u8 \<Rightarrow> nat \<Rightarrow> ('d, driver) io" where
  "aspmWalk H d capOff 0 = ret d"
| "aspmWalk H d capOff (Suc hops) = (if capOff = 0 then ret d else do {
     capId \<leftarrow> configRead8 H (unat capOff);
     if capId = 0x10 then do {
       ctl \<leftarrow> configRead16 H (unat capOff + 0x10);
       let d = d\<lparr>fAspmCapOff := capOff, fAspmCtl := ctl\<rparr>;
       if ctl AND 3 \<noteq> 0 then do {
         configWrite16 H (unat capOff + 0x10) (ctl AND NOT 3);
         qlog d (''QCA9377: ASPM L0s/L1 disabled (was 0x'' @ hexN 4 (unat ctl) @ '')'' @ nl) }
       else ret d }
     else do {
       nxt \<leftarrow> configRead8 H (unat capOff + 1);
       aspmWalk H d (nxt AND 0xFC) hops } })"

definition aspmOff :: "('d, 'h) pci_hw_scheme \<Rightarrow> driver \<Rightarrow> ('d, driver) io" where
  "aspmOff H d = do {
     status \<leftarrow> configRead16 H 0x06;
     if status AND 0x0010 \<noteq> 0 then do {
       capOff \<leftarrow> configRead8 H 0x34;
       aspmWalk H d (capOff AND 0xFC) 48 }
     else ret d }"

text \<open>The stages of \<open>start\<close> from the chip reset on; \<open>None\<close> as for \<open>startHtcWmi\<close>.\<close>

definition stages ::
  "('d, 'h) hw_scheme \<Rightarrow> FwData \<Rightarrow> nat \<Rightarrow> driver \<Rightarrow> ('d, (bool \<times> bool) option \<times> driver) io" where
  "stages H fw fuel d = do {
     (ok, d) \<leftarrow> resetChip H d;
     d \<leftarrow> (if \<not> ok then do {
         d \<leftarrow> qlog d (''QCA9377: chip reset failed - staying loaded for diagnostics'' @ nl);
         publishStage d ''FAIL-reset'';
         ret d }
       else do {
         (ok, d) \<leftarrow> probeBmi H d;
         if \<not> ok then do {
           d \<leftarrow> qlog d (''QCA9377: M2 BMI probe failed - staying loaded for diagnostics'' @ nl);
           publishStage d ''FAIL-m2-bmi'';
           ret d }
         else do {
           publishStage d ''M2-bmi'';
           publishNum ''bmi-target'' (bmiTarget d);
           ret d } });
     (m3ok, d) \<leftarrow> (if fMaxStage d < 3 then do {
         d \<leftarrow> qlog d (''QCA9377: M3 skipped by stage cap '' @ dec (unat (fMaxStage d)) @ nl);
         publishStage d ''M3-skip'';
         ret (False, d) }
       else if fBmi d \<noteq> None \<and> bmiTarget d \<noteq> 0 then bootFirmware H fw d
       else do {
         d \<leftarrow> qlog d (''QCA9377: M3 skipped - BMI probe did not succeed'' @ nl);
         publishStage d ''M3-skip'';
         ret (False, d) });
     (m4ok, d) \<leftarrow> (if fMaxStage d < 4 then do {
         d \<leftarrow> qlog d (''QCA9377: M4 skipped by stage cap '' @ dec (unat (fMaxStage d)) @ nl);
         publishStage d ''M4-skip'';
         ret (Some False, d) }
       else if m3ok then startHtcWmi H fuel d
       else do {
         d \<leftarrow> qlog d (''QCA9377: M4 skipped - firmware not booted'' @ nl);
         publishStage d ''M4-skip'';
         ret (Some False, d) });
     ret (map_option (\<lambda>m4. (m3ok, m4)) m4ok, d) }"

definition capOfArg :: "u32 option \<Rightarrow> u32" where
  "capOfArg arg = (case arg of None \<Rightarrow> 4 | Some n \<Rightarrow> if n < 1 \<or> n > 4 then 4 else n)"

text \<open>The part of \<open>start\<close> before the BAR is mapped, after the provider was accepted.\<close>

definition identify :: "('d, 'h) pci_hw_scheme \<Rightarrow> driver \<Rightarrow> ('d, driver) io" where
  "identify H d = do {
     v \<leftarrow> configRead16 H 0x00; publishNum ''pci-vendor'' (ucast v);
     v \<leftarrow> configRead16 H 0x02; publishNum ''pci-device'' (ucast v);
     v \<leftarrow> configRead16 H 0x2C; publishNum ''pci-subvendor'' (ucast v);
     emit (MemEnable True);
     emit (BusMaster True);
     d \<leftarrow> aspmOff H d;
     publishNum ''aspm-cap-off'' (ucast (fAspmCapOff d));
     publishNum ''aspm-ctl'' (ucast (fAspmCtl d));
     emit Sync;
     ven \<leftarrow> configRead16 H 0x00;
     dvc \<leftarrow> configRead16 H 0x02;
     rv \<leftarrow> configRead8 H 0x08;
     subv \<leftarrow> configRead16 H 0x2C;
     subd \<leftarrow> configRead16 H 0x2E;
     d \<leftarrow> qlog d (''QCA9377: start - vendor=0x'' @ hexN 4 (unat ven) @ '' device=0x'' @
       hexN 4 (unat dvc) @ '' rev=0x'' @ hexN 2 (unat rv) @ '' sub-vendor=0x'' @
       hexN 4 (unat subv) @ '' sub-device=0x'' @ hexN 4 (unat subd) @ nl);
     rv \<leftarrow> configRead8 H 0x08;
     subv \<leftarrow> configRead16 H 0x2C;
     subd \<leftarrow> configRead16 H 0x2E;
     let d = d\<lparr>fPciRev := rv, fSubVendor := subv, fSubDevice := subd\<rparr>;
     publishNum ''pci-rev'' (ucast rv);
     publishNum ''pci-subdevice'' (ucast subd);
     ret d }"

definition openNvram :: "('d, 'h) pci_hw_scheme \<Rightarrow> driver \<Rightarrow> ('d, driver) io" where
  "openNvram H d = do {
     svc \<leftarrow> ioStep (ioNvram H);
     if svc then do {
       let d = d\<lparr>fNvram := True\<rparr>;
       publishNum ''nvram-svc'' 1;
       emit (Nv ''bswork-qca-test'' ''kernel-write-ok'');
       qlog d (''QCA9377: IODTNVRAM service found - test var written'' @ nl) }
     else do {
       publishNum ''nvram-svc'' 0;
       qlog d (''QCA9377: IODTNVRAM service NOT found - mirror disabled'' @ nl) } }"

definition refuse :: "driver \<Rightarrow> string \<Rightarrow> string \<Rightarrow> ('d, bool option \<times> driver) io" where
  "refuse d msg stage = do {
     d \<leftarrow> qlog d msg;
     publishStage d stage;
     ret (Some False, d\<lparr>drvBar0 := False, fBar0Mem := False\<rparr>) }"

text \<open>\<open>start\<close> from the mapped BAR on.\<close>

definition bringUp ::
  "('d, 'h) pci_hw_scheme \<Rightarrow> FwData \<Rightarrow> nat \<Rightarrow> driver \<Rightarrow> ('d, bool option \<times> driver) io" where
  "bringUp H fw fuel d = do {
     d \<leftarrow> openNvram H d;
     ok \<leftarrow> wakeTarget H d;
     if \<not> ok then refuse d (''QCA9377: target did not wake (timeout '' @ dec kWakeTimeout_us @
       '' us)'' @ nl) ''FAIL-wake''
     else do {
       d \<leftarrow> qlog d (''QCA9377: target awake'' @ nl);
       publishStage d ''M1-awake'';
       (ok, d) \<leftarrow> probeRegisters H d;
       if \<not> ok then refuse d (''QCA9377: register probe failed'' @ nl) ''FAIL-registers''
       else do {
         publishStage d ''M1-probe'';
         d \<leftarrow> probeCopyEngines H d;
         d \<leftarrow> logRevisionInfo H d;
         (r, d) \<leftarrow> stages H fw fuel d;
         case r of None \<Rightarrow> ret (None, d)
         | Some (m3ok, m4ok) \<Rightarrow> do {
             publishNum ''m3-ok'' (if m3ok then 1 else 0);
             publishNum ''m4-ok'' (if m4ok then 1 else 0);
             publishStage d ''SUMMARY'';
             d \<leftarrow> qlog d (''QCA9377: SUMMARY ok=1 version=0.9.5 pciRev=0x'' @
               hexN 2 (unat (fPciRev d)) @ '' bmiTarget=0x'' @ hex8 (bmiTarget d) @ '' m3='' @
               (if m3ok then ''BOOTED'' else ''no'') @ '' m4='' @
               (if m4ok then ''WMI_ONLINE'' else ''no'') @ nl);
             d \<leftarrow> qlog d
               (''QCA9377: probe complete - staying passive (no MSI, no interrupts, no fw load)'' @ nl);
             emit Register;
             ret (Some True, d) } } } }"

definition start ::
  "('d, 'h) pci_hw_scheme \<Rightarrow> FwData \<Rightarrow> nat \<Rightarrow> driver \<Rightarrow> ('d, bool option \<times> driver) io" where
  "start H fw fuel d = do {
     ok \<leftarrow> ioStep (ioSuperStart H);
     if \<not> ok then ret (Some False, d) else do {
       publishStage d ''M0-starting'';
       arg \<leftarrow> ioStep (ioBootArg H);
       let d = d\<lparr>fMaxStage := capOfArg arg\<rparr>;
       publishNum ''maxstage'' (fMaxStage d);
       d \<leftarrow> (if fMaxStage d < 4 then qlog d (''QCA9377: stage cap '' @ dec (unat (fMaxStage d)) @
           '' - M'' @ dec (unat (fMaxStage d + 1)) @ '' and later will be skipped'' @ nl)
         else ret d);
       pci \<leftarrow> ioStep (ioPciCast H);
       let d = d\<lparr>fPci := pci\<rparr>;
       if \<not> pci then do {
         d \<leftarrow> qlog d (''QCA9377: provider is not IOPCIDevice'' @ nl);
         publishStage d ''FAIL-provider'';
         ret (Some False, d) }
       else do {
         d \<leftarrow> identify H d;
         bar \<leftarrow> ioStep (ioBar0Mem H);
         let d = d\<lparr>fBar0Mem := (bar \<noteq> None)\<rparr>;
         case bar of None \<Rightarrow> do {
             d \<leftarrow> qlog d (''QCA9377: no BAR0 memory descriptor'' @ nl);
             publishStage d ''FAIL-bar0-descriptor'';
             ret (Some False, d) }
         | Some (phys, len) \<Rightarrow> do {
             let d = d\<lparr>fBar0Len := len\<rparr>;
             publishStage d ''M1-bar0'';
             publishNum ''bar0-len'' (ucast len);
             d \<leftarrow> qlog d (''QCA9377: BAR0 = 0x'' @ hex (unat phys) @ '', '' @ dec (unat len) @
               '' bytes'' @ nl);
             m \<leftarrow> ioStep (ioMap H);
             (if m = None then ub else ret ());
             let d = d\<lparr>drvBar0 := (m = Some True)\<rparr>;
             if \<not> drvBar0 d then do {
               d \<leftarrow> qlog d (''QCA9377: BAR0 map failed'' @ nl);
               publishStage d ''FAIL-bar0-map'';
               ret (Some False, d\<lparr>fBar0Mem := False\<rparr>) }
             else bringUp H fw fuel d } } } }"

definition stop :: "('d, 'h) pci_hw_scheme \<Rightarrow> driver \<Rightarrow> ('d, driver) io" where
  "stop H d = do {
     d \<leftarrow> qlog d (''QCA9377: stop'' @ nl);
     d \<leftarrow> teardownHardware H d;
     d \<leftarrow> (if fNvram d then do { emit NvRelease; ret (d\<lparr>fNvram := False\<rparr>) } else ret d);
     (if fPci d then do {
        emit (BusMaster False);
        emit (MemEnable False);
        (if fAspmCapOff d \<noteq> 0 \<and> fAspmCtl d AND 3 \<noteq> 0
         then configWrite16 H (unat (fAspmCapOff d) + 0x10) (fAspmCtl d) else ret ());
        emit Sync } else ret ());
     emit (Super ''stop'');
     ret d }"

end
