(* ===== verification/DiagPort.thy ===== *)
theory DiagPort
  imports Sample
begin

text \<open>
  The contract of the diagnostic window as an interface: reading and writing target memory.  A
  log leaves a trace on the window: the key read from the chip, bytes put into the bounce buffer,
  the address posted on the destination ring, the address and size put on the source ring, the
  size the engine completed, bytes fetched from the bounce buffer.  The clients see a list of
  transactions instead.  The manager's calls, and later the driver's, implement the interface.
\<close>

datatype dmark = Key u32 | Put "u8 list" | Post u32 | Kick u32 u16 | Done u16 | Fetch "u8 list" | Bad

datatype diagOp = Peek u32 "u8 list" | Poke u32 "u8 list"

text \<open>The trace of one transaction through a bounce buffer at bus address \<open>ph\<close>.\<close>

fun opTrace :: "u32 \<Rightarrow> u32 \<Rightarrow> diagOp \<Rightarrow> dmark list" where
  "opTrace ph k (Peek a b) = [Key k, Post ph, Kick (ceAddrOf k a) (of_nat (length b)),
     Done (of_nat (length b)), Fetch b]"
| "opTrace ph k (Poke a b) = [Key k, Put b, Post (ceAddrOf k a), Kick ph (of_nat (length b)),
     Done (of_nat (length b))]"

fun opData :: "diagOp \<Rightarrow> u8 list" where
  "opData (Peek a b) = b"
| "opData (Poke a b) = b"

definition sized :: "diagOp \<Rightarrow> bool" where
  "sized p \<longleftrightarrow> 0 < length (opData p) \<and> length (opData p) \<le> 512"

inductive transacts :: "u32 \<Rightarrow> diagOp list \<Rightarrow> dmark list \<Rightarrow> bool" for ph :: u32 where
  nothing: "transacts ph [] []"
| more: "transacts ph ps tr \<Longrightarrow> sized p \<Longrightarrow> transacts ph (p # ps) (opTrace ph k p @ tr)"

inductive_simps transacts_simps [simp]: "transacts ph [] tr" "transacts ph (p # ps) tr"

lemma transacts_append:
  "transacts ph ps tr \<Longrightarrow> transacts ph qs ur \<Longrightarrow> transacts ph (ps @ qs) (tr @ ur)"
  by (induction rule: transacts.induct) (simp_all, metis append.assoc)

locale diag_port =
  fixes peek :: "'c \<Rightarrow> u32 \<Rightarrow> u32 \<Rightarrow> ('d, u8 list option \<times> 'c) io"
    and poke :: "'c \<Rightarrow> u32 \<Rightarrow> u8 list \<Rightarrow> ('d, bool \<times> 'c) io"
    and up :: "'c \<Rightarrow> bool"
    and trace :: "'c \<Rightarrow> event list \<Rightarrow> dmark list"
    and bounce :: "'c \<Rightarrow> u32"
  assumes does_peek: "up c \<Longrightarrow> does (peek c a n) (\<lambda>(r, c') es.
      up c' \<and> trace c' = trace c \<and> bounce c' = bounce c \<and> Bad \<notin> set (trace c es) \<and>
      (\<forall>b. r = Some b \<longrightarrow> length b = unat n \<and> transacts (bounce c) [Peek a b] (trace c es)))"
    and does_poke: "up c \<Longrightarrow> does (poke c a buf) (\<lambda>(ok, c') es.
      up c' \<and> trace c' = trace c \<and> bounce c' = bounce c \<and> Bad \<notin> set (trace c es) \<and>
      (ok \<longrightarrow> transacts (bounce c) [Poke a buf] (trace c es)))"
    and trace_nil [simp]: "trace c [] = []"
    and trace_append [simp]: "trace c (xs @ ys) = trace c xs @ trace c ys"
begin

text \<open>What a client did: the transactions \<open>ps\<close>, on an object that is the same port afterwards.\<close>

definition did :: "'c \<Rightarrow> diagOp list \<Rightarrow> 'c \<Rightarrow> event list \<Rightarrow> bool" where
  "did c ps c' es \<longleftrightarrow> up c' \<and> trace c' = trace c \<and> bounce c' = bounce c \<and>
     transacts (bounce c) ps (trace c es)"

lemma did_nil: "up c \<Longrightarrow> did c [] c []"
  by (simp add: did_def)

lemma did_up: "did c ps c' es \<Longrightarrow> up c'"
  by (simp add: did_def)

lemma did_append: "did c ps c' xs \<Longrightarrow> did c' qs c'' ys \<Longrightarrow> did c (ps @ qs) c'' (xs @ ys)"
  by (simp add: did_def transacts_append)

lemma peek_did:
  "up c \<Longrightarrow> does (peek c a n) (\<lambda>(r, c') es. up c' \<and>
     (\<forall>b. r = Some b \<longrightarrow> length b = unat n \<and> did c [Peek a b] c' es))"
  by (rule does_mono [OF does_peek]) (auto simp: did_def)

lemma poke_did:
  "up c \<Longrightarrow> does (poke c a buf) (\<lambda>(ok, c') es. up c' \<and> (ok \<longrightarrow> did c [Poke a buf] c' es))"
  by (rule does_mono [OF does_poke]) (auto simp: did_def)

end

section \<open>The window implements it\<close>

definition diagLaid :: "CEDiag \<Rightarrow> bool" where
  "diagLaid g \<longleftrightarrow> fRegionSize (dRegion g) = 12288 \<and> dBar0 g \<and>
     (\<exists>base. fRegionCpu (dRegion g) = Some base \<and> dSrcDesc g = base \<and> dDstDesc g = base + 4096 \<and>
        dBounce g = base + 8192) \<and> dBouncePhys g = fRegionPhys (dRegion g) + 8192"

definition diagUp :: "CEDiag \<Rightarrow> bool" where
  "diagUp g \<longleftrightarrow> diagLaid g \<and> unat (dSrcWrite g) < 16 \<and> unat (dDstWrite g) < 16 \<and>
     unat (dDstSw g) < 16"

fun dmarkOf :: "CEDiag \<Rightarrow> event \<Rightarrow> dmark option" where
  "dmarkOf g (RdReg a v) = (if a = kPcieLocalBase + kCoreCtrlOffset then Some (Key v) else None)"
| "dmarkOf g (St a xs) =
     (if a = dBounce g then Some (Put xs)
      else if dDstDesc g \<le> a \<and> a < dDstDesc g + 128 then Some (Post (addr (descOf xs)))
      else if dSrcDesc g \<le> a \<and> a < dSrcDesc g + 128
      then Some (Kick (addr (descOf xs)) (nbytes (descOf xs))) else None)"
| "dmarkOf g (Ld a xs) =
     (if a = dBounce g then Some (Fetch xs)
      else if dDstDesc g \<le> a \<and> a < dDstDesc g + 128 then Some (Done (nbytes (descOf xs)))
      else None)"
| "dmarkOf g Fault = Some Bad"
| "dmarkOf g _ = None"

primrec diagMarks :: "CEDiag \<Rightarrow> event list \<Rightarrow> dmark list" where
  "diagMarks g [] = []"
| "diagMarks g (e # es) =
     (case dmarkOf g e of None \<Rightarrow> diagMarks g es | Some x \<Rightarrow> x # diagMarks g es)"

lemma diagMarks_append [simp]: "diagMarks g (xs @ ys) = diagMarks g xs @ diagMarks g ys"
  by (induction xs) (auto split: option.split)

lemma diagMarks_cong:
  assumes "dSrcDesc q = dSrcDesc g" and "dDstDesc q = dDstDesc g" and "dBounce q = dBounce g"
  shows "diagMarks q = diagMarks g"
proof -
  have "dmarkOf q e = dmarkOf g e" for e using assms by (cases e) auto
  then have "diagMarks q es = diagMarks g es" for es by (induction es) (simp_all split: option.split)
  then show ?thesis ..
qed

lemma diagMarks_none: "\<forall>e \<in> set es. dmarkOf g e = None \<Longrightarrow> diagMarks g es = []"
  by (induction es) simp_all

lemma diagMarks_polls [simp]:
  "off \<noteq> kPcieLocalBase + kCoreCtrlOffset \<Longrightarrow> polls off es \<Longrightarrow> diagMarks g es = []"
  by (rule diagMarks_none) (fastforce simp: polls_def)

lemma does_diagWait:
  "does (diagWait H off c n) (\<lambda>ok es. polls off es \<and> length es \<le> 2 * n \<and>
     (ok \<longrightarrow> es \<noteq> [] \<and> (\<exists>v. last es = RdReg off v \<and> c (v AND 15))))"
proof (induction n)
  case 0
  then show ?case by (simp add: does_ret)
next
  case (Suc n)
  show ?case
    unfolding diagWait.simps kRingMask_def kWaitStep_us_def
    by (intro does_intros does_mono [OF Suc.IH]) auto
qed

text \<open>What a transfer changes of the object: the indices only.\<close>

definition sameWindow :: "CEDiag \<Rightarrow> CEDiag \<Rightarrow> bool" where
  "sameWindow g g' \<longleftrightarrow> diagUp g' \<and> diagMarks g' = diagMarks g \<and> dBouncePhys g' = dBouncePhys g \<and>
     dRegion g' = dRegion g"

lemma descAt_marks:
  assumes "diagUp g" and "unat i < 16"
  shows "dmarkOf g (St (descAt (dDstDesc g) i) (descBytes d)) = Some (Post (addr d))"
    and "dmarkOf g (St (descAt (dSrcDesc g) i) (descBytes d)) = Some (Kick (addr d) (nbytes d))"
    and "dmarkOf g (Ld (descAt (dDstDesc g) i) b) = Some (Done (nbytes (descOf b)))"
  using assms by (auto simp: diagUp_def diagLaid_def descAt_def)

lemma diagMarks_idx [simp]:
  "diagMarks (g\<lparr>dDstWrite := x\<rparr>) = diagMarks g" "diagMarks (g\<lparr>dSrcWrite := x\<rparr>) = diagMarks g"
  "diagMarks (g\<lparr>dDstSw := x\<rparr>) = diagMarks g"
  by (rule diagMarks_cong; simp)+

lemma diagUp_idx [simp]:
  assumes "diagUp g"
  shows "diagUp (g\<lparr>dDstWrite := x AND 15\<rparr>)" "diagUp (g\<lparr>dSrcWrite := x AND 15\<rparr>)"
    "diagUp (g\<lparr>dDstSw := x AND 15\<rparr>)"
  using assms by (simp_all add: diagUp_def diagLaid_def)

lemma diag_regs [simp]: "ceBase 7 + 0x44 \<noteq> 0x80000" "ceBase 7 + 0x48 \<noteq> 0x80000"
  by (simp_all add: ceBase_def)

lemma does_xfer:
  assumes "diagUp g"
  shows "does (xfer H g postAddr sendAddr len) (\<lambda>(ok, g') es. sameWindow g g' \<and>
     (\<exists>n. diagMarks g es = Post postAddr # Kick sendAddr (ucast len) # n \<and>
        (n = [] \<or> (\<exists>k. n = [Done k])) \<and> (ok \<longrightarrow> n = [Done (ucast len)])))"
proof -
  have i: "unat (dDstWrite g) < 16" "unat (dSrcWrite g) < 16" "unat (dDstSw g) < 16"
    using assms by (simp_all add: diagUp_def)
  have w: "does (diagWait H off c n) (\<lambda>ok es. off \<noteq> 0x80000 \<longrightarrow> diagMarks g es = [])" for off c n
    by (rule does_mono [OF does_diagWait]) auto
  show ?thesis
    unfolding xfer_def kRingMask_def kDiagCe_def
    apply (intro does_intros does_mono [OF w])
    apply (simp_all add: descAt_marks [OF assms] i sameWindow_def assms del: dmarkOf.simps(2,3))
    done
qed

lemma sameWindow_refl: "diagUp g \<Longrightarrow> sameWindow g g"
  by (simp add: sameWindow_def)

lemma sameWindow_bounce: "diagUp g \<Longrightarrow> sameWindow g g' \<Longrightarrow> dBounce g' = dBounce g"
  by (auto simp: sameWindow_def diagUp_def diagLaid_def)

lemma does_readMem:
  assumes "diagUp g"
  shows "does (readMem H g a n) (\<lambda>(r, g') es. sameWindow g g' \<and> Bad \<notin> set (diagMarks g es) \<and>
     (n = 0 \<or> 512 < n \<longrightarrow> es = [] \<and> r = None) \<and>
     (\<forall>b. r = Some b \<longrightarrow> length b = unat n \<and>
        transacts (ucast (dBouncePhys g)) [Peek a b] (diagMarks g es)))"
proof -
  have n: "0 < unat n \<and> unat n \<le> 512" if "n \<noteq> 0" "\<not> 512 < n"
    using that by (simp add: unat_gt_0 word_less_nat_alt not_less)
  show ?thesis
    unfolding readMem_def targToCeAddr_def kDiagMax_def kPcieLocalBase_def kCoreCtrlOffset_def
  proof (intro does_intros does_mono [OF does_xfer [OF assms]], goal_cases)
    case 1
    then show ?case using sameWindow_refl [OF assms] by simp
  next
    case (2 v r es ok g')
    then show ?case by auto
  next
    case (3 v r es ok g' out)
    then have ok: "ok" and w: "sameWindow g g'" and "n \<noteq> 0" "\<not> 512 < n" "length out = unat n"
      and m: "diagMarks g es = [Post (ucast (dBouncePhys g)), Kick (ceAddrOf v a) (ucast n),
        Done (ucast n)]"
      by auto
    then show ?case
      using n sameWindow_bounce [OF assms w] by (auto simp: sized_def of_nat_unat_u16)
  qed
qed

lemma does_writeMem:
  assumes "diagUp g"
  shows "does (writeMem H g a buf) (\<lambda>(ok, g') es. sameWindow g g' \<and> Bad \<notin> set (diagMarks g es) \<and>
     (buf = [] \<or> 512 < length buf \<longrightarrow> es = [] \<and> \<not> ok) \<and>
     (ok \<longrightarrow> transacts (ucast (dBouncePhys g)) [Poke a buf] (diagMarks g es)))"
  unfolding writeMem_def targToCeAddr_def kDiagMax_def kPcieLocalBase_def kCoreCtrlOffset_def
proof (intro does_intros does_mono [OF does_xfer [OF assms]], goal_cases)
  case 1
  then show ?case using sameWindow_refl [OF assms] by auto
next
  case (2 v r es)
  obtain ok g' where r: "r = (ok, g')" by (cases r)
  from 2 r obtain k where w: "sameWindow g g'" "diagMarks g es = Post (ceAddrOf v a) #
      Kick (ucast (dBouncePhys g)) (ucast (of_nat (length buf) :: u32)) # k"
    and k: "k = [] \<or> (\<exists>j. k = [Done j])" "ok \<longrightarrow> k = [Done (ucast (of_nat (length buf) :: u32))]"
    by auto
  from 2 have l: "buf \<noteq> []" "length buf \<le> 512" by auto
  have u: "(ucast (of_nat (length buf) :: u32) :: u16) = of_nat (length buf)"
    by (rule ucast_of_nat_u16) (use l in simp)
  show ?case
    using w k l unfolding r by (auto simp: sized_def u)
qed

section \<open>The manager's calls\<close>

definition diagOn :: "CEManager \<Rightarrow> bool" where
  "diagOn m \<longleftrightarrow> (\<exists>g. fDiag m = Some g \<and> diagUp g)"

definition ceTrace :: "CEManager \<Rightarrow> event list \<Rightarrow> dmark list" where
  "ceTrace m es = (case fDiag m of None \<Rightarrow> [] | Some g \<Rightarrow> diagMarks g es)"

definition ceBounce :: "CEManager \<Rightarrow> u32" where
  "ceBounce m = (case fDiag m of None \<Rightarrow> 0 | Some g \<Rightarrow> ucast (dBouncePhys g))"

interpretation diagWin: diag_port "ceDiagReadMem H" "ceDiagWriteMem H" diagOn ceTrace ceBounce
  for H :: "('d, 'h) hw_scheme"
proof unfold_locales
  fix c a n assume "diagOn c"
  then obtain g where g: "fDiag c = Some g" "diagUp g" by (auto simp: diagOn_def)
  show "does (ceDiagReadMem H c a n) (\<lambda>(r, c') es. diagOn c' \<and> ceTrace c' = ceTrace c \<and>
      ceBounce c' = ceBounce c \<and> Bad \<notin> set (ceTrace c es) \<and>
      (\<forall>b. r = Some b \<longrightarrow> length b = unat n \<and> transacts (ceBounce c) [Peek a b] (ceTrace c es)))"
    unfolding ceDiagReadMem_def g option.case
    by (intro does_intros does_mono [OF does_readMem [OF g(2)]])
       (simp add: diagOn_def ceTrace_def ceBounce_def g sameWindow_def fun_eq_iff del: transacts_simps)
next
  fix c a buf assume "diagOn c"
  then obtain g where g: "fDiag c = Some g" "diagUp g" by (auto simp: diagOn_def)
  show "does (ceDiagWriteMem H c a buf) (\<lambda>(ok, c') es. diagOn c' \<and> ceTrace c' = ceTrace c \<and>
      ceBounce c' = ceBounce c \<and> Bad \<notin> set (ceTrace c es) \<and>
      (ok \<longrightarrow> transacts (ceBounce c) [Poke a buf] (ceTrace c es)))"
    unfolding ceDiagWriteMem_def g option.case
    by (intro does_intros does_mono [OF does_writeMem [OF g(2)]])
       (simp add: diagOn_def ceTrace_def ceBounce_def g sameWindow_def fun_eq_iff del: transacts_simps)
qed (simp_all add: ceTrace_def split: option.split)

text \<open>The word accesses of the manager are transactions of four bytes.\<close>

lemma word_of_four:
  assumes "length b = 4"
  shows "[b ! 0, b ! Suc 0, b ! 2, b ! 3] = b"
proof -
  from assms obtain w x y z where "b = [w, x, y, z]"
    by (auto simp: length_Suc_conv eval_nat_numeral)
  then show ?thesis by simp
qed

lemma ceDiagRead32_eq:
  "ceDiagRead32 H m a = do { (r, m) \<leftarrow> ceDiagReadMem H m a 4;
     ret (map_option (\<lambda>b. get32 (b ! 0) (b ! 1) (b ! 2) (b ! 3)) r, m) }"
  by (rule state.expand, rule ext)
     (auto simp: ceDiagRead32_def ceDiagReadMem_def diagRead32_def split: option.split prod.split)

lemma does_ceDiagRead32:
  assumes "diagOn m"
  shows "does (ceDiagRead32 H m a) (\<lambda>(r, m') es. diagOn m' \<and> ceTrace m' = ceTrace m \<and>
    ceBounce m' = ceBounce m \<and> Bad \<notin> set (ceTrace m es) \<and>
    (\<forall>v. r = Some v \<longrightarrow> transacts (ceBounce m) [Peek a (le32 v)] (ceTrace m es)))"
  unfolding ceDiagRead32_eq
  by (intro does_intros does_mono [OF diagWin.does_peek [OF assms]])
     (auto simp: word_of_four simp del: transacts_simps)

lemma ceDiagWrite32_eq: "ceDiagWrite32 H m a v = ceDiagWriteMem H m a (le32 v)"
  by (simp add: ceDiagWrite32_def ceDiagWriteMem_def diagWrite32_def cong: option.case_cong)

section \<open>Memory safety of the window\<close>

definition dInside :: "CEDiag \<Rightarrow> event \<Rightarrow> bool" where
  "dInside g e = (case e of St a xs \<Rightarrow> dSrcDesc g \<le> a \<and> a + length xs \<le> dSrcDesc g + 12288
     | Ld a xs \<Rightarrow> dSrcDesc g \<le> a \<and> a + length xs \<le> dSrcDesc g + 12288
     | Fault \<Rightarrow> False | _ \<Rightarrow> True)"

lemma dInside_simps [simp]:
  "dInside g (RdReg off v)" "dInside g (WrReg off v)" "dInside g (Delay n)" "dInside g Sync"
  "dInside g (St a xs) \<longleftrightarrow> dSrcDesc g \<le> a \<and> a + length xs \<le> dSrcDesc g + 12288"
  "dInside g (Ld a xs) \<longleftrightarrow> dSrcDesc g \<le> a \<and> a + length xs \<le> dSrcDesc g + 12288"
  by (simp_all add: dInside_def)

lemma descAt_inside:
  assumes "diagUp g" and "unat i < 16"
  shows "dSrcDesc g \<le> descAt (dSrcDesc g) i" "descAt (dSrcDesc g) i + 8 \<le> dSrcDesc g + 12288"
    "dSrcDesc g \<le> descAt (dDstDesc g) i" "descAt (dDstDesc g) i + 8 \<le> dSrcDesc g + 12288"
  using assms by (auto simp: descAt_def diagUp_def diagLaid_def)

lemma xfer_inside:
  assumes "diagUp g"
  shows "does (xfer H g postAddr sendAddr len) (\<lambda>_ es. \<forall>e \<in> set es. dInside g e)"
proof -
  have i: "unat (dDstWrite g) < 16" "unat (dSrcWrite g) < 16" "unat (dDstSw g) < 16"
    using assms by (simp_all add: diagUp_def)
  have w: "does (diagWait H off c n) (\<lambda>_ es. \<forall>e \<in> set es. dInside g e)" for off c n
    by (rule does_mono [OF does_diagWait]) (fastforce simp: polls_def)
  show ?thesis
    unfolding xfer_def
    by (intro does_intros does_mono [OF w]) (simp_all add: i descAt_inside [OF assms] ball_Un)
qed

lemma window_inside:
  assumes "diagUp g"
  shows "does (readMem H g a n) (\<lambda>_ es. \<forall>e \<in> set es. dInside g e)"
    and "does (writeMem H g a buf) (\<lambda>_ es. \<forall>e \<in> set es. dInside g e)"
proof -
  have b: "dBounce g = dSrcDesc g + 8192" using assms by (auto simp: diagUp_def diagLaid_def)
  have n: "unat n \<le> 512" if "\<not> 512 < n" using that by (simp add: word_less_nat_alt not_less)
  have x: "does (xfer H g pa sa l) (\<lambda>(ok, g') es. dBounce g' = dBounce g \<and> (\<forall>e \<in> set es. dInside g e))"
    for pa sa l
    by (rule does_mono [OF does_conj [OF does_xfer [OF assms] xfer_inside [OF assms]]])
       (auto simp: sameWindow_bounce [OF assms])
  show "does (readMem H g a n) (\<lambda>_ es. \<forall>e \<in> set es. dInside g e)"
    unfolding readMem_def targToCeAddr_def
    by (intro does_intros does_mono [OF x]) (auto simp: b dest!: n)
  show "does (writeMem H g a buf) (\<lambda>_ es. \<forall>e \<in> set es. dInside g e)"
    unfolding writeMem_def targToCeAddr_def
    by (intro does_intros does_mono [OF x]) (auto simp: b)
qed

section \<open>Property\<close>

text \<open>
  C21: The diagnostic window moves 1 to 512 bytes per transfer and refuses any other size without
  touching the chip.  A read succeeds only after the destination was posted with the bounce
  buffer, the source with the translated target address and the size, and the engine completed
  exactly that size; the bytes are fetched last.  A write fills the bounce buffer first and
  routes the other way.  Every access to the shared memory stays inside the window's region.
\<close>

theorem diag_window_transfers:
  assumes "diagUp g"
  shows "does (readMem H g a n) (\<lambda>(r, g') es. diagUp g' \<and> (\<forall>e \<in> set es. dInside g e) \<and>
      (case r of None \<Rightarrow> n \<noteq> 0 \<and> n \<le> 512 \<or> es = []
       | Some b \<Rightarrow> 0 < n \<and> n \<le> 512 \<and> length b = unat n \<and> (\<exists>k. diagMarks g es =
           [Key k, Post (ucast (dBouncePhys g)), Kick (ceAddrOf k a) (ucast n), Done (ucast n), Fetch b])))
    \<and> does (writeMem H g a buf) (\<lambda>(ok, g') es. diagUp g' \<and> (\<forall>e \<in> set es. dInside g e) \<and>
      (if ok then 0 < length buf \<and> length buf \<le> 512 \<and> (\<exists>k. diagMarks g es =
           [Key k, Put buf, Post (ceAddrOf k a), Kick (ucast (dBouncePhys g)) (of_nat (length buf)),
            Done (of_nat (length buf))])
       else buf \<noteq> [] \<and> length buf \<le> 512 \<or> es = []))"
proof (intro conjI)
  have "0 < n \<and> n \<le> 512 \<and> (of_nat (length b) :: u16) = ucast n"
    if "length b = unat n" "sized (Peek a b)" for b
    using that by (auto simp: sized_def word_le_nat_alt of_nat_unat_u16 unat_gt_0 word_neq_0_conv
        intro: of_nat_unat_u16)
  then show "does (readMem H g a n) (\<lambda>(r, g') es. diagUp g' \<and> (\<forall>e \<in> set es. dInside g e) \<and>
      (case r of None \<Rightarrow> n \<noteq> 0 \<and> n \<le> 512 \<or> es = []
       | Some b \<Rightarrow> 0 < n \<and> n \<le> 512 \<and> length b = unat n \<and> (\<exists>k. diagMarks g es =
           [Key k, Post (ucast (dBouncePhys g)), Kick (ceAddrOf k a) (ucast n), Done (ucast n), Fetch b])))"
    by - (rule does_mono [OF does_conj [OF does_readMem [OF assms] window_inside(1) [OF assms]]],
          fastforce simp: sameWindow_def not_le split: option.splits)
  show "does (writeMem H g a buf) (\<lambda>(ok, g') es. diagUp g' \<and> (\<forall>e \<in> set es. dInside g e) \<and>
      (if ok then 0 < length buf \<and> length buf \<le> 512 \<and> (\<exists>k. diagMarks g es =
           [Key k, Put buf, Post (ceAddrOf k a), Kick (ucast (dBouncePhys g)) (of_nat (length buf)),
            Done (of_nat (length buf))])
       else buf \<noteq> [] \<and> length buf \<le> 512 \<or> es = []))"
    by (rule does_mono [OF does_conj [OF does_writeMem [OF assms] window_inside(2) [OF assms]]])
       (auto simp: sameWindow_def sized_def not_le)
qed

definition sampleDiag :: CEDiag where
  "sampleDiag = \<lparr>dBar0 = True, dRegion = (fullRg 0x50000 0x60000)\<lparr>fRegionSize := 12288\<rparr>,
     dSrcDesc = 0x50000, dDstDesc = 0x50000 + 4096, dBounce = 0x50000 + 8192,
     dBouncePhys = 0x60000 + 8192, dSrcWrite = 0, dDstWrite = 0, dSrcSw = 0, dDstSw = 0\<rparr>"

lemma sampleDiag_up [simp]: "diagUp sampleDiag"
  by (simp add: sampleDiag_def diagUp_def diagLaid_def fullRg_def)

theorem diag_window_transfers_witness:
  "does (readMem sampleHw sampleDiag 0x00400800 32) (\<lambda>(r, g') es. diagUp g' \<and>
     (\<forall>b. r = Some b \<longrightarrow> length b = 32))"
  by (rule does_mono [OF conjunct1 [OF diag_window_transfers [where buf = "[]"]]])
     (auto split: option.splits)

end
