(* ===== verification/ChipReset.thy ===== *)
theory ChipReset
  imports Driver DiagPort
begin

text \<open>
  Waking and resetting the chip: \<open>wakeTarget\<close>, \<open>waitForTargetInit\<close>, \<open>coldReset\<close>, \<open>warmReset\<close>
  and \<open>resetChip\<close> of \<open>skeleton/QCA9377Driver.cpp\<close>.  Each routine is followed through its
  accesses of the control registers; telemetry and the copy-engine set-up are invisible there.
\<close>

section \<open>Telemetry\<close>

text \<open>Log lines and published values: what a routine tells, not what it does.\<close>

fun telemetry :: "event \<Rightarrow> bool" where
  "telemetry (Log s) = True"
| "telemetry (Prop k s) = True"
| "telemetry (Num k v) = True"
| "telemetry (Nv k s) = True"
| "telemetry _ = False"

definition acts :: "event list \<Rightarrow> event list" where
  "acts es = filter (\<lambda>e. \<not> telemetry e) es"

lemma acts_simps [simp]:
  "acts [] = []" "acts (xs @ ys) = acts xs @ acts ys"
  "telemetry e \<Longrightarrow> acts (e # es) = acts es" "\<not> telemetry e \<Longrightarrow> acts (e # es) = e # acts es"
  by (simp_all add: acts_def)

lemma does_qlog:
  "does (qlog d s) (\<lambda>d' es. acts es = [] \<and> (\<exists>t. d' = d\<lparr>fTail := t\<rparr>))"
  unfolding qlog_def logTailFlush_def
  by (intro does_intros) (auto intro: exI [of _ "fTail d"])

lemma does_publishStage: "does (publishStage d s) (\<lambda>_ es. acts es = [])"
  unfolding publishStage_def nvramStage_def by (intro does_intros) auto

lemma does_publishNum: "does (publishNum k v) (\<lambda>_ es. acts es = [])"
  unfolding publishNum_def by (intro does_intros) auto

lemmas tells = does_mono [OF does_qlog] does_mono [OF does_publishStage] does_mono [OF does_publishNum]

lemma does_drvRead32:
  "drvBar0 d \<Longrightarrow> (\<And>v. P v [RdReg off v]) \<Longrightarrow> does (drvRead32 H d off) P"
  unfolding drvRead32_def by (simp, intro does_intros) simp

lemma does_drvWrite32:
  "drvBar0 d \<Longrightarrow> P () [WrReg off v] \<Longrightarrow> does (drvWrite32 H d off v) P"
  unfolding drvWrite32_def by (simp, intro does_intros) simp

lemmas drvRegs = does_drvRead32 does_drvWrite32

section \<open>Waking the chip\<close>

definition wakeStep :: "nat \<Rightarrow> nat" where
  "wakeStep i = min 50 (5 * (i + 1))"

definition wakeElapsed :: "nat \<Rightarrow> nat" where
  "wakeElapsed i = (\<Sum>j<i. wakeStep j)"

lemma wakeElapsed_Suc: "wakeElapsed (Suc i) = wakeElapsed i + wakeStep i"
  by (simp add: wakeElapsed_def)

lemma wakeElapsed_late: "wakeElapsed (10 + i) = 275 + 50 * i"
proof (induction i)
  case 0
  show ?case by (simp add: wakeElapsed_def wakeStep_def eval_nat_numeral)
next
  case (Suc i)
  then show ?case using wakeElapsed_Suc [of "10 + i"] by (simp add: wakeStep_def)
qed

lemma wakeElapsed_less: "wakeElapsed i < 30000 \<longleftrightarrow> i < 605"
proof (cases "i < 10")
  case True
  have "wakeElapsed i \<le> wakeElapsed 10"
    unfolding wakeElapsed_def by (rule sum_mono2) (use True in auto)
  then show ?thesis using True wakeElapsed_late [of 0] by simp
next
  case False
  then obtain k where "i = 10 + k" using le_Suc_ex not_less by blast
  then show ?thesis by (auto simp: wakeElapsed_late)
qed

text \<open>The polls numbered from \<open>i\<close> that found the chip asleep, each with its delay.\<close>

fun asleepFrom :: "nat \<Rightarrow> u32 list \<Rightarrow> event list" where
  "asleepFrom i [] = []"
| "asleepFrom i (v # vs) = RdReg 0x80000 v # Delay (wakeStep i) # asleepFrom (Suc i) vs"

definition wakeLog :: "nat \<Rightarrow> bool \<Rightarrow> event list \<Rightarrow> bool" where
  "wakeLog i ok es \<longleftrightarrow> (\<exists>vs. (\<forall>v \<in> set vs. v AND 7 \<noteq> 3) \<and>
     (if ok then i + length vs < 605 \<and> (\<exists>v. v AND 7 = 3 \<and> es = asleepFrom i vs @ [RdReg 0x80000 v])
      else i + length vs = 605 \<and> es = asleepFrom i vs))"

lemma wakeLog_awake: "i < 605 \<Longrightarrow> v AND 7 = 3 \<Longrightarrow> wakeLog i True [RdReg 0x80000 v]"
  by (auto simp: wakeLog_def intro: exI [of _ "[]"])

lemma wakeLog_asleep:
  assumes "wakeLog (Suc i) ok es" and "v AND 7 \<noteq> 3"
  shows "wakeLog i ok (RdReg 0x80000 v # Delay (wakeStep i) # es)"
proof -
  from assms(1) obtain vs where vs: "\<forall>v \<in> set vs. v AND 7 \<noteq> 3"
    "if ok then Suc i + length vs < 605 \<and>
        (\<exists>v. v AND 7 = 3 \<and> es = asleepFrom (Suc i) vs @ [RdReg 0x80000 v])
      else Suc i + length vs = 605 \<and> es = asleepFrom (Suc i) vs"
    unfolding wakeLog_def by blast
  with assms(2) show ?thesis
    unfolding wakeLog_def by (intro exI [of _ "v # vs"]) (auto split: if_splits)
qed

lemma does_wakeLoop:
  assumes "drvBar0 d" and "i \<le> 605"
  shows "does (wakeLoop H d (wakeElapsed i) (wakeStep i)) (wakeLog i)"
  using assms(2)
proof (induction "605 - i" arbitrary: i)
  case 0
  then have "\<not> wakeElapsed i < 30000" using wakeElapsed_less by simp
  then show ?case
    using 0 by (simp add: wakeLoop.simps does_ret wakeLog_def)
next
  case (Suc n)
  then have i: "i < 605" "wakeElapsed i < 30000" using wakeElapsed_less by simp_all
  have step: "(if wakeStep i < 50 then wakeStep i + 5 else wakeStep i) = wakeStep (Suc i)"
    by (simp add: wakeStep_def min_def)
  have IH: "does (wakeLoop H d (wakeElapsed (Suc i)) (wakeStep (Suc i))) (wakeLog (Suc i))"
    by (rule Suc.hyps) (use Suc.hyps(2) i in simp_all)
  show ?case
    using i
    unfolding wakeLoop.simps [of H d "wakeElapsed i"] isAwake_def kWakeTimeout_us_def
      kWakeStepMax_us_def step wakeElapsed_Suc [symmetric] kPCIe_LocalBaseAddress_def kRTCStateValOn_def
    by (intro does_intros drvRegs assms(1) does_mono [OF IH])
       (auto simp: wakeLog_awake wakeLog_asleep)
qed

lemma does_wakeTarget:
  assumes "drvBar0 d"
  shows "does (wakeTarget H d) (\<lambda>ok es. \<exists>ps. wakeLog 0 ok ps \<and> es = WrReg 0x80004 1 # ps)"
proof -
  have "does (wakeLoop H d 0 5) (wakeLog 0)"
    using does_wakeLoop [OF assms, of 0 H] by (simp add: wakeElapsed_def wakeStep_def)
  note loop = does_mono [OF this]
  show ?thesis
    unfolding wakeTarget_def kWakeStepStart_us_def by (intro does_intros drvRegs assms loop) auto
qed

definition sampleDrv :: driver where
  "sampleDrv = newDriver\<lparr>fPci := True, drvBar0 := True, fBar0Mem := True,
     fCe := Some (sampleCe\<lparr>fDiag := Some sampleDiag\<rparr>), fBmi := Some newBmi\<rparr>"

lemma sampleDrv_simps [simp]:
  "drvBar0 sampleDrv" "fPci sampleDrv" "fCe sampleDrv = Some (sampleCe\<lparr>fDiag := Some sampleDiag\<rparr>)"
  by (simp_all add: sampleDrv_def)

section \<open>Waiting for the target\<close>

definition announced :: "u32 \<Rightarrow> bool" where
  "announced v \<longleftrightarrow> v \<noteq> 0xffffffff \<and> v AND 2 \<noteq> 0"

definition crashed :: "u32 \<Rightarrow> bool" where
  "crashed v \<longleftrightarrow> v \<noteq> 0xffffffff \<and> v AND 2 = 0 \<and> v AND 1 \<noteq> 0"

fun indRead :: "event \<Rightarrow> u32 option" where
  "indRead (RdReg a v) = (if a = 0x3a028 then Some v else None)"
| "indRead _ = None"

definition indReads :: "event list \<Rightarrow> u32 list" where
  "indReads es = List.map_filter indRead es"

lemma indReads_simps [simp]:
  "indReads [] = []" "indReads (xs @ ys) = indReads xs @ indReads ys"
  "indReads (e # es) = (case indRead e of None \<Rightarrow> indReads es | Some v \<Rightarrow> v # indReads es)"
  by (simp_all add: indReads_def List.map_filter_def split: option.split)

lemma indReads_telemetry: "acts es = [] \<Longrightarrow> indReads es = []"
  by (induction es) (auto simp: acts_def elim: telemetry.elims split: if_splits)

text \<open>The registers a wait may read, and the time it sleeps; it writes nothing.\<close>

definition watches :: "event list \<Rightarrow> bool" where
  "watches es \<longleftrightarrow> (\<forall>e \<in> set es. telemetry e \<or> e = Delay 10000 \<or>
     (\<exists>v. e = RdReg 0x3a028 v \<or> e = RdReg 0x80000 v))"

lemma watches_simps [simp]:
  "watches []" "watches (xs @ ys) \<longleftrightarrow> watches xs \<and> watches ys"
  "watches (e # es) \<longleftrightarrow> (telemetry e \<or> e = Delay 10000 \<or>
     (\<exists>v. e = RdReg 0x3a028 v \<or> e = RdReg 0x80000 v)) \<and> watches es"
  by (auto simp: watches_def)

lemma watches_telemetry: "acts es = [] \<Longrightarrow> watches es"
  by (auto simp: watches_def acts_def filter_empty_conv)

text \<open>Polls number \<open>i\<close> and later of the 1000 polls in 10 s.\<close>

definition initLog :: "nat \<Rightarrow> bool \<Rightarrow> event list \<Rightarrow> bool" where
  "initLog i ok es \<longleftrightarrow> watches es \<and> (\<exists>vs. (\<forall>v \<in> set vs. \<not> announced v \<and> \<not> crashed v) \<and>
     (if ok then i + length vs < 1000 \<and> (\<exists>v. announced v \<and> indReads es = vs @ [v])
      else i + length vs = 1000 \<and> indReads es = vs \<or>
        i + length vs < 1000 \<and> (\<exists>v. crashed v \<and> indReads es = vs @ [v])))"

lemma initLog_step:
  assumes "initLog (Suc i) ok es" and "\<not> announced v" and "\<not> crashed v"
    and "watches ds" and "indReads ds = [v]"
  shows "initLog i ok (ds @ es)"
proof -
  from assms(1) obtain vs where vs: "\<forall>v \<in> set vs. \<not> announced v \<and> \<not> crashed v"
    "if ok then Suc i + length vs < 1000 \<and> (\<exists>v. announced v \<and> indReads es = vs @ [v])
      else Suc i + length vs = 1000 \<and> indReads es = vs \<or>
        Suc i + length vs < 1000 \<and> (\<exists>v. crashed v \<and> indReads es = vs @ [v])"
    unfolding initLog_def by blast
  have "watches es" using assms(1) by (simp add: initLog_def)
  with vs assms show ?thesis
    unfolding initLog_def by (intro conjI exI [of _ "v # vs"]) (auto split: if_splits)
qed

lemma initLog_quiet: "initLog i ok es \<Longrightarrow> acts qs = [] \<Longrightarrow> initLog i ok (es @ qs)"
  by (simp add: initLog_def watches_telemetry indReads_telemetry split del: if_split cong: if_cong)

lemma initLog_announced:
  "i < 1000 \<Longrightarrow> announced v \<Longrightarrow> acts qs = [] \<Longrightarrow> initLog i True (RdReg 0x3a028 v # qs)"
  by (auto simp: initLog_def watches_telemetry indReads_telemetry intro: exI [of _ "[]"])

lemma initLog_crashed: "i < 1000 \<Longrightarrow> crashed v \<Longrightarrow> initLog i False [RdReg 0x3a028 v]"
  by (auto simp: initLog_def intro: exI [of _ "[]"])

lemma initLog_idle:
  assumes "initLog (Suc i) ok es" and "\<not> announced v" and "\<not> crashed v"
  shows "initLog i ok (RdReg 0x3a028 v # Delay 10000 # es)"
    and "acts qs = [] \<Longrightarrow> acts rs = [] \<Longrightarrow>
      initLog i ok (RdReg 0x3a028 v # qs @ RdReg 0x80000 r # rs @ Delay 10000 # es)"
  using initLog_step [OF assms, of "[RdReg 0x3a028 v, Delay 10000]"]
    initLog_step [OF assms, of "RdReg 0x3a028 v # qs @ RdReg 0x80000 r # rs @ [Delay 10000]"]
  by (simp_all add: watches_telemetry indReads_telemetry)

lemmas initLog_cases = initLog_announced initLog_crashed initLog_idle

definition sameTail :: "driver \<Rightarrow> driver \<Rightarrow> bool" where
  "sameTail d d' \<longleftrightarrow> (\<exists>t. d' = d\<lparr>fTail := t\<rparr>)"

lemma sameTail_refl [simp]: "sameTail d d"
  by (auto simp: sameTail_def intro: exI [of _ "fTail d"])

lemma sameTail_upd [simp]: "sameTail d (d\<lparr>fTail := t\<rparr>)"
  by (auto simp: sameTail_def)

lemma sameTail_trans: "sameTail d d' \<Longrightarrow> sameTail d' d'' \<Longrightarrow> sameTail d d''"
  by (auto simp: sameTail_def)

lemma sameTail_D:
  assumes "sameTail d d'"
  shows "drvBar0 d' = drvBar0 d" "fCe d' = fCe d" "fBmi d' = fBmi d" "fMaxStage d' = fMaxStage d"
    "fHtc d' = fHtc d" "drvWmi d' = drvWmi d" "fPci d' = fPci d"
  using assms by (auto simp: sameTail_def)

lemma does_targetInitLoop:
  assumes "drvBar0 d" and "i \<le> 1000"
  shows "does (targetInitLoop H d (10 * i) smp lst) (\<lambda>((ok, v), d') es. sameTail d d' \<and> initLog i ok es)"
  using assms(2)
proof (induction "1000 - i" arbitrary: i smp lst)
  case 0
  then show ?case
    by (auto simp: targetInitLoop.simps initLog_def intro!: does_ret exI [of _ "[]"])
next
  case (Suc n)
  then have i: "i < 1000" by simp
  have e: "10 * i + 10 = 10 * Suc i" by simp
  have IH: "does (targetInitLoop H d (10 * Suc i) smp' lst') (\<lambda>((ok, v), d') es.
      sameTail d d' \<and> initLog (Suc i) ok es)" for smp' lst'
    by (rule Suc.hyps) (use Suc.hyps(2) i in simp_all)
  show ?case
    unfolding targetInitLoop.simps [of H d "10 * i"] kTargetInitTimeout_ms_def kTargetInitStep_ms_def e
      kFWIndicatorAddress_def kPCIe_LocalBaseAddress_def
    apply (intro does_intros drvRegs assms(1) tells does_mono [OF IH])
    using i by (auto intro!: initLog_cases simp: announced_def crashed_def)
qed


lemma does_waitForTargetInit:
  assumes "drvBar0 d"
  shows "does (waitForTargetInit H d) (\<lambda>(ok, d') es. sameTail d d' \<and> initLog 0 ok es)"
proof -
  have "does (targetInitLoop H d 0 0 0xffffffff) (\<lambda>((ok, v), d') es. sameTail d d' \<and> initLog 0 ok es)"
    using does_targetInitLoop [OF assms, of 0 H] by simp
  then show ?thesis
    unfolding waitForTargetInit_def
    apply (rule does_bindP, clarsimp split del: if_split)
    apply (intro does_intros tells)
     apply (auto intro: initLog_quiet sameTail_trans sameTail_upd)
    done
qed

text \<open>
  C40: Waiting for the target reads the firmware indicator at most 1000 times in 10 s and writes
  nothing.  It succeeds exactly when the last read announces the target; the earlier reads
  announce nothing and show no crash, and it gives up early exactly on a crash.
\<close>

theorem target_init_wait:
  assumes "drvBar0 d"
  shows "does (waitForTargetInit H d) (\<lambda>(ok, d') es. watches es \<and>
    (\<exists>vs. (\<forall>v \<in> set vs. \<not> announced v \<and> \<not> crashed v) \<and>
      (if ok then length vs < 1000 \<and> (\<exists>v. announced v \<and> indReads es = vs @ [v])
       else length vs = 1000 \<and> indReads es = vs \<or>
         length vs < 1000 \<and> (\<exists>v. crashed v \<and> indReads es = vs @ [v]))))"
  by (rule does_mono [OF does_waitForTargetInit [OF assms]]) (auto simp: initLog_def)

theorem target_init_wait_witness:
  "does (waitForTargetInit sampleHw sampleDrv) (\<lambda>(ok, d') es. watches es \<and> length (indReads es) \<le> 1000)"
  by (rule does_mono [OF target_init_wait]) (auto split: if_splits)

section \<open>Resetting the chip\<close>

text \<open>
  What setting up and tearing down copy engines may do: access their registers, the shared
  memory and the IOKit objects behind it.
\<close>

fun ceEv :: "event \<Rightarrow> bool" where
  "ceEv (RdReg a v) \<longleftrightarrow> 0x34400 \<le> a \<and> a < 0x36400"
| "ceEv (WrReg a v) \<longleftrightarrow> 0x34400 \<le> a \<and> a < 0x36400"
| "ceEv e \<longleftrightarrow> (case e of St a xs \<Rightarrow> True | Ld a xs \<Rightarrow> True | Sync \<Rightarrow> True
     | BmdNew \<Rightarrow> True | BmdPrepare \<Rightarrow> True | BmdComplete \<Rightarrow> True | BmdRelease \<Rightarrow> True
     | DmaNew \<Rightarrow> True | DmaSetMd \<Rightarrow> True | DmaClearMd \<Rightarrow> True | DmaRelease \<Rightarrow> True | _ \<Rightarrow> False)"

abbreviation ceOnly :: "'a \<Rightarrow> event list \<Rightarrow> bool" where
  "ceOnly \<equiv> (\<lambda>_ es. \<forall>e \<in> set es. ceEv e)"

lemma acquire_ce: "does (acquire H rg) ceOnly"
  unfolding acquire_def by (intro does_intros) auto

lemma release_ce: "does (release rg) ceOnly"
  unfolding release_def by (intro does_intros) auto

lemma poison_ce: "does (poison src dst i n) ceOnly"
  by (induction n arbitrary: i) (auto intro!: does_intros elim: does_mono)

lemma freeRegion_ce: "does (freeRegion p) (\<lambda>p' es. (\<forall>e \<in> set es. ceEv e) \<and> fSrcCe p' = fSrcCe p \<and> fDstCe p' = fDstCe p)"
  unfolding freeRegion_def by (intro does_intros does_mono [OF release_ce]) auto

lemma allocRegion_ce:
  "does (allocRegion H p) (\<lambda>(ok, p') es. (\<forall>e \<in> set es. ceEv e) \<and> fSrcCe p' = fSrcCe p \<and> fDstCe p' = fDstCe p)"
  unfolding allocRegion_def
  by (intro does_intros does_mono [OF acquire_ce] does_mono [OF freeRegion_ce]) auto

definition ceIds :: "CECopyPair \<Rightarrow> bool" where
  "ceIds p \<longleftrightarrow> (fSrcCe p, fDstCe p) \<in> {(0, 1), (3, 2)}"

lemma ceBases: "ceBase 0 = 0x34400" "ceBase 1 = 0x34800" "ceBase 2 = 0x34c00" "ceBase 3 = 0x35000"
  "ceBase 7 = 0x36000"
  by (simp_all add: ceBase_def)

lemma init_ce:
  assumes "ceIds p"
  shows "does (init H p) (\<lambda>(ok, p') es. (\<forall>e \<in> set es. ceEv e) \<and> ceIds p')"
  using assms unfolding init_def
  by (intro does_intros does_mono [OF allocRegion_ce]) (auto simp: ceIds_def ceBases)

lemma teardown_ce: "ceIds p \<Longrightarrow> does (teardown H p) ceOnly"
  unfolding teardown_def
  by (intro does_intros does_mono [OF poison_ce] does_mono [OF freeRegion_ce]) (auto simp: ceIds_def ceBases)

lemma diagFreeRegion_ce: "does (diagFreeRegion g) ceOnly"
  unfolding diagFreeRegion_def by (intro does_intros does_mono [OF release_ce]) auto

lemma diagTeardown_ce: "does (diagTeardown H g) ceOnly"
  unfolding diagTeardown_def
  by (intro does_intros does_mono [OF diagFreeRegion_ce]) (auto simp: ceBases)

text \<open>The pairs of a manager are wired to the engines of their roles.\<close>

definition wired :: "CEManager \<Rightarrow> bool" where
  "wired m \<longleftrightarrow> (\<forall>p. fCtrl m = Some p \<or> fWmi m = Some p \<longrightarrow> ceIds p)"

lemma newPair_ce:
  assumes "(src, dst) \<in> {(0, 1), (3, 2)}"
  shows "does (newPair H b src dst) (\<lambda>(ok, p) es. (\<forall>e \<in> set es. ceEv e) \<and> (\<forall>q. p = Some q \<longrightarrow> ceIds q))"
  unfolding newPair_def
  by (intro does_intros does_mono [OF init_ce]) (use assms in \<open>auto simp: ceIds_def newCopyPair_def\<close>)

lemma ceInit_ce: "wired m \<Longrightarrow> does (ceInit H m) (\<lambda>(ok, m') es. (\<forall>e \<in> set es. ceEv e) \<and> wired m')"
  unfolding ceInit_def by (intro does_intros does_mono [OF newPair_ce]) (auto simp: wired_def)

lemma ceDestroy_ce: "wired m \<Longrightarrow> does (ceDestroy H m) ceOnly"
  unfolding ceDestroy_def
  by (intro does_intros does_mono [OF diagTeardown_ce] does_mono [OF teardown_ce]) (auto simp: wired_def)

definition wiredDrv :: "driver \<Rightarrow> bool" where
  "wiredDrv d \<longleftrightarrow> (\<forall>ce. fCe d = Some ce \<longrightarrow> wired ce)"

definition keepsBar :: "driver \<Rightarrow> driver \<Rightarrow> bool" where
  "keepsBar d d' \<longleftrightarrow> drvBar0 d' = drvBar0 d \<and> (wiredDrv d \<longrightarrow> wiredDrv d')"

lemma keepsBar_refl [simp]: "keepsBar d d"
  by (simp add: keepsBar_def)

lemma tail_wired [simp]:
  "drvBar0 (d\<lparr>fTail := t\<rparr>) = drvBar0 d" "wiredDrv (d\<lparr>fTail := t\<rparr>) = wiredDrv d"
  by (simp_all add: wiredDrv_def)

lemma does_ensureCE:
  assumes "wiredDrv d"
  shows "does (ensureCE H d) (\<lambda>(ok, d') es. (\<forall>e \<in> set es. ceEv e) \<and> keepsBar d d')"
  unfolding ensureCE_def withCe_def ceCreate_def
  apply (intro does_intros does_mono [OF ceInit_ce] does_mono [OF ceDestroy_ce])
  using assms by (auto simp: wiredDrv_def keepsBar_def wired_def)

section \<open>The reset sequence\<close>

text \<open>
  The control accesses of a reset: the wake bit, the global reset, the reset control, the
  low-frequency timer, writes of the firmware indicator, and the delays of the cold reset.
\<close>

fun ctlEv :: "event \<Rightarrow> bool" where
  "ctlEv (RdReg a v) \<longleftrightarrow> a \<in> {0x80008, 0x800, 0x850}"
| "ctlEv (WrReg a v) \<longleftrightarrow> a \<in> {0x80004, 0x80008, 0x800, 0x850, 0x3a028}"
| "ctlEv (Delay n) \<longleftrightarrow> n = 20000"
| "ctlEv _ \<longleftrightarrow> False"

definition ctl :: "event list \<Rightarrow> event list" where
  "ctl es = filter ctlEv es"

lemma ctl_simps [simp]:
  "ctl [] = []" "ctl (xs @ ys) = ctl xs @ ctl ys"
  "ctl (e # es) = (if ctlEv e then e # ctl es else ctl es)"
  by (simp_all add: ctl_def)

lemma ctlEv_other: "telemetry e \<Longrightarrow> \<not> ctlEv e" "ceEv e \<Longrightarrow> \<not> ctlEv e"
  by (cases e; auto)+

lemma ctl_telemetry: "acts es = [] \<Longrightarrow> ctl es = []"
  by (auto simp: acts_def ctl_def filter_empty_conv ctlEv_other)

lemma ctl_watches: "watches es \<Longrightarrow> ctl es = []"
  by (auto simp: watches_def ctl_def filter_empty_conv dest!: bspec ctlEv_other(1))

lemma ctl_ce: "\<forall>e \<in> set es. ceEv e \<Longrightarrow> ctl es = []"
  by (auto simp: ctl_def filter_empty_conv ctlEv_other)

lemma ctl_asleepFrom [simp]: "ctl (asleepFrom i vs) = []"
  by (induction i vs rule: asleepFrom.induct) (auto simp: wakeStep_def min_def)

lemma indReads_asleepFrom [simp]: "indReads (asleepFrom i vs) = []"
  by (induction i vs rule: asleepFrom.induct) auto

lemma ctl_wakeLog: "wakeLog i ok es \<Longrightarrow> ctl es = []"
  by (auto simp: wakeLog_def split: if_splits)

lemma indReads_ce: "\<forall>e \<in> set es. ceEv e \<Longrightarrow> indReads es = []"
proof (induction es)
  case (Cons e es)
  then show ?case by (cases e) auto
qed simp

lemma indReads_wakeLog: "wakeLog i ok es \<Longrightarrow> indReads es = []"
  by (auto simp: wakeLog_def split: if_splits)

lemma initLog_D: "initLog i ok es \<Longrightarrow> ctl es = [] \<and> (ok \<longrightarrow> indReads es \<noteq> [] \<and> announced (last (indReads es)))"
  by (auto simp: initLog_def ctl_watches)

definition coldSeq :: "u32 \<Rightarrow> event list" where
  "coldSeq g = [RdReg 0x80008 g, WrReg 0x80008 (g OR 1), Delay 20000,
     WrReg 0x80008 ((g OR 1) AND NOT 1), Delay 20000]"

definition cpuSeq :: "u32 \<Rightarrow> event list" where
  "cpuSeq v = [WrReg 0x3a028 0, RdReg 0x800 v, WrReg 0x800 (v OR 0x40)]"

definition ceSeq :: "u32 \<Rightarrow> u32 \<Rightarrow> event list" where
  "ceSeq l c = [RdReg 0x850 l, WrReg 0x850 (l AND NOT 4), RdReg 0x800 c, WrReg 0x800 (c OR 1),
     WrReg 0x800 (c AND NOT 1)]"

lemmas quiet = ctl_telemetry ctl_ce indReads_telemetry indReads_ce ctl_wakeLog indReads_wakeLog

text \<open>A run seen through its control accesses and its reads of the indicator.\<close>

definition tracks ::
  "('d, 'a) io \<Rightarrow> ('a \<Rightarrow> event list \<Rightarrow> u32 list \<Rightarrow> bool) \<Rightarrow> bool" where
  "tracks m P \<longleftrightarrow> does m (\<lambda>r es. P r (ctl es) (indReads es))"

lemma tracks_mono: "tracks m P \<Longrightarrow> (\<And>r c i. P r c i \<Longrightarrow> Q r c i) \<Longrightarrow> tracks m Q"
  unfolding tracks_def by (erule does_mono)

lemma tracks_bind:
  "tracks m (\<lambda>r c i. tracks (f r) (\<lambda>r' c' i'. P r' (c @ c') (i @ i'))) \<Longrightarrow> tracks (State_Monad.bind m f) P"
  unfolding tracks_def by (rule does_bind) simp

lemma tracks_basic:
  "P x [] [] \<Longrightarrow> tracks (ret x) P"
  "(b \<Longrightarrow> tracks m P) \<Longrightarrow> (\<not> b \<Longrightarrow> tracks n P) \<Longrightarrow> tracks (if b then m else n) P"
  "(\<And>a b. z = (a, b) \<Longrightarrow> tracks (g a b) P) \<Longrightarrow> tracks (case z of (a, b) \<Rightarrow> g a b) P"
  "tracks (f y) P \<Longrightarrow> tracks (let x = y in f x) P"
  "Q () (if us = 20000 then [Delay us] else []) [] \<Longrightarrow> tracks (delay H us) Q"
  unfolding tracks_def by (auto intro!: does_intros)

lemma tracks_regs:
  "drvBar0 d \<Longrightarrow> (\<And>v. P v (if off \<in> {0x80008, 0x800, 0x850} then [RdReg off v] else [])
      (if off = 0x3a028 then [v] else [])) \<Longrightarrow> tracks (drvRead32 H d off) P"
  "drvBar0 d \<Longrightarrow> Q () (if off \<in> {0x80004, 0x80008, 0x800, 0x850, 0x3a028} then [WrReg off w] else []) []
    \<Longrightarrow> tracks (drvWrite32 H d off w) Q"
  unfolding tracks_def by (auto intro!: drvRegs)

lemma tracks_qlog: "(\<And>t. P (d\<lparr>fTail := t\<rparr>) [] []) \<Longrightarrow> tracks (qlog d s) P"
  unfolding tracks_def by (rule does_mono [OF does_qlog]) (auto simp: quiet)

lemma tracks_publish:
  "P () [] [] \<Longrightarrow> tracks (publishStage d s) P" "P () [] [] \<Longrightarrow> tracks (publishNum k v) P"
  unfolding tracks_def
  by (rule does_mono [OF does_publishStage], simp add: quiet)
     (rule does_mono [OF does_publishNum], simp add: quiet)

lemma tracks_wakeTarget:
  "drvBar0 d \<Longrightarrow> (\<And>ok. P ok [WrReg 0x80004 1] []) \<Longrightarrow> tracks (wakeTarget H d) P"
  unfolding tracks_def by (rule does_mono [OF does_wakeTarget]) (auto simp: quiet)

definition lastAnnounces :: "u32 list \<Rightarrow> bool" where
  "lastAnnounces vs \<longleftrightarrow> vs \<noteq> [] \<and> announced (last vs)"

lemma lastAnnounces_append [simp]: "lastAnnounces vs \<Longrightarrow> lastAnnounces (us @ vs)"
  by (simp add: lastAnnounces_def)

lemma tracks_waitForTargetInit:
  "drvBar0 d \<Longrightarrow> (\<And>ok t i. ok \<longrightarrow> lastAnnounces i \<Longrightarrow> P (ok, d\<lparr>fTail := t\<rparr>) [] i) \<Longrightarrow>
     tracks (waitForTargetInit H d) P"
  unfolding tracks_def
  by (rule does_mono [OF does_waitForTargetInit])
     (auto simp: sameTail_def lastAnnounces_def dest!: initLog_D)

lemma tracks_ensureCE:
  "wiredDrv d \<Longrightarrow> (\<And>ok d'. drvBar0 d' = drvBar0 d \<Longrightarrow> wiredDrv d' \<Longrightarrow> P (ok, d') [] []) \<Longrightarrow>
     tracks (ensureCE H d) P"
  unfolding tracks_def by (rule does_mono [OF does_ensureCE]) (auto simp: quiet keepsBar_def)

lemma regSums:
  "kRTC_SOC_BaseAddress + kSocResetControlOffset = 0x800"
  "kRTC_SOC_BaseAddress + kSocLfTimerControl0Offset = 0x850"
  "kPCIe_LocalBaseAddress + kSocGlobalResetOffset = 0x80008"
  "kSOC_ChipID_Offset = 0x8f0" "kFWIndicatorAddress = 0x3a028" "kPCIe_BARReg_Offset = 0x40030"
  "kPCIe_LocalBaseAddress = 0x80000" "kWarmResetStep_ms * 1000 = 10000" "kColdResetDelay_ms * 1000 = 20000"
  "kSocResetCpuWarmRstMask = 0x40" "kSocLfTimerEnableMask = 4" "kSocResetCeRstMask = 1"
  by simp_all

lemmas tracks_known =
  tracks_regs(1) [where off = "0x80008", simplified] tracks_regs(2) [where off = "0x80008", simplified]
  tracks_regs(1) [where off = "0x800", simplified] tracks_regs(2) [where off = "0x800", simplified]
  tracks_regs(1) [where off = "0x850", simplified] tracks_regs(2) [where off = "0x850", simplified]
  tracks_regs(2) [where off = "0x3a028", simplified]
  tracks_regs(1) [where off = "0x8f0", simplified] tracks_regs(1) [where off = "0x40030", simplified]
  tracks_regs(1) [where off = "0x80000", simplified]
  tracks_basic(5) [where us = 20000, simplified] tracks_basic(5) [where us = 10000, simplified]

lemmas tracks_intros = tracks_known tracks_basic tracks_regs tracks_qlog tracks_publish tracks_wakeTarget
  tracks_waitForTargetInit tracks_ensureCE

lemma tracks_cpuWarmReset:
  "drvBar0 d \<Longrightarrow> (\<And>v. P () (cpuSeq v) []) \<Longrightarrow> tracks (cpuWarmReset H d) P"
  unfolding cpuWarmReset_def regSums cpuSeq_def by (intro tracks_bind tracks_intros) simp_all

lemma tracks_coldReset:
  "drvBar0 d \<Longrightarrow> (\<And>t g. P (True, d\<lparr>fTail := t\<rparr>) (coldSeq g) []) \<Longrightarrow> tracks (coldReset H d) P"
  unfolding coldReset_def regSums coldSeq_def by (intro tracks_bind tracks_intros) simp_all

definition warmSeq :: "u32 \<Rightarrow> u32 \<Rightarrow> u32 \<Rightarrow> u32 \<Rightarrow> u32 \<Rightarrow> event list" where
  "warmSeq a b l c e = [RdReg 0x800 a, WrReg 0x800 a] @ cpuSeq b @ ceSeq l c @ cpuSeq e"

definition warmLog :: "bool \<Rightarrow> event list \<Rightarrow> u32 list \<Rightarrow> bool" where
  "warmLog ok c i \<longleftrightarrow> (\<exists>k a b l x e. c = take k (warmSeq a b l x e) \<and>
     (if ok then k = 13 \<and> lastAnnounces i else k = 5 \<or> k = 13))"

lemma warmLog_half:
  "c = RdReg 0x800 a # WrReg 0x800 a # cpuSeq b \<Longrightarrow> warmLog False c i"
  unfolding warmLog_def warmSeq_def cpuSeq_def
  by (intro exI [of _ 5] exI [of _ a] exI [of _ b]) simp

lemma warmSeq_length: "length (warmSeq a b l x e) = 13"
  by (simp add: warmSeq_def cpuSeq_def ceSeq_def)

lemma warmLog_full:
  assumes "c = RdReg 0x800 a # WrReg 0x800 a # cpuSeq b @ ceSeq l x @ cpuSeq e" and "ok \<longrightarrow> lastAnnounces i"
  shows "warmLog ok c i"
proof -
  have "c = warmSeq a b l x e" by (simp add: assms(1) warmSeq_def)
  then have "c = take 13 (warmSeq a b l x e)" by (simp add: warmSeq_length)
  with assms(2) show ?thesis
    unfolding warmLog_def
    by (intro exI [of _ 13] exI [of _ a] exI [of _ b] exI [of _ l] exI [of _ x] exI [of _ e] conjI) auto
qed

lemma tracks_warmReset:
  assumes "drvBar0 d" and "wiredDrv d"
  shows "tracks (warmReset H d) (\<lambda>(ok, d') c i. warmLog ok c i)"
  unfolding warmReset_def regSums
  apply (intro tracks_bind tracks_intros tracks_cpuWarmReset assms)
  apply (simp_all only: assms append_Nil append_Nil2 append_Cons prod.inject prod.case not_not)
  apply (auto simp only: assms ceSeq_def append_Cons append_Nil tail_wired intro: warmLog_half warmLog_full lastAnnounces_append)
  done

definition resetLog :: "bool \<Rightarrow> event list \<Rightarrow> u32 list \<Rightarrow> bool" where
  "resetLog ok c i \<longleftrightarrow> (\<exists>k g a b l x e. c = take k (WrReg 0x80004 1 # coldSeq g @ WrReg 0x80004 1 # warmSeq a b l x e) \<and>
     (if ok then (k = 7 \<or> k = 20) \<and> lastAnnounces i else k \<in> {1, 7, 12, 20}))"

lemma resetLog_asleep: "resetLog False [WrReg 0x80004 1] i"
  unfolding resetLog_def by (intro exI [of _ 1]) simp

lemma resetLog_cold:
  "c = WrReg 0x80004 1 # coldSeq g @ [WrReg 0x80004 1] \<Longrightarrow> ok \<longrightarrow> lastAnnounces i \<Longrightarrow> resetLog ok c i"
  unfolding resetLog_def coldSeq_def by (intro exI [of _ 7] exI [of _ g]) simp

lemma resetLog_warm:
  assumes "warmLog ok c i" and "c' = WrReg 0x80004 1 # coldSeq g @ WrReg 0x80004 1 # c"
  shows "resetLog ok c' (j @ i)"
proof -
  obtain k a b l x e where w: "c = take k (warmSeq a b l x e)"
    "if ok then k = 13 \<and> lastAnnounces i else k = 5 \<or> k = 13"
    using assms(1) unfolding warmLog_def by blast
  define pre where "pre = WrReg 0x80004 1 # coldSeq g @ [WrReg 0x80004 1]"
  have "length pre = 7" by (simp add: pre_def coldSeq_def)
  then have "take (7 + k) (pre @ warmSeq a b l x e) = pre @ take k (warmSeq a b l x e)" by simp
  then have c': "c' = take (7 + k) (pre @ warmSeq a b l x e)"
    by (simp add: pre_def assms(2) w(1))
  have whole: "pre @ ws = WrReg 0x80004 1 # coldSeq g @ WrReg 0x80004 1 # ws" for ws
    by (simp add: pre_def)
  have k: "if ok then (7 + k = 7 \<or> 7 + k = 20) \<and> lastAnnounces (j @ i) else 7 + k \<in> {1, 7, 12, 20}"
    using w(2) by (cases ok) auto
  show ?thesis
    unfolding resetLog_def using c' k unfolding whole by blast
qed

lemma tracks_resetChip:
  assumes "drvBar0 d" and "wiredDrv d"
  shows "tracks (resetChip H d) (\<lambda>(ok, d') c i. resetLog ok c i)"
  unfolding resetChip_def regSums
  apply (intro tracks_bind tracks_intros tracks_coldReset tracks_mono [OF tracks_warmReset])
  apply (simp_all only: assms append_Nil append_Nil2 append_Cons append_assoc prod.inject prod.case not_not)
  apply (auto simp only: assms append_Cons append_Nil append_assoc tail_wired intro: resetLog_asleep resetLog_cold resetLog_warm lastAnnounces_append)
  done

text \<open>
  C9: A reset wakes the chip, pulses the global reset for 20 ms each way, wakes it again and
  waits; if the target stays silent the warm leg follows: the reset control is written back, the
  CPU reset, the timer stopped, the copy engines pulsed through their reset, and the CPU reset
  once more.  A failed reset ends at one of the four points where the code gives up, and the
  reset succeeds only when the last read of the indicator announces the target.  The copy-engine
  set-up between the steps touches none of these registers.
\<close>

theorem chip_reset:
  assumes "drvBar0 d" and "wiredDrv d"
  shows "does (resetChip H d) (\<lambda>(ok, d') es. \<exists>k g a b l x e.
    ctl es = take k (WrReg 0x80004 1 # coldSeq g @ WrReg 0x80004 1 # warmSeq a b l x e) \<and>
    (if ok then (k = 7 \<or> k = 20) \<and> indReads es \<noteq> [] \<and> announced (last (indReads es))
     else k \<in> {1, 7, 12, 20}))"
  using tracks_resetChip [OF assms, of H]
  unfolding tracks_def resetLog_def lastAnnounces_def by (rule does_mono) (simp only: split_beta)

lemma sampleDrv_wired [simp]: "wiredDrv sampleDrv"
  by (auto simp: wiredDrv_def wired_def ceIds_def sampleCe_def samplePair_def)

theorem chip_reset_witness:
  "does (resetChip sampleHw sampleDrv) (\<lambda>(ok, d') es. hd (ctl es) = WrReg 0x80004 1)"
  by (rule does_mono [OF chip_reset]) (auto split: if_splits)

end
