(* ===== verification/TargetConfig.thy ===== *)
theory TargetConfig
  imports ChipReset
begin

text \<open>
  Programming the target through the diagnostic window: \<open>initConfig\<close> of
  \<open>skeleton/QCA9377Driver.cpp\<close>.  The driver's accesses implement the interface \<open>diag_port\<close>, so
  that the routine is a list of transactions.
\<close>

section \<open>Clients of the interface\<close>

text \<open>Two runs in sequence: their transactions, unless one failed.\<close>

fun andThen :: "diagOp list option \<Rightarrow> diagOp list option \<Rightarrow> diagOp list option" where
  "andThen (Some ps) (Some qs) = Some (ps @ qs)"
| "andThen _ _ = None"

lemma andThen_Some: "andThen p q = Some rs \<longleftrightarrow> (\<exists>ps qs. p = Some ps \<and> q = Some qs \<and> rs = ps @ qs)"
  by (cases p; cases q) auto

context diag_port
begin

definition samePort :: "'c \<Rightarrow> 'c \<Rightarrow> bool" where
  "samePort c c' \<longleftrightarrow> up c' \<and> trace c' = trace c \<and> bounce c' = bounce c"

text \<open>A run as its transactions; \<open>None\<close> when one of them failed.\<close>

definition runs :: "'c \<Rightarrow> ('d, 'a) io \<Rightarrow> ('a \<Rightarrow> diagOp list option \<Rightarrow> bool) \<Rightarrow> bool" where
  "runs c m P \<longleftrightarrow> does m (\<lambda>r es. \<exists>p. P r p \<and> Bad \<notin> set (trace c es) \<and>
     (\<forall>ps. p = Some ps \<longrightarrow> transacts (bounce c) ps (trace c es)))"

lemma runs_bind:
  assumes "runs c m (\<lambda>r p. runs c (f r) (\<lambda>r' p'. P r' (andThen p p')))"
  shows "runs c (State_Monad.bind m f) P"
  unfolding runs_def
proof (rule does_bindP [OF assms [unfolded runs_def]], clarsimp)
  fix r es p
  assume f: "does (f r) (\<lambda>r es. \<exists>pa. P r (andThen p pa) \<and> Bad \<notin> set (trace c es) \<and>
      (\<forall>ps. pa = Some ps \<longrightarrow> transacts (bounce c) ps (trace c es)))"
    and es: "Bad \<notin> set (trace c es)" "\<forall>ps. p = Some ps \<longrightarrow> transacts (bounce c) ps (trace c es)"
  have step: "\<exists>p. P r' p \<and> Bad \<notin> set (trace c fs) \<and>
      (\<forall>ps. p = Some ps \<longrightarrow> transacts (bounce c) ps (trace c es @ trace c fs))"
    if "P r' (andThen p pa)" "Bad \<notin> set (trace c fs)"
      "\<forall>ps. pa = Some ps \<longrightarrow> transacts (bounce c) ps (trace c fs)" for r' fs pa
    using es that by (intro exI [of _ "andThen p pa"]) (auto simp: andThen_Some intro: transacts_append)
  show "does (f r) (\<lambda>r' fs. \<exists>p. P r' p \<and> Bad \<notin> set (trace c fs) \<and>
      (\<forall>ps. p = Some ps \<longrightarrow> transacts (bounce c) ps (trace c es @ trace c fs)))"
    by (rule does_mono [OF f]) (elim exE conjE, rule step)
qed

lemma runs_ret: "P x (Some []) \<Longrightarrow> runs c (ret x) P"
  by (auto simp: runs_def intro!: does_intros)

lemma runs_if: "(b \<Longrightarrow> runs c m P) \<Longrightarrow> (\<not> b \<Longrightarrow> runs c n P) \<Longrightarrow> runs c (if b then m else n) P"
  by simp

lemma runs_prod:
  "(\<And>a b. z = (a, b) \<Longrightarrow> runs c (g a b) P) \<Longrightarrow> runs c (case z of (a, b) \<Rightarrow> g a b) P"
  by (cases z) simp

lemma runs_option:
  "(x = None \<Longrightarrow> runs c m P) \<Longrightarrow> (\<And>a. x = Some a \<Longrightarrow> runs c (f a) P) \<Longrightarrow>
     runs c (case x of None \<Rightarrow> m | Some a \<Rightarrow> f a) P"
  by (cases x) simp_all

lemma runs_Let: "runs c (f y) P \<Longrightarrow> runs c (let x = y in f x) P"
  by simp

lemma runs_peek:
  assumes "samePort c c0" and "\<And>b c'. samePort c c' \<Longrightarrow> length b = unat n \<Longrightarrow> P (Some b, c') (Some [Peek a b])"
    and "\<And>c'. samePort c c' \<Longrightarrow> P (None, c') None"
  shows "runs c (peek c0 a n) P"
proof -
  have c0: "up c0" "trace c0 = trace c" "bounce c0 = bounce c" using assms(1) by (simp_all add: samePort_def)
  show ?thesis
    unfolding runs_def
  proof (rule does_mono [OF does_peek [OF c0(1)]], clarsimp simp: c0 simp del: transacts_simps)
    fix r c' es
    assume *: "up c'" "trace c' = trace c" "bounce c' = bounce c"
      "\<forall>b. r = Some b \<longrightarrow> length b = unat n \<and> transacts (bounce c) [Peek a b] (trace c es)"
    then have "samePort c c'" by (simp add: samePort_def)
    with * show "\<exists>p. P (r, c') p \<and> (\<forall>ps. p = Some ps \<longrightarrow> transacts (bounce c) ps (trace c es))"
      using assms(2,3) by (cases r) (blast, metis option.inject)
  qed
qed

lemma runs_poke:
  assumes "samePort c c0" and "\<And>c'. samePort c c' \<Longrightarrow> P (True, c') (Some [Poke a buf])"
    and "\<And>c'. samePort c c' \<Longrightarrow> P (False, c') None"
  shows "runs c (poke c0 a buf) P"
proof -
  have c0: "up c0" "trace c0 = trace c" "bounce c0 = bounce c" using assms(1) by (simp_all add: samePort_def)
  show ?thesis
    unfolding runs_def
  proof (rule does_mono [OF does_poke [OF c0(1)]], clarsimp simp: c0 simp del: transacts_simps)
    fix r c' es
    assume *: "up c'" "trace c' = trace c" "bounce c' = bounce c"
      "r \<longrightarrow> transacts (bounce c) [Poke a buf] (trace c es)"
    then have "samePort c c'" by (simp add: samePort_def)
    with * show "\<exists>p. P (r, c') p \<and> (\<forall>ps. p = Some ps \<longrightarrow> transacts (bounce c) ps (trace c es))"
      using assms(2,3) by (cases r; simp del: transacts_simps; blast)
  qed
qed

lemmas runs_basic = runs_ret runs_if runs_prod runs_option runs_Let

end

section \<open>The driver implements it\<close>

definition drvPeek ::
  "('d, 'h) hw_scheme \<Rightarrow> driver \<Rightarrow> u32 \<Rightarrow> u32 \<Rightarrow> ('d, u8 list option \<times> driver) io" where
  "drvPeek H d a n = withCe (\<lambda>ce. ceDiagReadMem H ce a n) None d"

definition drvPoke ::
  "('d, 'h) hw_scheme \<Rightarrow> driver \<Rightarrow> u32 \<Rightarrow> u8 list \<Rightarrow> ('d, bool \<times> driver) io" where
  "drvPoke H d a buf = withCe (\<lambda>ce. ceDiagWriteMem H ce a buf) False d"

definition drvOn :: "driver \<Rightarrow> bool" where
  "drvOn d \<longleftrightarrow> (\<exists>ce. fCe d = Some ce \<and> diagOn ce)"

definition drvTrace :: "driver \<Rightarrow> event list \<Rightarrow> dmark list" where
  "drvTrace d es = (case fCe d of None \<Rightarrow> [] | Some ce \<Rightarrow> ceTrace ce es)"

definition drvBounce :: "driver \<Rightarrow> u32" where
  "drvBounce d = (case fCe d of None \<Rightarrow> 0 | Some ce \<Rightarrow> ceBounce ce)"

interpretation drvWin: diag_port "drvPeek H" "drvPoke H" drvOn drvTrace drvBounce
  for H :: "('d, 'h) hw_scheme"
proof unfold_locales
  fix d a n assume "drvOn d"
  then obtain ce where ce: "fCe d = Some ce" "diagOn ce" by (auto simp: drvOn_def)
  show "does (drvPeek H d a n) (\<lambda>(r, d') es. drvOn d' \<and> drvTrace d' = drvTrace d \<and>
      drvBounce d' = drvBounce d \<and> Bad \<notin> set (drvTrace d es) \<and>
      (\<forall>b. r = Some b \<longrightarrow> length b = unat n \<and> transacts (drvBounce d) [Peek a b] (drvTrace d es)))"
    unfolding drvPeek_def withCe_def ce option.case
    by (intro does_intros does_mono [OF diagWin.does_peek [OF ce(2)]])
       (simp add: drvOn_def drvTrace_def drvBounce_def ce fun_eq_iff del: transacts_simps)
next
  fix d a buf assume "drvOn d"
  then obtain ce where ce: "fCe d = Some ce" "diagOn ce" by (auto simp: drvOn_def)
  show "does (drvPoke H d a buf) (\<lambda>(ok, d') es. drvOn d' \<and> drvTrace d' = drvTrace d \<and>
      drvBounce d' = drvBounce d \<and> Bad \<notin> set (drvTrace d es) \<and>
      (ok \<longrightarrow> transacts (drvBounce d) [Poke a buf] (drvTrace d es)))"
    unfolding drvPoke_def withCe_def ce option.case
    by (intro does_intros does_mono [OF diagWin.does_poke [OF ce(2)]])
       (simp add: drvOn_def drvTrace_def drvBounce_def ce fun_eq_iff del: transacts_simps)
qed (simp_all add: drvTrace_def split: option.split)

text \<open>Telemetry leaves no trace on the window.\<close>

lemma drvTrace_telemetry: "acts es = [] \<Longrightarrow> drvTrace d es = []"
proof (induction es)
  case Nil
  then show ?case by simp
next
  case (Cons e es)
  then have "telemetry e" "acts es = []" by (auto simp: acts_def split: if_splits)
  then show ?case
    using Cons drvWin.trace_append [of d "[e]" es]
    by (cases e) (auto simp: drvTrace_def ceTrace_def split: option.splits)
qed

lemma samePort_tail [simp]: "drvWin.samePort d (d'\<lparr>fTail := t\<rparr>) = drvWin.samePort d d'"
  by (simp add: drvWin.samePort_def drvOn_def drvTrace_def fun_eq_iff drvBounce_def)

lemma runs_qlog: "(\<And>t. P (d\<lparr>fTail := t\<rparr>) (Some [])) \<Longrightarrow> drvWin.runs c (qlog d s) P"
  unfolding drvWin.runs_def by (rule does_mono [OF does_qlog]) (force simp: drvTrace_telemetry)

lemma runs_publishNum: "P () (Some []) \<Longrightarrow> drvWin.runs c (publishNum k v) P"
  unfolding drvWin.runs_def by (rule does_mono [OF does_publishNum]) (auto simp: drvTrace_telemetry)

lemma diagRd_eq:
  "diagRd H a d = do { (r, d) \<leftarrow> drvPeek H d a 4;
     ret (map_option (\<lambda>b. get32 (b ! 0) (b ! 1) (b ! 2) (b ! 3)) r, d) }"
  by (rule state.expand, rule ext)
     (auto simp: withCe_def drvPeek_def ceDiagRead32_eq split: option.split prod.split)

lemma runs_diagRd:
  assumes "drvWin.samePort c d"
    and "\<And>r d'. drvWin.samePort c d' \<Longrightarrow> P (r, d') (map_option (\<lambda>v. [Peek a (le32 v)]) r)"
  shows "drvWin.runs c (diagRd H a d) P"
proof -
  have "P (Some (get32 (b ! 0) (b ! 1) (b ! 2) (b ! 3)), d') (Some [Peek a b])"
    if "drvWin.samePort c d'" "length b = 4" for b d'
    using assms(2) [OF that(1), of "Some (get32 (b ! 0) (b ! 1) (b ! 2) (b ! 3))"] that(2)
    by (simp add: word_of_four)
  moreover have "P (None, d') None" if "drvWin.samePort c d'" for d'
    using assms(2) [OF that, of None] by simp
  ultimately show ?thesis
    unfolding diagRd_eq
    by (intro drvWin.runs_bind drvWin.runs_peek [OF assms(1)] drvWin.runs_basic) auto
qed

lemma runs_diagWrMem:
  assumes "drvWin.samePort c d"
    and "\<And>ok d'. drvWin.samePort c d' \<Longrightarrow> P (ok, d') (if ok then Some [Poke a buf] else None)"
  shows "drvWin.runs c (diagWrMem H a buf d) P"
proof -
  have "drvWin.runs c (drvPoke H d a buf) P"
    by (rule drvWin.runs_poke [OF assms(1)])
       (use assms(2) [where ok = True] assms(2) [where ok = False] in simp_all)
  then show ?thesis by (simp add: drvPoke_def)
qed

lemma diagWr_eq: "diagWr H a v d = diagWrMem H a (le32 v) d"
  by (simp add: ceDiagWrite32_eq)

definition pipeTable :: "u8 list" where
  "pipeTable = concat (map pipeBytes (take kNumTargetCeConfig kTargetCeConfigWlan))"

definition svcTable :: "u8 list" where
  "svcTable = concat (map svcBytes (take kNumSvcToPipe kTargetSvcToPipeMap))"

lemma tables: "length pipeTable = 168" "length svcTable = 204"
  by (simp_all add: pipeTable_def svcTable_def kNumTargetCeConfig_def kTargetCeConfigWlan_def
      kNumSvcToPipe_def kTargetSvcToPipeMap_def pipeBytes_def svcBytes_def)

definition cfgOps :: "u32 \<Rightarrow> u32 \<Rightarrow> u32 \<Rightarrow> u32 \<Rightarrow> u32 \<Rightarrow> u32 \<Rightarrow> diagOp list" where
  "cfgOps pcie pipe svc flg ea f2 =
    [Peek 0x004008f8 (le32 pcie), Peek pcie (le32 pipe), Peek (pcie + 4) (le32 svc),
     Peek (pcie + 0x20) (le32 flg), Poke (pcie + 0x20) (le32 (flg AND NOT 1)),
     Poke pipe pipeTable, Poke svc svcTable,
     Peek 0x00400900 (le32 ea), Poke 0x00400900 (le32 (ea OR 0x6d8a0009)),
     Peek 0x004008cc (le32 f2), Poke 0x004008cc (le32 (f2 OR 0x10))]"

definition cfgLog :: "bool \<Rightarrow> diagOp list option \<Rightarrow> bool" where
  "cfgLog ok p \<longleftrightarrow> (ok \<longrightarrow> (\<exists>pcie pipe svc flg ea f2. pcie \<noteq> 0 \<and> pipe \<noteq> 0 \<and> svc \<noteq> 0 \<and>
     p = Some (cfgOps pcie pipe svc flg ea f2)))"

lemma cfgLog_fail [simp]: "cfgLog False p"
  by (simp add: cfgLog_def)

lemma cfgLog_ops:
  "p = Some (cfgOps pcie pipe svc flg ea f2) \<Longrightarrow> pcie \<noteq> 0 \<Longrightarrow> pipe \<noteq> 0 \<Longrightarrow> svc \<noteq> 0 \<Longrightarrow> cfgLog ok p"
  unfolding cfgLog_def by blast

lemma cfgSums:
  "kHiBaseAddress + kHiInterconnectStateOffset = 0x004008f8" "kHiBaseAddress + kHiEarlyAllocOffset = 0x00400900"
  "kHiBaseAddress + kHiOptionFlag2Offset = 0x004008cc" "x + kPcieStatePipeCfgOff = x"
  "kPcieStateSvcMapOff = 4" "kPcieStateConfigFlgOff = 0x20" "kPcieCfgFlagEnableL1 = 1"
  "x OR (push_bit 16 kHiEarlyAllocMagic AND kHiEarlyAllocMagicMask) OR
     (push_bit 0 kQca9377NumBanks AND kHiEarlyAllocBanksMask) = x OR 0x6d8a0009"
  "kHiOptionEarlyCfgDone = 0x10"
  by (simp_all add: push_bit_eq_mult or.assoc)

lemma runs_initConfig:
  assumes "drvOn d"
  shows "drvWin.runs d (initConfig H d) (\<lambda>(ok, d') p. drvWin.samePort d d' \<and> cfgLog ok p)"
proof -
  have d: "drvWin.samePort d d" using assms by (simp add: drvWin.samePort_def)
  show ?thesis
    unfolding initConfig_def cfgSums diagWr_eq pipeTable_def [symmetric] svcTable_def [symmetric]
    by (intro drvWin.runs_bind drvWin.runs_basic runs_qlog runs_publishNum runs_diagRd runs_diagWrMem)
       (auto simp: d cfgOps_def intro!: cfgLog_ops split: option.splits)
qed

section \<open>Property\<close>

text \<open>
  C10: A successful target configuration is exactly eleven transactions of the diagnostic window
  in this order: find the interconnect state and in it the addresses of the two tables, all
  non-zero; clear the L1 flag; write the 7 pipe entries (168 bytes) and the 17 service entries
  (204 bytes) to these addresses; set the early-allocation magic with 9 banks and the
  configuration-done flag, keeping the other bits.  Success or not, the window stays usable and
  nothing undefined happens.
\<close>

theorem target_programmed:
  assumes "drvOn d"
  shows "does (initConfig H d) (\<lambda>(ok, d') es. drvOn d' \<and> Bad \<notin> set (drvTrace d es) \<and>
    (ok \<longrightarrow> (\<exists>pcie pipe svc flg ea f2. pcie \<noteq> 0 \<and> pipe \<noteq> 0 \<and> svc \<noteq> 0 \<and>
      length pipeTable = 168 \<and> length svcTable = 204 \<and>
      transacts (drvBounce d)
       [Peek 0x004008f8 (le32 pcie), Peek pcie (le32 pipe), Peek (pcie + 4) (le32 svc),
        Peek (pcie + 0x20) (le32 flg), Poke (pcie + 0x20) (le32 (flg AND NOT 1)),
        Poke pipe pipeTable, Poke svc svcTable,
        Peek 0x00400900 (le32 ea), Poke 0x00400900 (le32 (ea OR 0x6d8a0009)),
        Peek 0x004008cc (le32 f2), Poke 0x004008cc (le32 (f2 OR 0x10))] (drvTrace d es))))"
  using runs_initConfig [OF assms, of H] unfolding drvWin.runs_def cfgOps_def [symmetric]
  by (rule does_mono) (clarsimp simp: drvWin.samePort_def cfgLog_def tables, blast)

theorem target_programmed_witness:
  "does (initConfig sampleHw sampleDrv) (\<lambda>(ok, d') es. drvOn d' \<and> Bad \<notin> set (drvTrace sampleDrv es))"
  by (rule does_mono [OF target_programmed]) (auto simp: drvOn_def diagOn_def)

end
