(* ===== verification/DriverLife.thy ===== *)
theory DriverLife
  imports TargetConfig
begin

text \<open>
  The life cycle of the driver object: what it keeps on loan from IOKit, link power management,
  the stage cap and the shutdown (\<open>ensureCE\<close>, \<open>teardownHardware\<close>, \<open>start\<close> and \<open>stop\<close> of
  \<open>skeleton/QCA9377Driver.cpp\<close>).
\<close>

section \<open>Objects on loan\<close>

text \<open>
  Per kind \<open>k\<close> of IOKit object (memory descriptor, preparation, DMA command, attachment): what a
  log acquired and did not release, and what the regions of a manager hold.
\<close>

definition heldAt :: "nat \<Rightarrow> event list \<Rightarrow> int" where
  "heldAt k es = held es ! k"

fun loan :: "nat \<Rightarrow> DmaRegion option \<Rightarrow> int" where
  "loan k None = 0"
| "loan k (Some rg) = holds rg ! k"

definition ceLoan :: "nat \<Rightarrow> CEManager \<Rightarrow> int" where
  "ceLoan k m = loan k (map_option dRegion (fDiag m)) + loan k (map_option region (fCtrl m)) +
     loan k (map_option region (fWmi m))"

definition drvLoan :: "nat \<Rightarrow> driver \<Rightarrow> int" where
  "drvLoan k d = (case fCe d of None \<Rightarrow> 0 | Some m \<Rightarrow> ceLoan k m)"

definition ctrlLoan :: "nat \<Rightarrow> driver \<Rightarrow> int" where
  "ctrlLoan k d = (case fCe d of None \<Rightarrow> 0 | Some m \<Rightarrow> loan k (map_option region (fCtrl m)))"

lemma length_held [simp]: "length (held es) = 4"
  by (simp add: held_def)

lemma heldAt_append: "k < 4 \<Longrightarrow> heldAt k (xs @ ys) = heldAt k xs + heldAt k ys"
  by (simp add: heldAt_def held_append)

lemma heldAt_nil [simp]: "k < 4 \<Longrightarrow> heldAt k [] = 0"
  by (simp add: heldAt_def held_def less_Suc_eq eval_nat_numeral) auto

lemma heldAt_telemetry: "k < 4 \<Longrightarrow> acts es = [] \<Longrightarrow> heldAt k es = 0"
proof (induction es)
  case (Cons e es)
  then have "telemetry e" "acts es = []" by (auto simp: acts_def split: if_splits)
  then have "held [e] = [0, 0, 0, 0]" by (cases e) (simp_all add: held_def)
  then have "heldAt k [e] = 0" using Cons.prems by (auto simp: heldAt_def less_Suc_eq eval_nat_numeral)
  then show ?case using Cons \<open>acts es = []\<close> heldAt_append [of k "[e]" es] by simp
qed simp

text \<open>
  What holds of the managers the driver builds: every pair and the window are laid out in complete
  regions, their indices inside the rings, and each slot serves its own engines.
\<close>

definition goodPair :: "u32 \<times> u32 \<Rightarrow> CECopyPair \<Rightarrow> bool" where
  "goodPair e p \<longleftrightarrow> pairUp p \<and> (fSrcCe p, fDstCe p) = e \<and> fullRegion (region p)"

definition goodDiag :: "CEDiag \<Rightarrow> bool" where
  "goodDiag g \<longleftrightarrow> diagUp g \<and> fullRegion (dRegion g)"

definition sound :: "CEManager \<Rightarrow> bool" where
  "sound m \<longleftrightarrow> pred_option goodDiag (fDiag m) \<and> pred_option (goodPair (0, 1)) (fCtrl m) \<and>
     pred_option (goodPair (3, 2)) (fWmi m)"

definition soundCe :: "CEManager option \<Rightarrow> bool" where
  "soundCe = pred_option sound"

abbreviation soundDrv :: "driver \<Rightarrow> bool" where
  "soundDrv d \<equiv> soundCe (fCe d)"

lemma soundCe_simps [simp]: "soundCe None" "soundCe (Some m) = sound m"
  by (simp_all add: soundCe_def)

lemma full_regionOk [simp]: "fullRegion rg \<Longrightarrow> regionOk rg"
  by (simp add: regionOk_def fullRegion_def)

lemma sound_wired: "sound m \<Longrightarrow> wired m"
  by (auto simp: sound_def goodPair_def wired_def ceIds_def)

lemma soundD:
  "sound m \<Longrightarrow> fDiag m = Some g \<Longrightarrow> regionOk (dRegion g)"
  "sound m \<Longrightarrow> fCtrl m = Some p \<Longrightarrow> regionOk (region p)"
  "sound m \<Longrightarrow> fWmi m = Some p \<Longrightarrow> regionOk (region p)"
  by (auto simp: sound_def goodPair_def goodDiag_def)

lemma uminus_nth: "k < 4 \<Longrightarrow> map uminus (holds rg) ! k = - (holds rg ! k)"
  by (rule nth_map) (simp add: holds_def)

lemma full_loan: "fullRegion rg \<Longrightarrow> k < 4 \<Longrightarrow> holds rg ! k = 1"
  by (auto simp: fullRegion_def holds_def less_Suc_eq eval_nat_numeral)

lemma unheld_loan: "unheld rg \<Longrightarrow> k < 4 \<Longrightarrow> holds rg ! k = 0"
  by (auto simp: unheld_def holds_def less_Suc_eq eval_nat_numeral)

lemma held_writes: "heldAt k (WrReg a v # es) = heldAt k es"
  by (simp add: heldAt_def held_def)

lemma does_diagTeardown:
  "does (diagTeardown H g) (\<lambda>_ es. \<forall>k < 4. heldAt k es = heldAt k (releaseEvs (dRegion g)))"
  unfolding diagTeardown_def diagFreeRegion_def
  by (intro does_intros does_mono [OF does_release]) (auto simp: held_writes)

lemma release_loan: "regionOk rg \<Longrightarrow> k < 4 \<Longrightarrow> heldAt k (releaseEvs rg) = - (holds rg ! k)"
  by (simp add: heldAt_def held_releaseEvs uminus_nth)

lemma teardown_loan: "regionOk (region p) \<Longrightarrow> k < 4 \<Longrightarrow> heldAt k (teardownEvs p) = - (holds (region p) ! k)"
  by (simp add: heldAt_def held_teardownEvs uminus_nth)

lemma does_ceDestroy:
  assumes "sound m"
  shows "does (ceDestroy H m) (\<lambda>_ es. (\<forall>e \<in> set es. ceEv e) \<and> (\<forall>k < 4. heldAt k es = - ceLoan k m))"
proof (rule does_conj)
  show "does (ceDestroy H m) (\<lambda>_ es. \<forall>e \<in> set es. ceEv e)"
    by (rule ceDestroy_ce) (rule sound_wired [OF assms])
  show "does (ceDestroy H m) (\<lambda>_ es. \<forall>k < 4. heldAt k es = - ceLoan k m)"
    unfolding ceDestroy_def
    by (intro does_intros does_mono [OF does_diagTeardown] does_mono [OF does_teardown])
       (use assms in \<open>auto simp: soundD ceLoan_def heldAt_append release_loan teardown_loan\<close>)
qed

lemma does_newPair:
  assumes "(src, dst) \<in> {(0, 1), (3, 2)}"
  shows "does (newPair H b src dst) (\<lambda>(ok, p) es. if ok then (\<exists>q. p = Some q \<and> goodPair (src, dst) q \<and>
      (\<forall>k < 4. heldAt k es = 1))
    else p = None \<and> ((\<forall>k < 4. heldAt k es = 0) \<or> (\<forall>k < 4. heldAt k es = 1)))"
proof -
  have n: "held [] ! k = 0" if "k < 4" for k
    using heldAt_nil [OF that] by (simp add: heldAt_def)
  show ?thesis
    unfolding newPair_def
    by (intro does_intros does_mono [OF does_init [OF new_unheld]])
       (use assms in \<open>auto simp: goodPair_def pairUp_def freshRings_def newCopyPair_def full_loan unheld_loan
heldAt_def n\<close>)
qed

text \<open>
  \<open>ensureCE\<close> keeps books, but for two leaks: \<open>init\<close> overwrites the control pair it finds, and a
  pair whose engine does not answer is dropped with its region.
\<close>

definition books :: "driver \<Rightarrow> bool \<Rightarrow> driver \<Rightarrow> event list \<Rightarrow> bool" where
  "books d ok d' es \<longleftrightarrow> soundDrv d' \<and> (ok \<longleftrightarrow> fCe d' \<noteq> None) \<and> (\<exists>x \<in> {0, 1, 2}. (ok \<and> fCe d = None \<longrightarrow> x = 0) \<and>
     (ok \<or> fCe d = None \<longrightarrow> x \<le> 1) \<and> (\<forall>k < 4. drvLoan k d + heldAt k es = drvLoan k d' + ctrlLoan k d + x))"

definition initBooks :: "CEManager \<Rightarrow> bool \<Rightarrow> CEManager \<Rightarrow> event list \<Rightarrow> bool" where
  "initBooks m ok m' es \<longleftrightarrow> sound m' \<and> fDiag m' = fDiag m \<and> fWmi m' = fWmi m \<and> (\<not> ok \<longrightarrow> fCtrl m' = None) \<and>
     (\<exists>x \<in> {0, 1}. (ok \<longrightarrow> x = 0) \<and> (\<forall>k < 4. ceLoan k m + heldAt k es =
       ceLoan k m' + loan k (map_option region (fCtrl m)) + x))"

lemma does_ceInit:
  assumes "sound m"
  shows "does (ceInit H m) (\<lambda>(ok, m') es. initBooks m ok m' es)"
proof -
  have step: "initBooks m ok (m\<lparr>fCtrl := p\<rparr>) es"
    if p: "if ok then (\<exists>q. p = Some q \<and> goodPair (0, 1) q \<and> (\<forall>k < 4. heldAt k es = 1))
      else p = None \<and> ((\<forall>k < 4. heldAt k es = 0) \<or> (\<forall>k < 4. heldAt k es = 1))" for ok p es
  proof -
    have "sound (m\<lparr>fCtrl := p\<rparr>)"
      using assms p by (auto simp: sound_def split: if_splits)
    with p show ?thesis
      unfolding initBooks_def by (cases ok) (auto simp: ceLoan_def full_loan goodPair_def)
  qed
  show ?thesis
    unfolding ceInit_def
    by (intro does_intros does_mono [OF does_newPair]) (auto intro: step simp del: if_split)
qed

definition emptyCe :: "bool \<Rightarrow> CEManager" where
  "emptyCe bar0 = \<lparr>mBar0 = bar0, fCtrl = None, fWmi = None, fDiag = None\<rparr>"

lemma emptyCe [simp]: "sound (emptyCe b)" "ceLoan k (emptyCe b) = 0" "fCtrl (emptyCe b) = None"
  by (simp_all add: sound_def ceLoan_def emptyCe_def)

definition freshBooks :: "bool \<Rightarrow> driver \<Rightarrow> event list \<Rightarrow> bool" where
  "freshBooks ok d es \<longleftrightarrow> soundDrv d \<and> (ok \<longleftrightarrow> fCe d \<noteq> None) \<and>
     (\<exists>x \<in> {0, 1}. (ok \<longrightarrow> x = 0) \<and> (\<forall>k < 4. heldAt k es = drvLoan k d + x))"

lemma freshBooks_kept:
  "initBooks (emptyCe b) True m es \<Longrightarrow> freshBooks True (d\<lparr>fCe := Some m\<rparr>) es"
  by (simp add: initBooks_def freshBooks_def drvLoan_def)

lemma freshBooks_dropped:
  "initBooks (emptyCe b) False m es \<Longrightarrow> \<forall>k < 4. heldAt k fs = - ceLoan k m \<Longrightarrow>
     freshBooks False (d\<lparr>fCe := None\<rparr>) (es @ fs)"
  by (auto simp: initBooks_def freshBooks_def drvLoan_def heldAt_append)

lemma freshBooks_none: "freshBooks False (d\<lparr>fCe := None\<rparr>) []"
  by (simp add: freshBooks_def drvLoan_def)

text \<open>The second half of \<open>ensureCE\<close>: a new manager.\<close>

lemma does_rebuild:
  "does (do {
       c \<leftarrow> ceCreate H b;
       let d = d\<lparr>fCe := c\<rparr>;
       case c of None \<Rightarrow> ret (False, d)
       | Some ce \<Rightarrow> do {
           (ok, ce) \<leftarrow> ceInit H ce;
           let d = d\<lparr>fCe := Some ce\<rparr>;
           if \<not> ok then do { ceDestroy H ce; ret (False, d\<lparr>fCe := None\<rparr>) }
           else ret (True, d) } })
     (\<lambda>(ok, d') es. freshBooks ok d' es)"
  unfolding ceCreate_def emptyCe_def [symmetric]
  apply (intro does_intros does_mono [OF does_ceInit] does_mono [OF does_ceDestroy])
      apply (auto simp: freshBooks_none intro: freshBooks_kept freshBooks_dropped)
   apply (auto simp: initBooks_def)
  done

lemma books_rebuilt:
  assumes "fCe d = Some m" and "initBooks m False m' es" and "\<forall>k < 4. heldAt k fs = - ceLoan k m'"
    and "freshBooks ok d' gs"
  shows "books d ok d' (es @ fs @ gs)"
  using assms by (auto simp: books_def initBooks_def freshBooks_def heldAt_append drvLoan_def ctrlLoan_def)

lemma books_fresh: "fCe d = None \<Longrightarrow> freshBooks ok d' es \<Longrightarrow> books d ok d' es"
  by (auto simp: books_def freshBooks_def drvLoan_def ctrlLoan_def)

lemma books_reused:
  "fCe d = Some m \<Longrightarrow> initBooks m True m' es \<Longrightarrow> books d True (d\<lparr>fCe := Some m'\<rparr>) es"
  by (auto simp: books_def initBooks_def drvLoan_def ctrlLoan_def)

lemma does_ensureCE_books:
  assumes "soundDrv d"
  shows "does (ensureCE H d) (\<lambda>(ok, d') es. books d ok d' es)"
proof (cases "fCe d")
  case None
  then show ?thesis
    using does_mono [OF does_rebuild [of H "drvBar0 d" d]] 
    unfolding ensureCE_def withCe_def by (auto simp: None books_fresh split_beta)
next
  case (Some m)
  then have m: "sound m" using assms Some by simp
  show ?thesis
    unfolding ensureCE_def withCe_def Some
    apply (simp add: Some)
    apply (rule does_bindP [OF does_ceInit [OF m]])
    apply (clarsimp simp: Some split del: if_split)
    apply (rule does_if, simp add: does_ret books_reused Some)
    apply (rule does_bind, simp, rule does_bindP [OF does_ceDestroy], simp add: initBooks_def)
    apply (rule does_ret, simp, rule does_mono [OF does_rebuild])
    apply (auto intro: books_rebuilt [OF Some])
    done
qed

text \<open>
  C22: \<open>ensureCE\<close> accounts for every IOKit object except those it loses: the driver's loans before,
  plus what the call acquires and releases, equal its loans after plus the whole control pair the
  driver had before, which \<open>init\<close> overwrites, plus at most two regions of pairs whose engines did
  not answer: one when the call succeeds or the driver had no manager, none when both hold.  It
  succeeds exactly when a manager is left.
\<close>

theorem ensure_ce_books:
  assumes "soundDrv d"
  shows "does (ensureCE H d) (\<lambda>(ok, d') es. soundDrv d' \<and> (ok \<longleftrightarrow> fCe d' \<noteq> None) \<and>
    (\<exists>x \<in> {0, 1, 2}. (ok \<and> fCe d = None \<longrightarrow> x = 0) \<and> (ok \<or> fCe d = None \<longrightarrow> x \<le> 1) \<and>
      (\<forall>k < 4. drvLoan k d + heldAt k es = drvLoan k d' + ctrlLoan k d + x)))"
  using does_ensureCE_books [OF assms, of H] unfolding books_def .

lemma sampleCe_sound [simp]: "sound (sampleCe\<lparr>fDiag := Some sampleDiag\<rparr>)"
  by (simp add: sound_def goodPair_def goodDiag_def sampleCe_def)
     (simp add: fullRegion_def samplePair_def fullRg_def sampleDiag_def)

lemma sampleDrv_sound [simp]: "soundDrv sampleDrv"
  by simp

theorem ensure_ce_books_witness:
  "does (ensureCE sampleHw sampleDrv) (\<lambda>(ok, d') es. drvLoan 0 d' < drvLoan 0 sampleDrv + heldAt 0 es)"
proof -
  have "ctrlLoan 0 sampleDrv = 1"
    by (simp add: ctrlLoan_def sampleCe_def samplePair_def fullRg_def holds_def)
  then show ?thesis
    by - (rule does_mono [OF ensure_ce_books [OF sampleDrv_sound]], auto dest: spec [of _ 0])
qed

section \<open>Shutdown\<close>

lemma acts_ce: "\<forall>e \<in> set es. ceEv e \<Longrightarrow> acts es = es"
proof -
  have "\<not> telemetry e" if "ceEv e" for e using that by (cases e) auto
  then show "\<forall>e \<in> set es. ceEv e \<Longrightarrow> acts es = es" by (auto simp: acts_def filter_id_conv)
qed

lemma does_teardownHardware:
  assumes "soundDrv d"
  shows "does (teardownHardware H d) (\<lambda>d' es. (\<forall>e \<in> set es. ceEv e) \<and> (\<forall>k < 4. heldAt k es = - drvLoan k d) \<and>
    d' = d\<lparr>drvWmi := None, fHtc := None, fBmi := None, fCe := None\<rparr>)"
  unfolding teardownHardware_def
  by (intro does_intros does_mono [OF does_ceDestroy]) (use assms in \<open>auto simp: drvLoan_def\<close>)

definition stopEvs :: "driver \<Rightarrow> event list" where
  "stopEvs d = (if fNvram d then [NvRelease] else []) @
     (if fPci d then [BusMaster False, MemEnable False] @
        (if fAspmCapOff d \<noteq> 0 \<and> fAspmCtl d AND 3 \<noteq> 0
         then [CfgWr16 (unat (fAspmCapOff d) + 0x10) (fAspmCtl d)] else []) @ [Sync] else []) @
     [Super ''stop'']"

lemma does_shutdown:
  "does (do {
     d \<leftarrow> (if fNvram d then do { emit NvRelease; ret (d\<lparr>fNvram := False\<rparr>) } else ret d);
     (if fPci d then do {
        emit (BusMaster False);
        emit (MemEnable False);
        (if fAspmCapOff d \<noteq> 0 \<and> fAspmCtl d AND 3 \<noteq> 0
         then configWrite16 H (unat (fAspmCapOff d) + 0x10) (fAspmCtl d) else ret ());
        emit Sync } else ret ());
     emit (Super ''stop'');
     ret d }) (\<lambda>d' es. es = stopEvs d \<and> d' = d\<lparr>fNvram := False\<rparr>)"
  unfolding configWrite16_def by (intro does_intros) (auto simp: stopEvs_def)

lemma stopEvs_held: "k < 4 \<Longrightarrow> heldAt k (stopEvs d) = 0"
proof -
  have "held (stopEvs d) = [0, 0, 0, 0]" by (simp add: held_def stopEvs_def)
  then show "k < 4 \<Longrightarrow> heldAt k (stopEvs d) = 0" by (auto simp: heldAt_def less_Suc_eq eval_nat_numeral)
qed

lemma acts_stopEvs [simp]: "acts (stopEvs d) = stopEvs d"
  by (simp add: stopEvs_def)

lemma stopEvs_cong [simp]:
  "stopEvs (d\<lparr>fTail := t\<rparr>) = stopEvs d" "stopEvs (d\<lparr>drvWmi := w\<rparr>) = stopEvs d"
  "stopEvs (d\<lparr>fHtc := h\<rparr>) = stopEvs d" "stopEvs (d\<lparr>fBmi := b\<rparr>) = stopEvs d" "stopEvs (d\<lparr>fCe := c\<rparr>) = stopEvs d"
  by (simp_all add: stopEvs_def)

lemma does_stop:
  assumes "soundDrv d"
  shows "does (stop H d) (\<lambda>d' es. fCe d' = None \<and> fBmi d' = None \<and> fHtc d' = None \<and> drvWmi d' = None \<and>
    \<not> fNvram d' \<and> (\<forall>k < 4. heldAt k es = - drvLoan k d) \<and>
    (\<exists>tear. (\<forall>e \<in> set tear. ceEv e) \<and> acts es = tear @ stopEvs d))"
  unfolding stop_def
  apply (rule does_bindP [OF does_qlog], clarsimp split del: if_split)
  apply (rule does_bindP [OF does_teardownHardware])
  using assms apply simp
  apply (rule does_mono [OF does_shutdown])
  apply (auto simp: heldAt_append heldAt_telemetry stopEvs_held acts_ce drvLoan_def intro!: exI)
  done

text \<open>
  C16: Shutdown hands back everything: each descriptor, preparation, DMA command and attachment
  the driver has on loan is released exactly once, all objects of the upper layers are gone, and
  after the rings are torn down it releases NVRAM, disables bus mastering and memory decoding,
  restores link power management if it was changed, fences, and calls the superclass last.
\<close>

theorem stop_hands_back:
  assumes "soundDrv d"
  shows "does (stop H d) (\<lambda>d' es. fCe d' = None \<and> fBmi d' = None \<and> fHtc d' = None \<and> drvWmi d' = None \<and>
    \<not> fNvram d' \<and> (\<forall>k < 4. heldAt k es = - drvLoan k d) \<and>
    (\<exists>tear. (\<forall>e \<in> set tear. ceEv e) \<and> acts es = tear @
      (if fNvram d then [NvRelease] else []) @
      (if fPci d then [BusMaster False, MemEnable False] @
        (if fAspmCapOff d \<noteq> 0 \<and> fAspmCtl d AND 3 \<noteq> 0
         then [CfgWr16 (unat (fAspmCapOff d) + 0x10) (fAspmCtl d)] else []) @ [Sync] else []) @
      [Super ''stop'']))"
  using does_stop [OF assms, of H] unfolding stopEvs_def .

definition samplePci :: "chip pci_hw" where
  "samplePci = hw.extend sampleHw \<lparr>cfg8 = (\<lambda>off d. (if off = 0x34 then 0x70 else 0x10, d)),
     cfg16 = (\<lambda>off d. (if off = 0x80 then 0x42 else 0x10, d)), cfgW16 = (\<lambda>off v d. ((), d)),
     ioSuperInit = (\<lambda>d. (True, d)), ioSuperStart = (\<lambda>d. (True, d)), ioBootArg = (\<lambda>d. (None, d)),
     ioPciCast = (\<lambda>d. (True, d)), ioBar0Mem = (\<lambda>d. (Some (0xf0000000, 0x200000), d)),
     ioMap = (\<lambda>d. (Some True, d)), ioNvram = (\<lambda>d. (True, d))\<rparr>"

theorem stop_hands_back_witness:
  "does (stop samplePci sampleDrv) (\<lambda>d' es. heldAt 0 es = - 3 \<and> last (acts es) = Super ''stop'')"
proof -
  have "drvLoan 0 sampleDrv = 3"
    by (simp add: drvLoan_def ceLoan_def sampleCe_def samplePair_def fullRg_def holds_def sampleDiag_def)
  then show ?thesis
    by - (rule does_mono [OF stop_hands_back [OF sampleDrv_sound]], auto)
qed

section \<open>Link power management\<close>

fun cfgWrite :: "event \<Rightarrow> (nat \<times> u16) option" where
  "cfgWrite (CfgWr16 off v) = Some (off, v)"
| "cfgWrite _ = None"

fun cfgRead :: "event \<Rightarrow> bool" where
  "cfgRead (CfgRd8 off v) = True"
| "cfgRead (CfgRd16 off v) = True"
| "cfgRead _ = False"

definition cfgWrites :: "event list \<Rightarrow> (nat \<times> u16) list" where
  "cfgWrites es = List.map_filter cfgWrite es"

definition cfgReads :: "event list \<Rightarrow> nat" where
  "cfgReads es = length (filter cfgRead es)"

lemma cfg_simps [simp]:
  "cfgWrites [] = []" "cfgWrites (xs @ ys) = cfgWrites xs @ cfgWrites ys"
  "cfgWrites (e # es) = (case cfgWrite e of None \<Rightarrow> cfgWrites es | Some w \<Rightarrow> w # cfgWrites es)"
  "cfgReads [] = 0" "cfgReads (xs @ ys) = cfgReads xs + cfgReads ys"
  "cfgReads (e # es) = (if cfgRead e then 1 else 0) + cfgReads es"
  by (simp_all add: cfgWrites_def cfgReads_def List.map_filter_def split: option.split)

lemma cfg_acts: "cfgWrites (acts es) = cfgWrites es" "cfgReads (acts es) = cfgReads es"
proof (induction es)
  case (Cons e es)
  { case 1 show ?case using Cons by (cases e) (simp_all add: acts_def) }
  { case 2 show ?case using Cons by (cases e) (simp_all add: acts_def) }
qed simp_all

lemma cfg_ce: "\<forall>e \<in> set es. ceEv e \<Longrightarrow> cfgWrites es = [] \<and> cfgReads es = 0"
proof (induction es)
  case (Cons e es)
  then show ?case by (cases e) auto
qed simp

lemma cfg_telemetry: "acts es = [] \<Longrightarrow> cfgWrites es = [] \<and> cfgReads es = 0"
  using cfg_acts [of es] by simp

text \<open>The link control found (\<open>off\<close>, \<open>v\<close>), what was written to it, and what the driver keeps.\<close>

definition linkLog :: "nat \<Rightarrow> driver \<Rightarrow> driver \<Rightarrow> event list \<Rightarrow> bool" where
  "linkLog n d d' es \<longleftrightarrow> cfgReads es \<le> n \<and> (\<exists>c v t. d' = d\<lparr>fAspmCapOff := c, fAspmCtl := v, fTail := t\<rparr> \<and>
     (cfgWrites es = [] \<and> (v AND 3 = 0 \<or> c = fAspmCapOff d \<and> v = fAspmCtl d) \<or>
      c \<noteq> 0 \<and> v AND 3 \<noteq> 0 \<and> CfgRd16 (unat c + 0x10) v \<in> set es \<and> cfgWrites es = [(unat c + 0x10, v AND NOT 3)]))"

lemma linkLog_idle: "linkLog n d d []"
  unfolding linkLog_def
  by (intro conjI exI [of _ "fAspmCapOff d"] exI [of _ "fAspmCtl d"] exI [of _ "fTail d"]) simp_all

lemma linkLog_more:
  "linkLog n d d' es \<Longrightarrow> cfgWrites xs = [] \<Longrightarrow> cfgReads xs + n \<le> m \<Longrightarrow> linkLog m d d' (xs @ es)"
  unfolding linkLog_def by (simp, elim conjE exE) (intro exI conjI, assumption, auto)

lemma linkLog_off:
  assumes "c \<noteq> 0" and "v AND 3 \<noteq> 0" and "acts qs = []"
  shows "linkLog (Suc (Suc n)) d (d\<lparr>fAspmCapOff := c, fAspmCtl := v, fTail := t\<rparr>)
    (CfgRd8 (unat c) i # CfgRd16 (unat c + 16) v # CfgWr16 (unat c + 16) (v AND NOT 3) # qs)"
  unfolding linkLog_def
  by (intro conjI exI [of _ c] exI [of _ v] exI [of _ t]) (use assms cfg_telemetry in auto)

lemma linkLog_already:
  assumes "v AND 3 = 0"
  shows "linkLog (Suc (Suc n)) d (d\<lparr>fAspmCapOff := c, fAspmCtl := v\<rparr>) [CfgRd8 (unat c) i, CfgRd16 (unat c + 16) v]"
  unfolding linkLog_def
  by (intro conjI exI [of _ c] exI [of _ v] exI [of _ "fTail d"]) (use assms in auto)

lemma linkLog_next:
  "linkLog n d d' es \<Longrightarrow> linkLog (Suc (Suc n)) d d' (CfgRd8 a r # CfgRd8 b s # es)"
  using linkLog_more [of n d d' es "[CfgRd8 a r, CfgRd8 b s]"] by simp

lemma does_aspmWalk: "does (aspmWalk H d c n) (linkLog (2 * n) d)"
proof (induction n arbitrary: c)
  case 0
  then show ?case by (simp add: does_ret linkLog_idle)
next
  case (Suc n)
  note off = linkLog_off [simplified]
  show ?case
    unfolding aspmWalk.simps configRead8_def configRead16_def configWrite16_def
    by (intro does_intros does_mono [OF does_qlog] does_mono [OF Suc.IH])
       (auto simp: linkLog_idle linkLog_already linkLog_next off)
qed

lemma does_aspmOff: "does (aspmOff H d) (linkLog 98 d)"
  unfolding aspmOff_def configRead8_def configRead16_def
  by (intro does_intros does_mono [OF does_aspmWalk])
     (auto simp: linkLog_idle intro: linkLog_more [of 96 d _ _ "[_, _]", simplified]
       linkLog_more [of 96 d d "[]" "[_]", simplified])

lemma cfg_stopEvs:
  "cfgReads (stopEvs d) = 0"
  "cfgWrites (stopEvs d) = (if fPci d \<and> fAspmCapOff d \<noteq> 0 \<and> fAspmCtl d AND 3 \<noteq> 0
     then [(unat (fAspmCapOff d) + 0x10, fAspmCtl d)] else [])"
  by (simp_all add: stopEvs_def)


lemma sampleDrv_link [simp]: "fAspmCapOff sampleDrv = 0"
  by (simp add: sampleDrv_def newDriver_def)


end
