(* ===== verification/StartUp.thy ===== *)
theory StartUp
  imports DriverLife
begin

text \<open>
  The outcome of \<open>start\<close> (\<open>skeleton/QCA9377Driver.cpp\<close>): which stages run under the cap of the boot
  argument, and what the driver is left with.  Only the results of the routines matter here, so
  that the judgement \<open>gives\<close> forgets the log.
\<close>

section \<open>What a routine returns\<close>

definition gives :: "('d, 'a) io \<Rightarrow> ('a \<Rightarrow> bool) \<Rightarrow> bool" where
  "gives m P \<longleftrightarrow> (\<forall>s. P (fst (run_state m s)))"

lemma gives_bind: "gives m (\<lambda>r. gives (f r) P) \<Longrightarrow> gives (State_Monad.bind m f) P"
  by (simp add: gives_def split_beta)

lemma gives_mono: "gives m P \<Longrightarrow> (\<And>r. P r \<Longrightarrow> Q r) \<Longrightarrow> gives m Q"
  by (simp add: gives_def)

lemma does_gives: "does m (\<lambda>r es. P r) \<Longrightarrow> gives m P"
  unfolding does_def gives_def wp_def by (auto simp: split_beta)

lemma gives_unit: "P () \<Longrightarrow> gives (m :: ('d, unit) io) P"
  by (simp add: gives_def)

lemma gives_value: "(\<And>v. P v) \<Longrightarrow> gives (m :: ('d, u32) io) P"
  by (simp add: gives_def)

lemma gives_flag: "(\<And>b. Q b) \<Longrightarrow> gives (m :: ('d, bool) io) Q"
  by (simp add: gives_def)

lemma gives_ce: "(\<And>r c. P (r, c)) \<Longrightarrow> gives (m :: ('d, 'r \<times> CEManager) io) P"
  by (simp add: gives_def) (metis surj_pair)

lemma gives_newCe: "(\<And>c. P c) \<Longrightarrow> gives (m :: ('d, CEManager option) io) P"
  by (simp add: gives_def)

lemma gives_basic:
  "P x \<Longrightarrow> gives (ret x) P"
  "(b \<Longrightarrow> gives m P) \<Longrightarrow> (\<not> b \<Longrightarrow> gives n P) \<Longrightarrow> gives (if b then m else n) P"
  "(\<And>a b. z = (a, b) \<Longrightarrow> gives (g a b) P) \<Longrightarrow> gives (case z of (a, b) \<Rightarrow> g a b) P"
  "(w = None \<Longrightarrow> gives m P) \<Longrightarrow> (\<And>a. w = Some a \<Longrightarrow> gives (h a) P) \<Longrightarrow>
     gives (case w of None \<Rightarrow> m | Some a \<Rightarrow> h a) P"
  "gives (f y) P \<Longrightarrow> gives (let x = y in f x) P"
  by (auto simp: gives_def split: option.split prod.split)

lemma gives_qlog: "(\<And>t. P (d\<lparr>fTail := t\<rparr>)) \<Longrightarrow> gives (qlog d s) P"
  by (rule does_gives, rule does_mono [OF does_qlog]) auto

text \<open>The calls on the layers below change their objects only.\<close>

lemma gives_withCe:
  assumes "\<And>r ce. P (r, d\<lparr>fCe := ce\<rparr>)"
  shows "gives (withCe f x d) P"
proof -
  have "P (x, d)" using assms [of x "fCe d"] by simp
  then show ?thesis
    using assms unfolding withCe_def by (simp add: gives_def split_beta split: option.split)
qed

lemma gives_withBmi:
  assumes "\<And>r ce b. P (r, d\<lparr>fCe := ce, fBmi := b\<rparr>)"
  shows "gives (withBmi f x d) P"
proof -
  have "P (x, d)" using assms [where r = x and ce = "fCe d" and b = "fBmi d"] by simp
  then show ?thesis
    using assms unfolding withBmi_def by (simp add: gives_def split_beta split: option.split)
qed

lemma gives_withHtc:
  assumes "\<And>r ce h. P (r, d\<lparr>fCe := ce, fHtc := h\<rparr>)"
  shows "gives (withHtc f x d) P"
proof -
  have "P (x, d)" using assms [where r = x and ce = "fCe d" and h = "fHtc d"] by simp
  then show ?thesis
    using assms unfolding withHtc_def by (simp add: gives_def split_beta split: option.split)
qed

lemma gives_teardownHardware:
  "(P (d\<lparr>drvWmi := None, fHtc := None, fBmi := None, fCe := None\<rparr>)) \<Longrightarrow> gives (teardownHardware H d) P"
  unfolding teardownHardware_def by (intro gives_bind gives_basic gives_unit) simp

lemmas gives_intros = gives_unit gives_value gives_flag gives_ce gives_newCe gives_bind gives_basic gives_qlog
  gives_withCe gives_withBmi gives_withHtc gives_teardownHardware

section \<open>What the reset and the configuration keep\<close>

text \<open>
  Up to the BMI probe the routines change only the manager and the log tail of the driver.  A view
  is any part of the object that depends on neither; it is the same behind every routine of the
  chip reset and of the target configuration.
\<close>

locale driver_view =
  fixes view :: "driver \<Rightarrow> 'v"
  assumes view_ce [simp]: "view (d\<lparr>fCe := c\<rparr>) = view d"
    and view_tail [simp]: "view (d\<lparr>fTail := t\<rparr>) = view d"
begin

lemma kept_ensureCE: "view d = c \<Longrightarrow> gives (ensureCE H d) (\<lambda>(r, d'). view d' = c)"
  unfolding ensureCE_def
  by (intro gives_intros) auto

lemma kept_targetInitLoop:
  "gives (targetInitLoop H d e n l) (\<lambda>((ok, v), d'). view d' = view d)"
proof (induction H d e n l rule: targetInitLoop.induct)
  case (1 H d e n l)
  note IH = 1
  show ?case
  proof (cases "e < kTargetInitTimeout_ms")
    case True
    have nx: "gives (m :: (_, nat) io) P" if "\<And>k. P k" for m P using that by (simp add: gives_def)
    show ?thesis
      unfolding targetInitLoop.simps [of H d e] 
      by (intro gives_unit gives_value gives_bind gives_basic gives_qlog nx gives_mono [OF IH])
         (use True in auto)
  next
    case False
    then show ?thesis by (simp add: targetInitLoop.simps gives_basic)
  qed
qed

lemma kept_waitForTargetInit:
  "view d = c \<Longrightarrow> gives (waitForTargetInit H d) (\<lambda>(r, d'). view d' = c)"
  unfolding waitForTargetInit_def
  by (rule gives_bind, rule gives_mono [OF kept_targetInitLoop]) (auto intro!: gives_intros)

lemma kept_coldReset: "view d = c \<Longrightarrow> gives (coldReset H d) (\<lambda>(r, d'). view d' = c)"
  unfolding coldReset_def by (intro gives_intros) auto

lemma kept_warmReset: "view d = c \<Longrightarrow> gives (warmReset H d) (\<lambda>(r, d'). view d' = c)"
  unfolding warmReset_def
  by (intro gives_intros gives_mono [OF kept_ensureCE] gives_mono [OF kept_waitForTargetInit]) auto

lemma kept_resetChip: "view d = c \<Longrightarrow> gives (resetChip H d) (\<lambda>(r, d'). view d' = c)"
  unfolding resetChip_def
  by (intro gives_intros gives_mono [OF kept_coldReset] gives_mono [OF kept_waitForTargetInit]
      gives_mono [OF kept_warmReset]) auto

lemma kept_initConfig: "view d = c \<Longrightarrow> gives (initConfig H d) (\<lambda>(r, d'). view d' = c)"
  unfolding initConfig_def by (intro gives_intros) auto

lemma kept_logHi: "view d = c \<Longrightarrow> gives (logHi d b w n) (\<lambda>d'. view d' = c)"
  by (induction n arbitrary: d w) (auto intro!: gives_intros)

lemma kept_wakeTargetCpu: "view d = c \<Longrightarrow> gives (wakeTargetCpu H d) (\<lambda>d'. view d' = c)"
  unfolding wakeTargetCpu_def by (intro gives_intros) auto

end

section \<open>No routine changes the cap or the mapping\<close>

abbreviation frame :: "driver \<Rightarrow> u32 \<times> bool \<times> bool \<times> bool" where
  "frame d \<equiv> (fMaxStage d, drvBar0 d, fBar0Mem d, fPci d)"

abbreviation capped :: "u32 \<times> bool \<times> bool \<times> bool \<Rightarrow> 'a \<times> driver \<Rightarrow> bool" where
  "capped c \<equiv> (\<lambda>(r, d). frame d = c)"

text \<open>The cap and the mapping are such a view, and so is the BMI object.\<close>

interpretation frameView: driver_view "\<lambda>d. frame d"
  by unfold_locales simp_all

interpretation bmiView: driver_view fBmi
  by unfold_locales simp_all

lemma gives_giveUp: "frame d = c \<Longrightarrow> gives (giveUp H d s u) (capped c)"
  unfolding giveUp_def by (intro gives_intros) auto

lemma gives_probeBmi: "frame d = c \<Longrightarrow> gives (probeBmi H d) (capped c)"
  unfolding probeBmi_def
  by (intro gives_intros gives_mono [OF frameView.kept_ensureCE] gives_mono [OF frameView.kept_initConfig]
      gives_mono [OF frameView.kept_logHi] gives_mono [OF frameView.kept_wakeTargetCpu] gives_mono [OF gives_giveUp]) auto

lemma gives_bootFirmware: "frame d = c \<Longrightarrow> gives (bootFirmware H fw d) (capped c)"
  unfolding bootFirmware_def
  by (intro gives_intros gives_mono [OF gives_giveUp]) auto

lemma gives_startHtcWmi: "frame d = c \<Longrightarrow> gives (startHtcWmi H fuel d) (capped c)"
  unfolding startHtcWmi_def Let_def
  by (intro gives_intros gives_mono [OF gives_giveUp]) auto

section \<open>The cap decides\<close>

lemma bind_cong_gives:
  "gives m P \<Longrightarrow> (\<And>r. P r \<Longrightarrow> f r = g r) \<Longrightarrow> State_Monad.bind m f = State_Monad.bind m g"
  by (rule state.expand) (auto simp: gives_def fun_eq_iff split_beta)

lemma stages_low:
  assumes "fMaxStage d < 3"
  shows "stages H fw fuel d = stages H fw' fuel' d"
proof -
  have low: "fMaxStage d < 4" using order_less_trans [OF assms, of 4] by simp
  show ?thesis
    unfolding stages_def
  proof (rule bind_cong_gives [OF frameView.kept_resetChip], rule refl, clarsimp split del: if_split, goal_cases)
    case (1 ok d1)
    then have d1: "frame d1 = frame d" by simp
    show ?case
      apply (rule bind_cong_gives [where P = "\<lambda>d2. frame d2 = frame d"])
      subgoal
        by (intro gives_intros gives_mono [OF gives_probeBmi [OF d1]]) (auto simp: d1)
      apply (simp only: prod.inject assms if_True)
      apply (rule bind_cong_gives [where P = "\<lambda>(m3, d3). frame d3 = frame d"])
      subgoal by (intro gives_intros) auto
      by (clarsimp simp only: prod.inject low if_True split: prod.split)
  qed
qed

lemma gives_stages:
  "gives (stages H fw fuel d) (\<lambda>(r, d'). frame d' = frame d \<and> (case r of None \<Rightarrow> 4 \<le> fMaxStage d
   | Some (m3, m4) \<Rightarrow> (m3 \<longrightarrow> 3 \<le> fMaxStage d) \<and> (m4 \<longrightarrow> m3 \<and> 4 \<le> fMaxStage d)))"
  unfolding stages_def
  apply (rule gives_bind, rule gives_mono [OF frameView.kept_resetChip [OF refl]], clarsimp split del: if_split)
  apply (rule gives_bind, rule gives_mono [of _ "\<lambda>d2. frame d2 = frame d"])
  subgoal by (intro gives_intros gives_mono [OF gives_probeBmi]) auto
  apply (rule gives_bind, rule gives_mono [of _ "\<lambda>(m3, d3). frame d3 = frame d \<and> (m3 \<longrightarrow> 3 \<le> fMaxStage d)"])
  subgoal by (intro gives_intros gives_mono [OF gives_bootFirmware]) (auto simp: not_less)
  apply (clarsimp split del: if_split)
  apply (intro gives_intros gives_mono [OF gives_startHtcWmi])
  apply (auto simp: not_less split: option.split)
  done

text \<open>
  C20: The boot argument caps the bring-up.  Firmware is booted only under a cap of at least 3, WMI
  started only under a cap of 4 and only after the firmware booted, and only that last stage can
  still be waiting.  Under a cap of 1 or 2 the embedded images are never looked at: the whole run
  is the same for any images.
\<close>

theorem stage_cap:
  assumes "run_state (stages H fw fuel d) s = ((r, d'), t)"
  shows "(case r of None \<Rightarrow> 4 \<le> fMaxStage d
       | Some (m3, m4) \<Rightarrow> (m3 \<longrightarrow> 3 \<le> fMaxStage d) \<and> (m4 \<longrightarrow> m3 \<and> 4 \<le> fMaxStage d)) \<and>
     (fMaxStage d < 3 \<longrightarrow> run_state (stages H fw' fuel' d) s = ((r, d'), t))"
proof (intro conjI impI)
  show "case r of None \<Rightarrow> 4 \<le> fMaxStage d
       | Some (m3, m4) \<Rightarrow> (m3 \<longrightarrow> 3 \<le> fMaxStage d) \<and> (m4 \<longrightarrow> m3 \<and> 4 \<le> fMaxStage d)"
    using gives_stages [of H fw fuel d, unfolded gives_def, rule_format, of s] assms by simp
  show "run_state (stages H fw' fuel' d) s = ((r, d'), t)" if "fMaxStage d < 3"
    using stages_low [OF that, of H fw fuel fw' fuel'] assms by simp
qed

theorem stage_cap_witness:
  "(case run_state (stages sampleHw \<lparr>qca9377_firmware6_bin = [], qca9377_board2_bin = []\<rparr> 5
       (sampleDrv\<lparr>fMaxStage := 2\<rparr>)) sampleWorld of ((r, d'), t) \<Rightarrow> \<exists>m3 m4. r = Some (m3, m4) \<and> \<not> m3 \<and> \<not> m4)"
proof -
  obtain r d' t where r: "run_state (stages sampleHw \<lparr>qca9377_firmware6_bin = [], qca9377_board2_bin = []\<rparr> 5
       (sampleDrv\<lparr>fMaxStage := 2\<rparr>)) sampleWorld = ((r, d'), t)"
    by (metis surj_pair)
  then show ?thesis using conjunct1 [OF stage_cap [OF r]] by (cases r) auto
qed

section \<open>The outcome of start\<close>

text \<open>Like \<open>gives\<close>, with the final state; what happened before the last step is forgotten.\<close>

definition ends :: "('d, 'a) io \<Rightarrow> ('a \<Rightarrow> 'd world \<Rightarrow> bool) \<Rightarrow> bool" where
  "ends m Q \<longleftrightarrow> (\<forall>s. wp m Q s)"

lemma ends_bind: "gives m (\<lambda>r. ends (f r) Q) \<Longrightarrow> ends (State_Monad.bind m f) Q"
  by (simp add: ends_def gives_def wp_def split_beta)

lemma ends_basic:
  "(\<And>s. Q x s) \<Longrightarrow> ends (ret x) Q"
  "(b \<Longrightarrow> ends m Q) \<Longrightarrow> (\<not> b \<Longrightarrow> ends n Q) \<Longrightarrow> ends (if b then m else n) Q"
  "(\<And>a b. z = (a, b) \<Longrightarrow> ends (g a b) Q) \<Longrightarrow> ends (case z of (a, b) \<Rightarrow> g a b) Q"
  "(w = None \<Longrightarrow> ends m Q) \<Longrightarrow> (\<And>a. w = Some a \<Longrightarrow> ends (h a) Q) \<Longrightarrow>
     ends (case w of None \<Rightarrow> m | Some a \<Rightarrow> h a) Q"
  "ends (f y) Q \<Longrightarrow> ends (let x = y in f x) Q"
  by (auto simp: ends_def split: option.split prod.split)

lemma ends_emit: "(\<And>s. last (bus s) = e \<Longrightarrow> Q x s) \<Longrightarrow> ends (do { emit e; ret x }) Q"
  by (simp add: ends_def emit_def)

text \<open>Before the stages no object of a layer below exists.\<close>

abbreviation bare :: "driver \<Rightarrow> bool" where
  "bare d \<equiv> fCe d = None \<and> fBmi d = None \<and> fHtc d = None \<and> drvWmi d = None"

abbreviation early :: "u32 \<times> bool \<times> bool \<times> bool \<Rightarrow> driver \<Rightarrow> bool" where
  "early c d \<equiv> frame d = c \<and> bare d"

lemma gives_byte: "(\<And>v. P v) \<Longrightarrow> gives (m :: ('d, u8) io) P" "(\<And>v. P' v) \<Longrightarrow> gives (m' :: ('d, u16) io) P'"
  by (simp_all add: gives_def)

lemma gives_openNvram: "early c d \<Longrightarrow> gives (openNvram H d) (early c)"
  unfolding openNvram_def by (intro gives_intros) auto

lemma gives_probeRegisters: "early c d \<Longrightarrow> gives (probeRegisters H d) (\<lambda>(ok, d'). early c d')"
  unfolding probeRegisters_def by (intro gives_intros) auto

lemma gives_aspmWalk: "early c d \<Longrightarrow> gives (aspmWalk H d off n) (early c)"
proof (induction n arbitrary: off)
  case (Suc n)
  show ?case
    unfolding aspmWalk.simps by (intro gives_intros gives_byte Suc.IH) (use Suc.prems in auto)
qed (simp add: gives_basic)

lemma gives_aspmOff: "early c d \<Longrightarrow> gives (aspmOff H d) (early c)"
  unfolding aspmOff_def by (intro gives_intros gives_byte gives_aspmWalk) auto

lemma gives_identify: "early c d \<Longrightarrow> gives (identify H d) (early c)"
  unfolding identify_def
  by (intro gives_intros gives_byte gives_mono [OF gives_aspmOff [where c = c]]) auto

lemma gives_probeCe: "frame d = c \<Longrightarrow> gives (probeCe H d ce n) (\<lambda>d'. frame d' = c)"
proof (induction n arbitrary: d ce)
  case (Suc n)
  show ?case
    unfolding probeCe.simps by (intro gives_intros gives_mono [OF Suc.IH]) (use Suc.prems in auto)
qed (simp add: gives_basic)

lemma gives_probeCopyEngines: "frame d = c \<Longrightarrow> gives (probeCopyEngines H d) (\<lambda>d'. frame d' = c)"
  unfolding probeCopyEngines_def by (intro gives_intros gives_mono [OF gives_probeCe]) auto

lemma gives_logRevisionInfo: "frame d = c \<Longrightarrow> gives (logRevisionInfo H d) (\<lambda>d'. frame d' = c)"
  unfolding logRevisionInfo_def by (intro gives_intros) auto

lemma ends_refuse:
  "bare d \<Longrightarrow> (\<And>d' s. bare d' \<Longrightarrow> \<not> drvBar0 d' \<Longrightarrow> \<not> fBar0Mem d' \<Longrightarrow> Q (Some False, d') s) \<Longrightarrow>
     ends (refuse d msg stage) Q"
  unfolding refuse_def by (intro ends_bind ends_basic gives_intros) auto

definition outcome :: "bool option \<times> driver \<Rightarrow> 'd world \<Rightarrow> bool" where
  "outcome = (\<lambda>(r, d) t. case r of
     None \<Rightarrow> drvBar0 d \<and> fPci d \<and> fMaxStage d = 4
   | Some False \<Rightarrow> \<not> drvBar0 d \<and> \<not> fBar0Mem d \<and> bare d
   | Some True \<Rightarrow> drvBar0 d \<and> fPci d \<and> 1 \<le> fMaxStage d \<and> fMaxStage d \<le> 4 \<and> last (bus t) = Register)"

lemma outcomes:
  "drvBar0 d \<Longrightarrow> fPci d \<Longrightarrow> fMaxStage d = 4 \<Longrightarrow> outcome (None, d) t"
  "\<not> drvBar0 d \<Longrightarrow> \<not> fBar0Mem d \<Longrightarrow> bare d \<Longrightarrow> outcome (Some False, d) t"
  "drvBar0 d \<Longrightarrow> fPci d \<Longrightarrow> 1 \<le> fMaxStage d \<Longrightarrow> fMaxStage d \<le> 4 \<Longrightarrow> last (bus t) = Register \<Longrightarrow> outcome (Some True, d) t"
  by (simp_all add: outcome_def)

lemma ends_bringUp:
  assumes "early (n, True, True, True) d" and "1 \<le> n" and "n \<le> 4"
  shows "ends (bringUp H fw fuel d) outcome"
  unfolding bringUp_def
  apply (intro ends_emit ends_bind ends_basic ends_refuse gives_intros gives_mono [OF gives_openNvram [OF assms(1)]]
     gives_mono [OF gives_probeRegisters] gives_mono [OF gives_probeCopyEngines] gives_mono [OF gives_logRevisionInfo]
     gives_mono [OF gives_stages])
  apply (use assms(2,3) in \<open>auto intro: outcomes\<close>)
  done

lemma capOfArg_range: "1 \<le> capOfArg a \<and> capOfArg a \<le> 4"
  by (auto simp: capOfArg_def not_less word_le_nat_alt Suc_le_eq unat_gt_0 split: option.split)

lemma gives_option: "(\<And>x. P x) \<Longrightarrow> gives (m :: ('d, 'b option) io) P"
  by (simp add: gives_def)

lemma ends_start:
  assumes "early (n, False, False, False) d"
  shows "ends (start H fw fuel d) outcome"
  unfolding start_def
  apply (intro ends_bind ends_basic gives_intros gives_option gives_mono [OF gives_identify] ends_bringUp)
  apply (use assms capOfArg_range in \<open>auto intro: outcomes\<close>)
  done



end
