(* ===== verification/Calm.thy ===== *)
theory Calm
  imports DriverLife
begin

text \<open>
  Which routines leave the books alone.  Everything above the set-up of the copy engines only
  moves data through them: it acquires and releases no IOKit object and keeps the region and the
  wiring of every ring.  The property is carried along the call graph, one lemma per routine of
  \<open>skeleton/CE.cpp\<close>, \<open>BMI.cpp\<close>, \<open>FW.cpp\<close>, \<open>HTC.cpp\<close> and \<open>WMI.cpp\<close>.
\<close>

section \<open>The judgement\<close>

definition calm :: "('d, 'a) io \<Rightarrow> ('a \<Rightarrow> bool) \<Rightarrow> bool" where
  "calm m P \<longleftrightarrow> does m (\<lambda>r es. P r \<and> (\<forall>k < 4. heldAt k es = 0))"

named_theorems calm_intros \<open>routines that leave the books alone\<close>

lemma calm_mono: "calm m P \<Longrightarrow> (\<And>r. P r \<Longrightarrow> Q r) \<Longrightarrow> calm m Q"
  unfolding calm_def by (erule does_mono) simp

lemma calm_bind [calm_intros]: "calm m (\<lambda>r. calm (f r) P) \<Longrightarrow> calm (State_Monad.bind m f) P"
  unfolding calm_def
  by (erule does_bindP) (auto elim!: does_mono simp: heldAt_append)

lemma calm_basic [calm_intros]:
  "P x \<Longrightarrow> calm (ret x) P"
  "(b \<Longrightarrow> calm m P) \<Longrightarrow> (\<not> b \<Longrightarrow> calm n P) \<Longrightarrow> calm (if b then m else n) P"
  "(\<And>a b. z = (a, b) \<Longrightarrow> calm (g a b) P) \<Longrightarrow> calm (case z of (a, b) \<Rightarrow> g a b) P"
  "(w = None \<Longrightarrow> calm m P) \<Longrightarrow> (\<And>a. w = Some a \<Longrightarrow> calm (h a) P) \<Longrightarrow>
     calm (case w of None \<Rightarrow> m | Some a \<Rightarrow> h a) P"
  "calm (f y) P \<Longrightarrow> calm (let x = y in f x) P"
  by (auto simp: calm_def does_ret split: option.split prod.split)

lemma held_quiet [simp]:
  "heldAt k (RdReg a v # es) = heldAt k es" "heldAt k (WrReg a v # es) = heldAt k es"
  "heldAt k (Delay n # es) = heldAt k es" "heldAt k (Sync # es) = heldAt k es"
  "heldAt k (St i xs # es) = heldAt k es" "heldAt k (Ld i xs # es) = heldAt k es"
  "heldAt k (Fault # es) = heldAt k es"
  by (simp_all add: heldAt_def held_def)

lemma calm_io [calm_intros]:
  "(\<And>v. P v) \<Longrightarrow> calm (read32 H off) P" "Q () \<Longrightarrow> calm (write32 H off w) Q"
  "Q () \<Longrightarrow> calm (delay H us) Q" "Q () \<Longrightarrow> calm (store a xs) Q" "Q () \<Longrightarrow> calm ub Q"
  "(\<And>xs. R xs) \<Longrightarrow> calm (load a n) R" "(\<And>xs. R xs) \<Longrightarrow> calm (stackBytes H n) R"
  "(\<And>r. S r) \<Longrightarrow> calm (ioStep f) S" "Q () \<Longrightarrow> calm (emit Sync) Q"
  unfolding calm_def by (auto intro!: does_intros)

lemma calm_also: "calm m P \<Longrightarrow> does m (\<lambda>r es. Q r) \<Longrightarrow> calm m (\<lambda>r. P r \<and> Q r)"
  unfolding calm_def by (drule (1) does_conj, erule does_mono) simp

section \<open>Ring pairs\<close>

definition pairId :: "CECopyPair \<Rightarrow> DmaRegion \<times> u32 \<times> u32" where
  "pairId p = (region p, fSrcCe p, fDstCe p)"

lemma pairId_upd [simp]:
  "pairId (p\<lparr>fSrcWrite := x\<rparr>) = pairId p" "pairId (p\<lparr>fDstWrite := x\<rparr>) = pairId p"
  "pairId (p\<lparr>fDstSw := x\<rparr>) = pairId p" "pairId (p\<lparr>fRxNbytes := x\<rparr>) = pairId p"
  by (simp_all add: pairId_def)

lemma calm_waitSrri [calm_intros]: "(\<And>v. P v) \<Longrightarrow> calm (waitSrri H p n v) P"
  by (induction n arbitrary: v) (auto intro!: calm_intros)

lemma id_send: "calm (send H p buf) (\<lambda>(ok, p'). pairId p' = pairId p)"
  unfolding send_def by (intro calm_intros) auto

lemma id_postRecv: "calm (postRecv H p) (\<lambda>(ok, p'). pairId p' = pairId p)"
  unfolding postRecv_def by (intro calm_intros) auto

lemma id_recvLoop: "pairId p = c \<Longrightarrow> calm (recvLoop H p n) (\<lambda>(ok, p'). pairId p' = c)"
  by (induction n arbitrary: p) (auto intro!: calm_intros)

lemma id_recvWait: "calm (recvWait H p ms) (\<lambda>(ok, p'). pairId p' = pairId p)"
  unfolding recvWait_def by (intro calm_intros id_recvLoop refl)

lemma goodPair_step:
  assumes "calm m (\<lambda>(ok, p'). pairId p' = pairId p)" and "does m (\<lambda>(ok, p') es. pairUp p' \<and> Q ok p' es)"
    and "goodPair e p"
  shows "calm m (\<lambda>(ok, p'). goodPair e p' \<and> region p' = region p)"
proof -
  have "does m (\<lambda>r es. pairUp (snd r))" by (rule does_mono [OF assms(2)]) auto
  from calm_also [OF assms(1) this] show ?thesis
    by (rule calm_mono) (use assms(3) in \<open>auto simp: goodPair_def pairId_def\<close>)
qed

lemma calm_send: "goodPair e p \<Longrightarrow> calm (send H p buf) (\<lambda>(ok, p'). goodPair e p' \<and> region p' = region p)"
  by (rule goodPair_step [OF id_send does_send_marks]) (auto simp: goodPair_def)

lemma calm_postRecv: "goodPair e p \<Longrightarrow> calm (postRecv H p) (\<lambda>(ok, p'). goodPair e p' \<and> region p' = region p)"
  by (rule goodPair_step [OF id_postRecv does_postRecv_marks]) (auto simp: goodPair_def)

lemma calm_recvWait: "goodPair e p \<Longrightarrow> calm (recvWait H p ms) (\<lambda>(ok, p'). goodPair e p' \<and> region p' = region p)"
  by (rule goodPair_step [OF id_recvWait does_recvWait_marks]) (auto simp: goodPair_def)

lemma calm_armRecv: "goodPair e p \<Longrightarrow> calm (armRecv H p) (\<lambda>(ok, p'). goodPair e p' \<and> region p' = region p)"
  unfolding armRecv_def by (intro calm_intros calm_postRecv) auto

lemma calm_postRecvIfIdle:
  "goodPair e p \<Longrightarrow> calm (postRecvIfIdle H p) (\<lambda>(ok, p'). goodPair e p' \<and> region p' = region p)"
  unfolding postRecvIfIdle_def by (intro calm_intros calm_postRecv) auto

section \<open>The window\<close>

lemma calm_diagWait [calm_intros]: "(\<And>v. P v) \<Longrightarrow> calm (diagWait H off c n) P"
  by (induction n) (auto intro!: calm_intros)

lemma id_xfer: "dRegion g = c \<Longrightarrow> calm (xfer H g a b n) (\<lambda>(ok, g'). dRegion g' = c)"
  unfolding xfer_def by (intro calm_intros) auto

lemma id_readMem: "calm (readMem H g a n) (\<lambda>(r, g'). dRegion g' = dRegion g)"
  unfolding readMem_def targToCeAddr_def by (intro calm_intros calm_mono [OF id_xfer]) auto

lemma id_writeMem: "calm (writeMem H g a buf) (\<lambda>(ok, g'). dRegion g' = dRegion g)"
  unfolding writeMem_def targToCeAddr_def by (intro calm_intros id_xfer) auto

lemma goodDiag_step:
  assumes "calm m (\<lambda>(r, g'). dRegion g' = dRegion g)" and "does m (\<lambda>(r, g') es. sameWindow g g' \<and> Q r g' es)"
    and "goodDiag g"
  shows "calm m (\<lambda>(r, g'). goodDiag g' \<and> dRegion g' = dRegion g)"
proof -
  have "does m (\<lambda>r es. diagUp (snd r))" by (rule does_mono [OF assms(2)]) (auto simp: sameWindow_def)
  from calm_also [OF assms(1) this] show ?thesis
    by (rule calm_mono) (use assms(3) in \<open>auto simp: goodDiag_def\<close>)
qed

lemma calm_readMem: "goodDiag g \<Longrightarrow> calm (readMem H g a n) (\<lambda>(r, g'). goodDiag g' \<and> dRegion g' = dRegion g)"
  by (rule goodDiag_step [OF id_readMem does_readMem]) (auto simp: goodDiag_def)

lemma calm_writeMem: "goodDiag g \<Longrightarrow> calm (writeMem H g a buf) (\<lambda>(ok, g'). goodDiag g' \<and> dRegion g' = dRegion g)"
  by (rule goodDiag_step [OF id_writeMem does_writeMem]) (auto simp: goodDiag_def)

section \<open>The manager\<close>

text \<open>What the routines keep of a sound manager: that it is sound, and the regions it holds.\<close>

definition lent :: "CEManager \<Rightarrow> DmaRegion option \<times> DmaRegion option \<times> DmaRegion option" where
  "lent m = (map_option dRegion (fDiag m), map_option region (fCtrl m), map_option region (fWmi m))"

definition same :: "CEManager \<Rightarrow> CEManager \<Rightarrow> bool" where
  "same m m' \<longleftrightarrow> sound m' \<and> lent m' = lent m"

lemma same_refl: "sound m \<Longrightarrow> same m m"
  by (simp add: same_def)

lemma calm_onCtrl:
  assumes "\<And>e p. goodPair e p \<Longrightarrow> calm (f p) (\<lambda>(ok, p'). goodPair e p' \<and> region p' = region p)" and "sound m"
  shows "calm (onCtrl f m) (\<lambda>(ok, m'). same m m')"
  unfolding onCtrl_def
  by (intro calm_intros calm_mono [OF assms(1)]) (use assms(2) in \<open>auto simp: same_def sound_def lent_def\<close>)

lemma calm_onWmi:
  assumes "\<And>e p. goodPair e p \<Longrightarrow> calm (f p) (\<lambda>(ok, p'). goodPair e p' \<and> region p' = region p)" and "sound m"
  shows "calm (onWmi f m) (\<lambda>(ok, m'). same m m')"
  unfolding onWmi_def
  by (intro calm_intros calm_mono [OF assms(1)]) (use assms(2) in \<open>auto simp: same_def sound_def lent_def\<close>)

lemma calm_pairs:
  "sound m \<Longrightarrow> calm (ceSend H m buf) (\<lambda>(ok, m'). same m m')"
  "sound m \<Longrightarrow> calm (cePostRecv H m) (\<lambda>(ok, m'). same m m')"
  "sound m \<Longrightarrow> calm (ceRecvWait H m ms) (\<lambda>(ok, m'). same m m')"
  "sound m \<Longrightarrow> calm (wmiSend H m buf) (\<lambda>(ok, m'). same m m')"
  "sound m \<Longrightarrow> calm (wmiRecvWait H m ms) (\<lambda>(ok, m'). same m m')"
  "sound m \<Longrightarrow> calm (wmiPostRecvIfIdle H m) (\<lambda>(ok, m'). same m m')"
  unfolding ceSend_def cePostRecv_def ceRecvWait_def wmiSend_def wmiRecvWait_def wmiPostRecvIfIdle_def
  by (auto intro: calm_onCtrl calm_onWmi calm_send calm_postRecv calm_recvWait calm_postRecvIfIdle)

lemma calm_wmiArmRecv: "sound m \<Longrightarrow> calm (wmiArmRecv H m) (same m)"
  unfolding wmiArmRecv_def by (intro calm_bind calm_mono [OF calm_onWmi [OF calm_armRecv]]) (auto intro: calm_basic)

lemma same_window:
  "fDiag m = Some g \<Longrightarrow> sound m \<Longrightarrow> goodDiag g' \<Longrightarrow> dRegion g' = dRegion g \<Longrightarrow> same m (m\<lparr>fDiag := Some g'\<rparr>)"
  "fDiag m = Some g \<Longrightarrow> sound m \<Longrightarrow> goodDiag g"
  by (auto simp: same_def sound_def lent_def)

lemma calm_window:
  "sound m \<Longrightarrow> calm (ceDiagReadMem H m a n) (\<lambda>(r, m'). same m m')"
  "sound m \<Longrightarrow> calm (ceDiagWriteMem H m a buf) (\<lambda>(ok, m'). same m m')"
  "sound m \<Longrightarrow> calm (ceDiagRead32 H m a) (\<lambda>(r, m'). same m m')"
  "sound m \<Longrightarrow> calm (ceDiagWrite32 H m a v) (\<lambda>(ok, m'). same m m')"
  unfolding ceDiagReadMem_def ceDiagWriteMem_def ceDiagRead32_def ceDiagWrite32_def diagRead32_def
    diagWrite32_def
  by (intro calm_intros calm_mono [OF calm_readMem] calm_mono [OF calm_writeMem];
      auto simp: same_refl same_window)+

text \<open>For the layers above: the successor manager is fixed up to \<open>same\<close>.\<close>

lemma calm_same:
  "calm x (\<lambda>(r, m'). same m m') \<Longrightarrow> (\<And>r m'. sound m' \<Longrightarrow> lent m' = lent m \<Longrightarrow> P (r, m')) \<Longrightarrow> calm x P"
  by (erule calm_mono) (auto simp: same_def)

lemma calm_ce [calm_intros]:
  assumes "sound m" and "\<And>r m'. sound m' \<Longrightarrow> lent m' = lent m \<Longrightarrow> P (r, m')"
  shows "calm (ceSend H m buf) P" "calm (cePostRecv H m) P" "calm (ceRecvWait H m ms) P"
    "calm (wmiSend H m buf) P" "calm (wmiRecvWait H m ms) P" "calm (wmiPostRecvIfIdle H m) P"
    "calm (ceDiagWriteMem H m a buf) P" "calm (ceDiagWrite32 H m a v) P"
proof -
  have step: "calm x P" if "calm x (\<lambda>(r, m'). same m m')" for x :: "('d, bool \<times> CEManager) io"
    using that assms(2) by (rule calm_same)
  show "calm (ceSend H m buf) P" "calm (cePostRecv H m) P" "calm (ceRecvWait H m ms) P"
    "calm (wmiSend H m buf) P" "calm (wmiRecvWait H m ms) P" "calm (wmiPostRecvIfIdle H m) P"
    "calm (ceDiagWriteMem H m a buf) P" "calm (ceDiagWrite32 H m a v) P"
    by (rule step, rule calm_pairs calm_window, rule assms(1))+
qed

lemma calm_ceReads [calm_intros]:
  "sound m \<Longrightarrow> (\<And>r m'. sound m' \<Longrightarrow> lent m' = lent m \<Longrightarrow> P (r, m')) \<Longrightarrow> calm (ceDiagReadMem H m a n) P"
  "sound m \<Longrightarrow> (\<And>r m'. sound m' \<Longrightarrow> lent m' = lent m \<Longrightarrow> Q (r, m')) \<Longrightarrow> calm (ceDiagRead32 H m a) Q"
  "sound m \<Longrightarrow> (\<And>m'. sound m' \<Longrightarrow> lent m' = lent m \<Longrightarrow> R m') \<Longrightarrow> calm (wmiArmRecv H m) R"
  subgoal premises p by (rule calm_same, rule calm_window(1), rule p(1)) (rule p(2))
  subgoal premises p by (rule calm_same, rule calm_window(3), rule p(1)) (rule p(2))
  subgoal premises p by (rule calm_mono [OF calm_wmiArmRecv [OF p(1)]]) (simp add: same_def p(2))
  done

lemma calm_rx [calm_intros]:
  "(\<And>bs. P bs) \<Longrightarrow> calm (rxLoad p off n) P" "(\<And>bs. P bs) \<Longrightarrow> calm (rxBytes p n) P"
  unfolding rxLoad_def rxBytes_def by (intro calm_intros; simp)+

section \<open>The protocols\<close>

lemma calm_exchangeWait [calm_intros]:
  "sound m \<Longrightarrow> (\<And>r m' b'. sound m' \<Longrightarrow> lent m' = lent m \<Longrightarrow> P (r, m', b')) \<Longrightarrow> calm (exchangeWait H m b cmd n) P"
  unfolding exchangeWait_def by (intro calm_intros) auto

lemma calm_sendAll [calm_intros]:
  "sound m \<Longrightarrow> (\<And>ok m'. sound m' \<Longrightarrow> lent m' = lent m \<Longrightarrow> P (ok, m')) \<Longrightarrow> calm (sendAll (ceSend H) m fs) P"
proof (induction fs arbitrary: m)
  case (Cons f fs)
  show ?case
    unfolding sendAll.simps by (intro calm_intros Cons.IH) (auto intro: Cons.prems)
qed (simp add: calm_basic)

lemma calm_bmi [calm_intros]:
  "sound m \<Longrightarrow> (\<And>ok m' b'. sound m' \<Longrightarrow> lent m' = lent m \<Longrightarrow> P (ok, m', b')) \<Longrightarrow> calm (getTargetInfo H m b) P"
  "sound m \<Longrightarrow> (\<And>r m' b'. sound m' \<Longrightarrow> lent m' = lent m \<Longrightarrow> Q (r, m', b')) \<Longrightarrow> calm (readMemory H m b a outp n) Q"
  "sound m \<Longrightarrow> (\<And>r m' b'. sound m' \<Longrightarrow> lent m' = lent m \<Longrightarrow> R (r, m', b')) \<Longrightarrow> calm (execute H m b a v) R"
  "sound m \<Longrightarrow> (\<And>ok m'. sound m' \<Longrightarrow> lent m' = lent m \<Longrightarrow> S (ok, m')) \<Longrightarrow> calm (writeMemory H m a buf) S"
  "sound m \<Longrightarrow> (\<And>ok m'. sound m' \<Longrightarrow> lent m' = lent m \<Longrightarrow> S (ok, m')) \<Longrightarrow> calm (fastDownload H m a buf) S"
  "sound m \<Longrightarrow> (\<And>ok m' b'. sound m' \<Longrightarrow> lent m' = lent m \<Longrightarrow> P (ok, m', b')) \<Longrightarrow> calm (bmiDone H m b) P"
  unfolding getTargetInfo_def readMemory_def execute_def writeMemory_def fastDownload_def bmiDone_def
    writeLoop_sendAll lzStream_sendAll
  by (intro calm_intros; auto)+

lemma calm_bmi32 [calm_intros]:
  "sound m \<Longrightarrow> (\<And>r m' b'. sound m' \<Longrightarrow> lent m' = lent m \<Longrightarrow> Q (r, m', b')) \<Longrightarrow> calm (bmiRead32 H m b a) Q"
  "sound m \<Longrightarrow> (\<And>ok m'. sound m' \<Longrightarrow> lent m' = lent m \<Longrightarrow> S (ok, m')) \<Longrightarrow> calm (bmiWrite32 H m a v) S"
  unfolding bmiRead32_def bmiWrite32_def by (intro calm_intros; auto)+

lemma calm_indicatorLoop [calm_intros]: "(\<And>v. P v) \<Longrightarrow> calm (indicatorLoop H n v) P"
  by (induction n arbitrary: v) (auto intro!: calm_intros)

lemma calm_boot [calm_intros]:
  "sound m \<Longrightarrow> (\<And>ok m' b'. sound m' \<Longrightarrow> lent m' = lent m \<Longrightarrow> P (ok, m', b')) \<Longrightarrow> calm (configureTarget H m b) P"
  "sound m \<Longrightarrow> (\<And>ok m' b'. sound m' \<Longrightarrow> lent m' = lent m \<Longrightarrow> P (ok, m', b')) \<Longrightarrow> calm (downloadBoardData H m b bd) P"
  "sound m \<Longrightarrow> (\<And>r m' b'. sound m' \<Longrightarrow> lent m' = lent m \<Longrightarrow> R (r, m', b')) \<Longrightarrow> calm (runOtp H m b otpImg) R"
  "sound m \<Longrightarrow> (\<And>ok m'. sound m' \<Longrightarrow> lent m' = lent m \<Longrightarrow> S (ok, m')) \<Longrightarrow> calm (downloadFirmware H m fw) S"
  "sound m \<Longrightarrow> (\<And>ok m' b'. sound m' \<Longrightarrow> lent m' = lent m \<Longrightarrow> P (ok, m', b')) \<Longrightarrow> calm (doneAndWaitTargetInit H m b) P"
  unfolding configureTarget_def downloadBoardData_def runOtp_def downloadFirmware_def
    doneAndWaitTargetInit_def
  by (intro calm_intros; auto)+

lemma calm_htcSend [calm_intros]:
  "sound m \<Longrightarrow> (\<And>ok m' h'. sound m' \<Longrightarrow> lent m' = lent m \<Longrightarrow> P (ok, m', h')) \<Longrightarrow> calm (sendCtrlFrame H m h bs) P"
  "sound m \<Longrightarrow> (\<And>ok m' h'. sound m' \<Longrightarrow> lent m' = lent m \<Longrightarrow> P (ok, m', h')) \<Longrightarrow> calm (sendWmi H m h bs) P"
  "sound m \<Longrightarrow> (\<And>bs m' h'. sound m' \<Longrightarrow> lent m' = lent m \<Longrightarrow> Q (bs, m', h')) \<Longrightarrow> calm (recvWmi H m h n ms) Q"
  unfolding sendCtrlFrame_def sendWmi_def recvWmi_def by (intro calm_intros; auto)+

lemma calm_readyLoop [calm_intros]:
  "sound m \<Longrightarrow> (\<And>ok m'. sound m' \<Longrightarrow> lent m' = lent m \<Longrightarrow> P (ok, m')) \<Longrightarrow> calm (readyLoop H m ms n) P"
proof (induction n arbitrary: m)
  case (Suc n)
  show ?case
    unfolding readyLoop.simps by (intro calm_intros Suc.IH) (auto intro: Suc.prems)
qed (simp add: calm_basic)

lemma calm_htc [calm_intros]:
  "sound m \<Longrightarrow> (\<And>ok m' h'. sound m' \<Longrightarrow> lent m' = lent m \<Longrightarrow> P (ok, m', h')) \<Longrightarrow> calm (waitTarget H m h ms) P"
  "sound m \<Longrightarrow> (\<And>r m' h'. sound m' \<Longrightarrow> lent m' = lent m \<Longrightarrow> Q (r, m', h')) \<Longrightarrow> calm (connectService H m h s) Q"
  "sound m \<Longrightarrow> (\<And>ok m' h'. sound m' \<Longrightarrow> lent m' = lent m \<Longrightarrow> P (ok, m', h')) \<Longrightarrow> calm (setupComplete H m h) P"
  "sound m \<Longrightarrow> (\<And>ok m' h'. sound m' \<Longrightarrow> lent m' = lent m \<Longrightarrow> P (ok, m', h')) \<Longrightarrow> calm (sendInit H m h) P"
  unfolding waitTarget_def connectService_def setupComplete_def sendInit_def
  by (intro calm_intros; auto)+

lemma calm_serviceLoop [calm_intros]:
  "sound m \<Longrightarrow> (\<And>r m' h' w'. sound m' \<Longrightarrow> lent m' = lent m \<Longrightarrow> P (r, m', h', w')) \<Longrightarrow> calm (serviceLoop H m h w ms fuel) P"
proof (induction fuel arbitrary: m h w ms)
  case 0
  then show ?case by (simp add: serviceLoop.simps calm_basic)
next
  case (Suc fuel)
  show ?case
    unfolding serviceLoop.simps [of _ _ _ _ _ "Suc fuel"] nat.case
    by (intro calm_intros Suc.IH) (auto intro: Suc.prems)
qed

lemma calm_readyEvents [calm_intros]:
  "sound m \<Longrightarrow> (\<And>r m' h' w'. sound m' \<Longrightarrow> lent m' = lent m \<Longrightarrow> P (r, m', h', w')) \<Longrightarrow> calm (readyEvents H m h w n) P"
proof (induction n arbitrary: m h)
  case (Suc n)
  show ?case
    unfolding readyEvents.simps by (intro calm_intros Suc.IH) (auto intro: Suc.prems)
qed (simp add: calm_basic)

lemma calm_waitServiceAndReady [calm_intros]:
  "sound m \<Longrightarrow> (\<And>r m' h' w'. sound m' \<Longrightarrow> lent m' = lent m \<Longrightarrow> P (r, m', h', w')) \<Longrightarrow> calm (waitServiceAndReady H m h w ms fuel) P"
  unfolding waitServiceAndReady_def by (intro calm_intros) auto

end
