(* ===== verification/Books.thy ===== *)
theory Books
  imports Calm
begin

text \<open>
  The books of the driver from \<open>start\<close> to \<open>stop\<close>: every routine of \<open>skeleton/QCA9377Driver.cpp\<close> keeps
  the rings the driver holds complete, and whatever a run acquires from IOKit is on loan to the
  driver or one of the few regions the code is known to lose.
\<close>

section \<open>Routines of the driver that leave the books alone\<close>

lemma held_telemetry [simp]:
  "heldAt k (CfgRd8 i v # es) = heldAt k es" "heldAt k (CfgRd16 i w # es) = heldAt k es"
  "heldAt k (CfgWr16 i w # es) = heldAt k es" "heldAt k (BusMaster b # es) = heldAt k es"
  "heldAt k (MemEnable b # es) = heldAt k es" "heldAt k (Register # es) = heldAt k es"
  "heldAt k (Super s # es) = heldAt k es" "heldAt k (NvRelease # es) = heldAt k es"
  "heldAt k (Prop s t # es) = heldAt k es" "heldAt k (Num s n # es) = heldAt k es"
  "heldAt k (Nv s t # es) = heldAt k es" "heldAt k (Log s # es) = heldAt k es"
  by (simp_all add: heldAt_def held_def)

lemma calm_emits [calm_intros]:
  "P () \<Longrightarrow> calm (emit (BusMaster b)) P" "P () \<Longrightarrow> calm (emit (MemEnable b)) P"
  "P () \<Longrightarrow> calm (emit (Prop s t)) P" "P () \<Longrightarrow> calm (emit (Num s n)) P"
  "P () \<Longrightarrow> calm (emit (Nv s t)) P" "P () \<Longrightarrow> calm (emit (Log s)) P" "P () \<Longrightarrow> calm (emit Register) P"
  "(\<And>v. Q v) \<Longrightarrow> calm (configRead8 HH off) Q" "(\<And>v. R v) \<Longrightarrow> calm (configRead16 HH off) R"
  "P () \<Longrightarrow> calm (configWrite16 HH off v) P"
  unfolding calm_def configRead8_def configRead16_def configWrite16_def by (auto intro!: does_intros)

lemma calm_qlog [calm_intros]: "(\<And>t. P (d\<lparr>fTail := t\<rparr>)) \<Longrightarrow> calm (qlog d s) P"
  unfolding calm_def by (rule does_mono [OF does_qlog]) (auto simp: heldAt_telemetry)

lemma calm_publish [calm_intros]:
  "P () \<Longrightarrow> calm (publishStage d s) P" "P () \<Longrightarrow> calm (publishNum t n) P" "P () \<Longrightarrow> calm (publishMac d) P"
  unfolding publishStage_def publishNum_def publishMac_def nvramStage_def
  by (intro calm_intros; simp)+

text \<open>The regions the driver holds.\<close>

abbreviation drvLent :: "driver \<Rightarrow> (DmaRegion option \<times> DmaRegion option \<times> DmaRegion option) option" where
  "drvLent d \<equiv> map_option lent (fCe d)"

lemma calm_withCe [calm_intros]:
  assumes "soundDrv d" and "\<And>m. sound m \<Longrightarrow> calm (f m) (\<lambda>(r, m'). sound m' \<and> lent m' = lent m)"
    and "\<And>r d'. soundDrv d' \<Longrightarrow> drvLent d' = drvLent d \<Longrightarrow> P (r, d')"
  shows "calm (withCe f dflt d) P"
  unfolding withCe_def by (intro calm_intros calm_mono [OF assms(2)]) (use assms(1) in \<open>auto intro!: assms(3)\<close>)

lemma calm_withBmi [calm_intros]:
  assumes "soundDrv d" and "\<And>m b. sound m \<Longrightarrow> calm (f m b) (\<lambda>(r, m', b'). sound m' \<and> lent m' = lent m)"
    and "\<And>r d'. soundDrv d' \<Longrightarrow> drvLent d' = drvLent d \<Longrightarrow> fCe d' \<noteq> None \<or> r = dflt \<Longrightarrow> P (r, d')"
  shows "calm (withBmi f dflt d) P"
  unfolding withBmi_def by (intro calm_intros calm_mono [OF assms(2)]) (use assms(1) in \<open>auto intro!: assms(3)\<close>)

lemma calm_withHtc [calm_intros]:
  assumes "soundDrv d" and "\<And>m h. sound m \<Longrightarrow> calm (f m h) (\<lambda>(r, m', h'). sound m' \<and> lent m' = lent m)"
    and "\<And>r d'. soundDrv d' \<Longrightarrow> drvLent d' = drvLent d \<Longrightarrow> P (r, d')"
  shows "calm (withHtc f dflt d) P"
  unfolding withHtc_def by (intro calm_intros calm_mono [OF assms(2)]) (use assms(1) in \<open>auto intro!: assms(3)\<close>)

lemma calm_drvRegs [calm_intros]:
  "(\<And>v. Q v) \<Longrightarrow> calm (drvRead32 H d off) Q" "P () \<Longrightarrow> calm (drvWrite32 H d off v) P"
  unfolding drvRead32_def drvWrite32_def by (intro calm_intros; simp)+

lemma calm_wakeLoop: "(\<And>ok. P ok) \<Longrightarrow> calm (wakeLoop H d e s) P"
proof (induction H d e s rule: wakeLoop.induct)
  case (1 H d e s)
  show ?case
    unfolding wakeLoop.simps [of H d e] isAwake_def by (intro calm_intros) (use 1 in auto)
qed

lemma calm_wakeTarget [calm_intros]: "(\<And>ok. P ok) \<Longrightarrow> calm (wakeTarget H d) P"
  unfolding wakeTarget_def by (intro calm_intros calm_wakeLoop)

lemma calm_targetInitLoop:
  "(\<And>r d'. fCe d' = fCe d \<Longrightarrow> P (r, d')) \<Longrightarrow> calm (targetInitLoop H d e n l) P"
proof (induction H d e n l rule: targetInitLoop.induct)
  case (1 H d e n l)
  show ?case
    unfolding targetInitLoop.simps [of H d e] by (intro calm_intros) (use 1 in auto)
qed

lemma calm_waitForTargetInit [calm_intros]:
  "(\<And>r d'. fCe d' = fCe d \<Longrightarrow> P (r, d')) \<Longrightarrow> calm (waitForTargetInit H d) P"
  unfolding waitForTargetInit_def
  apply (rule calm_bind, rule calm_targetInitLoop, clarsimp split del: if_split)
  apply (intro calm_intros)
   apply auto
  done

lemma calm_resets [calm_intros]:
  "(\<And>r d'. fCe d' = fCe d \<Longrightarrow> P (r, d')) \<Longrightarrow> calm (coldReset H d) P"
  "Q () \<Longrightarrow> calm (cpuWarmReset H d) Q"
  "(\<And>d'. fCe d' = fCe d \<Longrightarrow> R d') \<Longrightarrow> calm (wakeTargetCpu H d) R"
  unfolding coldReset_def cpuWarmReset_def wakeTargetCpu_def by (intro calm_intros; auto)+

lemma calm_initConfig [calm_intros]:
  "soundDrv d \<Longrightarrow> (\<And>r d'. soundDrv d' \<Longrightarrow> drvLent d' = drvLent d \<Longrightarrow> P (r, d')) \<Longrightarrow> calm (initConfig H d) P"
  unfolding initConfig_def by (intro calm_intros) auto

lemma calm_logHi [calm_intros]:
  "(\<And>d'. fCe d' = fCe d \<Longrightarrow> P d') \<Longrightarrow> calm (logHi d bs w n) P"
  by (induction n arbitrary: d w) (auto intro!: calm_intros)

lemma calm_probeCe [calm_intros]:
  "(\<And>d'. fCe d' = fCe d \<Longrightarrow> P d') \<Longrightarrow> calm (probeCe H d ce n) P"
proof (induction n arbitrary: d ce)
  case (Suc n)
  show ?case
    unfolding probeCe.simps by (intro calm_intros Suc.IH) (auto intro: Suc.prems)
qed (simp add: calm_basic)

lemma calm_probes [calm_intros]:
  "(\<And>d'. fCe d' = fCe d \<Longrightarrow> P d') \<Longrightarrow> calm (probeCopyEngines H d) P"
  "(\<And>r d'. fCe d' = fCe d \<Longrightarrow> Q (r, d')) \<Longrightarrow> calm (probeRegisters H d) Q"
  "(\<And>d'. fCe d' = fCe d \<Longrightarrow> P d') \<Longrightarrow> calm (logRevisionInfo H d) P"
  unfolding probeCopyEngines_def probeRegisters_def logRevisionInfo_def
  by (intro calm_intros; auto)+

lemma calm_aspmWalk [calm_intros]:
  "(\<And>d'. fCe d' = fCe d \<Longrightarrow> P d') \<Longrightarrow> calm (aspmWalk H d off n) P"
proof (induction n arbitrary: off)
  case (Suc n)
  show ?case
    unfolding aspmWalk.simps by (intro calm_intros Suc.IH) (auto intro: Suc.prems)
qed (simp add: calm_basic)

lemma calm_identify [calm_intros]:
  "(\<And>d'. fCe d' = fCe d \<Longrightarrow> P d') \<Longrightarrow> calm (identify H d) P"
  "(\<And>d'. fCe d' = fCe d \<Longrightarrow> P d') \<Longrightarrow> calm (openNvram H d) P"
  unfolding identify_def openNvram_def aspmOff_def by (intro calm_intros; auto)+

lemma calm_refuse [calm_intros]:
  "(\<And>d'. fCe d' = fCe d \<Longrightarrow> P (Some False, d')) \<Longrightarrow> calm (refuse d msg stage) P"
  unfolding refuse_def by (intro calm_intros) auto

section \<open>The account\<close>

text \<open>
  \<open>acct c m Q\<close>: with \<open>c k\<close> objects of kind \<open>k\<close> acquired and not yet released so far, \<open>m\<close> ends with
  a result and counts that satisfy \<open>Q\<close>.
\<close>

definition tally :: "event list \<Rightarrow> nat \<Rightarrow> int" where
  "tally es k = (if k < 4 then heldAt k es else 0)"

definition acct :: "(nat \<Rightarrow> int) \<Rightarrow> ('d, 'a) io \<Rightarrow> ('a \<Rightarrow> (nat \<Rightarrow> int) \<Rightarrow> bool) \<Rightarrow> bool" where
  "acct c m Q \<longleftrightarrow> does m (\<lambda>r es. Q r (\<lambda>k. c k + tally es k))"

lemma tally_append: "tally (es @ fs) k = tally es k + tally fs k"
  by (simp add: tally_def heldAt_append)

lemma acct_bind: "acct c m (\<lambda>r c'. acct c' (f r) Q) \<Longrightarrow> acct c (State_Monad.bind m f) Q"
  unfolding acct_def by (erule does_bindP) (simp add: tally_append add.assoc)

lemma acct_calm: "calm m (\<lambda>r. Q r c) \<Longrightarrow> acct c m Q"
  unfolding acct_def calm_def by (erule does_mono) (auto simp: tally_def cong: if_cong)

lemma acct_mono: "acct c m P \<Longrightarrow> (\<And>r c'. P r c' \<Longrightarrow> Q r c') \<Longrightarrow> acct c m Q"
  unfolding acct_def by (erule does_mono) simp

lemma acct_basic:
  "Q x c \<Longrightarrow> acct c (ret x) Q"
  "(b \<Longrightarrow> acct c m Q) \<Longrightarrow> (\<not> b \<Longrightarrow> acct c n Q) \<Longrightarrow> acct c (if b then m else n) Q"
  "(\<And>a b. z = (a, b) \<Longrightarrow> acct c (g a b) Q) \<Longrightarrow> acct c (case z of (a, b) \<Rightarrow> g a b) Q"
  "(w = None \<Longrightarrow> acct c m Q) \<Longrightarrow> (\<And>a. w = Some a \<Longrightarrow> acct c (h a) Q) \<Longrightarrow>
     acct c (case w of None \<Rightarrow> m | Some a \<Rightarrow> h a) Q"
  "acct c (f y) Q \<Longrightarrow> acct c (let x = y in f x) Q"
  by (auto split: option.split prod.split intro: acct_calm calm_basic)

text \<open>
  A balanced state: of every kind at most \<open>n\<close> objects are neither on loan to the driver nor given
  back, the same number of each kind.
\<close>

type_synonym lending = "(DmaRegion option \<times> DmaRegion option \<times> DmaRegion option) option"

definition lentLoan :: "nat \<Rightarrow> lending \<Rightarrow> int" where
  "lentLoan k l = (case l of None \<Rightarrow> 0 | Some (a, b, c) \<Rightarrow> loan k a + loan k b + loan k c)"

definition bal :: "nat \<Rightarrow> lending \<Rightarrow> (nat \<Rightarrow> int) \<Rightarrow> bool" where
  "bal n l c \<longleftrightarrow> (\<exists>x \<in> {0..int n}. \<forall>k < 4. c k = lentLoan k l + x)"

lemma lentLoan_none [simp]: "lentLoan k None = 0"
  by (simp add: lentLoan_def)

lemma lentLoan_drv: "lentLoan k (drvLent d) = drvLoan k d"
  by (simp add: lentLoan_def lent_def drvLoan_def ceLoan_def split: option.split)

lemma bal_more: "bal n l c \<Longrightarrow> n \<le> n' \<Longrightarrow> bal n' l c"
  unfolding bal_def by (fastforce simp: Bex_def)

text \<open>A step that may lose \<open>j\<close> objects of each kind.\<close>

definition loses :: "nat \<Rightarrow> lending \<Rightarrow> (nat \<Rightarrow> int) \<Rightarrow> lending \<Rightarrow> (nat \<Rightarrow> int) \<Rightarrow> bool" where
  "loses j l c l' c' \<longleftrightarrow> (\<exists>x \<in> {0..int j}. \<forall>k < 4. c' k - lentLoan k l' = c k - lentLoan k l + x)"

lemma losesD:
  assumes "loses j l c l' c'" and "bal n l c"
  shows "bal (n + j) l' c'"
proof -
  from assms(1) obtain x where x: "x \<in> {0..int j}" "\<forall>k < 4. c' k - lentLoan k l' = c k - lentLoan k l + x"
    unfolding loses_def by (elim bexE)
  from assms(2) obtain y where y: "y \<in> {0..int n}" "\<forall>k < 4. c k = lentLoan k l + y"
    unfolding bal_def by (elim bexE)
  have "\<forall>k < 4. c' k = lentLoan k l' + (x + y)"
  proof (intro allI impI)
    fix k :: nat assume "k < 4"
    with x(2) [rule_format, of k] y(2) [rule_format, of k] show "c' k = lentLoan k l' + (x + y)" by simp
  qed
  then show ?thesis unfolding bal_def by (intro bexI [of _ "x + y"]) (use x(1) y(1) in auto)
qed

lemma losesI:
  assumes "x \<in> {0..int j}" and "\<And>k. k < 4 \<Longrightarrow> drvLoan k d + heldAt k es = drvLoan k d' + x"
  shows "loses j (drvLent d) c (drvLent d') (\<lambda>k. c k + tally es k)"
  unfolding loses_def lentLoan_drv
proof (intro bexI [of _ x] allI impI)
  fix k :: nat assume "k < 4"
  with assms(2) [of k] show "c k + tally es k - drvLoan k d' = c k - drvLoan k d + x" by (simp add: tally_def)
qed (rule assms(1))

section \<open>The steps that move objects\<close>

definition lost :: "bool \<Rightarrow> CEManager option \<Rightarrow> nat" where
  "lost ok m = (if m = None then of_bool (\<not> ok) else if ok then 2 else 3)"

lemma ctrlLoan_whole:
  assumes "soundDrv d"
  obtains "\<forall>k < 4. ctrlLoan k d = 0" | "fCe d \<noteq> None" "\<forall>k < 4. ctrlLoan k d = 1"
  using assms by (cases "fCe d"; cases "fCtrl (the (fCe d))")
    (auto simp: ctrlLoan_def sound_def goodPair_def full_loan)

lemma books_lose:
  assumes "soundDrv d" and "books d ok d' es"
  shows "loses (lost ok (fCe d)) (drvLent d) c (drvLent d') (\<lambda>k. c k + tally es k)"
proof -
  obtain x where x: "x \<in> {0, 1, 2}" "ok \<and> fCe d = None \<longrightarrow> x = 0" "ok \<or> fCe d = None \<longrightarrow> x \<le> 1"
      "\<forall>k < 4. drvLoan k d + heldAt k es = drvLoan k d' + ctrlLoan k d + x"
    using assms(2) unfolding books_def by (elim conjE bexE)
  from assms(1) show ?thesis
  proof (cases rule: ctrlLoan_whole)
    case 1
    show ?thesis
    proof (rule losesI)
      show "x \<in> {0..int (lost ok (fCe d))}" using x(1-3) by (auto simp: lost_def)
      fix k :: nat assume "k < 4"
      with x(4) [rule_format, OF \<open>k < 4\<close>] 1 [rule_format, OF \<open>k < 4\<close>]
      show "drvLoan k d + heldAt k es = drvLoan k d' + x" by linarith
    qed
  next
    case 2
    show ?thesis
    proof (rule losesI)
      show "x + 1 \<in> {0..int (lost ok (fCe d))}" using x(1-3) 2(1) by (auto simp: lost_def)
      fix k :: nat assume "k < 4"
      with x(4) [rule_format, OF \<open>k < 4\<close>] 2(2) [rule_format, OF \<open>k < 4\<close>]
      show "drvLoan k d + heldAt k es = drvLoan k d' + (x + 1)" by linarith
    qed
  qed
qed

lemma acct_ensureCE:
  assumes "soundDrv d"
    and "\<And>ok d' c'. soundDrv d' \<Longrightarrow> loses (lost ok (fCe d)) (drvLent d) c (drvLent d') c' \<Longrightarrow>
      ok \<longleftrightarrow> fCe d' \<noteq> None \<Longrightarrow> Q (ok, d') c'"
  shows "acct c (ensureCE H d) Q"
  unfolding acct_def
proof (rule does_mono [OF does_ensureCE_books [OF assms(1)]], clarify)
  fix ok d' es assume b: "books d ok d' es"
  then show "Q (ok, d') (\<lambda>k. c k + tally es k)"
    by (intro assms(2) books_lose [OF assms(1)]) (auto simp: books_def)
qed

lemma acct_teardownHardware:
  assumes "soundDrv d" and "\<And>d' c'. loses 0 (drvLent d) c None c' \<Longrightarrow> fCe d' = None \<Longrightarrow> Q d' c'"
  shows "acct c (teardownHardware H d) Q"
proof -
  have "loses 0 (drvLent d) c None (\<lambda>k. c k + tally es k)" if "\<forall>k < 4. heldAt k es = - drvLoan k d" for es
    using losesI [where d' = "d\<lparr>fCe := None\<rparr>" and d = d and x = 0 and j = 0 and es = es and c = c] that
    by (simp add: drvLoan_def)
  then show ?thesis
    unfolding acct_def by (intro does_mono [OF does_teardownHardware [OF assms(1)]]) (auto intro!: assms(2))
qed

lemma acct_giveUp:
  assumes "soundDrv d" and "\<And>d' c'. loses 0 (drvLent d) c None c' \<Longrightarrow> fCe d' = None \<Longrightarrow> Q (False, d') c'"
  shows "acct c (giveUp H d msg stage) Q"
  unfolding giveUp_def
  by (intro acct_bind acct_teardownHardware acct_calm [OF calm_qlog] acct_calm [OF calm_publish(1)] acct_basic)
     (use assms in auto)

text \<open>The pair and the window that \<open>initWmi\<close> and \<open>initDiag\<close> add.\<close>

lemma bounceAligned [simp]: "bounceAligned = 4096"
  by (simp add: bounceAligned_def alignUp_def)

lemma does_diagAllocRegion:
  assumes "unheld (dRegion g)"
  shows "does (diagAllocRegion H g) (\<lambda>(ok, g') es. held es = holds (dRegion g') \<and> regionOk (dRegion g') \<and>
    dBar0 g' = dBar0 g \<and> dSrcWrite g' = dSrcWrite g \<and> dDstWrite g' = dDstWrite g \<and> dDstSw g' = dDstSw g \<and>
    (ok \<longrightarrow> fullRegion (dRegion g') \<and> fRegionSize (dRegion g') = 12288))"
  unfolding diagAllocRegion_def diagFreeRegion_def
  by (intro does_intros does_mono [OF does_acquire] does_mono [OF does_release])
     (use assms in \<open>auto simp: unheld_def held_append held_releaseEvs holds_def regionOk_def\<close>)

lemma heldAt_held: "held es = holds rg \<Longrightarrow> heldAt k es = holds rg ! k"
  by (simp add: heldAt_def)

lemma does_diagInit:
  "does (diagInit H (newDiag b)) (\<lambda>(ok, g) es. (\<forall>k < 4. heldAt k es = holds (dRegion g) ! k) \<and>
     regionOk (dRegion g) \<and> (ok \<longrightarrow> goodDiag g))"
proof -
  have u: "unheld (dRegion (newDiag b))" by (simp add: newDiag_def unheld_def noRegion_def)
  have n: "holds noRegion ! k = 0" if "k < 4" for k :: nat
    using unheld_loan [of noRegion k] that by (simp add: noRegion_def unheld_def)
  have r: "regionOk noRegion" by (simp add: regionOk_def noRegion_def)
  show ?thesis
    unfolding diagInit_def
    by (intro does_intros does_mono [OF does_diagAllocRegion [OF u]])
       (auto simp: goodDiag_def diagUp_def diagLaid_def newDiag_def heldAt_append fullRegion_def heldAt_held n r)
qed

lemma does_ceInitDiag:
  assumes "sound m"
  shows "does (ceInitDiag H m) (\<lambda>(ok, m') es. sound m' \<and> (\<forall>k < 4. ceLoan k m + heldAt k es = ceLoan k m'))"
proof -
  have l: "ceLoan k (m\<lparr>fDiag := Some g\<rparr>) = ceLoan k m + holds (dRegion g) ! k" if "fDiag m = None" for k g
    using that by (simp add: ceLoan_def)
  show ?thesis
    unfolding ceInitDiag_def
    by (intro does_intros does_mono [OF does_diagInit] does_mono [OF does_diagTeardown])
       (use assms in \<open>auto simp: l heldAt_append release_loan sound_def\<close>)
qed

lemma does_ceInitWmi:
  assumes "sound m"
  shows "does (ceInitWmi H m) (\<lambda>(ok, m') es. sound m' \<and> ((\<forall>k < 4. ceLoan k m + heldAt k es = ceLoan k m') \<or>
    \<not> ok \<and> (\<forall>k < 4. ceLoan k m + heldAt k es = ceLoan k m' + 1)))"
proof -
  have l: "ceLoan k (m\<lparr>fWmi := p\<rparr>) = ceLoan k m + loan k (map_option region p)" if "fWmi m = None" for k p
    using that by (simp add: ceLoan_def)
  show ?thesis
    unfolding ceInitWmi_def
    by (intro does_intros does_mono [OF does_newPair])
       (use assms in \<open>auto simp: l sound_def goodPair_def full_loan split: if_splits\<close>)
qed

lemma acct_withCe:
  assumes "soundDrv d"
    and "\<And>m. sound m \<Longrightarrow> does (f m) (\<lambda>(r, m') es. sound m' \<and> (\<exists>x \<in> {0..int (j r)}.
      \<forall>k < 4. ceLoan k m + heldAt k es = ceLoan k m' + x))"
    and "\<And>r d' c'. soundDrv d' \<Longrightarrow> loses (j r) (drvLent d) c (drvLent d') c' \<Longrightarrow> Q (r, d') c'"
  shows "acct c (withCe f dflt d) Q"
proof (cases "fCe d")
  case None
  have "loses (j dflt) (drvLent d) c (drvLent d) c" by (auto simp: loses_def intro!: bexI [of _ 0])
  then show ?thesis
    unfolding withCe_def None option.case
    by (intro acct_bind acct_basic acct_calm calm_intros assms(3)) (use assms(1) None in auto)
next
  case (Some m)
  show ?thesis
    unfolding acct_def withCe_def Some option.case
  proof (rule does_bindP [OF assms(2)], goal_cases)
    case 1
    then show ?case using assms(1) Some by simp
  next
    case (2 r es)
    obtain v m' where r: "r = (v, m')" by (cases r)
    with 2 obtain x where x: "x \<in> {0..int (j v)}" "\<forall>k < 4. ceLoan k m + heldAt k es = ceLoan k m' + x" and m': "sound m'"
      by auto
    let ?d' = "d\<lparr>fCe := Some m'\<rparr>"
    have "loses (j v) (drvLent d) c (drvLent ?d') (\<lambda>k. c k + tally es k)"
      by (rule losesI [OF x(1)]) (use x(2) in \<open>simp add: drvLoan_def Some\<close>)
    then show ?case
      unfolding r by (auto intro!: does_intros assms(3) m')
  qed
qed

lemma acct_initDiag:
  assumes "soundDrv d" and "\<And>ok d' c'. soundDrv d' \<Longrightarrow> loses 0 (drvLent d) c (drvLent d') c' \<Longrightarrow> Q (ok, d') c'"
  shows "acct c (withCe (ceInitDiag H) False d) Q"
  by (rule acct_withCe [OF assms(1), of _ "\<lambda>_. 0"], rule does_mono [OF does_ceInitDiag]) (auto intro: assms(2))

lemma acct_initWmi:
  assumes "soundDrv d"
    and "\<And>ok d' c'. soundDrv d' \<Longrightarrow> loses (of_bool (\<not> ok)) (drvLent d) c (drvLent d') c' \<Longrightarrow> Q (ok, d') c'"
  shows "acct c (withCe (ceInitWmi H) False d) Q"
proof (rule acct_withCe [OF assms(1), of _ "\<lambda>ok. of_bool (\<not> ok)"], rule does_mono [OF does_ceInitWmi], assumption, goal_cases)
  case (1 m r es)
  then show ?case by (cases r) (auto intro: bexI [where x = 0] bexI [where x = 1])
qed (auto intro: assms(2))

section \<open>The stages\<close>

text \<open>A sound driver of which at most \<open>n\<close> objects of each kind are lost.\<close>

definition owing :: "nat \<Rightarrow> CEManager option \<Rightarrow> (nat \<Rightarrow> int) \<Rightarrow> bool" where
  "owing n ce c \<longleftrightarrow> soundCe ce \<and> bal n (map_option lent ce) c"

abbreviation owed :: "nat \<Rightarrow> driver \<Rightarrow> (nat \<Rightarrow> int) \<Rightarrow> bool" where
  "owed n d \<equiv> owing n (fCe d)"

lemma owed_more: "owing n m c \<Longrightarrow> n \<le> n' \<Longrightarrow> owing n' m c"
  by (auto simp: owing_def elim: bal_more)

lemma acct_warmReset:
  assumes "owed 0 d c" and "fCe d = None"
  shows "acct c (warmReset H d) (\<lambda>(ok, d') c'. owed (if ok then 2 else 3) d' c')"
  unfolding warmReset_def
  apply (intro acct_bind acct_ensureCE acct_basic acct_calm calm_intros)
  apply (use assms in \<open>auto simp: owing_def lost_def dest!: losesD elim: bal_more\<close>)
  done

lemmas acct_intros = acct_bind acct_giveUp acct_teardownHardware acct_ensureCE acct_initDiag acct_initWmi acct_basic

lemma acct_resetChip:
  assumes "owed 0 d c" and "fCe d = None"
  shows "acct c (resetChip H d) (\<lambda>(ok, d') c'. owed (if ok then 2 else 3) d' c')"
  unfolding resetChip_def
  apply (intro acct_intros acct_mono [OF acct_warmReset] acct_calm calm_intros)
  apply (use assms in \<open>auto simp: owing_def elim: bal_more\<close>)
  done

lemma acct_probeBmi:
  assumes "owed n d c"
  shows "acct c (probeBmi H d) (\<lambda>(ok, d') c'. owed (if fCe d' = None then n + 3 else n + 2) d' c')"
  unfolding probeBmi_def
  apply (intro acct_intros acct_calm calm_intros)
  apply (use assms in \<open>auto simp: owing_def lost_def dest!: losesD elim: bal_more\<close>)
  done

lemma lent_none: "drvLent d' = drvLent d \<Longrightarrow> fCe d' = None \<longleftrightarrow> fCe d = None"
  by (cases "fCe d"; cases "fCe d'") auto

lemma acct_bootFirmware:
  assumes "owed n d c"
  shows "acct c (bootFirmware H fw d) (\<lambda>(ok, d') c'. owed n d' c' \<and>
    (ok \<longrightarrow> fCe d \<noteq> None \<and> drvLent d' = drvLent d))"
  unfolding bootFirmware_def
  apply (intro acct_intros acct_calm calm_intros)
  apply (use assms in \<open>auto simp: owing_def dest!: losesD lent_none\<close>)
  done

lemma acct_startHtcWmi:
  assumes "owed n d c"
  shows "acct c (startHtcWmi H fuel d) (\<lambda>(r, d') c'. owed (n + 1) d' c')"
  unfolding startHtcWmi_def Let_def
  apply (intro acct_intros acct_calm calm_intros)
  apply (use assms in \<open>auto simp: owing_def dest!: losesD elim: bal_more\<close>)
  done

lemma acct_stages:
  assumes "owed 0 d c" and "fCe d = None"
  shows "acct c (stages H fw fuel d) (\<lambda>(r, d') c'. owed 5 d' c')"
  unfolding stages_def
  apply (rule acct_bind, rule acct_mono [OF acct_resetChip [OF assms]], clarsimp split del: if_split)
  apply (rule acct_bind, rule acct_mono [where P = "\<lambda>d' c'. owed (if fCe d' = None then 5 else 4) d' c'"])
  subgoal
    by (intro acct_intros acct_mono [OF acct_probeBmi [where n = 2]] acct_calm calm_intros)
       (auto elim!: owed_more split: if_splits)
  apply (rule acct_bind, rule acct_mono [where P = "\<lambda>(m3, d') c'. owed (if m3 then 4 else 5) d' c'"])
  subgoal for ok d1 c1 d2 c2
    by (intro acct_intros acct_mono [OF acct_bootFirmware [where n = "if fCe d2 = None then 5 else 4"]] acct_calm calm_intros)
       (auto elim!: owed_more split: if_splits)
  apply (clarsimp split del: if_split)
  subgoal for ok d1 c1 d2 c2 m3 d3 c3
    by (intro acct_intros acct_mono [OF acct_startHtcWmi [where n = 4]] acct_calm calm_intros)
       (auto elim!: owed_more split: if_splits)
  done

lemma acct_bringUp:
  assumes "owed 0 d c" and "fCe d = None"
  shows "acct c (bringUp H fw fuel d) (\<lambda>(r, d') c'. owed 5 d' c')"
  unfolding bringUp_def
  by (intro acct_intros acct_mono [OF acct_stages] acct_calm calm_intros)
     (use assms in \<open>auto elim!: owed_more\<close>)

lemma acct_start:
  assumes "fCe d = None"
  shows "acct (\<lambda>_. 0) (start H fw fuel d) (\<lambda>(r, d') c'. owed 5 d' c')"
proof -
  have "owed 0 d (\<lambda>_. 0)" using assms by (simp add: owing_def bal_def)
  then show ?thesis
    unfolding start_def
    by (intro acct_intros acct_mono [OF acct_bringUp] acct_calm calm_intros)
       (use assms in \<open>auto elim!: owed_more\<close>)
qed

section \<open>The driver is sound, and what its life costs\<close>

text \<open>
  C3: Whatever the chip and IOKit answer, \<open>start\<close> on a new object leaves every ring the driver holds
  in order: each slot serves its own engines, its four areas lie one behind the other in one complete
  DMA region, and all ring indices are inside the ring, so that the guarantees proved for the layers
  above apply from then on.
\<close>

theorem driver_sound:
  "does (start H fw fuel newDriver) (\<lambda>(r, d) es. pred_option (\<lambda>ce.
     pred_option (\<lambda>p. pairUp p \<and> fSrcCe p = 0 \<and> fDstCe p = 1 \<and> fullRegion (region p)) (fCtrl ce) \<and>
     pred_option (\<lambda>p. pairUp p \<and> fSrcCe p = 3 \<and> fDstCe p = 2 \<and> fullRegion (region p)) (fWmi ce) \<and>
     pred_option (\<lambda>g. diagUp g \<and> fullRegion (dRegion g)) (fDiag ce)) (fCe d))"
  using acct_start [of newDriver H fw fuel] unfolding acct_def
  by (rule does_mono)
     (auto simp: newDriver_def owing_def soundCe_def sound_def goodPair_def goodDiag_def
       elim!: option.pred_mono_strong)

text \<open>
  C4: The life of the driver costs at most five of each IOKit object: after \<open>start\<close> and \<open>stop\<close>, what
  was acquired and not released is the same number of memory descriptors, preparations, DMA commands
  and attachments, none negative and none above five.  These are whole regions the code is known to
  lose: control pairs that \<open>init\<close> overwrites, and pairs whose engines did not answer.
\<close>

theorem life_books:
  "does (do { (r, d) \<leftarrow> start H fw fuel newDriver; stop H d }) (\<lambda>d es. fCe d = None \<and>
     (\<exists>x. 0 \<le> x \<and> x \<le> 5 \<and> held es = [x, x, x, x]))"
proof -
  have n: "fCe newDriver = None" by (simp add: newDriver_def)
  have left: "\<exists>x. 0 \<le> x \<and> x \<le> 5 \<and> held (es @ fs) = [x, x, x, x]"
    if o: "owed 5 d (\<lambda>k. 0 + tally es k)" and s: "\<forall>k < 4. heldAt k fs = - drvLoan k d" for es fs d
  proof -
    from o obtain x where x: "x \<in> {0..5}" "\<forall>k < 4. tally es k = lentLoan k (drvLent d) + x"
      by (auto simp: owing_def bal_def)
    have "held (es @ fs) = replicate 4 x"
    proof (rule nth_equalityI)
      fix k :: nat assume "k < length (held (es @ fs))"
      then have "k < 4" by simp
      then have "heldAt k (es @ fs) = x"
        using x(2) [rule_format, of k] s [rule_format, of k] by (simp add: heldAt_append tally_def lentLoan_drv)
      with \<open>k < 4\<close> show "held (es @ fs) ! k = replicate 4 x ! k" by (simp add: heldAt_def)
    qed simp
    then show ?thesis using x(1) by (intro exI [of _ x]) (simp add: eval_nat_numeral)
  qed
  show ?thesis
    by (rule does_bindP [OF acct_start [OF n, unfolded acct_def]], clarsimp, rule does_mono [OF does_stop])
       (auto simp: owing_def intro: left)
qed

end
