(* ===== verification/Images.thy ===== *)
theory Images
  imports Driver
begin

text \<open>
  The two large containers of the generated header \<open>skeleton/FwData.h\<close>.  Their structure is written out
  as the header has it: magic, padding, the elements in order, with their ids, sizes and small payloads.
  The large payloads, code and data for the target that the driver only passes on, are parameters of
  the sizes the header gives.
\<close>

section \<open>qca9377\_firmware6\_bin\<close>

definition fw6Elements :: "u8 list \<Rightarrow> u8 list \<Rightarrow> ie list" where
  "fw6Elements otpImg fwImg =
     [(0, ascii ''WLAN.TF.2.1-00021-QCARMSWP-1''), (1, [0xdb, 0x17, 0x9a, 0x5b]), (4, otpImg),
      (3, fwImg), (2, [0xc0]), (5, [4, 0, 0, 0]), (6, [3, 0, 0, 0])]"

definition fw6Container :: "u8 list \<Rightarrow> u8 list \<Rightarrow> u8 list" where
  "fw6Container otpImg fwImg =
     fwMagic @ [0x77] @ concat (map (encIe 0x77) (fw6Elements otpImg fwImg))"

definition qca9377_firmware6_len :: nat where "qca9377_firmware6_len = 751436"

text \<open>Payloads of the sizes in the header: 24193 bytes of OTP code, 727125 bytes of firmware.\<close>

definition fw6Sized :: "u8 list \<Rightarrow> u8 list \<Rightarrow> bool" where
  "fw6Sized otpImg fwImg \<longleftrightarrow> length otpImg = 24193 \<and> length fwImg = 727125"

lemma length_encIe: "length (encIe b r) = 8 + length (snd r) + (4 - length (snd r) mod 4) mod 4"
  by (simp add: encIe_def)

lemma fw6_length: "fw6Sized otpImg fwImg \<Longrightarrow> length (fw6Container otpImg fwImg) = qca9377_firmware6_len"
  by (simp add: fw6Container_def fw6Elements_def fw6Sized_def length_encIe ascii_def qca9377_firmware6_len_def)

lemma fw6_fold:
  "fold addIe (fw6Elements otpImg fwImg) (None, None, replicate 64 0) =
     (Some fwImg, Some otpImg, ascii ''WLAN.TF.2.1-00021-QCARMSWP-1'' @ 0 # replicate 35 0)"
  by (simp add: fw6Elements_def ascii_def)

lemma fw6_parsed:
  assumes "fw6Sized otpImg fwImg"
  obtains out where "parseFirmware (fw6Container otpImg fwImg) = Some (True, out)"
    and "blob (fw6Container otpImg fwImg) (otp out) (otpLen out) = Some otpImg"
    and "blob (fw6Container otpImg fwImg) (firmware out) (firmwareLen out) = Some fwImg"
    and "unat (otpLen out) = 24193" and "unat (firmwareLen out) = 727125"
    and "version out = ascii ''WLAN.TF.2.1-00021-QCARMSWP-1'' @ 0 # replicate 35 0"
proof -
  have good: "\<forall>r \<in> set (fw6Elements otpImg fwImg). length (snd r) + 3 < 2 ^ 32"
    using assms by (simp add: fw6Elements_def fw6Sized_def ascii_def)
  have len: "length (fw6Container otpImg fwImg) < 2 ^ 32"
    using fw6_length [OF assms] by (simp add: qca9377_firmware6_len_def)
  obtain out where out: "parseFirmware (fw6Container otpImg fwImg) =
      Some (firmware out \<noteq> None \<and> firmwareLen out \<noteq> 0, out)" "imageOk (fw6Container otpImg fwImg) out"
      "imageOf (fw6Container otpImg fwImg) out = (Some fwImg, Some otpImg,
        ascii ''WLAN.TF.2.1-00021-QCARMSWP-1'' @ 0 # replicate 35 0)"
    using parseFirmware_encoded [OF good fw6Container_def len] unfolding fw6_fold by blast
  have fw: "blob (fw6Container otpImg fwImg) (firmware out) (firmwareLen out) = Some fwImg"
    "blob (fw6Container otpImg fwImg) (otp out) (otpLen out) = Some otpImg"
    and v: "version out = ascii ''WLAN.TF.2.1-00021-QCARMSWP-1'' @ 0 # replicate 35 0"
    using out(3) by (simp_all add: imageOf_def blob_def)
  have l: "unat n = length img" if "blob data p n = Some img" "\<forall>q. p = Some q \<longrightarrow> q + unat n \<le> length data"
    for data p n img
    using that by (auto simp: blob_def)
  have "unat (firmwareLen out) = 727125" "unat (otpLen out) = 24193"
    using l [OF fw(1)] l [OF fw(2)] out(2) assms by (simp_all add: imageOk_def fw6Sized_def)
  moreover from this fw(1) have "firmware out \<noteq> None \<and> firmwareLen out \<noteq> 0" by (auto simp: blob_def)
  ultimately show thesis using out(1) fw v that by auto
qed

section \<open>qca9377\_board2\_bin\<close>

text \<open>The subsystem ids of the cards that have a board file in the container, in its order.\<close>

definition board2Ids :: "(u16 \<times> u16) list" where
  "board2Ids =
    [(0x169c, 0x3365), (0x168c, 0x334f), (0x144d, 0x412b), (0x144d, 0x412c), (0x144d,
     0x412d), (0x144d, 0x412e), (0x144d, 0x4133), (0x1a3b, 0x2231), (0x1a3b, 0x2b31),
     (0x1a3b, 0x2c31), (0x1a3b, 0x2d31), (0x1a3b, 0x2f31), (0x144f, 0x7145), (0x105b,
     0xe09a), (0x11ad, 0x0806), (0x11ad, 0x1806), (0x17aa, 0x4235), (0x17aa, 0x4335),
     (0x168c, 0x3365), (0x168c, 0x3369), (0x168c, 0x3368), (0x1a3b, 0x223a), (0x1a3b,
     0x223b), (0x1a3b, 0x223c), (0x1a3b, 0x2251), (0x1a3b, 0x2b51), (0x1a3b, 0x2c51),
     (0x1a3b, 0x2a51), (0x144f, 0x7142), (0x11ad, 0x0507), (0x1a3b, 0x2510), (0x11ad,
     0x08a6), (0x105b, 0xe0a1), (0x17aa, 0x4035), (0x17aa, 0x4135), (0x17aa, 0x0901),
     (0x1028, 0x1810)]"

text \<open>One top-level element per card, its name and its data nested in the payload.\<close>

definition board2Entry :: "(u16 \<times> u16) \<times> u8 list \<Rightarrow> ie list" where
  "board2Entry = (\<lambda>((v, d), bs). [(0, boardName v d), (1, bs)])"

definition board2Container :: "u8 list list \<Rightarrow> u8 list" where
  "board2Container files = boardMagic @ [0x6d, 0x6d, 0x6d] @ concat (map (encIe 0x6d)
     (map (\<lambda>c. (0, concat (map (encIe 0x6d) (board2Entry c)))) (zip board2Ids files)))"

definition qca9377_board2_len :: nat where "qca9377_board2_len = 304308"

definition board2Sized :: "u8 list list \<Rightarrow> bool" where
  "board2Sized files \<longleftrightarrow> map length files = replicate 37 8124"

lemma length_board2Ids [simp]: "length board2Ids = 37"
  by (simp add: board2Ids_def)

lemma distinct_board2Ids: "distinct board2Ids"
  by (simp add: board2Ids_def)

lemma entry_length:
  "length bs = 8124 \<Longrightarrow> length (concat (map (encIe b) (board2Entry (c, bs)))) = 8216"
  by (simp add: board2Entry_def length_encIe split: prod.split)

lemma length_blocks: "\<forall>x \<in> set xs. length (f x) = k \<Longrightarrow> length (concat (map f xs)) = length xs * k"
  by (induction xs) auto

lemma concat_blocks: "concat (map g (concat (map f xs))) = concat (map (\<lambda>x. concat (map g (f x))) xs)"
  by (induction xs) simp_all

lemma board2_sizes:
  assumes "board2Sized files" and "c \<in> set (zip board2Ids files)"
  shows "length (snd c) = 8124"
proof -
  have "snd c \<in> set files" using assms(2) set_zip_rightD [of "fst c" "snd c"] by simp
  then have "length (snd c) \<in> set (map length files)" by simp
  then show ?thesis using assms(1) unfolding board2Sized_def by (metis in_set_replicate)
qed

lemma board2_entries:
  assumes "board2Sized files"
  shows "\<forall>c \<in> set (zip board2Ids files). length (concat (map (encIe b) (board2Entry c))) = 8216"
proof
  fix c assume "c \<in> set (zip board2Ids files)"
  from entry_length [OF board2_sizes [OF assms this], of b "fst c"]
  show "length (concat (map (encIe b) (board2Entry c))) = 8216" by simp
qed

lemma board2_count: "board2Sized files \<Longrightarrow> length (zip board2Ids files) = 37"
  by (simp add: board2Sized_def) (metis length_map length_replicate min.idem)

lemma board2_length: "board2Sized files \<Longrightarrow> length (board2Container files) = qca9377_board2_len"
proof -
  assume a: "board2Sized files"
  have "\<forall>c \<in> set (zip board2Ids files).
      length (encIe 0x6d (0, concat (map (encIe 0x6d) (board2Entry c)))) = 8224"
    using board2_entries [OF a, of "0x6d"] by (simp only: length_encIe) simp
  from length_blocks [OF this] board2_count [OF a] show ?thesis
    by (simp add: board2Container_def comp_def qca9377_board2_len_def)
qed

lemma board2_unselected: "board2Sized files \<Longrightarrow> selectBoard (board2Container files) v d = Some None"
  using board2_length [of files] board2_entries [of files "0x6d"]
  by (intro nested_boards_never_selected [OF _ board2Container_def])
     (auto simp: qca9377_board2_len_def)

lemma hexDigit_inj: "m < 16 \<Longrightarrow> n < 16 \<Longrightarrow> hexDigit m = hexDigit n \<Longrightarrow> m = n"
  by (auto simp: hexDigit_def word_unat_eq_iff unat_of_nat split: if_splits)

lemma nibbles:
  "(n :: nat) < 65536 \<Longrightarrow> n = 4096 * (n div 4096 mod 16) + 256 * (n div 256 mod 16) + 16 * (n div 16 mod 16) + n mod 16"
proof -
  assume n: "n < 65536"
  define a b c where "a = n div 16" and "b = a div 16" and "c = b div 16"
  note abc = this
  have "n div 256 = b" "n div 4096 = c" by (simp_all add: abc div_mult2_eq [symmetric])
  moreover have "c < 16" using n by (simp add: abc div_mult2_eq [symmetric] less_mult_imp_div_less)
  moreover have "n = 16 * a + n mod 16" "a = 16 * b + a mod 16" "b = 16 * c + b mod 16"
    by (simp_all add: abc)
  ultimately show ?thesis by (simp add: a_def [symmetric])
qed

lemma hex4_inj:
  assumes "hex4 v = hex4 w"
  shows "v = w"
proof -
  have lt: "unat x < 65536" for x :: u16
    by (rule order_less_le_trans [OF unsigned_less]) simp
  have u: "unat (drop_bit i x AND 15) = unat x div 2 ^ i mod 16" for i and x :: u16
  proof -
    have "(15 :: u16) = mask 4" by (simp add: mask_eq_exp_minus_1)
    then have "unat (drop_bit i x AND 15) = unat (take_bit 4 (drop_bit i x))" by (simp only: take_bit_eq_mask)
    also have "\<dots> = take_bit 4 (unat (drop_bit i x))" by (rule unsigned_take_bit_eq)
    also have "unat (drop_bit i x) = unat x div 2 ^ i"
      unfolding unsigned_drop_bit_eq drop_bit_eq_div [where 'a = nat]
      using lt [of x] by (simp add: take_bit_nat_eq_self)
    finally show ?thesis by (simp add: take_bit_eq_mod)
  qed
  have d: "unat v div 2 ^ i mod 16 = unat w div 2 ^ i mod 16" if "i \<in> {12, 8, 4, 0}" for i
  proof -
    have "hexDigit (unat (drop_bit i v AND 15)) = hexDigit (unat (drop_bit i w AND 15))"
      using assms that by (auto simp: hex4_def)
    then show ?thesis unfolding u by (intro hexDigit_inj) simp_all
  qed
  have "unat v = unat w"
    using d [of 12] d [of 8] d [of 4] d [of 0] nibbles [OF lt [of v]] nibbles [OF lt [of w]] by simp
  then show ?thesis by (simp add: word_unat_eq_iff)
qed

lemma boardName_inj: "boardName v d = boardName v' d' \<longleftrightarrow> v = v' \<and> d = d'"
proof -
  have l: "length (hex4 x) = 4" for x by (simp add: hex4_def)
  show ?thesis by (auto simp: boardName_def l dest: hex4_inj)
qed

text \<open>The same records side by side, where the parser looks for them: every card is found.\<close>

lemma boardSpec_flat:
  "boardSpec (boardName v d) m (concat (map board2Entry cs)) = map_of cs (v, d)"
proof (induction cs arbitrary: m)
  case (Cons c cs)
  obtain v' d' bs where "c = ((v', d'), bs)" by (cases c) auto
  with Cons.IH show ?case by (auto simp: board2Entry_def boardName_inj)
qed simp

section \<open>Properties\<close>

text \<open>
  C15: The embedded board container is of no use to the selection: whatever the board files in it are and
  whatever card is present, no board is selected, although each of the 37 cards it names has its
  file there.  With the same records side by side, where the parser looks for them, exactly the file
  of the card would be found.
\<close>

theorem embedded_boards_unused:
  assumes "board2Sized files"
    and "flat = boardMagic @ [0x6d, 0x6d, 0x6d] @
      concat (map (encIe 0x6d) (concat (map board2Entry (zip board2Ids files))))"
  shows "length (board2Container files) = qca9377_board2_len \<and>
    selectBoard (board2Container files) v d = Some None \<and>
    (\<exists>r. selectBoard flat v d = Some r \<and> map_option (slice flat) r = map_of (zip board2Ids files) (v, d))"
proof -
  have f: "length bs = 8124" if "(c, bs) \<in> set (zip board2Ids files)" for c bs
    using board2_sizes [OF assms(1) that] by simp
  have good: "\<forall>r \<in> set (concat (map board2Entry (zip board2Ids files))). length (snd r) + 3 < 2 ^ 32"
    by (auto simp: board2Entry_def f)
  have "length flat < 2 ^ 32"
    using length_blocks [OF board2_entries [OF assms(1)], of "0x6d"] board2_count [OF assms(1)]
    by (simp only: assms(2) concat_blocks) simp
  moreover have "walk ieStep flat 20 = concat (map board2Entry (zip board2Ids files))"
    using ies.walk_enc [OF good, of "boardMagic @ [0x6d, 0x6d, 0x6d]" "0x6d"] by (simp only: assms(2)) simp
  ultimately show ?thesis
    using board2_unselected [OF assms(1)] board2_length [OF assms(1)] selectBoard_spec [of flat v d]
    by (simp add: boardSpec_flat) (auto simp: assms(2))
qed

theorem embedded_boards_unused_witness:
  "selectBoard (board2Container (replicate 37 (replicate 8124 7))) 0x168c 0x334f = Some None"
  using embedded_boards_unused [of "replicate 37 (replicate 8124 7)", OF _ refl] by (simp add: board2Sized_def)

end
