(* ===== verification/BootSequence.thy ===== *)
theory BootSequence
  imports StartUp Books Images
begin

text \<open>
  The whole boot over the boot monitor: what a successful \<open>bootFirmware\<close> of
  \<open>skeleton/QCA9377Driver.cpp\<close> has sent, in order, with the containers of the generated header.  The
  parts are the properties of \<open>configureTarget\<close>, \<open>downloadBoardData\<close>, \<open>runOtp\<close>, \<open>downloadFirmware\<close> and
  \<open>doneAndWaitTargetInit\<close>; here they are composed along the code of the driver.
\<close>

section \<open>The steps on the driver\<close>

text \<open>A driver before BMI_DONE, whose control pair leaves the marks \<open>M\<close>.\<close>

definition boots :: "(event list \<Rightarrow> mark list) \<Rightarrow> driver \<Rightarrow> bool" where
  "boots M d \<longleftrightarrow> (\<exists>ce b. fCe d = Some ce \<and> fBmi d = Some b \<and> ctrlUp ce \<and> ctrlMarks ce = M \<and> \<not> fDoneSent b)"

lemma boots_tail [simp]: "boots M (d\<lparr>fTail := t\<rparr>) = boots M d"
  by (simp add: boots_def)

lemma does_withBmi:
  assumes "boots M d"
    and "\<And>ce b. ctrlUp ce \<Longrightarrow> ctrlMarks ce = M \<Longrightarrow> \<not> fDoneSent b \<Longrightarrow> does (f ce b) (\<lambda>(r, ce', b') es. P r ce' b' es)"
  shows "does (withBmi f dflt d) (\<lambda>(r, d') es. \<exists>ce' b'. fCe d' = Some ce' \<and> fBmi d' = Some b' \<and> P r ce' b' es)"
proof -
  from assms(1) obtain ce b where d: "fCe d = Some ce" "fBmi d = Some b" "ctrlUp ce" "ctrlMarks ce = M" "\<not> fDoneSent b"
    by (auto simp: boots_def)
  show ?thesis
    unfolding withBmi_def d option.case prod.case
    by (intro does_intros does_mono [OF assms(2) [OF d(3,4,5)]]) auto
qed

lemma boots_step:
  assumes "boots M d" and "\<And>ce b. ctrlUp ce \<Longrightarrow> \<not> fDoneSent b \<Longrightarrow> ctrlMarks ce = M \<Longrightarrow>
      does (f ce b) (\<lambda>(r, ce', b') es. ctrlUp ce' \<and> ctrlMarks ce' = ctrlMarks ce \<and> \<not> fDoneSent b' \<and> P r es)"
  shows "does (withBmi f dflt d) (\<lambda>(r, d') es. boots M d' \<and> P r es)"
  by (rule does_mono [OF does_withBmi [OF assms(1), where P = "\<lambda>r ce' b' es. ctrlUp ce' \<and> ctrlMarks ce' = M \<and>
      \<not> fDoneSent b' \<and> P r es"]], rule does_mono [OF assms(2)]) (auto simp: boots_def)

definition configMarks :: "u32 \<Rightarrow> mark list" where
  "configMarks opt = [Sent (hiWrite 0 2), Armed, Sent (hiRead 0x10), Got, Sent (hiWrite 0x10 (opt OR 0x2208)),
     Sent (hiWrite 0x44 0), Sent (hiWrite 0x104 0), Sent (hiWrite 0xbc 0x42)]"

lemma boot_configure:
  assumes "boots M d"
  shows "does (withBmi (configureTarget H) False d) (\<lambda>(ok, d') es. boots M d' \<and> (ok \<longrightarrow> (\<exists>opt. M es = configMarks opt)))"
  by (rule boots_step [OF assms], rule does_mono [OF does_configureTarget]) (auto simp: configMarks_def)

text \<open>The frames that write the board file to the address the target announced, and no more of it.\<close>

definition boardFrames :: "u32 \<Rightarrow> u8 list list \<Rightarrow> bool" where
  "boardFrames adr fs \<longleftrightarrow> adr \<noteq> 0 \<and> (unat adr + 8195 < 2 ^ 32 \<longrightarrow> (\<exists>junk. length junk < 4 \<and>
     (\<forall>m. fold applyWrite fs m = stBytes (unat adr) (qca9377_board_bin @ junk) m)))"

definition boardMarks :: "u8 list list \<Rightarrow> mark list" where
  "boardMarks fs = [Armed, Sent (hiRead 0x54), Got] @ map Sent fs @ [Sent (hiWrite 0x58 1)]"

lemma boot_board:
  assumes "boots M d"
  shows "does (withBmi (\<lambda>ce b. downloadBoardData H ce b (Some qca9377_board_bin)) False d) (\<lambda>(ok, d') es.
    boots M d' \<and> (ok \<longrightarrow> (\<exists>adr fs. boardFrames adr fs \<and> M es = boardMarks fs)))"
proof (rule boots_step [OF assms])
  fix ce :: CEManager and b :: Bmi assume c: "ctrlUp ce" "\<not> fDoneSent b" "ctrlMarks ce = M"
  have t: "take 8192 qca9377_board_bin = qca9377_board_bin" by (simp add: board_bin_length)
  show "does (downloadBoardData H ce b (Some qca9377_board_bin)) (\<lambda>(r, ce', b') es. ctrlUp ce' \<and>
      ctrlMarks ce' = ctrlMarks ce \<and> \<not> fDoneSent b' \<and> (r \<longrightarrow> (\<exists>adr fs. boardFrames adr fs \<and> M es = boardMarks fs)))"
    by (rule does_mono [OF does_conj [OF does_downloadBoardData [OF c(1,2)] board_downloads [OF c(1,2)]]])
       (auto simp: boardFrames_def boardMarks_def t c(3))
qed

definition otpMarks :: "u8 list \<Rightarrow> mark list" where
  "otpMarks img = map Sent (streamFrames 0x1234 img) @ [Armed, Sent (le32 4 @ le32 0x1234 @ le32 0x10), Got]"

lemma boot_otp:
  assumes "boots M d"
  shows "does (withBmi (\<lambda>ce b. runOtp H ce b (Some img)) None d) (\<lambda>(r, d') es. boots M d' \<and> (r \<noteq> None \<longrightarrow> M es = otpMarks img))"
  by (rule boots_step [OF assms], rule does_mono [OF does_runOtp]) (auto simp: otpMarks_def)

lemma boot_firmware:
  assumes "boots M d"
  shows "does (withBmi (\<lambda>ce b. do { (ok, ce) \<leftarrow> downloadFirmware H ce (Some img); ret (ok, ce, b) }) False d)
    (\<lambda>(ok, d') es. boots M d' \<and> (ok \<longrightarrow> M es = map Sent (streamFrames 0x1234 img)))"
  unfolding downloadFirmware_def
  apply (rule boots_step [OF assms])
  apply (intro does_intros)
   apply (rule does_mono [OF does_fastDownload], assumption)
  apply (intro does_intros)
  apply auto
  done

text \<open>The end of the boot: BMI_DONE, and an indicator that says initialised.\<close>

definition targetReady :: "event list \<Rightarrow> bool" where
  "targetReady es \<longleftrightarrow> (\<exists>pre ps post. es = pre @ ps @ post \<and> polls 0x3a028 ps \<and> length ps \<le> 120000 \<and> acts post = [] \<and>
     (let v = lastRd 0x3a028 ps 0 in v \<noteq> 0xffffffff \<and> v AND 1 = 0 \<and> v AND 2 \<noteq> 0))"

lemma targetReadyI:
  "polls 0x3a028 ps \<Longrightarrow> length ps \<le> 120000 \<Longrightarrow> lastRd 0x3a028 ps 0 \<noteq> 0xffffffff \<Longrightarrow> lastRd 0x3a028 ps 0 AND 1 = 0 \<Longrightarrow>
     lastRd 0x3a028 ps 0 AND 2 \<noteq> 0 \<Longrightarrow> acts post = [] \<Longrightarrow> targetReady (pre @ ps @ post)"
  unfolding targetReady_def Let_def by blast

lemma targetReady_more: "targetReady es \<Longrightarrow> acts fs = [] \<Longrightarrow> targetReady (xs @ es @ fs)"
proof -
  assume "targetReady es" and fs: "acts fs = []"
  then obtain pre ps post where p: "es = pre @ ps @ post" "polls 0x3a028 ps" "length ps \<le> 120000" "acts post = []"
    "lastRd 0x3a028 ps 0 \<noteq> 0xffffffff" "lastRd 0x3a028 ps 0 AND 1 = 0" "lastRd 0x3a028 ps 0 AND 2 \<noteq> 0"
    unfolding targetReady_def Let_def by blast
  then show "targetReady (xs @ es @ fs)"
    using targetReadyI [OF p(2,3,5-7), of "post @ fs" "xs @ pre"] fs by simp
qed

lemma boot_done:
  assumes "boots M d"
  shows "does (withBmi (doneAndWaitTargetInit H) False d) (\<lambda>(ok, d') es. ok \<longrightarrow>
    (\<exists>b. fBmi d' = Some b \<and> fDoneSent b) \<and> M es = [Sent cmdDone] \<and> targetReady es)"
  apply (rule does_mono [OF does_withBmi [OF assms, where P = "\<lambda>ok ce' b' es. ok \<longrightarrow> fDoneSent b' \<and>
      M es = [Sent cmdDone] \<and> targetReady es"]])
   apply (rule does_mono [OF does_doneAndWaitTargetInit], assumption)
   apply (auto simp: Let_def intro: targetReadyI [where post = "[]", simplified])
  done

section \<open>What surrounds them\<close>

lemma quiet_marks: "acts es = [] \<Longrightarrow> ctrlMarks ce es = []"
proof -
  have "markOf p e = None" if "telemetry e" for p e using that by (cases e) auto
  then have "acts es = [] \<Longrightarrow> pairMarks p es = []" for p
    by (intro pairMarks_none) (auto simp: acts_def filter_empty_conv)
  then show "acts es = [] \<Longrightarrow> ctrlMarks ce es = []"
    by (simp add: ctrlMarks_def split: option.split)
qed

lemma does_qlog_line:
  assumes "s \<noteq> []"
  shows "does (qlog d s) (\<lambda>d' es. acts es = [] \<and> (\<exists>t. d' = d\<lparr>fTail := t\<rparr>) \<and> Log (take 255 s) \<in> set es)"
  unfolding qlog_def logTailFlush_def using assms by (auto intro!: does_intros)

lemma does_giveUp: "does (giveUp H d s st) (\<lambda>(ok, d') es. \<not> ok)"
  unfolding giveUp_def teardownHardware_def ceDestroy_def
  apply (intro does_intros tells does_mono [OF does_teardown] does_mono [OF does_diagTeardown])
  apply auto
  done

section \<open>The whole boot\<close>

definition otpFailed :: string where
  "otpFailed = ''QCA9377: M3 OTP failed (continuing, cal may be wrong)'' @ nl"

text \<open>What the control pair carried when the boot of the given images succeeded.\<close>

definition booted :: "(event list \<Rightarrow> mark list) \<Rightarrow> u8 list \<Rightarrow> u8 list \<Rightarrow> event list \<Rightarrow> bool" where
  "booted M otpImg fwImg es \<longleftrightarrow> targetReady es \<and> (\<exists>opt adr fs om. boardFrames adr fs \<and>
     (om = otpMarks otpImg \<or> Log otpFailed \<in> set es) \<and>
     M es = configMarks opt @ boardMarks fs @ om @ map Sent (streamFrames 0x1234 fwImg) @ [Sent cmdDone])"

lemma bootedI:
  "boardFrames adr fs \<Longrightarrow> targetReady es \<Longrightarrow> om = otpMarks otpImg \<or> Log otpFailed \<in> set es \<Longrightarrow>
     M es = configMarks opt @ boardMarks fs @ om @ map Sent (streamFrames 0x1234 fwImg) @ [Sent cmdDone] \<Longrightarrow>
     booted M otpImg fwImg es"
  unfolding booted_def by blast

definition embedded :: "u8 list \<Rightarrow> u8 list \<Rightarrow> u8 list list \<Rightarrow> FwData" where
  "embedded otpImg fwImg files = \<lparr>qca9377_firmware6_bin = fw6Container otpImg fwImg,
     qca9377_board2_bin = board2Container files\<rparr>"

abbreviation ifOk :: "(event list \<Rightarrow> bool) \<Rightarrow> bool \<times> driver \<Rightarrow> event list \<Rightarrow> bool" where
  "ifOk B \<equiv> (\<lambda>(ok, d') es. ok \<longrightarrow> B es)"

text \<open>The last leg, from the firmware download on.\<close>

lemma does_lastLeg:
  assumes "boots (ctrlMarks ce) d" 
    and "\<And>es. targetReady es \<Longrightarrow> ctrlMarks ce es = map Sent (streamFrames 0x1234 fwImg) @ [Sent cmdDone] \<Longrightarrow> B es"
  shows "does (do {
     (ok, d) \<leftarrow> withBmi (\<lambda>ce b. do { (ok, ce) \<leftarrow> downloadFirmware H ce (Some fwImg); ret (ok, ce, b) }) False d;
     if \<not> ok then
       giveUp H d (''QCA9377: M3 firmware download failed'' @ nl) ''M3-FAIL-fw-download''
     else do {
       publishStage d ''M3-fw-downloaded'';
       (ok, d) \<leftarrow> withBmi (doneAndWaitTargetInit H) False d;
       if \<not> ok then
         giveUp H d (''QCA9377: M3 target init wait failed'' @ nl) ''M3-FAIL-init-wait''
       else do {
         publishStage d ''M3-booted'';
         d \<leftarrow> qlog d (''QCA9377: M3 firmware booted (board='' @ dec (unat (fst ids)) @
           '' chip='' @ dec (unat (snd ids)) @ '')'' @ nl);
         ret (True, d) } } }) (ifOk B)"
  apply (rule does_bindP [OF boot_firmware [OF assms(1)]], clarsimp split del: if_split)
  apply (rule does_if, rule does_mono [OF does_giveUp], clarsimp)
  apply (rule does_bindP [OF does_publishStage])
  apply (rule does_bindP [OF boot_done], assumption, clarsimp split del: if_split)
  apply (rule does_if, rule does_mono [OF does_giveUp], clarsimp)
  apply (rule does_bindP [OF does_publishStage])
  apply (rule does_bindP [OF does_qlog])
  apply (rule does_ret, clarsimp)
  subgoal for ok d1 es1 es2 ok2 d2 es3 es4 es5 b
    using targetReady_more [of es3 "es4 @ es5" "es1 @ es2"]
    by (auto intro!: assms(2) simp: quiet_marks)
  done

text \<open>The OTP step: the ids or none, and what was sent for them.\<close>

lemma does_otpStep:
  assumes "boots (ctrlMarks ce) d"
  shows "does (do {
     (r, d) \<leftarrow> withBmi (\<lambda>ce b. runOtp H ce b (Some img)) None d;
     case r of None \<Rightarrow> do {
         d \<leftarrow> qlog d (''QCA9377: M3 OTP failed (continuing, cal may be wrong)'' @ nl);
         ret ((0 :: u32, 0 :: u32), d) }
     | Some ids \<Rightarrow> ret (ids, d) })
     (\<lambda>(ids, d') es. boots (ctrlMarks ce) d' \<and> (ctrlMarks ce es = otpMarks img \<or> Log otpFailed \<in> set es))"
  apply (rule does_bindP [OF boot_otp [OF assms]], clarsimp)
  apply (intro does_intros)
   apply (rule does_mono [OF does_qlog_line], simp)
   apply (intro does_intros)
   apply (auto simp: otpFailed_def)
  done

lemma does_bootFirmware:
  assumes "boots (ctrlMarks ce) d" and "fw6Sized otpImg fwImg" and "board2Sized files"
  shows "does (bootFirmware H (embedded otpImg fwImg files) d) (ifOk (booted (ctrlMarks ce) otpImg fwImg))"
proof -
  obtain out where out: "parseFirmware (fw6Container otpImg fwImg) = Some (True, out)"
    "blob (fw6Container otpImg fwImg) (otp out) (otpLen out) = Some otpImg"
    "blob (fw6Container otpImg fwImg) (firmware out) (firmwareLen out) = Some fwImg"
    "unat (otpLen out) = 24193"
    using fw6_parsed [OF assms(2)] by blast
  have o: "otp out \<noteq> None" "otpLen out \<noteq> 0" using out(2,4) by (auto simp: blob_def)
  show ?thesis
    unfolding bootFirmware_def embedded_def FwData.simps out(1,2,3) option.case prod.case board2_unselected [OF assms(3)] Let_def
    apply (simp only: o not_True_eq_False if_False if_True simp_thms)
    apply (rule does_bindP [OF does_publishStage])
    apply (rule does_bindP [OF does_qlog], clarsimp split del: if_split)
    apply (rule does_bindP [OF boot_configure [where M = "ctrlMarks ce"]], simp add: assms(1), clarsimp split del: if_split)
    apply (rule does_if, rule does_mono [OF does_giveUp], clarsimp)
    apply (rule does_bindP [OF does_publishStage])
    apply (rule does_bindP [OF boot_board], assumption, clarsimp split del: if_split)
    apply (rule does_if, rule does_mono [OF does_giveUp], clarsimp)
    apply (rule does_bindP [OF does_publishStage])
    apply (rule does_bindP [OF does_otpStep], assumption, clarsimp split del: if_split)
    apply (rule does_mono [OF does_lastLeg [where ce = ce and B = "\<lambda>es. targetReady es \<and>
       ctrlMarks ce es = map Sent (streamFrames 0x1234 fwImg) @ [Sent cmdDone]"]], assumption, simp)
    subgoal for es1 es2 ok1 d1 es3 es4 ok2 d2 es5 opt es6 ids1 ids2 d3 es7 adr fs r es8
      using targetReady_more [of es8 "[]" "es1 @ es2 @ es3 @ es4 @ es5 @ es6 @ es7"]
      by (auto intro!: bootedI [where opt = opt and adr = adr and fs = fs and om = "ctrlMarks ce es7"] simp: quiet_marks)
    done
qed

section \<open>From the reset to the boot\<close>

text \<open>A driver of which only \<open>bootFirmware\<close> is missing.\<close>

definition primed :: "driver \<Rightarrow> bool" where
  "primed d \<longleftrightarrow> (\<exists>ce. boots (ctrlMarks ce) d)"

lemma getTargetInfo_primes:
  assumes "sound ce" and "\<not> fDoneSent b"
  shows "does (getTargetInfo H ce b) (\<lambda>(ok, ce', b') es. ok \<longrightarrow> ctrlUp ce' \<and> \<not> fDoneSent b')"
proof (cases "fCtrl ce")
  case None
  then show ?thesis
    unfolding getTargetInfo_def by (auto intro!: does_intros simp: buffersUp_def)
next
  case (Some p)
  then have "ctrlUp ce" using assms(1) by (auto simp: ctrlUp_def sound_def goodPair_def)
  then show ?thesis
    unfolding getTargetInfo_def
    by (intro does_intros does_mono [OF does_exchangeWait [OF _ _ assms(2)]]) auto
qed

lemma acct_getTargetInfo:
  assumes "soundDrv d" and "\<And>b. fBmi d = Some b \<Longrightarrow> \<not> fDoneSent b"
    and "\<And>ok d'. soundDrv d' \<Longrightarrow> drvLent d' = drvLent d \<Longrightarrow> (ok \<Longrightarrow> primed d') \<Longrightarrow> Q (ok, d') c"
  shows "acct c (withBmi (getTargetInfo H) False d) Q"
proof -
  have one: "calm (getTargetInfo H ce b) (\<lambda>(ok, ce', b'). sound ce' \<and> lent ce' = lent ce \<and>
      (ok \<longrightarrow> ctrlUp ce' \<and> \<not> fDoneSent b'))" if "sound ce" "\<not> fDoneSent b" for ce b
  proof -
    have "calm (getTargetInfo H ce b) (\<lambda>(ok, ce', b'). sound ce' \<and> lent ce' = lent ce)"
      by (intro calm_intros) (use that in auto)
    moreover have "does (getTargetInfo H ce b) (\<lambda>r es. case r of (ok, ce', b') \<Rightarrow> ok \<longrightarrow> ctrlUp ce' \<and> \<not> fDoneSent b')"
      by (rule does_mono [OF getTargetInfo_primes [OF that]]) auto
    ultimately show ?thesis by (rule calm_mono [OF calm_also]) auto
  qed
  show ?thesis
    unfolding withBmi_def
    apply (intro acct_calm calm_mono [OF one] calm_intros)
       apply (use assms(1,2) in \<open>auto intro!: assms(3) simp: primed_def boots_def\<close>)
    done
qed

lemma acct_probeBmi_primed:
  assumes "soundDrv d"
  shows "acct c (probeBmi H d) (\<lambda>(ok, d') c'. soundDrv d' \<and> (ok \<longrightarrow> primed d'))"
  unfolding probeBmi_def
  apply (intro acct_bind acct_giveUp acct_teardownHardware acct_ensureCE acct_initDiag acct_getTargetInfo acct_basic
     acct_calm calm_intros)
  apply (use assms in \<open>auto simp: newBmi_def\<close>)
  done

text \<open>The reset does not create the BMI object, and a failed probe leaves none.\<close>

lemma bmi_giveUp: "gives (giveUp H d s u) (\<lambda>(ok, d'). fBmi d' = None)"
  unfolding giveUp_def by (intro gives_intros) auto

lemma bmi_probeBmi: "fBmi d = None \<Longrightarrow> gives (probeBmi H d) (\<lambda>(ok, d'). ok \<or> fBmi d' = None)"
  unfolding probeBmi_def
  by (intro gives_intros gives_mono [OF bmiView.kept_ensureCE] gives_mono [OF bmiView.kept_initConfig]
      gives_mono [OF bmi_giveUp] gives_mono [OF bmiView.kept_logHi] gives_mono [OF bmiView.kept_wakeTargetCpu]) auto

lemma does_also: "does m P \<Longrightarrow> gives m Q \<Longrightarrow> does m (\<lambda>r es. P r es \<and> Q r)"
  by (auto simp: does_def gives_def wp_def split: prod.splits) (metis fst_conv)

lemma owed_self: "soundDrv d \<Longrightarrow> owed 0 d (\<lambda>k. drvLoan k d)"
  by (auto simp: owing_def bal_def lentLoan_drv intro!: bexI [of _ 0])

lemma does_reset:
  assumes "fCe d = None" and "fBmi d = None"
  shows "does (resetChip H d) (\<lambda>(ok, d') es. soundDrv d' \<and> fBmi d' = None)"
proof -
  have "owed 0 d (\<lambda>k. drvLoan k d)" using assms by (intro owed_self) simp
  from does_also [OF acct_resetChip [OF this assms(1), unfolded acct_def] bmiView.kept_resetChip [OF assms(2)]]
  show ?thesis by (rule does_mono) (auto simp: owing_def)
qed

text \<open>After the BMI probe there is no BMI object, or everything is ready for the boot.\<close>

definition probed :: "driver \<Rightarrow> bool" where
  "probed d \<longleftrightarrow> soundDrv d \<and> (fBmi d = None \<or> primed d)"

lemma probed_tail [simp]: "probed (d\<lparr>fTail := t\<rparr>) = probed d"
  by (simp add: probed_def primed_def)

lemma does_probe:
  assumes "soundDrv d" and "fBmi d = None"
  shows "does (probeBmi H d) (\<lambda>(ok, d') es. probed d')"
  using does_also [OF acct_probeBmi_primed [OF assms(1), unfolded acct_def] bmi_probeBmi [OF assms(2)]]
  by (rule does_mono) (auto simp: probed_def)

text \<open>A stretch of the log in which the boot of the given images happened.\<close>

definition bootedIn :: "u8 list \<Rightarrow> u8 list \<Rightarrow> event list \<Rightarrow> bool" where
  "bootedIn otpImg fwImg es \<longleftrightarrow> (\<exists>ce pre mid post. es = pre @ mid @ post \<and> ctrlUp ce \<and>
     booted (ctrlMarks ce) otpImg fwImg mid)"

lemma bootedIn_mid: "ctrlUp ce \<Longrightarrow> booted (ctrlMarks ce) u v mid \<Longrightarrow> bootedIn u v (pre @ mid @ post)"
  unfolding bootedIn_def by blast

lemma does_boot:
  assumes "soundDrv d" and "primed d" and "fw6Sized otpImg fwImg" and "board2Sized files"
  shows "does (bootFirmware H (embedded otpImg fwImg files) d)
    (\<lambda>(ok, d') es. soundDrv d' \<and> (ok \<longrightarrow> (\<exists>ce. ctrlUp ce \<and> booted (ctrlMarks ce) otpImg fwImg es)))"
proof -
  obtain ce where b: "boots (ctrlMarks ce) d" "ctrlUp ce" using assms(2) by (auto simp: primed_def boots_def)
  from does_conj [OF acct_bootFirmware [OF owed_self [OF assms(1)], unfolded acct_def]
      does_bootFirmware [OF b(1) assms(3,4)]]
  show ?thesis by (rule does_mono) (use b(2) in \<open>auto simp: owing_def\<close>)
qed

lemma does_stages:
  assumes "fCe d = None" and "fBmi d = None" and "fw6Sized otpImg fwImg" and "board2Sized files"
  shows "does (stages H (embedded otpImg fwImg files) fuel d) (\<lambda>(r, d') es.
    r = None \<or> (\<exists>m4. r = Some (True, m4)) \<longrightarrow> bootedIn otpImg fwImg es)"
  unfolding stages_def
  apply (rule does_bindP [OF does_reset [OF assms(1,2)]], clarsimp split del: if_split)
  apply (rule does_bindP [where P = "\<lambda>d' es. probed d'"])
  subgoal
    by (intro does_intros tells does_mono [OF does_probe]) (auto simp: probed_def primed_def)
  apply (rule does_bindP [where P = "\<lambda>(m3, d') es. soundDrv d' \<and> (m3 \<longrightarrow> (\<exists>ce. ctrlUp ce \<and> booted (ctrlMarks ce) otpImg fwImg es))"])
  subgoal
    by (intro does_intros tells does_mono [OF does_boot [OF _ _ assms(3,4)]]) (auto simp: probed_def)
  apply (clarsimp split del: if_split)
  subgoal for d1 es1 d2 es2 m3 d3 es3
    apply (rule does_bindP [where P = "\<lambda>(m4, d') es. \<not> m3 \<longrightarrow> m4 = Some False"])
    subgoal
      by (intro does_intros tells does_mono [OF acct_startHtcWmi [OF owed_self, unfolded acct_def]]) auto
    subgoal for r es4
      using bootedIn_mid [of _ otpImg fwImg es3 "es1 @ es2" es4] by (auto intro!: does_ret)
    done
  done

text \<open>An LZ stream to the patch address that carries an image, padded to words.\<close>

definition carries :: "u8 list list \<Rightarrow> u8 list \<Rightarrow> bool" where
  "carries fs img \<longleftrightarrow> hd fs = cmdLzStart 0x1234 \<and> last fs = cmdLzStart 0 \<and> (\<forall>f \<in> set fs. lzWellFormed f) \<and>
     concat (map lzPayload fs) = img @ replicate ((4 - length img mod 4) mod 4) 0"

lemma stream_carries: "carries (streamFrames 0x1234 img) img"
  using streamFrames_spec [where adr = "0x1234" and p = img] by (simp add: carries_def)

text \<open>
  The marks of a boot: configuration, board file, whatever the OTP step sent, firmware stream, BMI_DONE.
\<close>

definition bootMarks :: "u32 \<Rightarrow> u8 list list \<Rightarrow> mark list \<Rightarrow> u8 list list \<Rightarrow> mark list" where
  "bootMarks opt boardFs otpPart fwFs =
     [Sent (hiWrite 0 2), Armed, Sent (hiRead 0x10), Got, Sent (hiWrite 0x10 (opt OR 0x2208)),
      Sent (hiWrite 0x44 0), Sent (hiWrite 0x104 0), Sent (hiWrite 0xbc 0x42)] @
     [Armed, Sent (hiRead 0x54), Got] @ map Sent boardFs @ [Sent (hiWrite 0x58 1)] @
     otpPart @ map Sent fwFs @ [Sent cmdDone]"

lemma bootedIn_marks:
  assumes "bootedIn otpImg fwImg es"
  obtains ce pre mid post opt adr boardFs otpPart fwFs where "es = pre @ mid @ post" and "ctrlUp ce"
    and "ctrlMarks ce mid = bootMarks opt boardFs otpPart fwFs" and "boardFrames adr boardFs"
    and "carries fwFs fwImg" and "targetReady mid"
    and "Log otpFailed \<in> set mid \<or> (\<exists>otpFs. carries otpFs otpImg \<and>
        otpPart = map Sent otpFs @ [Armed, Sent (le32 4 @ le32 0x1234 @ le32 0x10), Got])"
proof -
  from assms obtain ce pre mid post opt adr fs om where b: "es = pre @ mid @ post" "ctrlUp ce" "targetReady mid"
    "boardFrames adr fs" "om = otpMarks otpImg \<or> Log otpFailed \<in> set mid"
    "ctrlMarks ce mid = configMarks opt @ boardMarks fs @ om @ map Sent (streamFrames 0x1234 fwImg) @ [Sent cmdDone]"
    unfolding bootedIn_def booted_def by blast
  have "ctrlMarks ce mid = bootMarks opt fs om (streamFrames 0x1234 fwImg)"
    unfolding b(6) by (simp add: bootMarks_def configMarks_def boardMarks_def)
  moreover have "Log otpFailed \<in> set mid \<or> (\<exists>otpFs. carries otpFs otpImg \<and>
      om = map Sent otpFs @ [Armed, Sent (le32 4 @ le32 0x1234 @ le32 0x10), Got])"
    using b(5) stream_carries [of otpImg] unfolding otpMarks_def by blast
  ultimately show thesis using b(1-4) stream_carries that by blast
qed



end
