(* ===== verification/Online.thy ===== *)
theory Online
  imports BootSequence
begin

text \<open>
  The last stage: what a successful \<open>startHtcWmi\<close> of \<open>skeleton/QCA9377Driver.cpp\<close> has exchanged with the
  target, and the state in which it leaves the driver.  The parts are the properties of \<open>waitTarget\<close>,
  \<open>connectService\<close>, \<open>setupComplete\<close> and \<open>waitServiceAndReady\<close>.
\<close>

section \<open>The steps on the driver\<close>

text \<open>Sound managers with the same regions leave the same marks.\<close>

lemma same_pair:
  assumes "goodPair e p" and "goodPair e q" and "region q = region p"
  shows "pairMarks q = pairMarks p" and "fRxCpu q = fRxCpu p"
  using assms by (auto simp: goodPair_def pairUp_def laidOut_def intro!: pairMarks_cong)

lemma same_slot:
  assumes "pred_option (goodPair e) x" and "pred_option (goodPair e) y" and "map_option region y = map_option region x"
  obtains "x = None" "y = None" | p q where "x = Some p" "y = Some q" "pairUp p" "pairUp q"
    "pairMarks q = pairMarks p" "fRxCpu q = fRxCpu p"
proof (cases x)
  case None
  then show thesis using assms(3) that(1) by simp
next
  case (Some p)
  then obtain q where "y = Some q" "region q = region p" using assms(3) by auto
  then show thesis
    using Some assms(1,2) that(2) [of p q] same_pair [of e p q] by (simp add: goodPair_def)
qed

lemma same_marks:
  assumes "sound c" and "sound ce" and "lent ce = lent c"
  shows "ctrlUp ce = ctrlUp c" and "ctrlMarks ce = ctrlMarks c" and "rxAddr ce = rxAddr c"
    and "wmiUp ce = wmiUp c" and "wmiMarks ce = wmiMarks c"
proof -
  have s: "pred_option (goodPair (0, 1)) (fCtrl c)" "pred_option (goodPair (0, 1)) (fCtrl ce)"
    "pred_option (goodPair (3, 2)) (fWmi c)" "pred_option (goodPair (3, 2)) (fWmi ce)"
    using assms(1,2) by (simp_all add: sound_def)
  have r: "map_option region (fCtrl ce) = map_option region (fCtrl c)"
    "map_option region (fWmi ce) = map_option region (fWmi c)"
    using assms(3) by (simp_all add: lent_def)
  show "ctrlUp ce = ctrlUp c" "ctrlMarks ce = ctrlMarks c" "rxAddr ce = rxAddr c"
    by (rule same_slot [OF s(1,2) r(1)]; simp add: ctrlUp_def ctrlMarks_def rxAddr_def fun_eq_iff)+
  show "wmiUp ce = wmiUp c" "wmiMarks ce = wmiMarks c"
    by (rule same_slot [OF s(3,4) r(2)]; simp add: wmiUp_def wmiMarks_def fun_eq_iff)+
qed

text \<open>A driver whose manager has the regions of \<open>c\<close>, and its HTC object.\<close>

definition linked :: "CEManager \<Rightarrow> Htc \<Rightarrow> driver \<Rightarrow> bool" where
  "linked c h d \<longleftrightarrow> fHtc d = Some h \<and> (\<exists>ce. fCe d = Some ce \<and> sound ce \<and> lent ce = lent c)"

lemma linked_upd [simp]:
  "linked c h (d\<lparr>fTail := t\<rparr>) = linked c h d" "linked c h (d\<lparr>drvWmi := w\<rparr>) = linked c h d"
  by (simp_all add: linked_def)

lemma linked_step:
  assumes "linked c h d" and "sound c"
    and "\<And>ce. sound ce \<Longrightarrow> calm (f ce h) (\<lambda>(r, ce', h'). sound ce' \<and> lent ce' = lent ce)"
    and "\<And>ce. sound ce \<Longrightarrow> lent ce = lent c \<Longrightarrow> does (f ce h) (\<lambda>(r, ce', h') es. P r h' es)"
  shows "does (withHtc f dflt d) (\<lambda>(r, d') es. \<exists>h'. linked c h' d' \<and> P r h' es)"
proof -
  from assms(1) obtain ce where d: "fCe d = Some ce" "fHtc d = Some h" and ce: "sound ce" "lent ce = lent c"
    by (auto simp: linked_def)
  show ?thesis
    unfolding withHtc_def d option.case prod.case
    by (intro does_intros does_mono [OF does_conj [OF assms(3) [OF ce(1), unfolded calm_def] assms(4) [OF ce]]])
       (auto simp: linked_def ce)
qed

definition allUp :: "CEManager \<Rightarrow> bool" where
  "allUp c \<longleftrightarrow> sound c \<and> ctrlUp c \<and> wmiUp c"

lemma allUp_same:
  assumes "allUp c" and "sound ce" and "lent ce = lent c"
  shows "ctrlUp ce" and "wmiUp ce" and "ctrlMarks ce = ctrlMarks c" and "wmiMarks ce = wmiMarks c"
  using assms same_marks [of c ce] by (simp_all add: allUp_def)

lemma link_ready:
  assumes "linked c h d" and "allUp c"
  shows "does (withHtc (\<lambda>ce h. waitTarget H ce h 10000) False d) (\<lambda>(ok, d') es. \<exists>h'. linked c h' d' \<and>
    (ok \<longrightarrow> readyRun 200000 True (ctrlMarks c es) \<and> 0 < fCreditSize h' \<and>
      h' = h\<lparr>fTotalCredits := fTotalCredits h', fCreditSize := fCreditSize h'\<rparr>))"
proof (rule linked_step [OF assms(1)])
  show "sound c" using assms(2) by (simp add: allUp_def)
  fix ce assume s: "sound ce"
  then show "calm (waitTarget H ce h 10000) (\<lambda>(r, ce', h'). sound ce' \<and> lent ce' = lent ce)"
    by (intro calm_intros) auto
  assume "lent ce = lent c"
  note m = allUp_same [OF assms(2) s this]
  show "does (waitTarget H ce h 10000) (\<lambda>(ok, ce', h') es. ok \<longrightarrow> readyRun 200000 True (ctrlMarks c es) \<and>
      0 < fCreditSize h' \<and> h' = h\<lparr>fTotalCredits := fTotalCredits h', fCreditSize := fCreditSize h'\<rparr>)"
    by (rule does_mono [OF does_waitTarget]) (use m in \<open>auto simp: recvDeadline_def\<close>)
qed

lemma link_connect:
  assumes "linked c h d" and "allUp c"
  shows "does (withHtc (\<lambda>ce h. connectService H ce h kHtcSvcWmiControl) None d) (\<lambda>(r, d') es. \<exists>h'. linked c h' d' \<and>
    (\<forall>eid maxMsg. r = Some (eid, maxMsg) \<longrightarrow> ctrlMarks c es = [Armed, Sent (connectFrame h 0x0100), Got] \<and>
      h' = h\<lparr>fCtrlSeq := fCtrlSeq h + 1, fWmiEid := eid, fWmiCredits := fTotalCredits h\<rparr>))"
proof (rule linked_step [OF assms(1)])
  show "sound c" using assms(2) by (simp add: allUp_def)
  fix ce assume s: "sound ce"
  then show "calm (connectService H ce h kHtcSvcWmiControl) (\<lambda>(r, ce', h'). sound ce' \<and> lent ce' = lent ce)"
    by (intro calm_intros) auto
  assume "lent ce = lent c"
  note m = allUp_same [OF assms(2) s this]
  show "does (connectService H ce h kHtcSvcWmiControl) (\<lambda>(r, ce', h') es. \<forall>eid maxMsg. r = Some (eid, maxMsg) \<longrightarrow>
      ctrlMarks c es = [Armed, Sent (connectFrame h 0x0100), Got] \<and>
      h' = h\<lparr>fCtrlSeq := fCtrlSeq h + 1, fWmiEid := eid, fWmiCredits := fTotalCredits h\<rparr>)"
    by (rule does_mono [OF does_connectService]) (use m in auto)
qed

definition setupFrame :: "Htc \<Rightarrow> u8 list" where
  "setupFrame h = [0, 0, 12, 0, 0, fCtrlSeq h, 0, 0] @ le16 5 @ replicate 10 0"

lemma link_setup:
  assumes "linked c h d" and "allUp c"
  shows "does (withHtc (setupComplete H) False d) (\<lambda>(ok, d') es. \<exists>h'. linked c h' d' \<and>
    (ok \<longrightarrow> ctrlMarks c es = [Sent (setupFrame h)] \<and> h' = h\<lparr>fCtrlSeq := fCtrlSeq h + 1\<rparr>))"
proof (rule linked_step [OF assms(1)])
  show "sound c" using assms(2) by (simp add: allUp_def)
  fix ce assume s: "sound ce"
  then show "calm (setupComplete H ce h) (\<lambda>(r, ce', h'). sound ce' \<and> lent ce' = lent ce)"
    by (intro calm_intros) auto
  assume "lent ce = lent c"
  note m = allUp_same [OF assms(2) s this]
  have f: "htcHdr 0 0 12 0 (fCtrlSeq h) @ le16 5 @ replicate 10 0 = setupFrame h"
    by (simp add: setupFrame_def htcHdr_def le16_def)
  show "does (setupComplete H ce h) (\<lambda>(ok, ce', h') es. ok \<longrightarrow> ctrlMarks c es = [Sent (setupFrame h)] \<and>
      h' = h\<lparr>fCtrlSeq := fCtrlSeq h + 1\<rparr>)"
    unfolding setupComplete_def
    by (rule does_mono [OF does_sendCtrlFrame]) (use m f in \<open>auto simp: Let_def\<close>)
qed

text \<open>The WMI conversation of the last step.\<close>

definition talked :: "CEManager \<Rightarrow> Htc \<Rightarrow> event list \<Rightarrow> bool" where
  "talked c h es \<longleftrightarrow> (\<exists>h1 k j. sameButCredits h h1 \<and> 0 < j \<and> j \<le> 5 \<and> traffic (wmiMarks c es) =
     replicate k Got @ [Sent (wmiFrame h1 initFrame)] @ replicate j Got)"

lemma talkedI:
  "sameButCredits h h1 \<Longrightarrow> 0 < j \<Longrightarrow> j \<le> 5 \<Longrightarrow>
     traffic (wmiMarks c es) = replicate k Got @ Sent (wmiFrame h1 initFrame) # replicate j Got \<Longrightarrow> talked c h es"
  unfolding talked_def by (intro exI conjI, assumption+) simp

lemma link_talk:
  assumes "linked c h d" and "allUp c" and "fCreditSize h \<noteq> 0"
  shows "does (withHtc (\<lambda>ce h. do {
      (r, ce, h, w) \<leftarrow> waitServiceAndReady H ce h newWmi 10000 fuel;
      ret ((r, w), ce, h) }) (Some False, newWmi) d) (\<lambda>((r, w), d') es. \<exists>h'. linked c h' d' \<and>
    (r = Some True \<longrightarrow> talked c h es \<and> length (fMac w) = 6))"
proof -
  let ?f = "\<lambda>ce h. do { (r, ce, h, w) \<leftarrow> waitServiceAndReady H ce h newWmi 10000 fuel; ret ((r, w), ce, h) }"
  have "does (withHtc ?f (Some False, newWmi) d) (\<lambda>(x, d') es. \<exists>h'. linked c h' d' \<and>
      (fst x = Some True \<longrightarrow> talked c h es \<and> length (fMac (snd x)) = 6))"
  proof (rule linked_step [OF assms(1)])
    show "sound c" using assms(2) by (simp add: allUp_def)
    fix ce assume s: "sound ce"
    then show "calm (?f ce h) (\<lambda>(r, ce', h'). sound ce' \<and> lent ce' = lent ce)"
      by (intro calm_intros) auto
    assume "lent ce = lent c"
    note m = allUp_same [OF assms(2) s this]
    show "does (?f ce h) (\<lambda>(x, ce', h') es. fst x = Some True \<longrightarrow> talked c h es \<and> length (fMac (snd x)) = 6)"
      by (rule does_bindP [OF does_waitServiceAndReady [OF m(2) assms(3)]], clarsimp, rule does_ret)
         (auto intro: talkedI simp: m)
  qed
  then show ?thesis by (rule does_mono) auto
qed

section \<open>The stage\<close>

lemma initWmi_up:
  assumes "sound m" and "ctrlUp m"
  shows "does (ceInitWmi H m) (\<lambda>(ok, m') es. ok \<longrightarrow> allUp m')"
proof -
  have "does (ceInitWmi H m) (\<lambda>(ok, m') es. fCtrl m' = fCtrl m \<and> (ok \<longrightarrow> fWmi m' \<noteq> None))"
    unfolding ceInitWmi_def
    by (intro does_intros does_mono [OF does_newPair]) auto
  then show ?thesis
    by (rule does_mono [OF does_conj [OF does_ceInitWmi [OF assms(1)]]])
       (use assms in \<open>auto simp: allUp_def ctrlUp_def wmiUp_def sound_def goodPair_def\<close>)
qed

lemma link_window:
  assumes "soundDrv d" and "\<And>ce. fCe d = Some ce \<Longrightarrow> ctrlUp ce"
  shows "does (withCe (ceInitWmi H) False d) (\<lambda>(ok, d') es. ok \<longrightarrow> (\<exists>c. fCe d' = Some c \<and> allUp c))"
proof (cases "fCe d")
  case None
  then show ?thesis unfolding withCe_def by (auto intro!: does_intros)
next
  case (Some ce)
  have "sound ce" "ctrlUp ce" using assms Some by simp_all
  from initWmi_up [OF this] show ?thesis
    unfolding withCe_def Some option.case by (intro does_intros) (rule does_mono, assumption, auto intro!: does_ret)
qed

lemma does_fail:
  "does (do { (ok, d) \<leftarrow> giveUp H d m s; ret (Some ok, d) }) (\<lambda>(r, d') es. r = Some False)"
  by (rule does_bindP [OF does_giveUp]) (auto intro!: does_ret)

text \<open>A stretch without any access to the hardware: telemetry, or the fault of a null object.\<close>

definition aside :: "event list \<Rightarrow> bool" where
  "aside es \<longleftrightarrow> (\<forall>e \<in> set es. telemetry e \<or> e = Fault)"

lemma aside_simps [simp]: "aside []" "aside (xs @ ys) \<longleftrightarrow> aside xs \<and> aside ys" "aside [Fault]"
  by (auto simp: aside_def)

lemma aside_acts [simp, intro]: "acts es = [] \<Longrightarrow> aside es"
  by (auto simp: aside_def acts_def filter_empty_conv)

text \<open>What a driver that is online has behind it, and what it holds.\<close>

definition settled :: "CEManager \<Rightarrow> Htc \<Rightarrow> driver \<Rightarrow> event list \<Rightarrow> bool" where
  "settled c h d es \<longleftrightarrow> (\<exists>h' w q1 talk q2. linked c h' d \<and> drvWmi d = Some w \<and> length (fMac w) = 6 \<and>
     es = q1 @ talk @ q2 \<and> aside q1 \<and> aside q2 \<and> talked c h talk)"

lemma settledI:
  "linked c h' d \<Longrightarrow> drvWmi d = Some w \<Longrightarrow> length (fMac w) = 6 \<Longrightarrow> talked c h talk \<Longrightarrow> aside q1 \<Longrightarrow>
     aside q2 \<Longrightarrow> settled c h d (q1 @ talk @ q2)"
  unfolding settled_def by (intro exI conjI, (assumption | rule refl)+)

lemma does_publishMac: "does (publishMac d) (\<lambda>_ es. acts es = [])"
  unfolding publishMac_def Let_def by (intro does_intros) auto

lemma does_ioNew: "(\<And>b. P b []) \<Longrightarrow> does (ioStep (ioNew H)) P"
  by (intro does_intros) auto

text \<open>From SETUP_COMPLETE on: the WMI conversation and the telemetry of a driver that is online.\<close>

lemma does_talkLeg:
  assumes "linked c h d" and "allUp c" and "fCreditSize h \<noteq> 0"
  shows "does (do {
     publishStage d ''M4-setup-ok'';
     new \<leftarrow> ioStep (ioNew H);
     (if new then ret () else ub);
     (r, d) \<leftarrow> withHtc (\<lambda>ce h. do {
         (r, ce, h, w) \<leftarrow> waitServiceAndReady H ce h newWmi 10000 fuel;
         ret ((r, w), ce, h) }) (Some False, newWmi) d;
     case r of (r, w) \<Rightarrow> do {
     let d = d\<lparr>drvWmi := Some w\<rparr>;
     case r of None \<Rightarrow> ret (None, d)
     | Some ok \<Rightarrow>
       if \<not> ok then do { (ok, d) \<leftarrow> giveUp H d m s; ret (Some ok, d) }
       else do {
         publishStage d ''M4-wmi-online'';
         publishNum ''fw-build'' (fFwBuild w);
         publishNum ''fw-abi0'' (fAbi w ! 0);
         publishNum ''fw-memreqs'' (fNumMemReqs w);
         publishNum ''fw-phy-cap'' (fPhyCapab w);
         publishNum ''fw-rf-chains'' (fNumRfChains w);
         publishMac d;
         let mac = macAddress w;
         d \<leftarrow> qlog d (''QCA9377: M4 WMI online - mac='' @ concat (map (\<lambda>i.
           (if i = 0 then [] else '':'') @ hexN 2 (unat (mac ! i))) [0 ..< 6]) @ nl);
         ret (Some True, d) } } }) (\<lambda>(r, d') es. r = Some True \<longrightarrow> settled c h d' es)"
  unfolding Let_def
  apply (rule does_bindP [OF does_publishStage])
  apply (rule does_bindP [where P = "\<lambda>_ es. es = []"], rule does_ioNew, simp)
  apply (rule does_bindP [where P = "\<lambda>_ es. aside es"])
  subgoal by (intro does_intros) auto
  apply (rule does_bindP [OF link_talk [OF assms(1-3)]], clarsimp split del: if_split)
  apply (rule does_option, rule does_ret, simp)
  apply (rule does_if, rule does_mono [OF does_fail], clarsimp)
  apply (rule does_bindP [OF does_publishStage])
  apply (rule does_bindP [OF does_publishNum])+
  apply (rule does_bindP [OF does_publishMac])
  apply (rule does_bindP [OF does_qlog])
  apply (rule does_ret, clarsimp)
  subgoal for es1 es2 w d1 es3 h' ok es4 es5 es6 es7 es8 es9 es10 es11 t
    using settledI [of c h' "d1\<lparr>drvWmi := Some w, fTail := t\<rparr>" w h es3 "es1 @ es2"
        "es4 @ es5 @ es6 @ es7 @ es8 @ es9 @ es10 @ es11"] by simp
  done

definition online :: "driver \<Rightarrow> event list \<Rightarrow> bool" where
  "online d es \<longleftrightarrow> (\<exists>c h0 eid pre rdy q1 conn q2 setup rest.
     allUp c \<and> es = pre @ rdy @ q1 @ conn @ q2 @ setup @ rest \<and> aside q1 \<and> aside q2 \<and>
     0 < fCreditSize h0 \<and> h0 = newHtc\<lparr>fTotalCredits := fTotalCredits h0, fCreditSize := fCreditSize h0\<rparr> \<and>
     readyRun 200000 True (ctrlMarks c rdy) \<and>
     ctrlMarks c conn = [Armed, Sent (connectFrame h0 0x0100), Got] \<and>
     ctrlMarks c setup = [Sent (setupFrame (h0\<lparr>fCtrlSeq := 1\<rparr>))] \<and>
     settled c (h0\<lparr>fWmiEid := eid, fWmiCredits := fTotalCredits h0, fCtrlSeq := 2\<rparr>) d rest)"

lemma onlineI:
  "allUp c \<Longrightarrow> 0 < fCreditSize h0 \<Longrightarrow> h0 = newHtc\<lparr>fTotalCredits := fTotalCredits h0, fCreditSize := fCreditSize h0\<rparr> \<Longrightarrow>
   readyRun 200000 True (ctrlMarks c rdy) \<Longrightarrow> ctrlMarks c conn = [Armed, Sent (connectFrame h0 0x0100), Got] \<Longrightarrow>
   ctrlMarks c setup = [Sent (setupFrame (h0\<lparr>fCtrlSeq := 1\<rparr>))] \<Longrightarrow>
   settled c (h0\<lparr>fWmiEid := eid, fWmiCredits := fTotalCredits h0, fCtrlSeq := 2\<rparr>) d rest \<Longrightarrow>
   aside q1 \<Longrightarrow> aside q2 \<Longrightarrow> online d (pre @ rdy @ q1 @ conn @ q2 @ setup @ rest)"
  unfolding online_def by (intro exI conjI, (assumption | rule refl)+)

lemma fresh_seq: "h = newHtc\<lparr>fTotalCredits := fTotalCredits h, fCreditSize := fCreditSize h\<rparr> \<Longrightarrow> fCtrlSeq h = 0"
  by (drule arg_cong [of _ _ fCtrlSeq]) (simp add: newHtc_def)

lemma does_noHtc: "fHtc d = None \<Longrightarrow> does (withHtc f False d) (\<lambda>(ok, d') es. \<not> ok)"
  unfolding withHtc_def by (intro does_intros) auto

lemma does_startHtcWmi:
  assumes "soundDrv d" and "\<And>ce. fCe d = Some ce \<Longrightarrow> ctrlUp ce"
  shows "does (startHtcWmi H fuel d) (\<lambda>(r, d') es. r = Some True \<longrightarrow> online d' es)"
  unfolding startHtcWmi_def Let_def
  apply (rule does_bindP [OF link_window [OF assms]], assumption, clarsimp split del: if_split)
  apply (rule does_if, rule does_mono [OF does_fail], clarsimp)
  apply (clarsimp split del: if_split)
  apply (rule does_bindP [OF does_publishStage])
  apply (rule does_bindP [where P = "\<lambda>_ es. es = []"], rule does_ioNew, simp)
  subgoal for ok d1 es1 c u es2 new es3
    apply (cases new)
     apply (simp only: if_True simp_thms)
     apply (rule does_bindP [OF link_ready [where c = c and h = newHtc]], simp add: linked_def allUp_def, assumption)
     apply (clarsimp split del: if_split simp del: kHtcSvcWmiControl_def)
     apply (rule does_if, rule does_mono [OF does_fail], clarsimp)
     apply (clarsimp split del: if_split simp del: kHtcSvcWmiControl_def)
     apply (rule does_bindP [OF does_publishStage])
     apply (rule does_bindP [OF link_connect], assumption+, clarsimp split del: if_split simp del: kHtcSvcWmiControl_def)
     apply (rule does_option, rule does_mono [OF does_fail], clarsimp)
     apply (clarsimp split del: if_split simp del: kHtcSvcWmiControl_def)
     apply (rule does_bindP [OF does_publishNum])
     apply (rule does_bindP [OF does_publishStage])
     apply (rule does_bindP [OF link_setup], assumption+, clarsimp split del: if_split simp del: kHtcSvcWmiControl_def)
     apply (rule does_if, rule does_mono [OF does_fail], clarsimp)
     apply (clarsimp split del: if_split simp del: kHtcSvcWmiControl_def)
     apply (rule does_mono [OF does_talkLeg [unfolded Let_def]], assumption+)
      apply simp
     apply clarsimp
     subgoal for ok2 d2 es4 h0 es5 d3 es6 eid es7 es8 ok4 d4 es9 d5 es10
       using onlineI [of c h0 es4 es6 es9 eid d5 es10 es5 "es7 @ es8" "es1 @ es2"] fresh_seq [of h0]
       by (simp add: setupFrame_def)
    apply (rule does_bindP [OF does_noHtc], simp, clarsimp split del: if_split)
    apply (rule does_mono [OF does_fail], clarsimp)
    done
  done

section \<open>From the reset to the last stage\<close>

definition ctrlReady :: "driver \<Rightarrow> bool" where
  "ctrlReady d \<longleftrightarrow> soundDrv d \<and> (\<exists>ce. fCe d = Some ce \<and> ctrlUp ce)"

lemma ctrlReady_lent: "ctrlReady d \<Longrightarrow> soundDrv d' \<Longrightarrow> drvLent d' = drvLent d \<Longrightarrow> ctrlReady d'"
  by (auto simp: ctrlReady_def) (metis same_marks(1))

lemma does_boot_ready:
  assumes "soundDrv d" and "primed d"
  shows "does (bootFirmware H fw d) (\<lambda>(ok, d') es. ok \<longrightarrow> ctrlReady d')"
proof -
  have "ctrlReady d" using assms by (auto simp: ctrlReady_def primed_def boots_def)
  then show ?thesis
    by (intro does_mono [OF acct_bootFirmware [OF owed_self [OF assms(1)], unfolded acct_def]])
       (auto simp: owing_def intro: ctrlReady_lent)
qed



end
