(* ===== verification/Progress.thy ===== *)
theory Progress
  imports Bmi
begin

text \<open>
  Progress of the send-only transfers of \<open>skeleton/BMI.cpp\<close>: on a control engine that consumes
  each entry before the driver's deadline, every download completes.  What is assumed of the
  engine is the predicate \<open>servesWithin\<close>.
\<close>

section \<open>Clients of a channel that accepts every frame\<close>

lemma wp_bindI:
  "wp m P s \<Longrightarrow> (\<And>a t. P a t \<Longrightarrow> wp (f a) Q t) \<Longrightarrow> wp (State_Monad.bind m f) Q s"
  by (simp add: wp_mono)

locale live_port =
  fixes out :: "'c \<Rightarrow> u8 list \<Rightarrow> ('d, bool \<times> 'c) io"
    and ready :: "'c \<Rightarrow> 'd world \<Rightarrow> bool"
    and cap :: nat
  assumes accepts: "ready c s \<Longrightarrow> buf \<noteq> [] \<Longrightarrow> length buf \<le> cap \<Longrightarrow>
     wp (out c buf) (\<lambda>(ok, c') t. ok \<and> ready c' t) s"
begin

lemma sendAll_completes:
  assumes "\<forall>f \<in> set fs. f \<noteq> [] \<and> length f \<le> cap" and "ready c s"
  shows "wp (sendAll out c fs) (\<lambda>(ok, c') t. ok \<and> ready c' t) s"
  using assms
proof (induction fs arbitrary: c s)
  case Nil
  then show ?case by simp
next
  case (Cons f fs)
  from Cons.prems have "wp (out c f) (\<lambda>(ok, c') t. ok \<and> ready c' t) s"
    by (intro accepts) simp_all
  then show ?case
    using Cons.prems(1) by (auto elim!: wp_mono intro!: Cons.IH)
qed

end

section \<open>Downloads over such a channel\<close>

lemma le32_nonempty [simp]: "le32 v \<noteq> []"
  by (simp add: le32_def)

lemma write_frames_nonempty: "f \<in> set (writeFrames payload adr p) \<Longrightarrow> f \<noteq> []"
  by (induction payload adr p rule: writeFrames.induct)
     (subst (asm) (2) writeFrames.simps, auto simp: Let_def cmdWriteMemory_def split: if_splits)

lemma lz_frames_nonempty: "f \<in> set (lzFrames q) \<Longrightarrow> f \<noteq> []"
  by (induction q rule: lzFrames.induct)
     (subst (asm) (2) lzFrames.simps, auto simp: Let_def cmdLzData_def split: if_splits)

lemma stream_frames_fit: "\<forall>f \<in> set (streamFrames adr p). f \<noteq> [] \<and> length f \<le> 2048"
proof
  fix f assume f: "f \<in> set (streamFrames adr p)"
  have "f \<noteq> []"
    using f lz_frames_nonempty by (auto simp: streamFrames_def Let_def cmdLzStart_def cmdLzData_def split: if_splits)
  moreover have "length f \<le> 256"
    using f streamFrames_spec [of adr p] by (auto simp: lzWellFormed_def)
  ultimately show "f \<noteq> [] \<and> length f \<le> 2048" by simp
qed

lemma write_frames_fit: "length payload = 256 \<Longrightarrow> \<forall>f \<in> set (writeFrames payload adr img). f \<noteq> [] \<and> length f \<le> 2048"
  using write_frames_nonempty writeFrames_length [of payload adr img] by fastforce

text \<open>The control pair as such a channel, ready also for the next transfer.\<close>

locale live_ctrl = live_port "ceSend H" R 2048
  for H :: "('d, 'h) hw_scheme" and R :: "CEManager \<Rightarrow> 'd world \<Rightarrow> bool" +
  assumes stack: "R ce s \<Longrightarrow> wp (stackBytes H m) (\<lambda>xs t. length xs = m \<and> R ce t) s"
begin

lemma writeMemory_completes:
  "R ce s \<Longrightarrow> img \<noteq> [] \<Longrightarrow> wp (writeMemory H ce adr (Some img)) (\<lambda>(ok, ce') t. ok \<and> R ce' t) s"
  unfolding writeMemory_def writeLoop_sendAll option.case
  by (simp only: if_False, rule wp_bindI, erule stack, erule conjE, rule sendAll_completes)
     (rule write_frames_fit, simp_all)

lemma fastDownload_completes:
  "R ce s \<Longrightarrow> img \<noteq> [] \<Longrightarrow> wp (fastDownload H ce adr (Some img)) (\<lambda>(ok, ce') t. ok \<and> R ce' t) s"
  unfolding fastDownload_def lzStream_sendAll option.case
  by (simp only: if_False, rule sendAll_completes [OF stream_frames_fit])

end

section \<open>A responsive engine\<close>

text \<open>
  \<open>I k w d\<close>: in state \<open>d\<close> the engine at \<open>base\<close> has at most \<open>k\<close> polling intervals left until its
  read index is \<open>w\<close>.  A doorbell starts at most \<open>n\<close> intervals of work; the engine is idle once
  its index has been seen to be the one of the doorbell.
\<close>

definition servesWithin ::
  "('d, 'h) hw_scheme \<Rightarrow> u32 \<Rightarrow> (nat \<Rightarrow> u32 \<Rightarrow> 'd \<Rightarrow> bool) \<Rightarrow> nat \<Rightarrow> bool" where
  "servesWithin H base I n \<longleftrightarrow>
     (\<forall>k w d m. I k w d \<longrightarrow> (case hwRead H (base + kCECurrentSRRI) d m of (v, d', m') \<Rightarrow>
        (k = 0 \<longrightarrow> v AND kRingMask = w) \<and> I (if v AND kRingMask = w then 0 else k) w d')) \<and>
     (\<forall>k w d m. I k w d \<longrightarrow> I (k - 1) w (fst (hwDelay H kQCAPollStep_us d m))) \<and>
     (\<forall>w w' d m. I 0 w d \<and> w' AND kRingMask = w' \<longrightarrow> I n w' (fst (hwWrite H (base + kCESRWrIndex) w' d m))) \<and>
     (\<forall>k w d. I k w d \<longrightarrow> I k w (snd (ioStack H d)))"

lemma wp_srri:
  assumes "servesWithin H (ceBase (fSrcCe p)) I n" and "I k w (dev s)"
    and "\<And>v t. (k = 0 \<longrightarrow> v AND 15 = w) \<Longrightarrow> I (if v AND 15 = w then 0 else k) w (dev t) \<Longrightarrow> Q v t"
  shows "wp (read32 H (ceBase (fSrcCe p) + kCECurrentSRRI)) Q s"
proof -
  obtain v d' m' where r: "hwRead H (ceBase (fSrcCe p) + kCECurrentSRRI) (dev s) (ram s) = (v, d', m')"
    by (metis surj_pair)
  have "(k = 0 \<longrightarrow> v AND 15 = w) \<and> I (if v AND 15 = w then 0 else k) w d'"
    using assms(1) [unfolded servesWithin_def, THEN conjunct1, rule_format, OF assms(2), of "ram s"]
    unfolding r kRingMask_def by simp
  then show ?thesis
    using assms(3) r by (simp add: wp_def read32_def)
qed

lemma wp_pollDelay:
  assumes "servesWithin H base I n" and "I k w (dev s)"
  shows "wp (delay H kQCAPollStep_us) (\<lambda>_ t. I (k - 1) w (dev t)) s"
  using assms(1) [unfolded servesWithin_def, THEN conjunct2, THEN conjunct1, rule_format, OF assms(2), of "ram s"]
  by (simp add: wp_def delay_def split_beta)

lemma wp_doorbell:
  assumes "servesWithin H (ceBase (fSrcCe p)) I n" and "I 0 w (dev s)" and "w' AND 15 = w'"
  shows "wp (write32 H (ceBase (fSrcCe p) + kCESRWrIndex) w') (\<lambda>_ t. I n w' (dev t)) s"
  using assms(1) [unfolded servesWithin_def, THEN conjunct2, THEN conjunct2, THEN conjunct1,
      rule_format, of w "dev s" w' "ram s"] assms(2,3)
  by (simp add: wp_def write32_def split_beta)

lemma wp_quiet: "wp (emit e) (\<lambda>_ t. dev t = dev s) s" "wp (store a xs) (\<lambda>_ t. dev t = dev s) s"
  by (simp_all add: emit_def store_def)

lemma wp_waitSrri:
  assumes "servesWithin H (ceBase (fSrcCe p)) I n" and "fSrcWrite p = w"
  shows "k \<le> j \<Longrightarrow> (k = 0 \<longrightarrow> v = w) \<Longrightarrow> I (if v = w then 0 else k) w (dev s) \<Longrightarrow>
    wp (waitSrri H p j v) (\<lambda>r t. r = w \<and> I 0 w (dev t)) s"
proof (induction j arbitrary: k v s)
  case 0
  then show ?case by simp
next
  case (Suc j)
  show ?case
  proof (cases "v = w")
    case True
    then show ?thesis using Suc.prems assms(2) by simp
  next
    case False
    have d: "wp (delay H kQCAPollStep_us) (\<lambda>_ t. I (k - 1) w (dev t)) s"
      using wp_pollDelay [OF assms(1), of k w s] Suc.prems(3) False by simp
    show ?thesis
      using False assms(2)
      apply (simp only: waitSrri.simps if_False)
      apply (rule wp_bindI [OF d], subst wp_bind)
      apply (rule wp_srri [OF assms(1)], assumption)
      apply (rule Suc.IH [of "k - 1"])
      using Suc.prems apply auto
      done
  qed
qed

definition ready ::
  "('d, 'h) hw_scheme \<Rightarrow> (nat \<Rightarrow> u32 \<Rightarrow> 'd \<Rightarrow> bool) \<Rightarrow> nat \<Rightarrow> CEManager \<Rightarrow> 'd world \<Rightarrow> bool" where
  "ready H I n ce s \<longleftrightarrow> (\<exists>p k. fCtrl ce = Some p \<and> servesWithin H (ceBase (fSrcCe p)) I n \<and>
     n \<le> 200000 \<and> k \<le> 200000 \<and> I k (fSrcWrite p) (dev s))"

lemma send_completes:
  assumes "servesWithin H (ceBase (fSrcCe p)) I n" and "n \<le> 200000" and "k \<le> 200000"
    and "I k (fSrcWrite p) (dev s)" and "buf \<noteq> []" and "length buf \<le> 2048"
  shows "wp (send H p buf) (\<lambda>(ok, p') t. ok \<and> fSrcCe p' = fSrcCe p \<and> I 0 (fSrcWrite p') (dev t)) s"
proof -
  have g: "\<not> (length buf = 0 \<or> length buf > unat kTxBufSz \<or> length buf > 0xFFFF)"
    using assms(5,6) by simp
  define q where "q = p\<lparr>fSrcWrite := (fSrcWrite p + 1) AND 15\<rparr>"
  have q: "fSrcCe q = fSrcCe p" by (simp add: q_def)
  have serves: "servesWithin H (ceBase (fSrcCe q)) I n" using assms(1) by (simp add: q)
  show ?thesis
    unfolding send_def kRingMask_def if_not_P [OF g] q_def [symmetric]
    apply (subst wp_bind, rule wp_srri [OF assms(1,4)])
    apply (rule wp_bindI [OF wp_waitSrri [OF assms(1) refl, of k]], simp add: sendDeadline_value assms(3), simp, simp)
    apply (erule conjE, simp only: not_True_eq_False if_False simp_thms)
    apply (rule wp_bindI [OF wp_quiet(2)], rule wp_bindI [OF wp_quiet(1)],
        rule wp_bindI [OF wp_quiet(2)], rule wp_bindI [OF wp_quiet(1)])
    apply (simp only: Let_def, rule wp_bindI [OF wp_doorbell [OF serves]], simp, simp add: q_def)
    apply (rule wp_bindI [OF wp_quiet(1)], subst wp_bind, rule wp_srri [OF serves], simp)
    apply (rule wp_bindI [OF wp_waitSrri [OF serves refl, of n]], simp add: sendDeadline_value assms(2), simp, simp)
    apply (simp add: q)
    done
qed

section \<open>Downloads\<close>

lemma wp_stackBytes:
  assumes "ready H I n ce s"
  shows "wp (stackBytes H m) (\<lambda>xs t. length xs = m \<and> ready H I n ce t) s"
proof -
  from assms obtain p k where p: "fCtrl ce = Some p" "servesWithin H (ceBase (fSrcCe p)) I n"
    "n \<le> 200000" "k \<le> 200000" "I k (fSrcWrite p) (dev s)"
    unfolding ready_def by blast
  have "I k (fSrcWrite p) (snd (ioStack H (dev s)))"
    using p(2) [unfolded servesWithin_def, THEN conjunct2, THEN conjunct2, THEN conjunct2,
      rule_format, OF p(5)] .
  with p show ?thesis
    by (auto simp: stackBytes_def wp_def ioStep_def ready_def split_beta)
qed

interpretation ctrlLive: live_ctrl H "ready H I n"
  for H :: "('d, 'h) hw_scheme" and I n
proof
  fix c s and buf :: "u8 list"
  assume r: "ready H I n c s" and buf: "buf \<noteq> []" "length buf \<le> 2048"
  from r obtain p k where p: "fCtrl c = Some p" "servesWithin H (ceBase (fSrcCe p)) I n"
    "n \<le> 200000" "k \<le> 200000" "I k (fSrcWrite p) (dev s)"
    unfolding ready_def by blast
  show "wp (ceSend H c buf) (\<lambda>(ok, c') t. ok \<and> ready H I n c' t) s"
    unfolding ceSend_def onCtrl_def p(1) option.case
    by (rule wp_bindI [OF send_completes [OF p(2-5) buf]])
       (use p in \<open>auto simp: ready_def intro: exI [of _ 0]\<close>)
next
  fix ce s m
  show "ready H I n ce s \<Longrightarrow> wp (stackBytes H m) (\<lambda>xs t. length xs = m \<and> ready H I n ce t) s"
    by (rule wp_stackBytes)
qed

text \<open>
  C19: Downloads complete on a responsive chip.  If the control engine finishes each entry within
  200000 polling intervals of 50 us (10 s), then from any state it serves, writing a non-empty
  buffer to target memory, streaming a non-empty image and sending BMI_DONE all succeed, and the
  engine is again ready for the next of them.
\<close>

theorem downloads_complete:
  assumes "ready H I n ce s" and "img \<noteq> []"
  shows "wp (writeMemory H ce adr (Some img)) (\<lambda>(ok, ce') t. ok \<and> ready H I n ce' t) s \<and>
    wp (fastDownload H ce adr (Some img)) (\<lambda>(ok, ce') t. ok \<and> ready H I n ce' t) s \<and>
    wp (bmiDone H ce b) (\<lambda>(ok, ce', b') t. ok \<and> fDoneSent b' \<and> ready H I n ce' t) s"
  by (intro conjI ctrlLive.writeMemory_completes ctrlLive.fastDownload_completes assms)
     (unfold bmiDone_def, rule wp_bindI [OF ctrlLive.accepts [OF assms(1)]], auto simp: cmdDone_def)

text \<open>The sample chip consumes at once.\<close>

definition sampleServes :: "nat \<Rightarrow> u32 \<Rightarrow> chip \<Rightarrow> bool" where
  "sampleServes k w d \<longleftrightarrow> d 0x34444 AND 15 = w"

lemma sample_ready: "ready sampleHw sampleServes 0 sampleCe sampleWorld"
  by (auto simp: ready_def servesWithin_def sampleServes_def sampleCe_def samplePair_def sampleWorld_def
      sampleHw_def ceBase_def)

theorem downloads_complete_witness:
  "wp (fastDownload sampleHw sampleCe 0x1234 (Some [1, 2, 3, 4, 5])) (\<lambda>(ok, ce') t. ok) sampleWorld"
  by (rule wp_mono [OF conjunct1 [OF conjunct2 [OF downloads_complete [OF sample_ready, where b = newBmi]]]]) auto

end
