(* ===== verification/BootProgress.thy ===== *)
theory BootProgress
  imports Progress BootSequence
begin

text \<open>
  Progress of the firmware boot: against a boot monitor that takes every frame and answers every
  exchange, \<open>bootFirmware\<close> of \<open>skeleton/QCA9377Driver.cpp\<close> succeeds.  What is assumed of the target is
  the locale \<open>live_bmi\<close>.
\<close>

section \<open>Telemetry never fails\<close>

lemma same_upd [simp]: "(s\<lparr>bus := bus s\<rparr>) = s" "(d\<lparr>fTail := fTail d\<rparr>) = d"
  by simp_all

lemma wp_emit_any: "(\<And>b. Q () (s\<lparr>bus := b\<rparr>)) \<Longrightarrow> wp (emit e) Q s"
  by (simp add: emit_def)

lemma wp_publishStage:
  assumes "\<And>b. Q () (s\<lparr>bus := b\<rparr>)"
  shows "wp (publishStage d st) Q s"
  unfolding publishStage_def nvramStage_def using assms by (simp add: emit_def)

lemma wp_publishNum: "(\<And>b. Q () (s\<lparr>bus := b\<rparr>)) \<Longrightarrow> wp (publishNum key v) Q s"
  unfolding publishNum_def by (rule wp_emit_any)

lemma wp_qlog:
  assumes "\<And>lt b. Q (d\<lparr>fTail := lt\<rparr>) (s\<lparr>bus := b\<rparr>)"
  shows "wp (qlog d m) Q s"
  using assms assms [of "fTail d" "bus s"] unfolding qlog_def logTailFlush_def by (simp add: emit_def Let_def)

lemmas wp_tells = wp_publishStage wp_publishNum wp_qlog

section \<open>A boot monitor that answers\<close>

text \<open>
  \<open>R\<close>: the manager and the target are ready for the next command; \<open>F\<close>: the firmware runs.
\<close>

locale live_bmi = live_ctrl H R
  for H :: "('d, 'h) hw_scheme" and R :: "CEManager \<Rightarrow> 'd world \<Rightarrow> bool" +
  fixes F :: "CEManager \<Rightarrow> 'd world \<Rightarrow> bool"
  assumes bus: "R ce s \<Longrightarrow> R ce (s\<lparr>bus := es\<rparr>)" "F ce s \<Longrightarrow> F ce (s\<lparr>bus := es\<rparr>)"
    and answers: "R ce s \<Longrightarrow> \<not> fDoneSent b \<Longrightarrow> cmd \<noteq> [] \<Longrightarrow> length cmd \<le> 2048 \<Longrightarrow> n \<le> 4 \<Longrightarrow>
      wp (exchangeWait H ce b cmd n) (\<lambda>(r, ce', b') t. R ce' t \<and> \<not> fDoneSent b' \<and>
        (\<exists>resp. r = Some resp \<and> (cmd = hiRead 0x54 \<and> n = 4 \<longrightarrow> word32At resp 0 \<noteq> 0))) s"
    and boots: "R ce s \<Longrightarrow> wp (ceSend H ce cmdDone) (\<lambda>(ok, ce') t. ok \<and> F ce' t) s"
    and indicates: "F ce s \<Longrightarrow> wp (read32 H kFwIndicatorAddr) (\<lambda>v t. v \<noteq> 0xffffffff \<and> v AND 1 = 0 \<and> v AND 2 \<noteq> 0 \<and> F ce t) s"
begin

lemma write_completes: "R ce s \<Longrightarrow> wp (bmiWrite32 H ce off v) (\<lambda>(ok, ce') t. ok \<and> R ce' t) s"
  unfolding bmiWrite32_def by (rule writeMemory_completes) simp_all

lemma read_completes:
  assumes "R ce s" and "\<not> fDoneSent b"
  shows "wp (bmiRead32 H ce b off) (\<lambda>(r, ce', b') t. R ce' t \<and> \<not> fDoneSent b' \<and>
     (\<exists>v. r = Some v \<and> (off = 0x54 \<longrightarrow> v \<noteq> 0))) s"
  unfolding bmiRead32_def readMemory_def
  by (simp, rule wp_mono [OF answers [OF assms]])
     (auto simp: cmdReadMemory_def hiRead_def le32_nonempty)

lemma execute_completes:
  assumes "R ce s" and "\<not> fDoneSent b"
  shows "wp (execute H ce b adr arg) (\<lambda>(r, ce', b') t. R ce' t \<and> \<not> fDoneSent b' \<and> (\<exists>v. r = Some v)) s"
  unfolding execute_def
  by (simp, rule wp_mono [OF answers [OF assms]]) (auto simp: cmdExecute_def le32_nonempty)

text \<open>An operation of the driver that goes well.\<close>

definition ready :: "u32 \<Rightarrow> driver \<Rightarrow> 'd world \<Rightarrow> bool" where
  "ready k d s \<longleftrightarrow> fMaxStage d = k \<and> (\<exists>ce b. fCe d = Some ce \<and> fBmi d = Some b \<and> \<not> fDoneSent b \<and> R ce s)"

lemma ready_tell [intro]: "ready k d s \<Longrightarrow> ready k (d\<lparr>fTail := lt\<rparr>) (s\<lparr>bus := es\<rparr>)" "ready k d s \<Longrightarrow> ready k d (s\<lparr>bus := es\<rparr>)"
  using bus(1) by (auto simp: ready_def)

lemma step_completes:
  assumes "ready k d s"
    and "\<And>ce b. R ce s \<Longrightarrow> \<not> fDoneSent b \<Longrightarrow> wp (f ce b) (\<lambda>(r, ce', b') t. R ce' t \<and> \<not> fDoneSent b' \<and> P r) s"
  shows "wp (withBmi f dflt d) (\<lambda>(r, d') t. ready k d' t \<and> P r) s"
proof -
  from assms(1) obtain ce b where d: "fMaxStage d = k" "fCe d = Some ce" "fBmi d = Some b" "\<not> fDoneSent b" "R ce s"
    by (auto simp: ready_def)
  show ?thesis
    unfolding withBmi_def d(2,3) option.case prod.case wp_bind
    by (rule wp_mono [OF assms(2) [OF d(5,4)]]) (auto simp: ready_def d(1))
qed

lemma configure_completes:
  assumes "R ce s" and "\<not> fDoneSent b"
  shows "wp (configureTarget H ce b) (\<lambda>(ok, ce', b') t. R ce' t \<and> \<not> fDoneSent b' \<and> ok) s"
  unfolding configureTarget_def
  apply (simp, rule wp_mono [OF write_completes [OF assms(1)]], clarsimp)
  apply (rule wp_mono [OF read_completes [OF _ assms(2)]], assumption, clarsimp)
  apply (rule wp_mono [OF write_completes], assumption, clarsimp)+
  done

lemma board_completes:
  assumes "R ce s" and "\<not> fDoneSent b" and "img \<noteq> []"
  shows "wp (downloadBoardData H ce b (Some img)) (\<lambda>(ok, ce', b') t. R ce' t \<and> \<not> fDoneSent b' \<and> ok) s"
  unfolding downloadBoardData_def
  apply (simp, rule wp_mono [OF read_completes [OF assms(1,2)]], clarsimp)
  apply (rule wp_mono [OF writeMemory_completes], assumption, use assms(3) in simp, clarsimp)
  apply (rule wp_mono [OF write_completes], assumption, clarsimp)
  done

lemma otp_completes:
  assumes "R ce s" and "\<not> fDoneSent b" and "img \<noteq> []"
  shows "wp (runOtp H ce b (Some img)) (\<lambda>(r, ce', b') t. R ce' t \<and> \<not> fDoneSent b' \<and> r \<noteq> None) s"
  unfolding runOtp_def
  apply (simp add: assms(3), rule wp_mono [OF fastDownload_completes [OF assms(1,3)]], clarsimp)
  apply (rule wp_mono [OF execute_completes [OF _ assms(2)]], assumption, clarsimp)
  done

lemma firmware_completes:
  assumes "R ce s" and "\<not> fDoneSent b" and "img \<noteq> []"
  shows "wp (do { (ok, ce) \<leftarrow> downloadFirmware H ce (Some img); ret (ok, ce, b) })
     (\<lambda>(ok, ce', b') t. R ce' t \<and> \<not> fDoneSent b' \<and> ok) s"
  unfolding downloadFirmware_def
  by (simp, rule wp_mono [OF fastDownload_completes [OF assms(1,3)]]) (use assms(2) in auto)

lemma indicator_completes:
  assumes "F ce s" and "0 < n"
  shows "wp (indicatorLoop H n v) (\<lambda>v t. v \<noteq> 0xffffffff \<and> v AND 1 = 0 \<and> v AND 2 \<noteq> 0 \<and> F ce t) s"
proof -
  obtain m where "n = Suc m" using assms(2) gr0_conv_Suc by blast
  then show ?thesis
    by (simp only: indicatorLoop.simps wp_bind) (rule wp_mono [OF indicates [OF assms(1)]], simp)
qed

lemma done_completes:
  assumes "R ce s"
  shows "wp (doneAndWaitTargetInit H ce b) (\<lambda>(ok, ce', b') t. F ce' t \<and> ok) s"
  unfolding doneAndWaitTargetInit_def bmiDone_def
  apply (simp, rule wp_mono [OF boots [OF assms]], clarsimp)
  apply (rule wp_mono [OF indicator_completes], assumption, simp, simp)
  done

lemma last_completes:
  assumes "ready k d s"
  shows "wp (withBmi (doneAndWaitTargetInit H) False d) (\<lambda>(ok, d') t. ok \<and> fMaxStage d' = k \<and>
     (\<exists>ce. fCe d' = Some ce \<and> F ce t)) s"
proof -
  from assms obtain ce b where d: "fMaxStage d = k" "fCe d = Some ce" "fBmi d = Some b" "R ce s"
    by (auto simp: ready_def)
  show ?thesis
    unfolding withBmi_def d(2,3) option.case prod.case wp_bind
    by (rule wp_mono [OF done_completes [OF d(4)]]) (auto simp: d(1))
qed

lemma boot_completes:
  assumes "ready k d s" and "fw6Sized otpImg fwImg" and "board2Sized files"
  shows "wp (bootFirmware H (embedded otpImg fwImg files) d) (\<lambda>(ok, d') t. ok \<and> fMaxStage d' = k \<and>
     (\<exists>ce. fCe d' = Some ce \<and> F ce t)) s"
proof -
  obtain out where out: "parseFirmware (fw6Container otpImg fwImg) = Some (True, out)"
    "blob (fw6Container otpImg fwImg) (otp out) (otpLen out) = Some otpImg"
    "blob (fw6Container otpImg fwImg) (firmware out) (firmwareLen out) = Some fwImg"
    "unat (otpLen out) = 24193"
    using fw6_parsed [OF assms(2)] by blast
  have o: "otp out \<noteq> None" "otpLen out \<noteq> 0" using out(2,4) by (auto simp: blob_def)
  have ne: "otpImg \<noteq> []" "fwImg \<noteq> []" "qca9377_board_bin \<noteq> []"
    using assms(2) board_bin_length by (auto simp: fw6Sized_def)
  show ?thesis
    unfolding bootFirmware_def embedded_def FwData.simps out(1,2,3) option.case prod.case board2_unselected [OF assms(3)] Let_def
    apply (simp only: o not_True_eq_False if_False if_True simp_thms)
    apply (rule wp_bindI [OF wp_publishStage [where Q = "\<lambda>_. ready k d"]], rule ready_tell, rule assms)
    apply (rule wp_bindI [OF wp_qlog [where Q = "ready k"]], rule ready_tell, assumption)
    apply (rule wp_bindI [OF step_completes [OF _ configure_completes]], assumption+, clarsimp)
    apply (rule wp_publishStage)
    apply (rule wp_bindI [OF step_completes [OF _ board_completes]], erule ready_tell(2), assumption+, rule ne, clarsimp)
    apply (rule wp_publishStage)
    apply (rule wp_bindI [OF step_completes [OF _ otp_completes]], erule ready_tell(2), assumption+, rule ne, clarsimp)
    apply (rule wp_mono [OF step_completes [OF _ firmware_completes]], assumption+, rule ne, clarsimp)
    apply (rule wp_publishStage)
    apply (rule wp_bindI [OF last_completes], erule ready_tell(2), clarsimp)
    apply (rule wp_publishStage)
    apply (simp, rule wp_qlog)
    apply (auto intro: bus)
    done
qed

end

end
