(* ===== verification/WorkingChip.thy ===== *)
theory WorkingChip
  imports Online BootProgress
begin

text \<open>
  A target that works: copy engines that move frames through the rings they were programmed with, a boot
  monitor behind the control pair, then a firmware that answers on HTC and WMI.  On this chip the whole
  start-up of \<open>skeleton/QCA9377Driver.cpp\<close> succeeds.
\<close>

section \<open>The chip\<close>

text \<open>Its registers, the last frame each source engine took, and how many regions IOKit has handed out.\<close>

record target =
  tReg :: "u32 \<Rightarrow> u32"
  tSent :: "u32 \<Rightarrow> u8 list"
  tNext :: nat

text \<open>
  A doorbell: the source engine fetches the descriptor behind the new index from the ring it was given
  and takes the frame; a bus address is the CPU address of the same memory.
\<close>

definition doorbell :: "u32 \<Rightarrow> u32 \<Rightarrow> target \<Rightarrow> mem \<Rightarrow> target" where
  "doorbell e v d m =
     (let c = descOf (ldBytes m (descAt (unat (tReg d (ceBase e + kCESRBaseLo))) ((v - 1) AND 15)) 8) in
      d\<lparr>tReg := (tReg d)(ceBase e + kCESRWrIndex := v, ceBase e + kCECurrentSRRI := v),
        tSent := (tSent d)(e := ldBytes m (unat (addr c)) (unat (nbytes c)))\<rparr>)"

text \<open>
  A destination engine with a posted entry puts the message where its descriptor says, writes the size
  back, and advances.
\<close>

definition deliver :: "u32 \<Rightarrow> u8 list \<Rightarrow> target \<Rightarrow> mem \<Rightarrow> target \<times> mem" where
  "deliver e msg d m = (let i = tReg d (ceBase e + kCECurrentDRRI) in
     if i = tReg d (ceBase e + kCEDSTWrIndex) then (d, m) else
       let a = descAt (unat (tReg d (ceBase e + kCEDRBaseLo))) i; c = descOf (ldBytes m a 8) in
       (d\<lparr>tReg := (tReg d)(ceBase e + kCECurrentDRRI := (i + 1) AND 15)\<rparr>,
        stBytes a (descBytes (c\<lparr>nbytes := of_nat (length msg)\<rparr>)) (stBytes (unat (addr c)) msg m)))"

text \<open>
  What the target answers on the control pair, by the first byte of the frame: the boot monitor its
  identity, or a word; after BMI_DONE the firmware its READY message with two credits of 1792 bytes; to
  a CONNECT frame the answer for the WMI control service on endpoint 1.
\<close>

definition ctrlReply :: "u8 list \<Rightarrow> u8 list" where
  "ctrlReply cmd =
     (if hd cmd = 8 then le32 12 @ le32 0x05020001 @ le32 0x1e
      else if hd cmd = 1 then htcHdr 0 0 8 0 0 @ le16 1 @ le16 2 @ le16 1792 @ [9, 0]
      else if hd cmd = 0 then htcHdr 0 0 8 0 0 @ le16 3 @ le16 0x100 @ [0, 1] @ le16 1792
      else le32 0x00400000)"

text \<open>On the WMI pair: SERVICE_READY, and after a command READY with the MAC address.\<close>

definition wmiReply :: "u8 list \<Rightarrow> u8 list" where
  "wmiReply cmd =
     (if cmd = [] then htcHdr 1 0 92 0 0 @ le32 1 @ le16 76 @ le16 32 @ le32 0x9b @ replicate 72 0 @
        le16 4 @ le16 16 @ le32 0
      else htcHdr 1 0 44 0 0 @ le32 2 @ le16 36 @ le16 35 @ replicate 24 0 @ [0, 3, 0x7f, 0x12, 0x34, 0x56] @
        replicate 6 0)"

definition delivers :: "u32 \<Rightarrow> target \<Rightarrow> mem \<Rightarrow> target \<times> mem" where
  "delivers off d m =
     (if off = ceBase 1 + kCECurrentDRRI then deliver 1 (ctrlReply (tSent d 0)) d m
      else if off = ceBase 2 + kCECurrentDRRI then deliver 2 (wmiReply (tSent d 3)) d m
      else if off = ceBase 7 + kCECurrentDRRI then deliver 7 (replicate (length (tSent d 7)) 1) d m
      else (d, m))"

text \<open>
  The window reads bytes 1 everywhere, the chip is awake, and the indicator says initialised.  IOKit
  grants every request and hands out regions of 64 KiB one after the other.
\<close>

definition targetRead :: "u32 \<Rightarrow> target \<Rightarrow> mem \<Rightarrow> u32 \<times> target \<times> mem" where
  "targetRead off d m = (case delivers off d m of (d', m') \<Rightarrow>
     (if off = 0x80000 then 3 else if off = 0x3a028 then 2 else tReg d' off, d', m'))"

definition targetWrite :: "u32 \<Rightarrow> u32 \<Rightarrow> target \<Rightarrow> mem \<Rightarrow> target \<times> mem" where
  "targetWrite off v d m =
     (if off = ceBase 0 + kCESRWrIndex then doorbell 0 v d m
      else if off = ceBase 3 + kCESRWrIndex then doorbell 3 v d m
      else if off = ceBase 7 + kCESRWrIndex then doorbell 7 v d m
      else d\<lparr>tReg := (tReg d)(off := v)\<rparr>, m)"

definition regionAt :: "nat \<Rightarrow> nat" where
  "regionAt n = 0x10000 * Suc n"

definition works :: "(target, 'h) hw_scheme \<Rightarrow> bool" where
  "works H \<longleftrightarrow> hwRead H = targetRead \<and> hwWrite H = targetWrite \<and> hwDelay H = (\<lambda>us d m. (d, m)) \<and>
     ioNew H = (\<lambda>d. (True, d)) \<and> ioStack H = (\<lambda>d. ([], d)) \<and> ioBmd H = (\<lambda>n d. (True, d)) \<and>
     ioPrepare H = (\<lambda>d. (True, d)) \<and> ioBytes H = (\<lambda>d. (Some (regionAt (tNext d)), d)) \<and>
     ioDma H = (\<lambda>d. (True, d)) \<and> ioSetMd H = (\<lambda>d. (True, d)) \<and>
     ioGen64 H = (\<lambda>d. ((True, 1, of_nat (regionAt (tNext d)), 0x10000), d\<lparr>tNext := Suc (tNext d)\<rparr>))"

declare kCESRBaseLo_def [simp del] kCESRSize_def [simp del] kCEDRBaseLo_def [simp del] kCEDRSize_def [simp del]
  kCESRWrIndex_def [simp del] kCEDSTWrIndex_def [simp del] kCECurrentSRRI_def [simp del] kCECurrentDRRI_def [simp del]

lemmas ce_consts = kCESRBaseLo_def kCESRSize_def kCEDRBaseLo_def kCEDRSize_def kCESRWrIndex_def kCEDSTWrIndex_def
  kCECurrentSRRI_def kCECurrentDRRI_def ceBase_def

section \<open>Single accesses\<close>

lemma worksD:
  assumes "works H"
  shows "hwRead H = targetRead" and "hwWrite H = targetWrite" and "hwDelay H = (\<lambda>us d m. (d, m))"
    and "ioNew H = (\<lambda>d. (True, d))" and "ioStack H = (\<lambda>d. ([], d))" and "ioBmd H = (\<lambda>n d. (True, d))"
    and "ioPrepare H = (\<lambda>d. (True, d))" and "ioBytes H = (\<lambda>d. (Some (regionAt (tNext d)), d))"
    and "ioDma H = (\<lambda>d. (True, d))" and "ioSetMd H = (\<lambda>d. (True, d))"
    and "ioGen64 H = (\<lambda>d. ((True, 1, of_nat (regionAt (tNext d)), 0x10000), d\<lparr>tNext := Suc (tNext d)\<rparr>))"
  using assms unfolding works_def by blast+

lemma wp_read [wp_simps]:
  assumes "works H"
  shows "wp (read32 H off) Q s = (case targetRead off (dev s) (ram s) of (v, d, m) \<Rightarrow>
     Q v (s\<lparr>dev := d, ram := m, bus := bus s @ [RdReg off v]\<rparr>))"
  unfolding wp_def read32_def worksD(1) [OF assms] by (simp split: prod.split)

lemma wp_write [wp_simps]:
  assumes "works H"
  shows "wp (write32 H off v) Q s = (case targetWrite off v (dev s) (ram s) of (d, m) \<Rightarrow>
     Q () (s\<lparr>dev := d, ram := m, bus := bus s @ [WrReg off v]\<rparr>))"
  unfolding wp_def write32_def worksD(2) [OF assms] by (simp split: prod.split)

lemma wp_delay [wp_simps]: "works H \<Longrightarrow> wp (delay H us) Q s = Q () (s\<lparr>bus := bus s @ [Delay us]\<rparr>)"
  by (simp add: wp_def delay_def worksD)

lemma wp_io [wp_simps]:
  assumes "works H"
  shows "wp (ioStep (ioNew H)) Q s = Q True s"
    and "wp (ioStep (ioBmd H n)) Q s = Q True s"
    and "wp (ioStep (ioPrepare H)) Q s = Q True s"
    and "wp (ioStep (ioBytes H)) R s = R (Some (regionAt (tNext (dev s)))) s"
    and "wp (ioStep (ioDma H)) Q s = Q True s"
    and "wp (ioStep (ioSetMd H)) Q s = Q True s"
    and "wp (ioStep (ioGen64 H)) S s = S (True, 1, of_nat (regionAt (tNext (dev s))), 0x10000)
      (s\<lparr>dev := (dev s)\<lparr>tNext := Suc (tNext (dev s))\<rparr>\<rparr>)"
    and "wp (stackBytes H k) U s = U (replicate k 0) s"
  by (simp_all add: wp_def ioStep_def worksD [OF assms] stackBytes_def)

lemma wp_emit [wp_simps]: "wp (emit e) Q s = Q () (s\<lparr>bus := bus s @ [e]\<rparr>)"
  by (simp add: emit_def)

lemma wp_store [wp_simps]: "wp (store a xs) Q s = Q () (s\<lparr>ram := stBytes a xs (ram s), bus := bus s @ [St a xs]\<rparr>)"
  by (simp add: store_def)

lemma wp_load [wp_simps]: "wp (load a n) Q s = Q (ldBytes (ram s) a n) (s\<lparr>bus := bus s @ [Ld a (ldBytes (ram s) a n)]\<rparr>)"
  by (simp add: wp_def load_def Let_def)

section \<open>A ring pair on the chip\<close>

text \<open>A pair whose region starts at \<open>a\<close>, in step with its engines.\<close>

definition seated :: "u32 \<Rightarrow> u32 \<Rightarrow> nat \<Rightarrow> CECopyPair \<Rightarrow> bool" where
  "seated se de a p \<longleftrightarrow> fSrcCe p = se \<and> fDstCe p = de \<and> fSrcDesc p = a \<and> fDstDesc p = a + 0x1000 \<and>
     fTxCpu p = a + 0x2000 \<and> fRxCpu p = a + 0x3000 \<and> fTxPhys p = of_nat (a + 0x2000) \<and>
     fRxPhys p = of_nat (a + 0x3000) \<and> fRegionCpu (region p) = Some a \<and> fRegionSize (region p) = 0x4000 \<and>
     unat (fSrcWrite p) < 16 \<and> unat (fDstWrite p) < 16 \<and> unat (fDstSw p) < 16"

definition inStep :: "CECopyPair \<Rightarrow> target \<Rightarrow> bool" where
  "inStep p d \<longleftrightarrow> tReg d (ceBase (fSrcCe p) + kCESRBaseLo) = of_nat (fSrcDesc p) \<and>
     tReg d (ceBase (fDstCe p) + kCEDRBaseLo) = of_nat (fDstDesc p) \<and>
     tReg d (ceBase (fSrcCe p) + kCECurrentSRRI) = fSrcWrite p \<and>
     tReg d (ceBase (fDstCe p) + kCEDSTWrIndex) = fDstWrite p \<and>
     tReg d (ceBase (fDstCe p) + kCECurrentDRRI) = fDstSw p"

text \<open>The engines the driver uses: which one sends, which one receives, and what the target answers.\<close>

definition engines :: "(u32 \<times> u32) set" where
  "engines = {(0, 1), (3, 2), (7, 7)}"

definition reply :: "u32 \<Rightarrow> u8 list \<Rightarrow> u8 list" where
  "reply de cmd = (if de = 1 then ctrlReply cmd else if de = 2 then wmiReply cmd else replicate (length cmd) 1)"

lemma engine_access:
  assumes "(se, de) \<in> engines"
  shows "targetRead (ceBase se + kCECurrentSRRI) d m = (tReg d (ceBase se + kCECurrentSRRI), d, m)"
    and "targetWrite (ceBase se + kCESRWrIndex) v d m = (doorbell se v d m, m)"
    and "targetWrite (ceBase de + kCEDSTWrIndex) v d m = (d\<lparr>tReg := (tReg d)(ceBase de + kCEDSTWrIndex := v)\<rparr>, m)"
    and "targetRead (ceBase de + kCECurrentDRRI) d m = (case deliver de (reply de (tSent d se)) d m of (d', m') \<Rightarrow>
      (tReg d' (ceBase de + kCECurrentDRRI), d', m'))"
  using assms
  by (auto simp: engines_def targetRead_def targetWrite_def delivers_def reply_def ce_consts split: prod.split)

lemma engine_regs:
  assumes "(se, de) \<in> engines"
  shows "ceBase se + kCESRBaseLo \<noteq> ceBase se + kCESRWrIndex" and "ceBase se + kCESRBaseLo \<noteq> ceBase se + kCECurrentSRRI"
    and "ceBase de + kCEDRBaseLo \<noteq> ceBase se + kCESRWrIndex" and "ceBase de + kCEDRBaseLo \<noteq> ceBase se + kCECurrentSRRI"
    and "ceBase de + kCEDSTWrIndex \<noteq> ceBase se + kCESRWrIndex" and "ceBase de + kCEDSTWrIndex \<noteq> ceBase se + kCECurrentSRRI"
    and "ceBase de + kCECurrentDRRI \<noteq> ceBase se + kCESRWrIndex" and "ceBase de + kCECurrentDRRI \<noteq> ceBase se + kCECurrentSRRI"
    and "ceBase se + kCECurrentSRRI \<noteq> ceBase se + kCESRWrIndex"
    and "ceBase se + kCESRBaseLo \<noteq> ceBase de + kCEDSTWrIndex" and "ceBase se + kCECurrentSRRI \<noteq> ceBase de + kCEDSTWrIndex"
    and "ceBase de + kCEDRBaseLo \<noteq> ceBase de + kCEDSTWrIndex" and "ceBase de + kCECurrentDRRI \<noteq> ceBase de + kCEDSTWrIndex"
    and "ceBase se + kCESRBaseLo \<noteq> ceBase de + kCECurrentDRRI" and "ceBase se + kCECurrentSRRI \<noteq> ceBase de + kCECurrentDRRI"
    and "ceBase de + kCEDRBaseLo \<noteq> ceBase de + kCECurrentDRRI"
  using assms by (auto simp: engines_def ce_consts)

lemma idx_15 [simp]: "unat (w :: u32) < 16 \<Longrightarrow> w AND 15 = w"
  by (simp add: word_unat_eq_iff unat_and_15)

lemma prev_idx: "unat (w :: u32) < 16 \<Longrightarrow> (((w + 1) AND 15) - 1) AND 15 = w"
proof (cases "unat w = 15")
  case True
  then have "w = 15" by (simp add: word_unat_eq_iff)
  then show ?thesis by simp
next
  case False
  moreover assume "unat w < 16"
  ultimately have "unat (w + 1) < 16" "w AND 15 = w" by (simp_all add: unat_word_ariths)
  then show ?thesis by simp
qed

lemma next_idx: "unat (w :: u32) < 16 \<Longrightarrow> (w + 1) AND 15 \<noteq> w"
proof
  assume w: "unat w < 16" and "(w + 1) AND 15 = w"
  then have "Suc (unat w) mod 16 = unat w" by (metis unat_next_index)
  then show False using w by (simp add: mod_Suc split: if_splits)
qed

lemma unat_u32: "n < 2 ^ 32 \<Longrightarrow> unat (of_nat n :: u32) = n"
  by (simp add: unat_of_nat)

lemma unat_u16: "n < 2 ^ 16 \<Longrightarrow> unat (of_nat n :: u16) = n"
  by (simp add: unat_of_nat)

lemma ucast_u64: "n < 2 ^ 32 \<Longrightarrow> (ucast (of_nat n :: u64) :: u32) = of_nat n"
  by (simp add: word_unat_eq_iff unsigned_ucast_eq unat_of_nat take_bit_nat_eq_self_iff)

lemma waitSrri_idle: "w = fSrcWrite p \<Longrightarrow> waitSrri H p n w = ret w"
  by (cases n) simp_all

text \<open>What a doorbell does when the descriptor behind it is \<open>c\<close>.\<close>

lemma doorbell_desc:
  assumes "tReg d (ceBase e + kCESRBaseLo) = of_nat a" and "a < 2 ^ 32" and "((v - 1) AND 15) = i"
    and "ldBytes m (descAt a i) 8 = descBytes c" and "ldBytes m (unat (addr c)) (unat (nbytes c)) = buf"
  shows "doorbell e v d m = d\<lparr>tReg := (tReg d)(ceBase e + kCESRWrIndex := v, ceBase e + kCECurrentSRRI := v),
     tSent := (tSent d)(e := buf)\<rparr>"
  unfolding doorbell_def Let_def assms(1,3) unat_u32 [OF assms(2)] assms(4) descOf_descBytes assms(5) ..

definition rang :: "u32 \<Rightarrow> u32 \<Rightarrow> u8 list \<Rightarrow> target \<Rightarrow> target" where
  "rang se v buf d = d\<lparr>tReg := (tReg d)(ceBase se + kCESRWrIndex := v, ceBase se + kCECurrentSRRI := v),
     tSent := (tSent d)(se := buf)\<rparr>"

lemma wp_send:
  assumes "works H" and "(se, de) \<in> engines" and "seated se de a p" and "a + 0x4000 < 2 ^ 32" and "inStep p (dev s)"
    and "buf \<noteq> []" and "length buf \<le> 2048"
  shows "wp (send H p buf) (\<lambda>(ok, p') t. ok \<and> p' = p\<lparr>fSrcWrite := (fSrcWrite p + 1) AND 15\<rparr> \<and>
    dev t = rang se ((fSrcWrite p + 1) AND 15) buf (dev s) \<and>
    (\<exists>c. ram t = stBytes (descAt a (fSrcWrite p)) (descBytes c) (stBytes (a + 0x2000) buf (ram s)))) s"
proof -
  have p: "fSrcCe p = se" "fSrcDesc p = a" "fTxCpu p = a + 0x2000" "fTxPhys p = of_nat (a + 0x2000)"
    "unat (fSrcWrite p) < 16"
    using assms(3) by (simp_all add: seated_def)
  have r: "tReg (dev s) (ceBase se + kCESRBaseLo) = of_nat a" "tReg (dev s) (ceBase se + kCECurrentSRRI) = fSrcWrite p"
    using assms(5) p by (simp_all add: inStep_def)
  have g: "\<not> (length buf = 0 \<or> length buf > unat kTxBufSz \<or> length buf > 0xFFFF)"
    using assms(6,7) by simp
  define c where "c = \<lparr>addr = ucast (fTxPhys p), nbytes = of_nat (length buf), flags = 0\<rparr>"
  define m where "m = stBytes (descAt a (fSrcWrite p)) (descBytes c) (stBytes (a + 0x2000) buf (ram s))"
  have c: "unat (addr c) = a + 0x2000" "unat (nbytes c) = length buf"
  proof -
    have "a + 0x2000 < 2 ^ 32" "length buf < 2 ^ 16" using assms(4,7) by simp_all
    then show "unat (addr c) = a + 0x2000" "unat (nbytes c) = length buf"
      unfolding c_def p(4) by (simp_all only: CEDescriptor.simps ucast_u64 unat_u32 unat_u16)
  qed
  have m: "ldBytes m (descAt a (fSrcWrite p)) 8 = descBytes c" "ldBytes m (a + 0x2000) (length buf) = buf"
    unfolding m_def using ldBytes_stBytes [of "descAt a (fSrcWrite p)" "descBytes c"] p(5)
    by (simp_all add: ldBytes_stBytes_other descAt_def)
  have bell: "doorbell se ((fSrcWrite p + 1) AND 15) (dev s) m = rang se ((fSrcWrite p + 1) AND 15) buf (dev s)"
    unfolding rang_def by (rule doorbell_desc [OF r(1) _ prev_idx [OF p(5)] m(1)]) (use assms(4) c m(2) in simp_all)
  show ?thesis
    unfolding send_def if_not_P [OF g] p(1-3) c_def [symmetric]
    using p(5)
    by (simp add: wp_simps assms(1) engine_access [OF assms(2)] r waitSrri_idle p m_def [symmetric] bell sendDeadline_def)
      (simp add: rang_def waitSrri_idle, use m_def in blast)
qed

text \<open>A pair with no receive entry outstanding, and one with exactly one.\<close>

definition idle :: "CECopyPair \<Rightarrow> target world \<Rightarrow> bool" where
  "idle p s \<longleftrightarrow> inStep p (dev s) \<and> fDstWrite p = fDstSw p"

definition armed :: "CECopyPair \<Rightarrow> target world \<Rightarrow> bool" where
  "armed p s \<longleftrightarrow> inStep p (dev s) \<and> fDstWrite p = (fDstSw p + 1) AND 15 \<and>
     ldBytes (ram s) (descAt (fDstDesc p) (fDstSw p)) 8 = descBytes \<lparr>addr = of_nat (fRxCpu p), nbytes = 0, flags = 0\<rparr>"

text \<open>What an operation of a pair leaves alone.\<close>

definition within :: "u32 \<Rightarrow> u32 \<Rightarrow> bool" where
  "within e off \<longleftrightarrow> off \<in> (\<lambda>x. ceBase e + x) ` {kCESRBaseLo, kCESRSize, kCEDRBaseLo, kCEDRSize, kCESRWrIndex, kCEDSTWrIndex,
     kCECurrentSRRI, kCECurrentDRRI}"

definition keeps :: "u32 \<Rightarrow> u32 \<Rightarrow> target \<Rightarrow> target \<Rightarrow> bool" where
  "keeps se de d d' \<longleftrightarrow> (\<forall>off. \<not> within se off \<longrightarrow> \<not> within de off \<longrightarrow> tReg d' off = tReg d off) \<and>
     (\<forall>e. e \<noteq> se \<longrightarrow> tSent d' e = tSent d e) \<and> tNext d' = tNext d"

lemma keeps_trans: "keeps se de c d \<Longrightarrow> keeps se de d e \<Longrightarrow> keeps se de c e"
  by (simp add: keeps_def)

lemma next_less [simp]: "unat ((w + 1) AND 15 :: u32) < 16"
  by (rule and_15_less)

lemma wp_send_idle:
  assumes "works H" and "(se, de) \<in> engines" and "seated se de a p" and "a + 0x4000 < 2 ^ 32"
    and "idle p s \<or> armed p s" and "buf \<noteq> []" and "length buf \<le> 2048"
  shows "wp (send H p buf) (\<lambda>(ok, p') t. ok \<and> seated se de a p' \<and> (idle p s \<longrightarrow> idle p' t) \<and> (armed p s \<longrightarrow> armed p' t) \<and>
    keeps se de (dev s) (dev t) \<and> tSent (dev t) se = buf) s"
proof -
  have s: "inStep p (dev s)" using assms(5) by (auto simp: idle_def armed_def)
  have r: "unat (fSrcWrite p) < 16" "unat (fDstSw p) < 16" "fDstDesc p = a + 0x1000" "fSrcCe p = se" "fDstCe p = de"
    using assms(3) by (simp_all add: seated_def)
  have other: "ldBytes (stBytes (descAt a (fSrcWrite p)) (descBytes c) (stBytes (a + 0x2000) buf m))
      (descAt (a + 0x1000) (fDstSw p)) 8 = ldBytes m (descAt (a + 0x1000) (fDstSw p)) 8" for c m
    using r by (simp add: ldBytes_stBytes_other descAt_def)
  show ?thesis
    by (rule wp_mono [OF wp_send [OF assms(1-4) s assms(6,7)]])
       (use assms(3) s engine_regs [OF assms(2)] r other in
        \<open>auto simp: idle_def armed_def seated_def inStep_def keeps_def rang_def within_def\<close>)
qed

lemma wp_postRecv:
  assumes "works H" and "(se, de) \<in> engines" and "seated se de a p" and "a + 0x4000 < 2 ^ 32" and "idle p s"
  shows "wp (postRecv H p) (\<lambda>(ok, p') t. ok \<and> seated se de a p' \<and> armed p' t \<and> keeps se de (dev s) (dev t) \<and>
    tSent (dev t) = tSent (dev s)) s"
proof -
  have r: "unat (fDstSw p) < 16" "fDstDesc p = a + 0x1000" "fSrcCe p = se" "fDstCe p = de" "fDstWrite p = fDstSw p"
    "fRxPhys p = of_nat (a + 0x3000)" "fRxCpu p = a + 0x3000"
    using assms(3,5) by (simp_all add: seated_def idle_def)
  have a: "(ucast (of_nat (a + 0x3000) :: u64) :: u32) = of_nat (a + 0x3000)"
    using assms(4) by (intro ucast_u64) simp
  show ?thesis
    unfolding postRecv_def r(2-7) a using assms(3,5) engine_regs [OF assms(2)] r ldBytes_stBytes [of _ "descBytes _"]
    by (simp add: wp_simps assms(1) engine_access [OF assms(2)])
       (auto simp: idle_def armed_def seated_def inStep_def keeps_def within_def)
qed

lemma deliver_desc:
  assumes "tReg d (ceBase e + kCECurrentDRRI) = i" and "i \<noteq> tReg d (ceBase e + kCEDSTWrIndex)"
    and "tReg d (ceBase e + kCEDRBaseLo) = of_nat a" and "a < 2 ^ 32" and "ldBytes m (descAt a i) 8 = descBytes c"
  shows "deliver e msg d m = (d\<lparr>tReg := (tReg d)(ceBase e + kCECurrentDRRI := (i + 1) AND 15)\<rparr>,
     stBytes (descAt a i) (descBytes (c\<lparr>nbytes := of_nat (length msg)\<rparr>)) (stBytes (unat (addr c)) msg m))"
  unfolding deliver_def Let_def assms(1) if_not_P [OF assms(2)] assms(3) unat_u32 [OF assms(4)] assms(5) descOf_descBytes ..

lemma wp_recvWait:
  assumes "works H" and "(se, de) \<in> engines" and "seated se de a p" and "a + 0x4000 < 2 ^ 32" and "armed p s"
    and "reply de (tSent (dev s) se) = msg" and "msg \<noteq> []" and "length msg < 2048" and "recvDeadline ms = Suc n"
  shows "wp (recvWait H p ms) (\<lambda>(ok, p') t. ok \<and> seated se de a p' \<and> idle p' t \<and> keeps se de (dev s) (dev t) \<and>
    tSent (dev t) = tSent (dev s) \<and> unat (fRxNbytes p') = length msg \<and> ldBytes (ram t) (fRxCpu p') (length msg) = msg) s"
proof -
  have r: "unat (fDstSw p) < 16" "fDstDesc p = a + 0x1000" "fSrcCe p = se" "fDstCe p = de"
    "fDstWrite p = (fDstSw p + 1) AND 15" "fRxCpu p = a + 0x3000"
    using assms(3,5) by (simp_all add: seated_def armed_def)
  have i: "fDstSw p \<noteq> fDstWrite p" "(fDstSw p + 1) AND 15 \<noteq> fDstSw p"
    using next_idx [OF r(1)] r(5) by simp_all
  have w: "tReg (dev s) (ceBase de + kCECurrentDRRI) = fDstSw p" "tReg (dev s) (ceBase de + kCEDSTWrIndex) = fDstWrite p"
    "tReg (dev s) (ceBase de + kCEDRBaseLo) = of_nat (a + 0x1000)"
    "ldBytes (ram s) (descAt (a + 0x1000) (fDstSw p)) 8 = descBytes \<lparr>addr = of_nat (a + 0x3000), nbytes = 0, flags = 0\<rparr>"
    using assms(5) r by (simp_all add: armed_def inStep_def)
  define c where "c = \<lparr>addr = of_nat (a + 0x3000), nbytes = of_nat (length msg) :: u16, flags = 0 :: u16\<rparr>"
  have l: "unat (of_nat (length msg) :: u16) = length msg" "unat (of_nat (a + 0x3000) :: u32) = a + 0x3000"
    by (rule unat_u16, use assms(8) in simp, rule unat_u32, use assms(4) in simp)
  then have nz: "of_nat (length msg) \<noteq> (0 :: u16)" using assms(7) by auto
  have del: "deliver de msg (dev s) (ram s) = ((dev s)\<lparr>tReg := (tReg (dev s))(ceBase de + kCECurrentDRRI := (fDstSw p + 1) AND 15)\<rparr>,
      stBytes (descAt (a + 0x1000) (fDstSw p)) (descBytes c) (stBytes (a + 0x3000) msg (ram s)))"
    using deliver_desc [OF w(1) _ w(3) _ w(4), of msg] assms(4) i(1) w(2) l(2) by (simp add: c_def)
  have m: "ldBytes (stBytes (descAt (a + 0x1000) (fDstSw p)) (descBytes c) (stBytes (a + 0x3000) msg (ram s)))
      (descAt (a + 0x1000) (fDstSw p)) 8 = descBytes c"
    "ldBytes (stBytes (descAt (a + 0x1000) (fDstSw p)) (descBytes c) (stBytes (a + 0x3000) msg (ram s)))
      (a + 0x3000) (length msg) = msg"
    using ldBytes_stBytes [of _ "descBytes c"] r(1) by (simp_all add: ldBytes_stBytes_other descAt_def)
  have nb: "nbytes c \<noteq> 0" "unat (ucast (nbytes c) :: u32) = length msg"
    using nz l(1) by (simp_all add: c_def unat_ucast_16_32)
  have rest: "inStep p (dev s)" "seated se de a p" using assms(3,5) by (simp_all add: armed_def)
  show ?thesis
    unfolding recvWait_def assms(9) recvLoop.simps(2) r(2-4)
    using rest r engine_regs [OF assms(2)]
    by (simp add: wp_simps assms(1) engine_access [OF assms(2)] assms(6) del m i nb)
       (auto simp: idle_def seated_def inStep_def keeps_def within_def m)
qed

section \<open>The manager on the chip\<close>

definition fresh :: "u32 \<Rightarrow> u32 \<Rightarrow> target \<Rightarrow> bool" where
  "fresh se de d \<longleftrightarrow> tReg d (ceBase se + kCECurrentSRRI) = 0 \<and> tReg d (ceBase de + kCEDSTWrIndex) = 0 \<and>
     tReg d (ceBase de + kCECurrentDRRI) = 0"

text \<open>The WMI pair, not yet created or waiting for its first command.\<close>

definition wmiSlot :: "CEManager \<Rightarrow> target world \<Rightarrow> bool" where
  "wmiSlot ce s \<longleftrightarrow> mBar0 ce \<and> tSent (dev s) 3 = [] \<and> (case fWmi ce of None \<Rightarrow> tNext (dev s) = 2 \<and> fresh 3 2 (dev s)
     | Some q \<Rightarrow> tNext (dev s) = 3 \<and> seated 3 2 0x30000 q \<and> idle q s)"

definition serving :: "nat \<Rightarrow> (CECopyPair \<Rightarrow> target world \<Rightarrow> bool) \<Rightarrow> CEManager \<Rightarrow> target world \<Rightarrow> bool" where
  "serving z P ce s \<longleftrightarrow> wmiSlot ce s \<and> tNext (dev s) = z \<and> (\<exists>p. fCtrl ce = Some p \<and> seated 0 1 0x10000 p \<and> P p s)"

lemma wmiSlot_keeps:
  assumes "keeps 0 1 (dev s) (dev t)" and "wmiSlot ce s"
  shows "wmiSlot ce t"
proof -
  have "\<not> within e (ceBase f + x)" if "e \<in> {0, 1}" "f \<in> {2, 3}"
    "x \<in> {kCESRBaseLo, kCEDRBaseLo, kCESRWrIndex, kCEDSTWrIndex, kCECurrentSRRI, kCECurrentDRRI}" for e f x
    using that by (auto simp: within_def ce_consts)
  then have "tReg (dev t) (ceBase f + x) = tReg (dev s) (ceBase f + x)" if "f \<in> {2, 3}"
    "x \<in> {kCESRBaseLo, kCEDRBaseLo, kCESRWrIndex, kCEDSTWrIndex, kCECurrentSRRI, kCECurrentDRRI}" for f x
    using assms(1) that by (auto simp: keeps_def)
  then show ?thesis
    using assms by (auto simp: wmiSlot_def keeps_def fresh_def idle_def inStep_def seated_def split: option.splits)
qed

lemma engines_ctrl: "(0, 1) \<in> engines" and engines_wmi: "(3, 2) \<in> engines" and engines_diag: "(7, 7) \<in> engines"
  by (simp_all add: engines_def)

lemma onCtrl_serving:
  assumes "serving z P ce s"
    and "\<And>p. seated 0 1 0x10000 p \<Longrightarrow> P p s \<Longrightarrow> wp (f p) (\<lambda>(ok, p') t. ok \<and> seated 0 1 0x10000 p' \<and> Q p' t \<and>
      keeps 0 1 (dev s) (dev t)) s"
  shows "wp (onCtrl f ce) (\<lambda>(ok, ce') t. ok \<and> serving z Q ce' t) s"
proof -
  obtain p where p: "fCtrl ce = Some p" "seated 0 1 0x10000 p" "P p s" "wmiSlot ce s" "tNext (dev s) = z"
    using assms(1) by (auto simp: serving_def)
  have w: "wmiSlot (ce\<lparr>fCtrl := x\<rparr>) t = wmiSlot ce t" for x t by (simp add: wmiSlot_def)
  show ?thesis
    unfolding onCtrl_def p(1) option.case wp_bind
    by (rule wp_mono [OF assms(2) [OF p(2,3)]]) (use p(4,5) wmiSlot_keeps in \<open>auto simp: serving_def w keeps_def\<close>)
qed

lemma serve_send:
  assumes "works H" and "serving z (\<lambda>p s. idle p s \<and> R (tSent (dev s) 0)) ce s" and "buf \<noteq> []" and "length buf \<le> 2048"
  shows "wp (ceSend H ce buf) (\<lambda>(ok, ce') t. ok \<and> serving z (\<lambda>p s. idle p s \<and> tSent (dev s) 0 = buf) ce' t) s"
  unfolding ceSend_def
  by (rule onCtrl_serving [OF assms(2)], rule wp_mono [OF wp_send_idle [OF assms(1) engines_ctrl]])
     (use assms in auto)

lemma serve_send_armed:
  assumes "works H" and "serving z (\<lambda>p s. armed p s) ce s" and "buf \<noteq> []" and "length buf \<le> 2048"
  shows "wp (ceSend H ce buf) (\<lambda>(ok, ce') t. ok \<and> serving z (\<lambda>p s. armed p s \<and> tSent (dev s) 0 = buf) ce' t) s"
  unfolding ceSend_def
  by (rule onCtrl_serving [OF assms(2)], rule wp_mono [OF wp_send_idle [OF assms(1) engines_ctrl]])
     (use assms in auto)

lemma serve_post:
  assumes "works H" and "serving z (\<lambda>p s. idle p s \<and> R (tSent (dev s) 0)) ce s"
  shows "wp (cePostRecv H ce) (\<lambda>(ok, ce') t. ok \<and> serving z (\<lambda>p s. armed p s \<and> R (tSent (dev s) 0)) ce' t) s"
  unfolding cePostRecv_def
  by (rule onCtrl_serving [OF assms(2)], rule wp_mono [OF wp_postRecv [OF assms(1) engines_ctrl]])
     (use assms in auto)

text \<open>The message is in the receive buffer.\<close>

definition holding :: "u8 list \<Rightarrow> CECopyPair \<Rightarrow> target world \<Rightarrow> bool" where
  "holding msg p s \<longleftrightarrow> idle p s \<and> unat (fRxNbytes p) = length msg \<and> ldBytes (ram s) (fRxCpu p) (length msg) = msg"

lemma ctrlReply_length: "4 \<le> length (ctrlReply cmd)" "length (ctrlReply cmd) < 2048" "ctrlReply cmd \<noteq> []"
proof -
  show "4 \<le> length (ctrlReply cmd)" "length (ctrlReply cmd) < 2048" by (simp_all add: ctrlReply_def htcHdr_def)
  then show "ctrlReply cmd \<noteq> []" by auto
qed

lemma serve_recv:
  assumes "works H" and "serving z (\<lambda>p s. armed p s \<and> tSent (dev s) 0 = cmd) ce s" and "recvDeadline ms \<noteq> 0"
  shows "wp (ceRecvWait H ce ms) (\<lambda>(ok, ce') t. ok \<and>
    serving z (\<lambda>p s. holding (ctrlReply cmd) p s \<and> tSent (dev s) 0 = cmd) ce' t) s"
proof -
  obtain n where n: "recvDeadline ms = Suc n" using assms(3) not0_implies_Suc by blast
  show ?thesis
    unfolding ceRecvWait_def
    by (rule onCtrl_serving [OF assms(2)], rule wp_mono [OF wp_recvWait [OF assms(1) engines_ctrl _ _ _ refl _ _ n]])
       (auto simp: reply_def holding_def ctrlReply_length)
qed

lemma ldBytes_part: "ldBytes m a k = msg \<Longrightarrow> off + n \<le> k \<Longrightarrow> ldBytes m (a + off) n = take n (drop off msg)"
  by (rule nth_equalityI) (auto simp: add.assoc)

lemma only_bus [simp]:
  "idle p (s\<lparr>bus := b\<rparr>) = idle p s" "armed p (s\<lparr>bus := b\<rparr>) = armed p s" "holding msg p (s\<lparr>bus := b\<rparr>) = holding msg p s"
  "wmiSlot ce (s\<lparr>bus := b\<rparr>) = wmiSlot ce s"
  by (simp_all add: idle_def armed_def holding_def wmiSlot_def split: option.split)

lemma serve_rx:
  assumes "works H" and "serving z (\<lambda>p s. holding msg p s \<and> R (tSent (dev s) 0)) ce s" and "off + n \<le> length msg"
    and "length msg \<le> 0x1000"
  shows "wp (rxLoad (fCtrl ce) off n) (\<lambda>r t. r = take n (drop off msg) \<and>
    serving z (\<lambda>p s. holding msg p s \<and> R (tSent (dev s) 0)) ce t) s"
proof -
  obtain p where p: "fCtrl ce = Some p" "seated 0 1 0x10000 p" "holding msg p s"
    using assms(2) by (auto simp: serving_def)
  have "inRegion p (fRxCpu p + off) n" "ldBytes (ram s) (fRxCpu p + off) n = take n (drop off msg)"
    using p assms(3,4) by (auto simp: inRegion_def seated_def holding_def intro: ldBytes_part)
  then show ?thesis
    using assms(2) by (simp add: rxLoad_def p(1) wp_simps serving_def)
qed

lemma serving_mono: "serving z P ce s \<Longrightarrow> (\<And>p. P p s \<Longrightarrow> Q p s) \<Longrightarrow> serving z Q ce s"
  by (auto simp: serving_def)

lemma serve_nbytes: "serving z P ce s \<Longrightarrow> (\<And>p. P p s \<Longrightarrow> holding msg p s) \<Longrightarrow> unat (ceRxNbytes ce) = length msg"
  by (fastforce simp: serving_def ceRxNbytes_def holding_def)

text \<open>One exchange with the target.\<close>

lemma serve_exchange:
  assumes "works H" and "serving z idle ce s" and "\<not> fDoneSent b" and "cmd \<noteq> []" and "length cmd \<le> 2048"
    and "n \<le> length (ctrlReply cmd)"
  shows "wp (exchangeWait H ce b cmd n) (\<lambda>(r, ce', b') t. r = Some (take n (ctrlReply cmd)) \<and> serving z idle ce' t \<and>
    \<not> fDoneSent b') s"
  unfolding exchangeWait_def if_not_P [OF assms(3)] Let_def
  apply (rule wp_bindI [OF serve_post [where R = "\<lambda>_. True"]], rule assms, use assms(2) in simp, clarsimp)
  apply (rule wp_mono [OF serve_send_armed [OF assms(1) _ assms(4,5)]], assumption, clarsimp)
  apply (rule wp_mono [OF serve_recv [OF assms(1)]], assumption, simp add: recvDeadline_def, clarsimp)
  apply (frule serve_nbytes [where msg = "ctrlReply cmd"], simp)
  apply (use assms(3,6) ctrlReply_length(2) [of cmd] in simp)
  apply (rule wp_mono [OF serve_rx [OF assms(1), where R = "\<lambda>c. c = cmd"]], assumption, simp, simp)
  apply (auto elim: serving_mono simp: holding_def)
  done

section \<open>The boot monitor\<close>

lemma word32At_le32: "word32At (le32 v) 0 = v"
  by (simp add: word32At_def le32_def)

interpretation onTarget: live_bmi H "\<lambda>ce s. works H \<and> serving 2 idle ce s"
    "\<lambda>ce s. works H \<and> serving 2 (\<lambda>p s. idle p s \<and> tSent (dev s) 0 = cmdDone) ce s"
  for H :: "(target, 'h) hw_scheme"
proof (unfold_locales, goal_cases)
  case (1 c s buf)
  then show ?case using serve_send [of H 2 "\<lambda>_. True" c s buf] by (auto elim!: wp_mono serving_mono)
next
  case (2 ce s m)
  then show ?case by (simp add: wp_simps)
next
  case (3 ce s es)
  then show ?case by (auto simp: serving_def)
next
  case (4 ce s es)
  then show ?case by (auto simp: serving_def)
next
  case (5 ce s b cmd n)
  have "ctrlReply (hiRead 0x54) = le32 0x00400000"
    by (simp add: ctrlReply_def hiRead_def le32_def)
  then have "word32At (take 4 (ctrlReply (hiRead 0x54))) 0 \<noteq> 0"
    using word32At_le32 [of "0x00400000"] by simp
  with 5 show ?case using ctrlReply_length(1) [of cmd] 
    by (auto intro!: wp_mono [OF serve_exchange ])
next
  case (6 ce s)
  then show ?case using serve_send [of H 2 "\<lambda>_. True" ce s cmdDone] by (auto elim!: wp_mono simp: cmdDone_def)
next
  case (7 ce s)
  then show ?case by (auto simp: wp_simps targetRead_def delivers_def ce_consts serving_def)
qed

end
