(* ===== verification/ChipSetup.thy ===== *)
theory ChipSetup
  imports WorkingChip
begin

text \<open>
  From the chip reset to the BMI probe on the chip of theory \<open>WorkingChip\<close>: \<open>resetChip\<close> and \<open>probeBmi\<close> of
  \<open>skeleton/QCA9377Driver.cpp\<close> succeed, with the control pair, the diagnostic window and the boot
  monitor left ready for the firmware boot.
\<close>

section \<open>Before the copy engines are set up\<close>

definition cold :: "target \<Rightarrow> bool" where
  "cold d \<longleftrightarrow> tNext d = 0 \<and> tSent d 3 = [] \<and> fresh 0 1 d \<and> fresh 3 2 d \<and> fresh 7 7 d"

text \<open>A register that belongs to no copy engine.\<close>

definition outside :: "u32 \<Rightarrow> bool" where
  "outside off \<longleftrightarrow> off < 0x34400 \<or> 0x36400 \<le> off"

lemma outside_engines:
  "outside off \<Longrightarrow> e \<in> {0, 1, 2, 3, 7} \<Longrightarrow> x \<in> {kCESRBaseLo, kCESRSize, kCEDRBaseLo, kCEDRSize, kCESRWrIndex,
     kCEDSTWrIndex, kCECurrentSRRI, kCECurrentDRRI} \<Longrightarrow> off \<noteq> ceBase e + x"
  by (auto simp: outside_def ce_consts)

lemma outside_write:
  assumes "outside off"
  shows "targetWrite off v d m = (d\<lparr>tReg := (tReg d)(off := v)\<rparr>, m)"
  using outside_engines [OF assms] by (simp add: targetWrite_def)

lemma outside_read:
  assumes "outside off"
  shows "targetRead off d m = (if off = 0x80000 then 3 else if off = 0x3a028 then 2 else tReg d off, d, m)"
  using outside_engines [OF assms] by (simp add: targetRead_def delivers_def)

lemma cold_read:
  assumes "cold d"
  shows "targetRead off d m = (if off = 0x80000 then 3 else if off = 0x3a028 then 2 else tReg d off, d, m)"
proof -
  have "deliver e msg d m = (d, m)" if "e \<in> {1, 2, 7}" for e msg
    using that assms by (auto simp: deliver_def cold_def fresh_def)
  then have "delivers off d m = (d, m)" by (simp add: delivers_def)
  then show ?thesis by (simp add: targetRead_def)
qed

lemma cold_write: "outside off \<Longrightarrow> cold (d\<lparr>tReg := (tReg d)(off := v)\<rparr>) = cold d"
  by (simp add: cold_def fresh_def outside_engines [THEN not_sym])

lemma wp_coldRead:
  assumes "works H" and "drvBar0 d" and "cold (dev s)"
    and "\<And>v t. cold (dev t) \<Longrightarrow> (off = 0x80000 \<longrightarrow> v = 3) \<Longrightarrow> (off = 0x3a028 \<longrightarrow> v = 2) \<Longrightarrow> Q v t"
  shows "wp (drvRead32 H d off) Q s"
  using assms(2-4) by (simp add: drvRead32_def wp_simps assms(1) cold_read)

lemma wp_coldWrite:
  assumes "works H" and "drvBar0 d" and "cold (dev s)" and "outside off" and "\<And>t. cold (dev t) \<Longrightarrow> Q () t"
  shows "wp (drvWrite32 H d off v) Q s"
  using assms(2-5) by (simp add: drvWrite32_def wp_simps assms(1) outside_write cold_write)

lemma wp_wakeTarget:
  assumes "works H" and "drvBar0 d" and "cold (dev s)" and "\<And>t. cold (dev t) \<Longrightarrow> Q True t"
  shows "wp (wakeTarget H d) Q s"
  unfolding wakeTarget_def
  apply (simp, rule wp_coldWrite [OF assms(1,2,3)], simp add: outside_def)
  apply (subst wakeLoop.simps, simp add: isAwake_def)
  apply (rule wp_coldRead [OF assms(1,2)], assumption, simp add: assms(4))
  done

text \<open>A driver before the first stage that touches the copy engines.\<close>

definition beforeCe :: "u32 \<Rightarrow> driver \<Rightarrow> target world \<Rightarrow> bool" where
  "beforeCe k d s \<longleftrightarrow> drvBar0 d \<and> fCe d = None \<and> fMaxStage d = k \<and> cold (dev s)"

lemma beforeCe_tell [simp]: "beforeCe k (d\<lparr>fTail := lt\<rparr>) (s\<lparr>bus := es\<rparr>) = beforeCe k d s" "beforeCe k d (s\<lparr>bus := es\<rparr>) = beforeCe k d s"
  by (simp_all add: beforeCe_def)

lemma wp_coldReset:
  assumes "works H" and "beforeCe k d s"
  shows "wp (coldReset H d) (\<lambda>(ok, d') t. ok \<and> beforeCe k d' t) s"
  unfolding coldReset_def using assms(2)
  apply (clarsimp simp: beforeCe_def Let_def)
  apply (rule wp_coldRead [OF assms(1)], assumption+, simp, rule wp_qlog)
  apply (simp, rule wp_coldWrite [OF assms(1)], simp, simp, simp add: outside_def)
  apply (simp add: wp_simps assms(1), rule wp_coldWrite [OF assms(1)], simp, simp, simp add: outside_def)
  apply (simp add: wp_simps assms(1), rule wp_qlog, simp)
  done

lemma wp_waitForTargetInit:
  assumes "works H" and "beforeCe k d s"
  shows "wp (waitForTargetInit H d) (\<lambda>(ok, d') t. ok \<and> beforeCe k d' t) s"
  unfolding waitForTargetInit_def using assms(2)
  apply (subst targetInitLoop.simps)
  apply (clarsimp simp: beforeCe_def Let_def)
  apply (rule wp_coldRead [OF assms(1)], assumption+, simp, rule wp_publishNum)
  apply (simp, rule wp_qlog, simp)
  done

lemma wp_wake:
  assumes "works H" and "beforeCe k d s"
  shows "wp (wakeTarget H d) (\<lambda>ok t. ok \<and> beforeCe k d t) s"
  by (rule wp_wakeTarget [OF assms(1)]) (use assms(2) in \<open>auto simp: beforeCe_def\<close>)

lemma wp_resetChip:
  assumes "works H" and "beforeCe k d s"
  shows "wp (resetChip H d) (\<lambda>(ok, d') t. ok \<and> beforeCe k d' t) s"
  unfolding resetChip_def
  apply (simp, rule wp_qlog, simp)
  apply (rule wp_mono [OF wp_wake [OF assms(1)]])
   apply (subst beforeCe_tell, rule assms)
  apply clarsimp
  apply (rule wp_mono [OF wp_coldReset [OF assms(1)]], assumption, clarsimp)
  apply (rule wp_mono [OF wp_wake [OF assms(1)]], assumption, clarsimp)
  apply (rule wp_mono [OF wp_waitForTargetInit [OF assms(1)]], assumption, clarsimp)
  apply (rule wp_publishStage, simp)
  done

section \<open>Setting up a pair\<close>

lemma regionAt_less: "n < 3 \<Longrightarrow> regionAt n + 0x4000 < 2 ^ 32"
  by (simp add: regionAt_def)

text \<open>The registers of the two engines after \<open>init\<close>, and the pair.\<close>

definition programmed :: "u32 \<Rightarrow> u32 \<Rightarrow> nat \<Rightarrow> target \<Rightarrow> target" where
  "programmed se de a d = d\<lparr>tReg := (tReg d)(ceBase se + kCESRBaseLo := of_nat a, ceBase se + kCESRSize := 16,
     ceBase de + kCEDRBaseLo := of_nat (a + 0x1000), ceBase de + kCEDRSize := 16), tNext := Suc (tNext d)\<rparr>"

definition freshPair :: "u32 \<Rightarrow> u32 \<Rightarrow> nat \<Rightarrow> CECopyPair" where
  "freshPair se de a = (newCopyPair True se de)\<lparr>
     region := \<lparr>fBmd = True, fDma = True, fBmdPrepared = True, fDmaPrepared = True, fRegionCpu = Some a,
       fRegionPhys = of_nat a, fRegionSize = 0x4000\<rparr>,
     fSrcDesc := a, fDstDesc := a + 0x1000, fTxCpu := a + 0x2000, fRxCpu := a + 0x3000,
     fTxPhys := of_nat (a + 0x2000), fRxPhys := of_nat (a + 0x3000)\<rparr>"

lemma freshPair_inStep:
  assumes "(se, de) \<in> engines" and "fresh se de d"
  shows "seated se de a (freshPair se de a)" and "inStep (freshPair se de a) (programmed se de a d)"
    and "fDstWrite (freshPair se de a) = fDstSw (freshPair se de a)"
  using assms
  by (auto simp: freshPair_def newCopyPair_def seated_def inStep_def programmed_def fresh_def engines_def ce_consts)

lemma programmed_sel [simp]: "tNext (programmed se de a d) = Suc (tNext d)" "tSent (programmed se de a d) = tSent d"
  by (simp_all add: programmed_def)

lemma programmed_else:
  "\<not> within se off \<Longrightarrow> \<not> within de off \<Longrightarrow> tReg (programmed se de a d) off = tReg d off"
  by (auto simp: programmed_def within_def)

lemma wp_newPair:
  assumes "works H" and "(se, de) \<in> engines" and "se \<noteq> 7" and "fresh se de (dev s)" and "tNext (dev s) = n" and "n < 3"
  shows "wp (newPair H True se de) (\<lambda>(ok, x) t. ok \<and> x = Some (freshPair se de (regionAt n)) \<and>
    dev t = programmed se de (regionAt n) (dev s)) s"
proof -
  have "deliver de msg d m = (d, m)" if "fresh se de d" for msg d m
    using that by (simp add: deliver_def fresh_def)
  then have drri: "targetRead (ceBase de + kCECurrentDRRI) d m = (0, d, m)" if "fresh se de d" for d m
    unfolding engine_access(4) [OF assms(2)] using that by (simp add: fresh_def)
  have w: "targetWrite (ceBase e + x) v d m = (d\<lparr>tReg := (tReg d)(ceBase e + x := v)\<rparr>, m)"
    if "e \<in> {se, de}" "x \<in> {kCESRBaseLo, kCESRSize, kCEDRBaseLo, kCEDRSize}" for e x v d m
    using that assms(2,3) by (auto simp: engines_def targetWrite_def ce_consts)
  have fr: "fresh se de (d\<lparr>tNext := i\<rparr>) = fresh se de d" for d i by (simp add: fresh_def)
  have srri: "tReg (dev s) (ceBase se + kCECurrentSRRI) = 0" using assms(4) by (simp add: fresh_def)
  have u: "(ucast (of_nat (regionAt n) :: u64) :: u32) = of_nat (regionAt n)"
    "(ucast (of_nat (regionAt n) + 0x1000 :: u64) :: u32) = of_nat (regionAt n) + 0x1000"
    using ucast_u64 [of "regionAt n"] ucast_u64 [of "regionAt n + 0x1000"] regionAt_less [OF assms(6)] by simp_all
  show ?thesis
    unfolding newPair_def init_def allocRegion_def acquire_def
    using assms(4,5)
    by (simp add: wp_simps assms(1) newCopyPair_def noRegion_def engine_access(1) [OF assms(2)] w Let_def drri fr srri
      freshPair_def programmed_def u)
qed

text \<open>Work of one pair of engines does not disturb the others.\<close>

definition engineOf :: "u32 \<Rightarrow> u32" where
  "engineOf off = drop_bit 10 (off - 0x34400)"

lemma within_engine: "e \<in> {0, 1, 2, 3, 7} \<Longrightarrow> within e off \<Longrightarrow> engineOf off = e"
  by (auto simp: engineOf_def within_def ce_consts)

lemma engine_apart:
  assumes "(se, de) \<in> engines" and "(sf, df) \<in> engines" and "se \<noteq> sf" and "e \<in> {se, de}" and "f \<in> {sf, df}"
    and "x \<in> {kCESRBaseLo, kCEDRBaseLo, kCESRWrIndex, kCEDSTWrIndex, kCECurrentSRRI, kCECurrentDRRI}"
  shows "\<not> within e (ceBase f + x)"
proof
  have ef: "e \<in> {0, 1, 2, 3, 7}" "f \<in> {0, 1, 2, 3, 7}" "e \<noteq> f" using assms(1-5) by (auto simp: engines_def)
  assume "within e (ceBase f + x)"
  moreover have "within f (ceBase f + x)" using assms(6) by (auto simp: within_def)
  ultimately show False using ef within_engine by metis
qed

lemma idle_keeps:
  assumes "idle p s" and "(fSrcCe p, fDstCe p) \<in> engines" and "(se, de) \<in> engines" and "se \<noteq> fSrcCe p"
    and "\<And>off. \<not> within se off \<Longrightarrow> \<not> within de off \<Longrightarrow> tReg (dev t) off = tReg (dev s) off"
  shows "idle p t"
proof -
  have "tReg (dev t) (ceBase f + x) = tReg (dev s) (ceBase f + x)" if "f \<in> {fSrcCe p, fDstCe p}"
    "x \<in> {kCESRBaseLo, kCEDRBaseLo, kCESRWrIndex, kCEDSTWrIndex, kCECurrentSRRI, kCECurrentDRRI}" for f x
    by (intro assms(5) engine_apart [OF assms(3,2,4) _ that]) simp_all
  then show ?thesis using assms(1) by (simp add: idle_def inStep_def)
qed

lemma fresh_keeps:
  assumes "fresh sf df (dev s)" and "(sf, df) \<in> engines" and "(se, de) \<in> engines" and "se \<noteq> sf"
    and "\<And>off. \<not> within se off \<Longrightarrow> \<not> within de off \<Longrightarrow> tReg (dev t) off = tReg (dev s) off"
  shows "fresh sf df (dev t)"
proof -
  have "tReg (dev t) (ceBase f + x) = tReg (dev s) (ceBase f + x)" if "f \<in> {sf, df}"
    "x \<in> {kCESRBaseLo, kCEDRBaseLo, kCESRWrIndex, kCEDSTWrIndex, kCECurrentSRRI, kCECurrentDRRI}" for f x
    by (intro assms(5) engine_apart [OF assms(3,2,4) _ that]) simp_all
  then show ?thesis using assms(1) by (simp add: fresh_def)
qed

section \<open>The control pair and the window\<close>

definition opened :: "nat \<Rightarrow> CEManager \<Rightarrow> target world \<Rightarrow> bool" where
  "opened n ce s \<longleftrightarrow> mBar0 ce \<and> fWmi ce = None \<and> tNext (dev s) = n \<and> fresh 3 2 (dev s) \<and> tSent (dev s) 3 = [] \<and>
     (\<exists>p. fCtrl ce = Some p \<and> seated 0 1 0x10000 p \<and> idle p s)"

lemma opened_serving: "opened 2 ce s \<Longrightarrow> serving 2 idle ce s"
  by (auto simp: opened_def serving_def wmiSlot_def)

lemma wp_ensureCE:
  assumes "works H" and "beforeCe k d s"
  shows "wp (ensureCE H d) (\<lambda>(ok, d') t. ok \<and> (\<exists>ce. d' = d\<lparr>fCe := Some ce\<rparr> \<and> fDiag ce = None \<and> opened 1 ce t \<and>
     fresh 7 7 (dev t))) s"
proof -
  have d: "drvBar0 d" "fCe d = None" and s: "tNext (dev s) = 0" "tSent (dev s) 3 = []" "fresh 0 1 (dev s)" "fresh 3 2 (dev s)"
    "fresh 7 7 (dev s)"
    using assms(2) by (auto simp: beforeCe_def cold_def)
  have p: "seated 0 1 0x10000 (freshPair 0 1 0x10000)" "inStep (freshPair 0 1 0x10000) (programmed 0 1 0x10000 (dev s))"
    "fDstWrite (freshPair 0 1 0x10000) = fDstSw (freshPair 0 1 0x10000)"
    using freshPair_inStep [OF engines_ctrl s(3)] by simp_all
  have f: "fresh sf df (dev t)" if "dev t = programmed 0 1 a (dev s)" "fresh sf df (dev s)" "(sf, df) \<in> engines" "sf \<noteq> 0"
    for sf df a and t :: "target world"
    by (rule fresh_keeps [OF that(2,3) engines_ctrl]) (use that in \<open>simp_all add: programmed_else\<close>)
  show ?thesis
    unfolding ensureCE_def ceCreate_def ceInit_def
    apply (simp add: d Let_def wp_simps assms(1))
    apply (rule wp_mono [OF wp_newPair [OF assms(1) engines_ctrl _ s(3,1)]], simp, simp)
    apply (clarsimp simp: regionAt_def)
    apply (rule exI, rule conjI, rule refl)
    apply (use p f s engines_wmi engines_diag in \<open>simp add: opened_def idle_def\<close>)
    done
qed

text \<open>The window in step with its engine.\<close>

definition diagOk :: "CEDiag \<Rightarrow> target \<Rightarrow> bool" where
  "diagOk g d \<longleftrightarrow> fRegionCpu (dRegion g) = Some 0x20000 \<and> dSrcDesc g = 0x20000 \<and> dDstDesc g = 0x21000 \<and>
     dBounce g = 0x22000 \<and> dBouncePhys g = 0x22000 \<and> unat (dSrcWrite g) < 16 \<and> unat (dDstSw g) < 16 \<and>
     dDstWrite g = dDstSw g \<and> tReg d (ceBase 7 + kCESRBaseLo) = 0x20000 \<and> tReg d (ceBase 7 + kCEDRBaseLo) = 0x21000 \<and>
     tReg d (ceBase 7 + kCEDSTWrIndex) = dDstSw g \<and> tReg d (ceBase 7 + kCECurrentDRRI) = dDstSw g"

definition withDiag :: "CEManager \<Rightarrow> target world \<Rightarrow> bool" where
  "withDiag ce s \<longleftrightarrow> opened 2 ce s \<and> (\<exists>g. fDiag ce = Some g \<and> diagOk g (dev s))"

lemma opened_keeps:
  assumes "opened n ce s" and "(se, de) \<in> engines" and "se = 7" and "tNext (dev t) = m" and "tSent (dev t) 3 = tSent (dev s) 3"
    and "\<And>off. \<not> within se off \<Longrightarrow> \<not> within de off \<Longrightarrow> tReg (dev t) off = tReg (dev s) off"
  shows "opened m (ce\<lparr>fDiag := x\<rparr>) t"
proof -
  obtain p where p: "fCtrl ce = Some p" "seated 0 1 0x10000 p" "idle p s" "fresh 3 2 (dev s)"
    using assms(1) by (auto simp: opened_def)
  then have "fSrcCe p = 0" "fDstCe p = 1" by (simp_all add: seated_def)
  then have "idle p t" using idle_keeps [OF p(3) _ assms(2) _ assms(6)] assms(3) engines_ctrl by simp
  moreover have "fresh 3 2 (dev t)" using fresh_keeps [OF p(4) engines_wmi assms(2) _ assms(6)] assms(3) by simp
  ultimately show ?thesis using assms(1,4,5) p(1,2) by (simp add: opened_def)
qed

lemma wp_ceInitDiag:
  assumes "works H" and "opened 1 ce s" and "fDiag ce = None" and "fresh 7 7 (dev s)"
  shows "wp (ceInitDiag H ce) (\<lambda>(ok, ce') t. ok \<and> withDiag ce' t) s"
proof -
  have bar: "mBar0 ce" "tNext (dev s) = 1" using assms(2) by (simp_all add: opened_def)
  have "deliver 7 msg d m = (d, m)" if "fresh 7 7 d" for msg d m
    using that by (simp add: deliver_def fresh_def)
  then have drri: "targetRead (ceBase 7 + kCECurrentDRRI) d m = (0, d, m)" if "fresh 7 7 d" for d m
    unfolding engine_access(4) [OF engines_diag] using that by (simp add: fresh_def)
  have w: "targetWrite (ceBase 7 + x) v d m = (d\<lparr>tReg := (tReg d)(ceBase 7 + x := v)\<rparr>, m)"
    if "x \<in> {kCESRBaseLo, kCESRSize, kCEDRBaseLo, kCEDRSize}" for x v d m
    using that by (auto simp: targetWrite_def ce_consts)
  have fr: "fresh 7 7 (d\<lparr>tNext := i\<rparr>) = fresh 7 7 d" for d i by (simp add: fresh_def)
  have srri: "tReg (dev s) (ceBase 7 + kCECurrentSRRI) = 0" using assms(4) by (simp add: fresh_def)
  define g where "g = (newDiag True)\<lparr>dRegion := \<lparr>fBmd = True, fDma = True, fBmdPrepared = True, fDmaPrepared = True,
      fRegionCpu = Some 0x20000, fRegionPhys = 0x20000, fRegionSize = 2 * ringAligned + bounceAligned\<rparr>,
    dSrcDesc := 0x20000, dDstDesc := 0x21000, dBounce := 0x22000, dBouncePhys := 0x22000\<rparr>"
  have "wp (ceInitDiag H ce) (\<lambda>(ok, ce') t. ok \<and> ce' = ce\<lparr>fDiag := Some g\<rparr> \<and> dev t = programmed 7 7 0x20000 (dev s)) s"
    unfolding ceInitDiag_def diagInit_def diagAllocRegion_def acquire_def g_def
    using assms(3,4) bar
    by (simp add: wp_simps assms(1) newDiag_def noRegion_def engine_access(1) [OF engines_diag] w Let_def drri fr srri
      programmed_def regionAt_def)
  then show ?thesis
  proof (rule wp_mono, clarsimp simp: withDiag_def)
    fix t :: "target world" assume t: "dev t = programmed 7 7 0x20000 (dev s)"
    have "opened 2 (ce\<lparr>fDiag := Some g\<rparr>) t"
      by (rule opened_keeps [OF assms(2) engines_diag]) (use t bar in \<open>simp_all add: programmed_else\<close>)
    moreover have "diagOk g (programmed 7 7 0x20000 (dev s))"
      using assms(4) by (simp add: diagOk_def g_def newDiag_def programmed_def fresh_def ce_consts)
    ultimately show "opened 2 (ce\<lparr>fDiag := Some g\<rparr>) t \<and> diagOk g (programmed 7 7 0x20000 (dev s))" ..
  qed
qed

section \<open>Transfers through the window\<close>

text \<open>What a transfer leaves behind: a window in step, everything else as before, bytes 1 at the destination.\<close>

definition moved :: "u32 \<Rightarrow> nat \<Rightarrow> target world \<Rightarrow> bool \<times> CEDiag \<Rightarrow> target world \<Rightarrow> bool" where
  "moved post n s = (\<lambda>(ok, g) t. ok \<and> diagOk g (dev t) \<and> tNext (dev t) = tNext (dev s) \<and> tSent (dev t) 3 = tSent (dev s) 3 \<and>
     (\<forall>off. \<not> within 7 off \<longrightarrow> tReg (dev t) off = tReg (dev s) off) \<and>
     (post = 0x22000 \<longrightarrow> ldBytes (ram t) 0x22000 n = replicate n 1))"

lemma wp_xfer:
  assumes "works H" and "diagOk g (dev s)" and "n \<le> 512"
  shows "wp (xfer H g post adr (of_nat n)) (moved post n s) s"
proof -
  have g: "dSrcDesc g = 0x20000" "dDstDesc g = 0x21000" "unat (dSrcWrite g) < 16" "unat (dDstSw g) < 16" "dDstWrite g = dDstSw g"
    and r: "tReg (dev s) (ceBase 7 + kCESRBaseLo) = 0x20000" "tReg (dev s) (ceBase 7 + kCEDRBaseLo) = 0x21000"
      "tReg (dev s) (ceBase 7 + kCEDSTWrIndex) = dDstSw g" "tReg (dev s) (ceBase 7 + kCECurrentDRRI) = dDstSw g"
    using assms(2) by (simp_all add: diagOk_def)
  have n: "unat (ucast (of_nat n :: u32) :: u16) = n" "ucast (of_nat n :: u32) = (of_nat n :: u16)"
    using assms(3) by (simp_all add: ucast_of_nat_u16 unat_of_nat)
  let ?i = "dDstSw g" and ?v = "(dSrcWrite g + 1) AND 15" and ?w = "(dDstSw g + 1) AND 15"
  define c where "c = \<lparr>addr = post, nbytes = 0 :: u16, flags = 0 :: u16\<rparr>"
  define e where "e = \<lparr>addr = adr, nbytes = of_nat n :: u16, flags = 0 :: u16\<rparr>"
  define m where "m = stBytes (descAt 0x20000 (dSrcWrite g)) (descBytes e) (stBytes (descAt 0x21000 ?i) (descBytes c) (ram s))"
  define d1 where "d1 = (dev s)\<lparr>tReg := (tReg (dev s))(ceBase 7 + kCEDSTWrIndex := ?w)\<rparr>"
  define d2 where "d2 = rang 7 ?v (ldBytes m (unat adr) n) d1"
  have m: "ldBytes m (descAt 0x20000 (dSrcWrite g)) 8 = descBytes e" "ldBytes m (descAt 0x21000 ?i) 8 = descBytes c"
    unfolding m_def using ldBytes_stBytes [of _ "descBytes _"] g(3,4) by (simp_all add: ldBytes_stBytes_other descAt_def)
  have bell: "doorbell 7 ?v d1 m = d2"
    unfolding d2_def rang_def
    by (rule doorbell_desc [where a = "0x20000" and i = "dSrcWrite g" and c = e])
       (use r(1) n m(1) prev_idx [OF g(3)] in \<open>simp_all add: d1_def e_def ce_consts\<close>)
  have d2: "tReg d2 (ceBase 7 + kCECurrentSRRI) = ?v" "tSent d2 7 = ldBytes m (unat adr) n" "tSent d2 3 = tSent (dev s) 3"
    "tNext d2 = tNext (dev s)" "tReg d2 (ceBase 7 + kCECurrentDRRI) = ?i" "tReg d2 (ceBase 7 + kCEDSTWrIndex) = ?w"
    "tReg d2 (ceBase 7 + kCEDRBaseLo) = of_nat 0x21000" "tReg d2 (ceBase 7 + kCESRBaseLo) = 0x20000"
    "\<And>off. \<not> within 7 off \<Longrightarrow> tReg d2 off = tReg (dev s) off"
    using r by (auto simp: d2_def d1_def rang_def within_def ce_consts)
  define d3 where "d3 = d2\<lparr>tReg := (tReg d2)(ceBase 7 + kCECurrentDRRI := ?w)\<rparr>"
  have del: "deliver 7 (replicate n 1) d2 m = (d3, stBytes (descAt 0x21000 ?i) (descBytes (c\<lparr>nbytes := of_nat n\<rparr>))
      (stBytes (unat post) (replicate n 1) m))"
    using deliver_desc [OF d2(5) _ d2(7) _ m(2), of "replicate n 1"] d2(6) next_idx [OF g(4)]
    by (simp add: d3_def c_def not_sym)
  define c3 where "c3 = c\<lparr>nbytes := of_nat n\<rparr>"
  define m3 where "m3 = stBytes (descAt 0x21000 ?i) (descBytes c3) (stBytes (unat post) (replicate n 1) m)"
  have drri: "targetRead (ceBase 7 + kCECurrentDRRI) d2 m = (?w, d3, m3)"
    unfolding engine_access(4) [OF engines_diag]
    using del d2(2) by (simp add: reply_def m3_def c3_def d3_def)
  have m3: "ldBytes m3 (descAt 0x21000 ?i) 8 = descBytes c3" "post = 0x22000 \<Longrightarrow> ldBytes m3 0x22000 n = replicate n 1"
    unfolding m3_def using ldBytes_stBytes [of _ "descBytes _"] ldBytes_stBytes [of "0x22000" "replicate n 1"] g(4)
    by (simp_all add: ldBytes_stBytes_other descAt_def)
  have ok: "diagOk (g\<lparr>dDstWrite := ?w, dSrcWrite := ?v, dDstSw := ?w\<rparr>) d3"
    using assms(2) d2 by (simp add: diagOk_def d3_def ce_consts)
  have keep: "tNext d3 = tNext (dev s)" "tSent d3 3 = tSent (dev s) 3" "\<And>off. \<not> within 7 off \<Longrightarrow> tReg d3 off = tReg (dev s) off"
    using d2 by (auto simp: d3_def within_def)
  have c3: "nbytes c3 = of_nat n" by (simp add: c3_def)
  have dl: "diagDeadline = Suc (diagDeadline - 1)" by (simp add: diagDeadline_def)
  show ?thesis
    unfolding xfer_def g(1,2,5) c_def [symmetric] n(2) e_def [symmetric]
    apply (subst (1 2) dl)
    apply (simp add: wp_simps assms(1) Let_def engine_access(1-3) [OF engines_diag] m_def [symmetric] d1_def [symmetric] bell
       d2(1) drri next_idx [OF g(4)] m3(1) c3 g(1,2))
    apply (use ok keep m3(2) in \<open>simp add: moved_def\<close>)
    done
qed

lemma opened_bus [simp]: "opened n ce (s\<lparr>bus := b\<rparr>) = opened n ce s" "withDiag ce (s\<lparr>bus := b\<rparr>) = withDiag ce s"
  by (simp_all add: opened_def withDiag_def)

lemma withDiag_moved:
  assumes "withDiag ce s" and "fDiag ce = Some g" and "moved post n u (ok, g') t" and "dev u = dev s"
  shows "withDiag (ce\<lparr>fDiag := Some g'\<rparr>) t"
proof -
  have "opened 2 ce s" using assms(1) by (simp add: withDiag_def)
  moreover have "tNext (dev s) = 2" using calculation by (simp add: opened_def)
  ultimately have "opened 2 (ce\<lparr>fDiag := Some g'\<rparr>) t"
    using assms(3,4) by (intro opened_keeps [where se = 7 and de = 7]) (auto simp: moved_def engines_diag)
  then show ?thesis using assms(3) by (simp add: withDiag_def moved_def)
qed

lemma wp_targToCeAddr:
  assumes "works H" and "\<And>a b. Q a (s\<lparr>bus := b\<rparr>)"
  shows "wp (targToCeAddr H adr) Q s"
  using assms(2) by (simp add: targToCeAddr_def wp_simps assms(1) outside_read outside_def)

lemma wp_diagReadMem:
  assumes "works H" and "withDiag ce s" and "0 < n" and "n \<le> 512"
  shows "wp (ceDiagReadMem H ce adr (of_nat n)) (\<lambda>(r, ce') t. r = Some (replicate n 1) \<and> withDiag ce' t) s"
proof -
  obtain g where g: "fDiag ce = Some g" "diagOk g (dev s)" using assms(2) by (auto simp: withDiag_def)
  then have r: "fRegionCpu (dRegion g) \<noteq> None" "ucast (dBouncePhys g) = (0x22000 :: u32)"
    "\<And>g t. diagOk g t \<Longrightarrow> dBounce g = 0x22000"
    by (simp_all add: diagOk_def)
  have u: "unat (of_nat n :: u32) = n" using assms(4) by (simp add: unat_of_nat)
  then have c: "of_nat n \<noteq> (0 :: u32)" "\<not> of_nat n > kDiagMax"
    using assms(3,4) by (auto simp: word_less_nat_alt)
  show ?thesis
    unfolding ceDiagReadMem_def g(1) option.case readMem_def r(2)
    apply (simp add: r(1) c del: kDiagMax_def, rule wp_targToCeAddr [OF assms(1)])
    apply (simp, rule wp_mono [OF wp_xfer [OF assms(1)]], simp add: g(2), rule assms(4))
    apply (clarsimp simp: wp_simps u)
    subgoal for b ok g' t
      using withDiag_moved [OF assms(2) g(1), of "0x22000" n "s\<lparr>bus := b\<rparr>" ok g' t] r(3) [of g' "dev t"]
      by (simp add: moved_def)
    done
qed

lemma wp_diagRead32:
  assumes "works H" and "withDiag ce s"
  shows "wp (ceDiagRead32 H ce adr) (\<lambda>(r, ce') t. r = Some 0x01010101 \<and> withDiag ce' t) s"
proof -
  obtain g where g: "fDiag ce = Some g" using assms(2) by (auto simp: withDiag_def)
  have "wp (ceDiagReadMem H ce adr 4) (\<lambda>(r, ce') t. r = Some (replicate 4 1) \<and> withDiag ce' t) s"
    using wp_diagReadMem [OF assms, of 4 adr] by simp
  then have "wp (readMem H g adr 4) (\<lambda>(r, g') t. r = Some (replicate 4 1) \<and> withDiag (ce\<lparr>fDiag := Some g'\<rparr>) t) s"
    unfolding ceDiagReadMem_def g option.case wp_bind by (elim wp_mono) auto
  moreover have "get32 1 1 1 1 = 0x01010101" by (simp add: get32_def)
  ultimately show ?thesis
    unfolding ceDiagRead32_def g option.case diagRead32_def wp_bind
    by (elim wp_mono) auto
qed

lemma wp_diagWriteMem:
  assumes "works H" and "withDiag ce s" and "buf \<noteq> []" and "length buf \<le> 512"
  shows "wp (ceDiagWriteMem H ce adr buf) (\<lambda>(ok, ce') t. ok \<and> withDiag ce' t) s"
proof -
  obtain g where g: "fDiag ce = Some g" "diagOk g (dev s)" using assms(2) by (auto simp: withDiag_def)
  then have r: "fRegionCpu (dRegion g) \<noteq> None" by (simp add: diagOk_def)
  show ?thesis
    unfolding ceDiagWriteMem_def g(1) option.case writeMem_def
    using assms(3,4) r
    apply (simp, intro wp_targToCeAddr [OF assms(1)])
    apply (simp add: wp_simps)
    apply (rule wp_mono [OF wp_xfer [OF assms(1)]], simp add: g(2), assumption)
    apply clarsimp
    subgoal for adr b ok g' t
      using withDiag_moved [OF assms(2) g(1), of adr "length buf" "s\<lparr>bus := b\<rparr>" ok g' t]
      by (simp add: moved_def)
    done
qed

lemma wp_diagWrite32:
  "works H \<Longrightarrow> withDiag ce s \<Longrightarrow> wp (ceDiagWrite32 H ce adr v) (\<lambda>(ok, ce') t. ok \<and> withDiag ce' t) s"
  using wp_diagWriteMem [of H ce s "le32 v" adr]
  by (auto simp: ceDiagWrite32_def diagWrite32_def ceDiagWriteMem_def le32_nonempty split: option.splits)

section \<open>Target configuration\<close>

definition diagD :: "u32 \<Rightarrow> driver \<Rightarrow> target world \<Rightarrow> bool" where
  "diagD k d s \<longleftrightarrow> drvBar0 d \<and> fMaxStage d = k \<and> (\<exists>ce. fCe d = Some ce \<and> withDiag ce s)"

lemma diagD_tell [simp]: "diagD k (d\<lparr>fTail := lt\<rparr>) s = diagD k d s" "diagD k d (s\<lparr>bus := es\<rparr>) = diagD k d s"
  by (simp_all add: diagD_def)

lemma wp_withCe:
  assumes "diagD k d s" and "\<And>ce. withDiag ce s \<Longrightarrow> wp (f ce) (\<lambda>(r, ce') t. P r \<and> withDiag ce' t) s"
  shows "wp (withCe f dflt d) (\<lambda>(r, d') t. P r \<and> diagD k d' t) s"
proof -
  from assms(1) obtain ce where d: "drvBar0 d" "fMaxStage d = k" "fCe d = Some ce" "withDiag ce s"
    by (auto simp: diagD_def)
  show ?thesis
    unfolding withCe_def d(3) option.case wp_bind
    by (rule wp_mono [OF assms(2) [OF d(4)]]) (auto simp: diagD_def d)
qed

lemma wp_diagRd:
  "works H \<Longrightarrow> diagD k d s \<Longrightarrow> wp (diagRd H adr d) (\<lambda>(r, d') t. r = Some 0x01010101 \<and> diagD k d' t) s"
  by (rule wp_withCe) (auto intro: wp_diagRead32)

lemma wp_diagWr: "works H \<Longrightarrow> diagD k d s \<Longrightarrow> wp (diagWr H adr v d) (\<lambda>(ok, d') t. ok \<and> diagD k d' t) s"
  by (rule wp_withCe) (auto intro: wp_diagWrite32)

lemma wp_diagWrMem:
  "works H \<Longrightarrow> diagD k d s \<Longrightarrow> buf \<noteq> [] \<Longrightarrow> length buf \<le> 512 \<Longrightarrow>
     wp (diagWrMem H adr buf d) (\<lambda>(ok, d') t. ok \<and> diagD k d' t) s"
  by (rule wp_withCe) (auto intro: wp_diagWriteMem)

lemma table_length:
  "length (concat (map pipeBytes (take kNumTargetCeConfig kTargetCeConfigWlan))) = 168"
  "length (concat (map svcBytes (take kNumSvcToPipe kTargetSvcToPipeMap))) = 204"
  by (simp_all add: kNumTargetCeConfig_def kTargetCeConfigWlan_def kNumSvcToPipe_def kTargetSvcToPipeMap_def
    pipeBytes_def svcBytes_def pipeRow_def svcRow_def)

lemma table_nonempty: "length xs = Suc n \<Longrightarrow> xs \<noteq> []"
  by auto

lemma wp_initConfig:
  assumes "works H" and "diagD k d s"
  shows "wp (initConfig H d) (\<lambda>(ok, d') t. ok \<and> diagD k d' t) s"
  unfolding initConfig_def
  apply (simp, rule wp_mono [OF wp_diagRd [OF assms]], clarsimp)
  apply (rule wp_qlog, simp)
  apply (rule wp_mono [OF wp_diagRd [OF assms(1)]], simp, clarsimp)+
  apply (rule wp_mono [OF wp_diagWr [OF assms(1)]], assumption, clarsimp)
  apply (rule wp_mono [OF wp_diagWrMem [OF assms(1)]], assumption, use table_length(1) in force,
      simp add: table_length, clarsimp)
  apply (rule wp_mono [OF wp_diagWrMem [OF assms(1)]], assumption, use table_length(2) in force,
      simp add: table_length, clarsimp)
  apply (rule wp_publishNum, simp, rule wp_publishNum, simp)
  apply (rule wp_mono [OF wp_diagRd [OF assms(1)]], simp, clarsimp simp: Let_def)
  apply (rule wp_mono [OF wp_diagWr [OF assms(1)]], assumption, clarsimp)
  apply (rule wp_mono [OF wp_diagRd [OF assms(1)]], simp, clarsimp simp: Let_def)
  apply (rule wp_mono [OF wp_diagWr [OF assms(1)]], assumption, clarsimp)
  apply (rule wp_qlog, simp)
  done

section \<open>The probe\<close>

lemma wp_outRead:
  assumes "works H" and "drvBar0 d" and "outside off" and "\<And>v b. Q v (s\<lparr>bus := b\<rparr>)"
  shows "wp (drvRead32 H d off) Q s"
  using assms(2-4) by (simp add: drvRead32_def wp_simps assms(1) outside_read)

lemma wp_outWrite:
  assumes "works H" and "drvBar0 d" and "outside off"
    and "\<And>t. (\<And>e off'. e \<in> {0, 1, 2, 3, 7} \<Longrightarrow> within e off' \<Longrightarrow> tReg (dev t) off' = tReg (dev s) off') \<Longrightarrow>
      tNext (dev t) = tNext (dev s) \<Longrightarrow> tSent (dev t) = tSent (dev s) \<Longrightarrow> Q () t"
  shows "wp (drvWrite32 H d off v) Q s"
proof -
  have "off' \<noteq> off" if "e \<in> {0, 1, 2, 3, 7}" "within e off'" for e off'
    using that outside_engines [OF assms(3)] by (auto simp: within_def)
  then show ?thesis
    using assms(2,4) by (simp add: drvWrite32_def wp_simps assms(1) outside_write [OF assms(3)])
qed


lemma withDiag_same:
  assumes "withDiag ce s" and "\<And>e off. e \<in> {0, 1, 2, 3, 7} \<Longrightarrow> within e off \<Longrightarrow> tReg (dev t) off = tReg (dev s) off"
    and "tNext (dev t) = tNext (dev s)" and "tSent (dev t) = tSent (dev s)"
  shows "withDiag ce t"
proof -
  have e: "tReg (dev t) (ceBase e + x) = tReg (dev s) (ceBase e + x)" if "e \<in> {0, 1, 2, 3, 7}"
    "x \<in> {kCESRBaseLo, kCEDRBaseLo, kCESRWrIndex, kCEDSTWrIndex, kCECurrentSRRI, kCECurrentDRRI}" for e x
    by (rule assms(2) [OF that(1)]) (use that(2) in \<open>auto simp: within_def\<close>)
  then show ?thesis
    using assms(1,3,4)
    by (auto simp: withDiag_def opened_def idle_def inStep_def fresh_def diagOk_def seated_def)
qed

lemma wp_wakeTargetCpu:
  assumes "works H" and "diagD k d s"
  shows "wp (wakeTargetCpu H d) (\<lambda>d' t. diagD k d' t) s"
proof -
  from assms(2) obtain ce where d: "drvBar0 d" "fMaxStage d = k" "fCe d = Some ce" "withDiag ce s"
    by (auto simp: diagD_def)
  show ?thesis
    unfolding wakeTargetCpu_def
    apply (simp, rule wp_outRead [OF assms(1) d(1)], simp add: outside_def)
    apply (simp, rule wp_outWrite [OF assms(1) d(1)], simp add: outside_def)
    apply (rule wp_qlog, simp add: diagD_def d, rule withDiag_same [OF d(4)], simp_all)
    done
qed

lemma wp_logHi: "diagD k d s \<Longrightarrow> wp (logHi d bs w n) (\<lambda>d' t. diagD k d' t) s"
  by (induction n arbitrary: d s w) (auto intro!: wp_qlog)

lemma wp_getTargetInfo:
  assumes "works H" and "diagD k d s" and "fBmi d = Some newBmi"
  shows "wp (withBmi (getTargetInfo H) False d) (\<lambda>(ok, d') t. ok \<and> fMaxStage d' = k \<and> bmiTarget d' \<noteq> 0 \<and>
     (\<exists>ce b. fCe d' = Some ce \<and> fBmi d' = Some b \<and> \<not> fDoneSent b \<and> serving 2 idle ce t)) s"
proof -
  from assms(2) obtain ce where d: "fMaxStage d = k" "fCe d = Some ce" "withDiag ce s"
    by (auto simp: diagD_def)
  have sv: "serving 2 idle ce s" using d(3) by (simp add: withDiag_def opened_serving)
  then have up: "fCtrl ce \<noteq> None" "buffersUp ce" by (auto simp: serving_def buffersUp_def seated_def)
  have r: "ctrlReply (le32 8) = le32 12 @ le32 0x05020001 @ le32 0x1e"
    by (simp add: ctrlReply_def le32_def)
  have v: "word32At (le32 12 @ le32 0x05020001 @ le32 0x1e) 4 = 0x05020001"
    by (simp add: word32At_def le32_def get32_def)
  show ?thesis
    unfolding withBmi_def d(2) assms(3) option.case prod.case getTargetInfo_def
    apply (simp add: up)
    apply (rule wp_mono [OF serve_exchange [OF assms(1) sv]])
        apply (simp_all add: newBmi_def cmdGetTargetInfo_def le32_nonempty)
     apply (simp add: r)
    apply (auto simp: r v bmiTarget_def d(1))
    done
qed

lemma wp_probeBmi:
  assumes "works H" and "beforeCe k d s"
  shows "wp (probeBmi H d) (\<lambda>(ok, d') t. ok \<and> fMaxStage d' = k \<and> bmiTarget d' \<noteq> 0 \<and>
     (\<exists>ce b. fCe d' = Some ce \<and> fBmi d' = Some b \<and> \<not> fDoneSent b \<and> serving 2 idle ce t)) s"
proof -
  have d: "drvBar0 d" "fMaxStage d = k" using assms(2) by (simp_all add: beforeCe_def)
  have bar: "diagD k e t \<Longrightarrow> drvBar0 e" for e t by (simp add: diagD_def)
  have di: "wp (withCe (ceInitDiag H) False (d\<lparr>fCe := Some ce\<rparr>)) (\<lambda>(ok, d') t. ok \<and> diagD k d' t) t"
    if "opened 1 ce t" "fDiag ce = None" "fresh 7 7 (dev t)" for ce t
    unfolding withCe_def
    by (simp, rule wp_mono [OF wp_ceInitDiag [OF assms(1) that]]) (auto simp: diagD_def d)
  have dump: "wp (withCe (\<lambda>ce. ceDiagReadMem H ce adr 32) None e) (\<lambda>(r, d') t. r = Some (replicate 32 1) \<and> diagD k d' t) t"
    if "diagD k e t" for adr e t
    by (rule wp_withCe [OF that]) (use wp_diagReadMem [OF assms(1), of _ _ 32] in simp)
  show ?thesis
    unfolding probeBmi_def
    apply (simp, rule wp_mono [OF wp_ensureCE [OF assms]], clarsimp)
    apply (rule wp_mono [OF di], simp, assumption+, clarsimp simp: Let_def)
    apply (rule wp_publishNum, simp)
    apply (rule wp_mono [OF wp_diagRd [OF assms(1)]], simp, clarsimp)
    apply (rule wp_outRead [OF assms(1)], erule bar, simp add: outside_def)
    apply (simp only: wp_bind)
    apply (rule wp_publishNum)
    apply (simp only: wp_bind)
    apply (rule wp_publishNum)
    apply (simp only: wp_bind)
    apply (rule wp_qlog)
    apply (simp only: wp_bind, rule wp_mono [OF dump], simp, clarsimp)
    apply (rule wp_mono [OF wp_logHi], assumption)
    apply (simp only: wp_bind, rule wp_mono [OF wp_initConfig [OF assms(1)]], assumption, clarsimp)
    apply (rule wp_publishStage)
    apply (simp only: wp_bind, rule wp_mono [OF wp_wakeTargetCpu [OF assms(1)]], simp)
    apply (simp only: wp_bind, rule wp_publishStage)
    apply (simp only: wp_bind, rule wp_outRead [OF assms(1)], erule bar, simp add: outside_def)
    apply (simp only: wp_bind, rule wp_publishNum)
    apply (simp add: wp_simps assms(1))
    apply (rule wp_mono [OF wp_getTargetInfo [OF assms(1)]])
      apply (auto simp: diagD_def)
    done
qed
end
