(* ===== verification/FullRun.thy ===== *)
theory FullRun
  imports ChipSetup
begin

text \<open>
  The last stage and the whole of \<open>start\<close> on the chip of theory \<open>WorkingChip\<close>: the HTC and WMI start of
  \<open>skeleton/QCA9377Driver.cpp\<close> succeeds, so that every stage does and the driver comes online.
\<close>

section \<open>HTC\<close>

definition ctrlSent :: "u8 list \<Rightarrow> CECopyPair \<Rightarrow> target world \<Rightarrow> bool" where
  "ctrlSent c p s \<longleftrightarrow> idle p s \<and> tSent (dev s) 0 = c"

lemma wp_ceInitWmi:
  assumes "works H" and "serving 2 (ctrlSent c) ce s"
  shows "wp (ceInitWmi H ce) (\<lambda>(ok, ce') t. ok \<and> serving 3 (ctrlSent c) ce' t) s"
proof -
  obtain p where p: "fCtrl ce = Some p" "seated 0 1 0x10000 p" "idle p s" "tSent (dev s) 0 = c"
    using assms(2) by (auto simp: serving_def ctrlSent_def)
  have w: "mBar0 ce" "fWmi ce = None" "fresh 3 2 (dev s)" "tNext (dev s) = 2" "tSent (dev s) 3 = []"
    using assms(2) by (auto simp: serving_def wmiSlot_def split: option.splits)
  have q: "seated 3 2 0x30000 (freshPair 3 2 0x30000)" "inStep (freshPair 3 2 0x30000) (programmed 3 2 0x30000 (dev s))"
    "fDstWrite (freshPair 3 2 0x30000) = fDstSw (freshPair 3 2 0x30000)"
    using freshPair_inStep [OF engines_wmi w(3)] by simp_all
  have i: "idle p t" if "dev t = programmed 3 2 a (dev s)" for a and t :: "target world"
    by (rule idle_keeps [OF p(3) _ engines_wmi])
       (use p(2) that engines_ctrl in \<open>simp_all add: seated_def programmed_else\<close>)
  show ?thesis
    unfolding ceInitWmi_def
    apply (simp add: w(1,2))
    apply (rule wp_mono [OF wp_newPair [OF assms(1) engines_wmi _ w(3,4)]], simp, simp)
    apply (clarsimp simp: regionAt_def)
    apply (use p w q i in \<open>simp add: serving_def wmiSlot_def ctrlSent_def idle_def\<close>)
    done
qed

text \<open>A driver whose HTC object is \<open>h\<close> and whose control pair satisfies \<open>P\<close>.\<close>

definition linkD :: "(CECopyPair \<Rightarrow> target world \<Rightarrow> bool) \<Rightarrow> Htc \<Rightarrow> driver \<Rightarrow> target world \<Rightarrow> bool" where
  "linkD P h d s \<longleftrightarrow> fHtc d = Some h \<and> (\<exists>ce. fCe d = Some ce \<and> serving 3 P ce s)"

lemma serving_bus [simp]: "serving z (ctrlSent c) ce (s\<lparr>bus := es\<rparr>) = serving z (ctrlSent c) ce s"
  by (simp add: serving_def ctrlSent_def)

lemma linkD_tell [simp]:
  "linkD (ctrlSent c) h (d\<lparr>fTail := lt\<rparr>) s = linkD (ctrlSent c) h d s" "linkD idle h (d\<lparr>fTail := lt\<rparr>) s = linkD idle h d s"
  "linkD (ctrlSent c) h d (s\<lparr>bus := es\<rparr>) = linkD (ctrlSent c) h d s" "linkD idle h d (s\<lparr>bus := es\<rparr>) = linkD idle h d s"
  by (simp_all add: linkD_def serving_def ctrlSent_def)

lemma wp_withHtc:
  assumes "linkD P h d s"
    and "\<And>ce. serving 3 P ce s \<Longrightarrow> wp (f ce h) (\<lambda>(r, ce', h') t. r = x \<and> h' = h2 \<and> serving 3 Q ce' t) s"
  shows "wp (withHtc f dflt d) (\<lambda>(r, d') t. r = x \<and> linkD Q h2 d' t) s"
proof -
  from assms(1) obtain ce where d: "fHtc d = Some h" "fCe d = Some ce" "serving 3 P ce s"
    by (auto simp: linkD_def)
  show ?thesis
    unfolding withHtc_def d(1,2) option.case prod.case wp_bind
    by (rule wp_mono [OF assms(2) [OF d(3)]]) (auto simp: linkD_def)
qed

definition readyHtc :: Htc where
  "readyHtc = newHtc\<lparr>fTotalCredits := 2, fCreditSize := 1792\<rparr>"

lemma wp_waitTarget:
  assumes "works H" and "serving 3 (ctrlSent cmdDone) ce s"
  shows "wp (waitTarget H ce newHtc 10000)
    (\<lambda>(ok, ce', h') t. ok = True \<and> h' = readyHtc \<and> serving 3 (ctrlSent cmdDone) ce' t) s"
proof -
  have msg: "ctrlReply cmdDone = [0, 0, 8, 0, 0, 0, 0, 0, 1, 0, 2, 0, 0, 7, 9, 0]"
    by (simp add: ctrlReply_def cmdDone_def le32_def le16_def htcHdr_def)
  have dl: "recvDeadline 10000 = Suc (recvDeadline 10000 - 1)" by (simp add: recvDeadline_def)
  have s: "serving 3 (\<lambda>p s. idle p s \<and> (\<lambda>x. x = cmdDone) (tSent (dev s) 0)) ce s"
    using assms(2) by (rule serving_mono) (simp add: ctrlSent_def)
  have loop: "wp (readyLoop H ce 10000 (recvDeadline 10000)) (\<lambda>(ok, ce') t. ok = True \<and>
      serving 3 (\<lambda>p s. holding (ctrlReply cmdDone) p s \<and> (\<lambda>x. x = cmdDone) (tSent (dev s) 0)) ce' t) s"
    apply (subst dl, simp only: readyLoop.simps wp_bind)
    apply (rule wp_mono [OF serve_post [OF assms(1) s]], clarsimp)
    apply (rule wp_mono [OF serve_recv [OF assms(1)]], assumption, simp add: recvDeadline_def, clarsimp)
    apply (frule serve_nbytes [where msg = "ctrlReply cmdDone"], simp)
    apply (simp add: msg word_less_nat_alt)
    apply (rule wp_mono [OF serve_rx [OF assms(1), where R = "\<lambda>x. x = cmdDone" and msg = "ctrlReply cmdDone"]])
       apply (simp add: msg)
      apply (simp add: msg)
     apply (simp add: msg)
    apply (clarsimp simp: msg rd16_def get16_def)
    done
  show ?thesis
    unfolding waitTarget_def wp_bind
    apply (rule wp_mono [OF loop], clarsimp)
    apply (frule serve_nbytes [where msg = "ctrlReply cmdDone"], simp)
    apply (simp add: msg word_less_nat_alt word_le_nat_alt)
    apply (rule wp_mono [OF serve_rx [OF assms(1), where R = "\<lambda>x. x = cmdDone" and msg = "ctrlReply cmdDone"]])
       apply (simp add: msg)
      apply (simp add: msg)
     apply (simp add: msg)
    apply (clarsimp simp: readyHtc_def newHtc_def msg rd16_def get16_def)
    apply (erule serving_mono, simp add: ctrlSent_def holding_def)
    done
qed

text \<open>The object after the WMI control service is connected, and after SETUP_COMPLETE.\<close>

definition linkedHtc :: Htc where
  "linkedHtc = readyHtc\<lparr>fWmiEid := 1, fWmiCredits := 2, fCtrlSeq := 1\<rparr>"

definition setHtc :: Htc where
  "setHtc = linkedHtc\<lparr>fCtrlSeq := 2\<rparr>"

definition connectCmd :: "u8 list" where
  "connectCmd = [0, 0, 8, 0, 0, 0, 0, 0, 2, 0, 0, 1, 0, 2, 0, 0]"

lemma wp_connectService:
  assumes "works H" and "serving 3 (ctrlSent cmdDone) ce s"
  shows "wp (connectService H ce readyHtc kHtcSvcWmiControl)
    (\<lambda>(r, ce', h') t. r = Some (1, 1792) \<and> h' = linkedHtc \<and> serving 3 (ctrlSent connectCmd) ce' t) s"
proof -
  have msg: "ctrlReply connectCmd = [0, 0, 8, 0, 0, 0, 0, 0, 3, 0, 0, 1, 0, 1, 0, 7]"
    by (simp add: ctrlReply_def connectCmd_def le16_def htcHdr_def)
  have frame: "htcHdr 0 0 8 0 (fCtrlSeq readyHtc) @ le16 2 @ le16 256 @ le16 (connFlags readyHtc 256) @ [0, 0] = connectCmd"
    by (simp add: connectCmd_def le16_def htcHdr_def connFlags_def readyHtc_def newHtc_def)
  have s: "serving 3 (\<lambda>p s. idle p s \<and> (\<lambda>x. x = cmdDone) (tSent (dev s) 0)) ce s"
    using assms(2) by (rule serving_mono) (simp add: ctrlSent_def)
  have len: "length connectCmd = 16" "connectCmd \<noteq> []" by (simp_all add: connectCmd_def)
  show ?thesis
    unfolding connectService_def Let_def sendCtrlFrame_def
    apply (rule wp_bindI [OF serve_post [OF assms(1) s]], clarsimp)
    apply (subst frame, rule wp_mono [OF serve_send_armed [OF assms(1)]])
       apply (erule serving_mono, simp)
      apply (simp_all add: len)
    apply clarsimp
    apply (rule wp_mono [OF serve_recv [OF assms(1)]], assumption, simp add: recvDeadline_def, clarsimp)
    apply (frule serve_nbytes [where msg = "ctrlReply connectCmd"], simp)
    apply (simp add: msg word_less_nat_alt)
    apply (rule wp_mono [OF serve_rx [OF assms(1), where R = "\<lambda>x. x = connectCmd" and msg = "ctrlReply connectCmd"]])
       apply (simp_all add: msg)
    apply (clarsimp simp: rd16_def get16_def)
    apply (rule wp_mono [OF serve_rx [OF assms(1), where R = "\<lambda>x. x = connectCmd" and msg = "ctrlReply connectCmd"]])
       apply (simp_all add: msg)
    apply (clarsimp simp: rd16_def get16_def linkedHtc_def readyHtc_def newHtc_def)
    apply (erule serving_mono, simp add: ctrlSent_def holding_def)
    done
qed

lemma wp_setupComplete:
  assumes "works H" and "serving 3 (ctrlSent connectCmd) ce s"
  shows "wp (setupComplete H ce linkedHtc) (\<lambda>(ok, ce', h') t. ok = True \<and> h' = setHtc \<and>
    serving 3 idle ce' t) s"
proof -
  have s: "serving 3 (\<lambda>p s. idle p s \<and> (\<lambda>x. x = connectCmd) (tSent (dev s) 0)) ce s"
    using assms(2) by (rule serving_mono) (simp add: ctrlSent_def)
  show ?thesis
    unfolding setupComplete_def sendCtrlFrame_def Let_def
    apply (simp add: htcHdr_def)
    apply (rule wp_mono [OF serve_send [OF assms(1) s]])
      apply (auto simp: setHtc_def linkedHtc_def readyHtc_def newHtc_def elim: serving_mono)
    done
qed

section \<open>WMI\<close>

definition wmiSeat :: "(CECopyPair \<Rightarrow> target world \<Rightarrow> bool) \<Rightarrow> CEManager \<Rightarrow> target world \<Rightarrow> bool" where
  "wmiSeat P ce s \<longleftrightarrow> (\<exists>q. fWmi ce = Some q \<and> seated 3 2 0x30000 q \<and> P q s)"

lemma onWmi_up:
  assumes "wmiSeat P ce s"
    and "\<And>q. seated 3 2 0x30000 q \<Longrightarrow> P q s \<Longrightarrow> wp (f q) (\<lambda>(ok, q') t. ok \<and> seated 3 2 0x30000 q' \<and> Q q' t) s"
  shows "wp (onWmi f ce) (\<lambda>(ok, ce') t. ok \<and> wmiSeat Q ce' t) s"
proof -
  obtain q where q: "fWmi ce = Some q" "seated 3 2 0x30000 q" "P q s" using assms(1) by (auto simp: wmiSeat_def)
  show ?thesis
    unfolding onWmi_def q(1) option.case wp_bind
    by (rule wp_mono [OF assms(2) [OF q(2,3)]]) (auto simp: wmiSeat_def)
qed

lemma wmiSeat_mono: "wmiSeat P ce s \<Longrightarrow> (\<And>q. P q s \<Longrightarrow> Q q s) \<Longrightarrow> wmiSeat Q ce s"
  by (auto simp: wmiSeat_def)

lemma wmiSeat_bus [simp]: "wmiSeat (\<lambda>q s. idle q s \<and> tSent (dev s) 3 = c) ce (s\<lparr>bus := b\<rparr>) =
    wmiSeat (\<lambda>q s. idle q s \<and> tSent (dev s) 3 = c) ce s"
  by (simp add: wmiSeat_def)

lemma serving_wmiSeat: "serving 3 P ce s \<Longrightarrow> wmiSeat (\<lambda>q s. idle q s \<and> tSent (dev s) 3 = []) ce s"
  by (auto simp: serving_def wmiSlot_def wmiSeat_def split: option.splits)

lemma idle_rxArmed: "idle p s \<Longrightarrow> rxArmed p = 0"
  by (simp add: idle_def rxArmed_def)

lemma armed_rxArmed:
  assumes "armed p s" and "unat (fDstSw p) < 16"
  shows "rxArmed p \<noteq> 0"
proof (cases "fDstSw p = 15")
  case True
  then show ?thesis using assms(1) by (simp add: armed_def rxArmed_def)
next
  case False
  then have "unat (fDstSw p) \<noteq> 15" by (auto simp: word_unat_eq_iff)
  then have "unat (fDstSw p + 1) < 16" using assms(2) by (simp add: unat_word_ariths)
  then show ?thesis using assms(1) by (simp add: armed_def rxArmed_def)
qed

lemma up_arm:
  assumes "works H" and "wmiSeat (\<lambda>q s. idle q s \<and> tSent (dev s) 3 = c) ce s"
  shows "wp (wmiArmRecv H ce) (\<lambda>ce' t. wmiSeat (\<lambda>q s. armed q s \<and> tSent (dev s) 3 = c) ce' t) s"
  unfolding wmiArmRecv_def wp_bind
  apply (rule wp_mono [OF onWmi_up [OF assms(2), where Q = "\<lambda>q s. armed q s \<and> tSent (dev s) 3 = c"]])
   apply (clarsimp simp only: armRecv_def idle_rxArmed simp_thms if_True)
   apply (rule wp_mono [OF wp_postRecv [OF assms(1) engines_wmi]], auto)
  done

lemma up_recv:
  assumes "works H" and "wmiSeat (\<lambda>q s. armed q s \<and> tSent (dev s) 3 = c) ce s" and "wmiReply c = msg" and "msg \<noteq> []"
    and "length msg < 2048" and "recvDeadline ms \<noteq> 0" and "parseWmiFrame h msg (length msg) kWmiBuf = Some (payload, h)"
  shows "wp (recvWmi H ce h kWmiBuf ms) (\<lambda>(buf, ce', h') t. buf = payload \<and> h' = h \<and>
    wmiSeat (\<lambda>q s. idle q s \<and> tSent (dev s) 3 = c) ce' t) s"
proof -
  obtain n where n: "recvDeadline ms = Suc n" using assms(6) not0_implies_Suc by blast
  have w: "wp (recvWait H q ms) (\<lambda>(ok, q') t. ok \<and> seated 3 2 0x30000 q' \<and> holding msg q' t \<and> tSent (dev t) 3 = c) s"
    if "seated 3 2 0x30000 q" "armed q s" "tSent (dev s) 3 = c" for q
    by (rule wp_mono [OF wp_recvWait [OF assms(1) engines_wmi that(1) _ that(2) _ assms(4,5) n]])
       (use that(3) assms(3) in \<open>auto simp: reply_def holding_def\<close>)
  have load: "wp (rxBytes (fWmi ce') (unat (wmiRxNbytes ce'))) (\<lambda>raw t. raw = msg \<and> unat (wmiRxNbytes ce') = length msg \<and>
      wmiSeat (\<lambda>q s. idle q s \<and> tSent (dev s) 3 = c) ce' t) t"
    if w: "wmiSeat (\<lambda>q s. holding msg q s \<and> tSent (dev s) 3 = c) ce' t" for ce' t
  proof -
    obtain q where q: "fWmi ce' = Some q" "seated 3 2 0x30000 q" "holding msg q t"
      using w by (auto simp: wmiSeat_def)
    then have r: "fRegionCpu (region q) = Some 0x30000" "fRegionSize (region q) = 0x4000" "fRxCpu q = 0x33000"
      "unat (fRxNbytes q) = length msg" "ldBytes (ram t) 0x33000 (length msg) = msg"
      by (auto simp: seated_def holding_def)
    have "min (length msg) 0x1000 = length msg" using assms(5) by simp
    then show ?thesis
      using r w by (simp add: rxBytes_def q(1) wmiRxNbytes_def wp_simps) (auto simp: wmiSeat_def holding_def)
  qed
  show ?thesis
    unfolding recvWmi_def wmiRecvWait_def wp_bind
    apply (rule wp_mono [OF onWmi_up [OF assms(2), where Q = "\<lambda>q s. holding msg q s \<and> tSent (dev s) 3 = c"]])
     apply (rule w, assumption, simp, simp)
    apply (clarsimp, rule wp_mono [OF load])
     apply (erule wmiSeat_mono, simp add: holding_def)
    apply (use assms(7) in simp)
    done
qed

lemma up_send:
  assumes "works H" and "wmiSeat (\<lambda>q s. armed q s) ce s" and "buf \<noteq> []" and "length buf \<le> 2048"
  shows "wp (wmiSend H ce buf) (\<lambda>(ok, ce') t. ok \<and> wmiSeat (\<lambda>q s. armed q s \<and> tSent (dev s) 3 = buf) ce' t) s"
  unfolding wmiSend_def
  by (rule onWmi_up [OF assms(2)], rule wp_mono [OF wp_send_idle [OF assms(1) engines_wmi]])
     (use assms(3,4) in auto)

lemma up_postIfIdle:
  assumes "works H" and "wmiSeat (\<lambda>q s. armed q s) ce s"
  shows "wp (wmiPostRecvIfIdle H ce) (\<lambda>(ok, ce') t. ok \<and> wmiSeat (\<lambda>q s. armed q s) ce' t) s"
  unfolding wmiPostRecvIfIdle_def
  by (rule onWmi_up [OF assms(2)]) (simp add: postRecvIfIdle_def armed_rxArmed seated_def)

definition linkedWmi :: Wmi where
  "linkedWmi = newWmi\<lparr>fFwBuild := 0x9b, fMac := [0, 3, 0x7f, 0x12, 0x34, 0x56]\<rparr>"

lemma events:
  "wmiReply [] \<noteq> []" "length (wmiReply []) < 2048" "wmiReply [0] \<noteq> []" "length (wmiReply [0]) < 2048"
  "parseWmiFrame setHtc (wmiReply []) (length (wmiReply [])) kWmiBuf = Some (drop 8 (wmiReply []), setHtc)"
  "length (drop 8 (wmiReply [])) = 92" "word32At (drop 8 (wmiReply [])) 0 = 1"
  "parseServiceReady newWmi (drop 12 (wmiReply [])) = Some (True, newWmi\<lparr>fFwBuild := 0x9b\<rparr>)"
  "parseWmiFrame (setHtc\<lparr>fWmiSeq := 1, fWmiCredits := 1\<rparr>) (wmiReply [0]) (length (wmiReply [0])) kWmiBuf =
     Some (drop 8 (wmiReply [0]), setHtc\<lparr>fWmiSeq := 1, fWmiCredits := 1\<rparr>)"
  "length (drop 8 (wmiReply [0])) = 44" "word32At (drop 8 (wmiReply [0])) 0 = 2"
  "parseReady (newWmi\<lparr>fFwBuild := 0x9b\<rparr>) (drop 12 (wmiReply [0])) = Some (True, linkedWmi)"
  by code_simp+

lemma up_serviceLoop:
  assumes "works H" and "wmiSeat (\<lambda>q s. armed q s \<and> tSent (dev s) 3 = []) ce s"
  shows "wp (serviceLoop H ce setHtc newWmi 10000 (Suc fuel)) (\<lambda>(r, ce', h', w) t. r = Some True \<and> h' = setHtc \<and>
    w = newWmi\<lparr>fFwBuild := 0x9b\<rparr> \<and> wmiSeat (\<lambda>q s. armed q s) ce' t) s"
proof -
  have "fFwBuild newWmi = 0 \<and> fAbi newWmi ! 0 = 0" by (simp add: newWmi_def)
  moreover have "serviceLoop H ce h (newWmi\<lparr>fFwBuild := 0x9b\<rparr>) ms n = ret (Some True, ce, h, newWmi\<lparr>fFwBuild := 0x9b\<rparr>)" for ce h ms n
    by (subst serviceLoop.simps) simp
  ultimately show ?thesis
    apply (subst serviceLoop.simps)
    apply (simp only: simp_thms if_False nat.case wp_bind)
    apply (rule wp_mono [OF up_recv [OF assms refl events(1,2) _ events(5)]], simp add: recvDeadline_def)
    apply (clarsimp simp: events(6-8) simp del: length_drop)
    apply (rule wp_mono [OF up_arm [OF assms(1)]], assumption)
    apply (auto elim: wmiSeat_mono)
    done
qed

lemma up_sendInit:
  assumes "works H" and "wmiSeat (\<lambda>q s. armed q s) ce s"
  shows "wp (sendInit H ce setHtc) (\<lambda>(ok, ce', h') t. ok \<and> h' = setHtc\<lparr>fWmiSeq := 1, fWmiCredits := 1\<rparr> \<and>
    (\<exists>c. c \<noteq> [] \<and> wmiSeat (\<lambda>q s. armed q s \<and> tSent (dev s) 3 = c) ce' t)) s"
proof -
  have n: "creditsNeeded setHtc 232 = 1" "fWmiEid setHtc = 1" "fCreditSize setHtc = 1792" "fWmiCredits setHtc = 2" "fWmiSeq setHtc = 0"
    by (simp_all add: creditsNeeded_def setHtc_def linkedHtc_def readyHtc_def newHtc_def)
  show ?thesis
    unfolding sendInit_def sendWmi_def length_initFrame
    apply (simp add: n Let_def)
    apply (rule wp_mono [OF up_postIfIdle [OF assms]], clarsimp simp: n Let_def)
    apply (rule wp_mono [OF up_send [OF assms(1)]], assumption)
      apply (auto simp: htcHdr_def length_initFrame setHtc_def linkedHtc_def readyHtc_def intro!: exI)
    done
qed

lemma wp_waitServiceAndReady:
  assumes "works H" and "serving 3 P ce s"
  shows "wp (waitServiceAndReady H ce setHtc newWmi 10000 (Suc fuel))
    (\<lambda>(r, ce', h', w) t. r = Some True \<and> w = linkedWmi) s"
proof -
  have reply: "wmiReply c = wmiReply [0]" if "c \<noteq> []" for c using that by (simp add: wmiReply_def)
  have five: "(5 :: nat) = Suc 4" by simp
  show ?thesis
    unfolding waitServiceAndReady_def
    apply (simp only: wp_bind, rule wp_mono [OF up_arm [OF assms(1) serving_wmiSeat [OF assms(2)]]])
    apply (simp only: wp_bind, rule wp_mono [OF up_serviceLoop [OF assms(1)]], assumption, clarsimp)
    apply (rule wp_mono [OF up_sendInit [OF assms(1)]], assumption, clarsimp)
    apply (subst five, subst readyEvents.simps, simp only: wp_bind)
    apply (rule wp_mono [OF up_recv [OF assms(1) _ reply events(3,4) _ events(9)]], assumption, assumption)
     apply (simp add: recvDeadline_def)
    apply (clarsimp simp: events(10-12) simp del: length_drop)
    apply (rule wp_mono [OF up_arm [OF assms(1)]], assumption, simp)
    done
qed

section \<open>The driver online\<close>

lemma link_steps:
  assumes "works H"
  shows "linkD (ctrlSent cmdDone) newHtc d s \<Longrightarrow> wp (withHtc (\<lambda>ce h. waitTarget H ce h 10000) False d)
      (\<lambda>(r, d') t. r = True \<and> linkD (ctrlSent cmdDone) readyHtc d' t) s"
    and "linkD (ctrlSent cmdDone) readyHtc d s \<Longrightarrow> wp (withHtc (\<lambda>ce h. connectService H ce h kHtcSvcWmiControl) None d)
      (\<lambda>(r, d') t. r = Some (1, 1792) \<and> linkD (ctrlSent connectCmd) linkedHtc d' t) s"
    and "linkD (ctrlSent connectCmd) linkedHtc d s \<Longrightarrow> wp (withHtc (setupComplete H) False d)
      (\<lambda>(r, d') t. r = True \<and> linkD idle setHtc d' t) s"
  by (erule wp_withHtc, rule wp_waitTarget wp_connectService wp_setupComplete, rule assms, assumption)+

lemma link_events:
  assumes "works H" and "linkD P setHtc d s"
  shows "wp (withHtc (\<lambda>ce h. do {
        (r, ce, h, w) \<leftarrow> waitServiceAndReady H ce h newWmi 10000 (Suc fuel);
        ret ((r, w), ce, h) }) (Some False, newWmi) d) (\<lambda>(r, d') t. r = (Some True, linkedWmi)) s"
proof -
  from assms(2) obtain ce where d: "fHtc d = Some setHtc" "fCe d = Some ce" "serving 3 P ce s"
    by (auto simp: linkD_def)
  show ?thesis
    unfolding withHtc_def d(1,2) option.case prod.case wp_bind
    by (rule wp_mono [OF wp_waitServiceAndReady [OF assms(1) d(3)]]) auto
qed

lemma wp_publishMac:
  assumes "\<And>b. Q () (s\<lparr>bus := b\<rparr>)"
  shows "wp (publishMac d) Q s"
  unfolding publishMac_def using assms assms [of "bus s"] by (simp add: emit_def Let_def split: option.split)

text \<open>A report followed by the rest of the run, for chains of them.\<close>

lemma wp_report:
  "(\<And>b. wp (f ()) Q (s\<lparr>bus := b\<rparr>)) \<Longrightarrow> wp (publishStage d st \<bind> f) Q s"
  "(\<And>b. wp (f ()) Q (s\<lparr>bus := b\<rparr>)) \<Longrightarrow> wp (publishNum key v \<bind> f) Q s"
  "(\<And>b. wp (f ()) Q (s\<lparr>bus := b\<rparr>)) \<Longrightarrow> wp (publishMac d \<bind> f) Q s"
  "(\<And>lt b. wp (g (d\<lparr>fTail := lt\<rparr>)) Q (s\<lparr>bus := b\<rparr>)) \<Longrightarrow> wp (qlog d m \<bind> g) Q s"
  "wp (f ()) Q (s\<lparr>bus := bus s @ [e]\<rparr>) \<Longrightarrow> wp (emit e \<bind> f) Q s"
  by (simp only: wp_bind, rule wp_publishStage wp_publishNum wp_publishMac wp_qlog, simp)+
     (simp only: wp_bind wp_emit)

lemma wp_startHtcWmi:
  assumes "works H" and "fCe d = Some ce" and "serving 2 (ctrlSent cmdDone) ce s"
  shows "wp (startHtcWmi H (Suc fuel) d) (\<lambda>(r, d') t. r = Some True \<and> drvWmi d' = Some linkedWmi) s"
  unfolding startHtcWmi_def Let_def withCe_def assms(2) option.case
  apply (simp only: wp_bind, rule wp_mono [OF wp_ceInitWmi [OF assms(1,3)]], clarsimp simp: wp_simps assms(1))
  apply (rule wp_publishStage, simp only: wp_bind wp_io assms(1))
  apply (simp only: if_True, rule wp_mono [OF link_steps(1) [OF assms(1)]])
   apply (simp add: linkD_def)
  apply clarsimp
  apply (rule wp_publishStage, simp only: wp_bind)
  apply (rule wp_mono [OF link_steps(2) [OF assms(1), unfolded kHtcSvcWmiControl_def]], simp, clarsimp)
  apply (rule wp_publishNum, intro wp_report)
  apply (simp only: wp_bind, rule wp_mono [OF link_steps(3) [OF assms(1)]], simp, clarsimp)
  apply (rule wp_publishStage, simp only: wp_bind wp_io assms(1) if_True wp_ret)
  apply (rule wp_mono [OF link_events [OF assms(1), where P = idle]], simp, clarsimp)
  apply (rule wp_publishStage, intro wp_report, simp)
  done

lemma wp_stages:
  assumes "works H" and "drvBar0 d" and "fCe d = None" and "cold (dev s)" and "4 \<le> fMaxStage d"
    and "fw6Sized otpImg fwImg" and "board2Sized files"
  shows "wp (stages H (embedded otpImg fwImg files) (Suc fuel) d) (\<lambda>(r, d') t. r = Some (True, True) \<and>
    drvWmi d' = Some linkedWmi) s"
proof -
  have k: "\<not> fMaxStage d < 3" "\<not> fMaxStage d < 4" using assms(5) by (simp_all add: word_less_nat_alt word_le_nat_alt)
  have b: "beforeCe (fMaxStage d) d s" using assms(2-4) by (simp add: beforeCe_def)
  show ?thesis
    unfolding stages_def
    apply (simp only: wp_bind, rule wp_mono [OF wp_resetChip [OF assms(1) b]], clarsimp)
    apply (rule wp_mono [OF wp_probeBmi [OF assms(1)]], assumption, clarsimp)
    apply (rule wp_publishStage, simp only: wp_bind, rule wp_publishNum, simp only: wp_ret)
    apply (simp add: k)
    apply (rule wp_mono [OF onTarget.boot_completes [where k = "fMaxStage d", OF _ assms(6,7)]])
     apply (simp only: onTarget.ready_def, simp add: serving_def assms(1))
    apply (clarsimp simp: k)
    apply (rule wp_mono [OF wp_startHtcWmi [OF assms(1)]], assumption)
     apply (erule serving_mono, simp add: ctrlSent_def)
    apply auto
    done
qed

section \<open>From \<open>start\<close> on\<close>

text \<open>
  The provider is a PCI device with a mapped BAR, and neither IOKit nor configuration space disturbs the
  chip; what configuration space holds and whether NVRAM is there does not matter.
\<close>

definition attached :: "(target, 'h) pci_hw_scheme \<Rightarrow> bool" where
  "attached H \<longleftrightarrow> works H \<and> (\<forall>d. ioSuperStart H d = (True, d) \<and> ioPciCast H d = (True, d) \<and> ioMap H d = (Some True, d) \<and>
     snd (ioNvram H d) = d \<and> ioBootArg H d = (None, d) \<and> fst (ioBar0Mem H d) \<noteq> None \<and> snd (ioBar0Mem H d) = d \<and>
     (\<forall>off. snd (cfg8 H off d) = d \<and> snd (cfg16 H off d) = d) \<and> (\<forall>off v. snd (cfgW16 H off v d) = d))"

lemma wp_ioSame:
  assumes "\<And>d. snd (f d) = d" and "\<And>r. Q r s"
  shows "wp (ioStep f) Q s"
  using assms(2) assms(1) [of "dev s"] by (cases "f (dev s)") (simp add: wp_def ioStep_def)

lemma wp_config:
  assumes "attached H"
  shows "(\<And>v b. Q v (s\<lparr>bus := b\<rparr>)) \<Longrightarrow> wp (configRead8 H off) Q s"
    and "(\<And>v b. R v (s\<lparr>bus := b\<rparr>)) \<Longrightarrow> wp (configRead16 H off) R s"
    and "(\<And>b. S () (s\<lparr>bus := b\<rparr>)) \<Longrightarrow> wp (configWrite16 H off v) S s"
proof -
  have "snd (cfg8 H off d) = d" "snd (cfg16 H off d) = d" "snd (cfgW16 H off v d) = d" for d
    using assms by (simp_all add: attached_def)
  note c = this [THEN wp_ioSame]
  show "wp (configRead8 H off) Q s" if "\<And>v b. Q v (s\<lparr>bus := b\<rparr>)"
    unfolding configRead8_def by (simp only: wp_bind, rule c, simp add: wp_emit that)
  show "wp (configRead16 H off) R s" if "\<And>v b. R v (s\<lparr>bus := b\<rparr>)"
    unfolding configRead16_def by (simp only: wp_bind, rule c, simp add: wp_emit that)
  show "wp (configWrite16 H off v) S s" if "\<And>b. S () (s\<lparr>bus := b\<rparr>)"
    unfolding configWrite16_def by (simp only: wp_bind, rule c, simp add: wp_emit that)
qed

text \<open>A driver that has not touched the chip yet.\<close>

definition unstarted :: "driver \<Rightarrow> target world \<Rightarrow> bool" where
  "unstarted d s \<longleftrightarrow> fCe d = None \<and> fMaxStage d = 4 \<and> cold (dev s)"

lemma unstarted_tell [simp]:
  "unstarted (d\<lparr>fTail := lt\<rparr>) s = unstarted d s" "unstarted (d\<lparr>fAspmCapOff := o1, fAspmCtl := o2\<rparr>) s = unstarted d s"
  "unstarted d (s\<lparr>bus := es\<rparr>) = unstarted d s"
  "unstarted (d\<lparr>fPciRev := r, fSubVendor := v, fSubDevice := w\<rparr>) s = unstarted d s"
  by (simp_all add: unstarted_def)

lemma wp_ifI: "(b \<Longrightarrow> wp m Q s) \<Longrightarrow> (\<not> b \<Longrightarrow> wp n Q s) \<Longrightarrow> wp (if b then m else n) Q s"
  by simp

lemma wp_aspmWalk: "attached H \<Longrightarrow> unstarted d s \<Longrightarrow> wp (aspmWalk H d off n) unstarted s"
proof (induction n arbitrary: off s)
  case (Suc n)
  note a = Suc.prems(1)
  from Suc.prems(2) show ?case
    unfolding aspmWalk.simps Let_def
    apply (intro wp_ifI, simp only: wp_ret)
    apply (simp only: wp_bind, rule wp_config(1) [OF a], rule wp_ifI)
     apply (simp only: wp_bind, rule wp_config(2) [OF a], rule wp_ifI)
      apply (simp only: wp_bind, rule wp_config(3) [OF a], rule wp_qlog, simp only: unstarted_tell)
     apply (simp only: wp_ret unstarted_tell)
    apply (simp only: wp_bind, rule wp_config(1) [OF a], rule Suc.IH [OF a], simp only: unstarted_tell)
    done
qed simp

lemma wp_aspmOff: "attached H \<Longrightarrow> unstarted d s \<Longrightarrow> wp (aspmOff H d) unstarted s"
  unfolding aspmOff_def
  apply (simp only: wp_bind, rule wp_config(2), assumption, rule wp_ifI)
   apply (simp only: wp_bind, rule wp_config(1), assumption, rule wp_aspmWalk, assumption, simp only: unstarted_tell)
  apply (simp only: wp_ret unstarted_tell)
  done

lemma wp_identify:
  assumes "attached H" and "unstarted d s"
  shows "wp (identify H d) unstarted s"
  unfolding identify_def Let_def
  apply (simp only: wp_bind wp_emit, ((rule wp_config(2) [OF assms(1)] | rule wp_publishNum), simp only: wp_bind wp_emit)+)
  apply (rule wp_mono [OF wp_aspmOff [OF assms(1)]], simp only: unstarted_tell assms(2))
  apply (simp only: wp_bind wp_emit, ((rule wp_config(1,2) [OF assms(1)] | rule wp_publishNum | rule wp_qlog), simp only: wp_bind wp_emit wp_ret unstarted_tell)+)
  done

lemma wp_coldReg:
  assumes "works H" and "beforeCe k d s" and "\<And>v b. Q v (s\<lparr>bus := b\<rparr>)"
  shows "wp (drvRead32 H d off) Q s"
  using assms(2,3) by (simp add: drvRead32_def wp_simps assms(1) cold_read beforeCe_def)

lemma beforeCe_log [simp]: "beforeCe k (d\<lparr>fTail := lt\<rparr>) s = beforeCe k d s"
  by (simp add: beforeCe_def)

lemma wp_probeRegisters:
  assumes "works H" and "beforeCe k d s"
  shows "wp (probeRegisters H d) (\<lambda>(ok, d') t. ok \<and> beforeCe k d' t) s"
  unfolding probeRegisters_def
  by (simp only: wp_bind,
      (((rule wp_coldReg [OF assms(1), where k = k], simp only: beforeCe_tell beforeCe_log assms(2)) | rule wp_publishNum
        | rule wp_qlog), simp only: wp_bind wp_ret prod.case beforeCe_tell beforeCe_log assms(2) simp_thms)+)

lemma wp_probeCe:
  assumes "works H"
  shows "beforeCe k d s \<Longrightarrow> wp (probeCe H d ce n) (beforeCe k) s"
proof (induction n arbitrary: d s ce)
  case (Suc n)
  show ?case
    unfolding probeCe.simps Let_def
    apply (simp only: wp_bind)
    apply (rule wp_coldReg [OF assms(1), where k = k], simp only: beforeCe_tell beforeCe_log Suc.prems, simp only: wp_bind)+
    apply (rule wp_qlog, rule Suc.IH, simp only: beforeCe_tell beforeCe_log Suc.prems)
    done
qed simp

lemma wp_probes:
  assumes "works H" and "beforeCe k d s"
  shows "wp (probeCopyEngines H d) (beforeCe k) s" and "wp (logRevisionInfo H d) (beforeCe k) s"
  unfolding probeCopyEngines_def logRevisionInfo_def Let_def
   apply (simp only: wp_bind, rule wp_mono [OF wp_probeCe [OF assms]], simp only: wp_bind)
   apply (rule wp_coldReg [OF assms(1)], assumption, rule wp_qlog, simp only: beforeCe_tell beforeCe_log)
  apply (simp only: wp_bind, rule wp_coldReg [OF assms], rule wp_qlog, simp only: beforeCe_tell beforeCe_log assms(2))
  done

lemma attached_works: "attached H \<Longrightarrow> works H"
  by (simp add: attached_def)

lemma wp_openNvram:
  assumes "attached H" and "unstarted d s" and "drvBar0 d"
  shows "wp (openNvram H d) (beforeCe 4) s"
proof -
  have "snd (ioNvram H d) = d" for d using assms(1) by (simp add: attached_def)
  note n = this [THEN wp_ioSame]
  have b: "beforeCe 4 d s" "beforeCe 4 (d\<lparr>fNvram := True\<rparr>) s"
    using assms(2,3) by (simp_all add: unstarted_def beforeCe_def)
  show ?thesis
    unfolding openNvram_def Let_def
    apply (simp only: wp_bind, rule n, rule wp_ifI)
     apply (intro wp_report wp_qlog, simp only: beforeCe_tell beforeCe_log b)
    apply (intro wp_report wp_qlog, simp only: beforeCe_tell beforeCe_log b)
    done
qed

lemma wp_bringUp:
  assumes "attached H" and "unstarted d s" and "drvBar0 d" and "fw6Sized otpImg fwImg" and "board2Sized files"
  shows "wp (bringUp H (embedded otpImg fwImg files) (Suc fuel) d) (\<lambda>(r, d') t. r = Some True \<and>
    drvWmi d' = Some linkedWmi) s"
proof -
  note w = attached_works [OF assms(1)]
  have st: "wp (stages H (embedded otpImg fwImg files) (Suc fuel) e) (\<lambda>(r, d') t. r = Some (True, True) \<and>
      drvWmi d' = Some linkedWmi) t" if "beforeCe 4 e t" for e t
    by (rule wp_stages [OF w _ _ _ _ assms(4,5)]) (use that in \<open>auto simp: beforeCe_def\<close>)
  show ?thesis
    unfolding bringUp_def
    apply (simp only: wp_bind, rule wp_mono [OF wp_openNvram [OF assms(1-3)]])
    apply (simp only: wp_bind, rule wp_mono [OF wp_wake [OF w]], assumption, clarsimp simp del: append.simps)
    apply (rule wp_qlog, intro wp_report, simp only: wp_bind)
    apply (rule wp_mono [OF wp_probeRegisters [OF w]], simp only: beforeCe_tell beforeCe_log)
    apply (clarsimp simp del: append.simps, rule wp_publishStage, simp only: wp_bind)
    apply (rule wp_mono [OF wp_probes(1) [OF w]], simp only: beforeCe_tell)
    apply (simp only: wp_bind, rule wp_mono [OF wp_probes(2) [OF w]], assumption)
    apply (simp only: wp_bind, rule wp_mono [OF st], assumption, clarsimp simp del: append.simps)
    apply (rule wp_publishNum, intro wp_report, simp)
    done
qed

lemma start_online:
  assumes "attached H" and "fCe d = None" and "cold (dev s)" and "fw6Sized otpImg fwImg" and "board2Sized files"
  shows "wp (start H (embedded otpImg fwImg files) (Suc fuel) d) (\<lambda>(r, d') t. r = Some True \<and>
    drvWmi d' = Some linkedWmi) s"
proof -
  have io: "wp (ioStep (ioSuperStart H)) Q s = Q True s" "wp (ioStep (ioBootArg H)) R s = R None s"
    "wp (ioStep (ioPciCast H)) Q s = Q True s" "wp (ioStep (ioMap H)) S s = S (Some True) s" for Q R S s
    using assms(1) by (simp_all add: attached_def wp_def ioStep_def)
  have bar: "wp (ioStep (ioBar0Mem H)) Q s" if "\<And>p l. Q (Some (p, l)) s" for Q s
    using assms(1) that by (cases "ioBar0Mem H (dev s)") (auto simp: attached_def wp_def ioStep_def dest: spec [of _ "dev s"])
  have u: "unstarted (d\<lparr>fMaxStage := 4, fPci := True\<rparr>) s" using assms(2,3) by (simp add: unstarted_def)
  show ?thesis
    unfolding start_def Let_def
    apply (simp only: wp_bind io not_True_eq_False if_False, rule wp_publishStage)
    apply (simp only: wp_bind io, rule wp_publishNum)
    apply (simp add: capOfArg_def io)
    apply (rule wp_mono [OF wp_identify [OF assms(1)]], simp add: u)
    apply (simp only: wp_bind, rule bar, simp only: option.case prod.case, intro wp_report)
    apply (simp only: wp_bind io option.distinct simp_thms if_True if_False wp_ret driver.simps)
    apply (rule wp_ifI, simp)
    apply (rule wp_bringUp [OF assms(1) _ _ assms(4,5)])
     apply (simp_all add: unstarted_def)
    done
qed
text \<open>
  C18: Some chip takes the driver all the way.  On the chip of theory \<open>WorkingChip\<close>, behind any PCI provider
  with a mapped BAR and no boot argument, \<open>start\<close> with the images of the generated header returns true and the driver is
  online: every stage succeeded, in particular the WMI start, whose object holds the firmware build and the
  MAC address the chip sent.  One event of fuel is enough.  So the success that the two theorems on the whole
  start-up presuppose can happen.
\<close>

theorem start_succeeds:
  assumes "attached H" and "fCe d = None" and "cold (dev s)" and "fw6Sized otpImg fwImg" and "board2Sized files"
    and "0 < fuel"
  shows "wp (start H (embedded otpImg fwImg files) fuel d) (\<lambda>(r, d') t. r = Some True \<and>
    (\<exists>w. drvWmi d' = Some w \<and> fFwBuild w = 0x9b \<and> macAddress w = [0, 3, 0x7f, 0x12, 0x34, 0x56])) s"
proof -
  have "fFwBuild linkedWmi = 0x9b" "macAddress linkedWmi = [0, 3, 0x7f, 0x12, 0x34, 0x56]"
    by (simp_all add: linkedWmi_def macAddress_def)
  then show ?thesis
    using start_online [OF assms(1-5), of "fuel - 1"] assms(6) by (auto elim: wp_mono)
qed

definition benchHw :: "target pci_hw" where
  "benchHw = \<lparr>hwRead = targetRead, hwWrite = targetWrite, hwDelay = (\<lambda>us d m. (d, m)), ioNew = (\<lambda>d. (True, d)),
     ioStack = (\<lambda>d. ([], d)), ioBmd = (\<lambda>n d. (True, d)), ioPrepare = (\<lambda>d. (True, d)),
     ioBytes = (\<lambda>d. (Some (regionAt (tNext d)), d)), ioDma = (\<lambda>d. (True, d)), ioSetMd = (\<lambda>d. (True, d)),
     ioGen64 = (\<lambda>d. ((True, 1, of_nat (regionAt (tNext d)), 0x10000), d\<lparr>tNext := Suc (tNext d)\<rparr>)),
     cfg8 = (\<lambda>off d. (0, d)), cfg16 = (\<lambda>off d. (0x168c, d)), cfgW16 = (\<lambda>off v d. ((), d)),
     ioSuperInit = (\<lambda>d. (True, d)), ioSuperStart = (\<lambda>d. (True, d)), ioBootArg = (\<lambda>d. (None, d)),
     ioPciCast = (\<lambda>d. (True, d)), ioBar0Mem = (\<lambda>d. (Some (0xa0000000, 0x200000), d)), ioMap = (\<lambda>d. (Some True, d)),
     ioNvram = (\<lambda>d. (True, d))\<rparr>"

definition benchWorld :: "target world" where
  "benchWorld = \<lparr>dev = \<lparr>tReg = (\<lambda>_. 0), tSent = (\<lambda>_. []), tNext = 0\<rparr>, ram = (\<lambda>_. 0), bus = []\<rparr>"

theorem start_succeeds_witness:
  "wp (start benchHw (embedded (replicate 24193 1) (replicate 727125 2) (replicate 37 (replicate 8124 3))) 1 newDriver)
     (\<lambda>(r, d') t. r = Some True \<and> drvWmi d' \<noteq> None) benchWorld"
proof (rule wp_mono [OF start_succeeds])
  show "attached benchHw" by (simp add: attached_def works_def benchHw_def)
  show "cold (dev benchWorld)" by (simp add: cold_def fresh_def benchWorld_def)
qed (auto simp: newDriver_def fw6Sized_def board2Sized_def)

end
